(* ===== verification/Prelude.thy ===== *)
theory Prelude
  imports Complex_Main "HOL-Library.AList" "HOL-Library.List_Lexorder" "HOL-Library.Char_ord"
    "HOL-Library.Sublist"
begin

text \<open>
  Shared vocabulary of the TotalRecall model: the exceptions the service raises, results of
  calls that may raise, Python's ordered dictionaries as association lists, and the string
  methods of Python the code uses.

  Conventions. A Python \<open>str\<close> is a HOL \<open>string\<close>, read as the code points U+0000 to U+00FF; the
  methods below agree with CPython on that range. A \<open>dict\<close> is an association list in insertion
  order with distinct keys, updated in place by \<open>AList.update\<close>. A call that may raise returns
  \<open>py_exn + 'a\<close>. Clock readings (\<open>time.monotonic\<close>) and the other floats of the code are \<open>rat\<close>.
\<close>

named_theorems dict_simps \<open>lookups in updated dictionaries\<close>
named_theorems str_simps \<open>Python string methods\<close>

section \<open>repr of a string\<close>

definition hex_digit :: "nat \<Rightarrow> char" where
  "hex_digit n = (if n < 10 then char_of (48 + n) else char_of (87 + n))"

definition repr_char :: "char \<Rightarrow> char \<Rightarrow> string" where
  "repr_char q c = (let n = (of_char c :: nat) in
     if c = q \<or> c = CHR 0x5C then [CHR 0x5C, c]
     else if c = CHR 0x0A then [CHR 0x5C, CHR ''n'']
     else if c = CHR 0x0D then [CHR 0x5C, CHR ''r'']
     else if c = CHR 0x09 then [CHR 0x5C, CHR ''t'']
     else if (32 \<le> n \<and> n < 127) \<or> (161 \<le> n \<and> n \<noteq> 173) then [c]
     else [CHR 0x5C, CHR ''x'', hex_digit (n div 16), hex_digit (n mod 16)])"

definition repr_str :: "string \<Rightarrow> string" where
  "repr_str s =
     (let q = (if CHR 0x27 \<in> set s \<and> CHR 0x22 \<notin> set s then CHR 0x22 else CHR 0x27)
      in [q] @ concat (map (repr_char q) s) @ [q])"

section \<open>Exceptions and results\<close>

datatype py_exn =
    ValidationError string
  | ValueError string
  | KeyError string
  | TypeError string
  | IndexError string
  | ImportError string
  | RuntimeError string
  | CredentialNotFoundError string
  | ProviderNotFoundError string
  | SkillNotFoundError string
  | SkillLoadError string
  | AuthError string
  | HTTPException nat string
  | OtherError string string

fun exn_str :: "py_exn \<Rightarrow> string" where
  "exn_str (ValidationError m) = m"
| "exn_str (ValueError m) = m"
| "exn_str (KeyError m) = repr_str m"
| "exn_str (TypeError m) = m"
| "exn_str (IndexError m) = m"
| "exn_str (ImportError m) = m"
| "exn_str (RuntimeError m) = m"
| "exn_str (CredentialNotFoundError m) = m"
| "exn_str (ProviderNotFoundError m) = m"
| "exn_str (SkillNotFoundError m) = m"
| "exn_str (SkillLoadError m) = m"
| "exn_str (AuthError m) = m"
| "exn_str (HTTPException _ m) = m"
| "exn_str (OtherError _ m) = m"

fun exn_name :: "py_exn \<Rightarrow> string" where
  "exn_name (ValidationError _) = ''ValidationError''"
| "exn_name (ValueError _) = ''ValueError''"
| "exn_name (KeyError _) = ''KeyError''"
| "exn_name (TypeError _) = ''TypeError''"
| "exn_name (IndexError _) = ''IndexError''"
| "exn_name (ImportError _) = ''ImportError''"
| "exn_name (RuntimeError _) = ''RuntimeError''"
| "exn_name (CredentialNotFoundError _) = ''CredentialNotFoundError''"
| "exn_name (ProviderNotFoundError _) = ''ProviderNotFoundError''"
| "exn_name (SkillNotFoundError _) = ''SkillNotFoundError''"
| "exn_name (SkillLoadError _) = ''SkillLoadError''"
| "exn_name (AuthError _) = ''AuthError''"
| "exn_name (HTTPException _ _) = ''HTTPException''"
| "exn_name (OtherError c _) = c"

type_synonym 'a result = "py_exn + 'a"

definition ok :: "'a result \<Rightarrow> bool" where
  "ok r = (case r of Inl _ \<Rightarrow> False | Inr _ \<Rightarrow> True)"

lemma ok_simps [simp]: "ok (Inr x)" "\<not> ok (Inl e)"
  by (simp_all add: ok_def)

lemma ok_iff: "ok r \<longleftrightarrow> (\<exists>x. r = Inr x)"
  by (cases r) auto

definition rbind :: "'a result \<Rightarrow> ('a \<Rightarrow> 'b result) \<Rightarrow> 'b result" where
  "rbind r f = (case r of Inl e \<Rightarrow> Inl e | Inr x \<Rightarrow> f x)"

lemma rbind_simps [simp]: "rbind (Inl e) f = Inl e" "rbind (Inr x) f = f x"
  by (simp_all add: rbind_def)

lemma rbind_Inr_iff: "rbind r f = Inr y \<longleftrightarrow> (\<exists>x. r = Inr x \<and> f x = Inr y)"
  by (cases r) auto

text \<open>A loop that builds a list and stops at the first exception.\<close>

fun rmap :: "('a \<Rightarrow> 'b result) \<Rightarrow> 'a list \<Rightarrow> 'b list result" where
  "rmap f [] = Inr []"
| "rmap f (x # xs) =
     (case f x of Inl e \<Rightarrow> Inl e
      | Inr y \<Rightarrow> (case rmap f xs of Inl e \<Rightarrow> Inl e | Inr ys \<Rightarrow> Inr (y # ys)))"

lemma rmap_Inr_iff: "rmap f xs = Inr ys \<longleftrightarrow> list_all2 (\<lambda>x y. f x = Inr y) xs ys"
proof (induction xs arbitrary: ys)
  case Nil
  then show ?case by (cases ys) auto
next
  case (Cons x xs)
  then show ?case
    by (cases ys; cases "f x"; cases "rmap f xs") (auto simp: Cons.IH [symmetric])
qed

lemma rmap_length: "rmap f xs = Inr ys \<Longrightarrow> length ys = length xs"
  by (simp add: rmap_Inr_iff list_all2_lengthD)

section \<open>Ordered dictionaries\<close>

type_synonym ('k, 'v) dict = "('k \<times> 'v) list"

abbreviation dict_get :: "('k, 'v) dict \<Rightarrow> 'k \<Rightarrow> 'v option" where
  "dict_get d k \<equiv> map_of d k"

abbreviation dict_set :: "'k \<Rightarrow> 'v \<Rightarrow> ('k, 'v) dict \<Rightarrow> ('k, 'v) dict" where
  "dict_set k v d \<equiv> AList.update k v d"

abbreviation dict_del :: "'k \<Rightarrow> ('k, 'v) dict \<Rightarrow> ('k, 'v) dict" where
  "dict_del k d \<equiv> AList.delete k d"

definition dict_keys :: "('k, 'v) dict \<Rightarrow> 'k list" where
  "dict_keys d = map fst d"

definition dict_get_or :: "('k, 'v) dict \<Rightarrow> 'k \<Rightarrow> 'v \<Rightarrow> 'v" where
  "dict_get_or d k v = (case map_of d k of None \<Rightarrow> v | Some x \<Rightarrow> x)"

definition dict_ok :: "('k, 'v) dict \<Rightarrow> bool" where
  "dict_ok d = distinct (map fst d)"

text \<open>\<open>d.update(e)\<close>: the pairs of \<open>e\<close> are stored one after the other.\<close>

fun dict_update :: "('k, 'v) dict \<Rightarrow> ('k, 'v) dict \<Rightarrow> ('k, 'v) dict" where
  "dict_update d [] = d"
| "dict_update d ((k, v) # e) = dict_update (AList.update k v d) e"

lemma dict_get_set [dict_simps]:
  "dict_get (dict_set k v d) k' = (if k' = k then Some v else dict_get d k')"
  by (simp add: update_conv')

lemma dict_get_del [dict_simps]:
  "dict_get (dict_del k d) k' = (if k' = k then None else dict_get d k')"
  by (simp add: delete_conv')

lemma dict_get_or_set [dict_simps]:
  "dict_get_or (dict_set k v d) k' x = (if k' = k then v else dict_get_or d k' x)"
  by (simp add: dict_get_or_def dict_get_set)

lemma dict_get_update [dict_simps]:
  "dict_ok e \<Longrightarrow> dict_get (dict_update d e) k =
     (case dict_get e k of Some v \<Rightarrow> Some v | None \<Rightarrow> dict_get d k)"
  by (induction d e rule: dict_update.induct)
    (auto simp: dict_ok_def dict_get_set split: option.splits
      dest: map_of_SomeD intro: rev_image_eqI)

lemma dict_ok_set [simp, intro]: "dict_ok d \<Longrightarrow> dict_ok (dict_set k v d)"
  by (simp add: dict_ok_def distinct_update)

lemma dict_ok_del [simp, intro]: "dict_ok d \<Longrightarrow> dict_ok (dict_del k d)"
  by (simp add: dict_ok_def distinct_delete)

lemma dict_ok_Nil [simp, intro]: "dict_ok []"
  by (simp add: dict_ok_def)

lemma dict_ok_filter [simp, intro]: "dict_ok d \<Longrightarrow> dict_ok (filter P d)"
  by (simp add: dict_ok_def distinct_map_filter)

lemma dict_get_mem: "dict_get d k = Some v \<Longrightarrow> (k, v) \<in> set d"
  by (rule map_of_SomeD)

lemma dict_get_iff: "dict_ok d \<Longrightarrow> dict_get d k = Some v \<longleftrightarrow> (k, v) \<in> set d"
  by (simp add: dict_ok_def)

lemma dict_get_filter:
  "dict_ok d \<Longrightarrow> dict_get (filter P d) k =
    (case dict_get d k of None \<Rightarrow> None | Some v \<Rightarrow> if P (k, v) then Some v else None)"
proof (induction d)
  case Nil
  then show ?case by simp
next
  case (Cons kv d)
  obtain k' v where kv: "kv = (k', v)" by (cases kv)
  from Cons.prems have d: "dict_ok d" and fresh: "k' \<notin> fst ` set d"
    by (simp_all add: dict_ok_def kv)
  show ?case
  proof (cases "k = k'")
    case True
    from fresh have "dict_get (filter P d) k' = None"
      by (auto simp: map_of_eq_None_iff)
    with True show ?thesis by (simp add: kv)
  next
    case False
    then show ?thesis using Cons.IH [OF d] by (simp add: kv)
  qed
qed

section \<open>Strings\<close>

definition is_space :: "char \<Rightarrow> bool" where
  "is_space c = (let n = (of_char c :: nat) in
     (9 \<le> n \<and> n \<le> 13) \<or> (28 \<le> n \<and> n \<le> 32) \<or> n = 133 \<or> n = 160)"

text \<open>The white space pydantic strips: Unicode \<open>White_Space\<close>, without U+001C to U+001F.\<close>

definition is_white_space :: "char \<Rightarrow> bool" where
  "is_white_space c = (let n = (of_char c :: nat) in
     (9 \<le> n \<and> n \<le> 13) \<or> n = 32 \<or> n = 133 \<or> n = 160)"

definition rstrip_by :: "(char \<Rightarrow> bool) \<Rightarrow> string \<Rightarrow> string" where
  "rstrip_by P s = rev (dropWhile P (rev s))"

definition strip_by :: "(char \<Rightarrow> bool) \<Rightarrow> string \<Rightarrow> string" where
  "strip_by P s = rstrip_by P (dropWhile P s)"

definition strip :: "string \<Rightarrow> string" where
  "strip s = strip_by is_space s"

definition trim :: "string \<Rightarrow> string" where
  "trim s = strip_by is_white_space s"

definition rstrip_chr :: "string \<Rightarrow> string \<Rightarrow> string" where
  "rstrip_chr cs s = rstrip_by (\<lambda>c. c \<in> set cs) s"

definition lstrip_chr :: "string \<Rightarrow> string \<Rightarrow> string" where
  "lstrip_chr cs s = dropWhile (\<lambda>c. c \<in> set cs) s"

definition lower_char :: "char \<Rightarrow> char" where
  "lower_char c = (let n = (of_char c :: nat) in
     if (65 \<le> n \<and> n \<le> 90) \<or> (192 \<le> n \<and> n \<le> 222 \<and> n \<noteq> 215)
     then char_of (n + 32) else c)"

definition lower :: "string \<Rightarrow> string" where
  "lower s = map lower_char s"

text \<open>\<open>s.split()\<close>: the maximal runs of non-space characters.\<close>

fun words_from :: "string \<Rightarrow> string \<Rightarrow> string list" where
  "words_from acc [] = (if acc = [] then [] else [acc])"
| "words_from acc (c # cs) =
     (if is_space c then (if acc = [] then words_from [] cs else acc # words_from [] cs)
      else words_from (acc @ [c]) cs)"

definition split_ws :: "string \<Rightarrow> string list" where
  "split_ws s = words_from [] s"

text \<open>\<open>s.split(c)\<close> for a single character.\<close>

fun split_chr :: "char \<Rightarrow> string \<Rightarrow> string list" where
  "split_chr c [] = [[]]"
| "split_chr c (x # xs) =
     (if x = c then [] # split_chr c xs
      else (case split_chr c xs of [] \<Rightarrow> [[x]] | y # ys \<Rightarrow> (x # y) # ys))"

fun join :: "string \<Rightarrow> string list \<Rightarrow> string" where
  "join sep [] = []"
| "join sep [x] = x"
| "join sep (x # y # ys) = x @ sep @ join sep (y # ys)"

text \<open>\<open>s.splitlines()\<close>: a carriage return and the line feed after it are one break.\<close>

definition is_line_break :: "char \<Rightarrow> bool" where
  "is_line_break c = (let n = (of_char c :: nat) in
     (10 \<le> n \<and> n \<le> 13) \<or> (28 \<le> n \<and> n \<le> 30) \<or> n = 133)"

fun lines_from :: "string \<Rightarrow> string \<Rightarrow> string list" where
  "lines_from acc [] = (if acc = [] then [] else [acc])"
| "lines_from acc [c] = (if is_line_break c then [acc] else [acc @ [c]])"
| "lines_from acc (c # d # cs) =
     (if c = CHR 0x0D \<and> d = CHR 0x0A then acc # lines_from [] cs
      else if is_line_break c then acc # lines_from [] (d # cs)
      else lines_from (acc @ [c]) (d # cs))"

definition splitlines :: "string \<Rightarrow> string list" where
  "splitlines s = lines_from [] s"

definition nl :: string where
  "nl = [CHR 0x0A]"

definition replace_chr :: "char \<Rightarrow> string \<Rightarrow> string \<Rightarrow> string" where
  "replace_chr c r s = concat (map (\<lambda>x. if x = c then r else [x]) s)"

text \<open>\<open>str(n)\<close> for a natural number and an integer.\<close>

fun nat_str :: "nat \<Rightarrow> string" where
  "nat_str n = (if n < 10 then [char_of (48 + n)] else nat_str (n div 10) @ [char_of (48 + n mod 10)])"

declare nat_str.simps [simp del]

definition int_str :: "int \<Rightarrow> string" where
  "int_str i = (if i < 0 then ''-'' @ nat_str (nat (- i)) else nat_str (nat i))"

text \<open>Sorting without duplicates, as \<open>sorted(set(xs))\<close> does.\<close>

definition sorted_set :: "'a::linorder list \<Rightarrow> 'a list" where
  "sorted_set xs = remdups (sort xs)"

text \<open>\<open>xs[a:b]\<close>: negative indices count from the end, others are cut to the length.\<close>

definition slice_index :: "nat \<Rightarrow> int \<Rightarrow> nat" where
  "slice_index n i = (if i < 0 then nat (max 0 (int n + i)) else min (nat i) n)"

definition py_slice :: "'a list \<Rightarrow> int \<Rightarrow> int \<Rightarrow> 'a list" where
  "py_slice xs a b = (let i = slice_index (length xs) a; j = slice_index (length xs) b in take (j - i) (drop i xs))"

lemma py_slice_nat:
  "0 \<le> a \<Longrightarrow> a \<le> b \<Longrightarrow> b \<le> int (length xs) \<Longrightarrow> py_slice xs a b = take (nat b - nat a) (drop (nat a) xs)"
  by (simp add: py_slice_def slice_index_def nat_le_iff min_absorb1 Let_def)

text \<open>A string or list that counts as given: neither \<open>None\<close> nor empty.\<close>

definition given :: "'a list option \<Rightarrow> 'a list option" where
  "given x = (case x of Some (a # as) \<Rightarrow> Some (a # as) | _ \<Rightarrow> None)"

text \<open>\<open>t in s\<close> for strings.\<close>

fun contains :: "string \<Rightarrow> string \<Rightarrow> bool" where
  "contains t [] = (t = [])"
| "contains t (c # s) = (take (length t) (c # s) = t \<or> contains t s)"

definition count_words :: "string \<Rightarrow> nat" where
  "count_words s = length (split_ws s)"

section \<open>Numbers\<close>

text \<open>\<open>round(x)\<close> and \<open>round(x, 2)\<close>: to the nearest, ties to even.\<close>

definition round_even :: "rat \<Rightarrow> int" where
  "round_even x = (let f = \<lfloor>x\<rfloor>; d = x - of_int f in
     if d < 1 / 2 then f else if 1 / 2 < d then f + 1 else if even f then f else f + 1)"

definition round2 :: "rat \<Rightarrow> rat" where
  "round2 x = of_int (round_even (x * 100)) / 100"

lemma round_even_bounds: "of_int (round_even x) - x \<le> 1 / 2" "x - of_int (round_even x) \<le> 1 / 2"
proof -
  have l: "x - of_int \<lfloor>x\<rfloor> < 1" "0 \<le> x - of_int \<lfloor>x\<rfloor>"
    using floor_correct [of x] by linarith+
  have c: "round_even x = \<lfloor>x\<rfloor> \<and> x - of_int \<lfloor>x\<rfloor> \<le> 1 / 2 \<or> round_even x = \<lfloor>x\<rfloor> + 1 \<and> 1 / 2 \<le> x - of_int \<lfloor>x\<rfloor>"
    unfolding round_even_def Let_def by (metis linorder_le_less_linear order_less_imp_le)
  show "of_int (round_even x) - x \<le> 1 / 2"
    using c
  proof
    assume "round_even x = \<lfloor>x\<rfloor> \<and> x - of_int \<lfloor>x\<rfloor> \<le> 1 / 2"
    then have "round_even x = \<lfloor>x\<rfloor>" by simp
    with l show ?thesis by linarith
  next
    assume "round_even x = \<lfloor>x\<rfloor> + 1 \<and> 1 / 2 \<le> x - of_int \<lfloor>x\<rfloor>"
    then have "(of_int (round_even x) :: rat) = of_int \<lfloor>x\<rfloor> + 1" "1 / 2 \<le> x - of_int \<lfloor>x\<rfloor>" by simp_all
    with l show ?thesis by linarith
  qed
  show "x - of_int (round_even x) \<le> 1 / 2"
    using c
  proof
    assume "round_even x = \<lfloor>x\<rfloor> \<and> x - of_int \<lfloor>x\<rfloor> \<le> 1 / 2"
    then have "round_even x = \<lfloor>x\<rfloor>" "x - of_int \<lfloor>x\<rfloor> \<le> 1 / 2" by simp_all
    then show ?thesis by linarith
  next
    assume "round_even x = \<lfloor>x\<rfloor> + 1 \<and> 1 / 2 \<le> x - of_int \<lfloor>x\<rfloor>"
    then have "(of_int (round_even x) :: rat) = of_int \<lfloor>x\<rfloor> + 1" by simp
    with l show ?thesis by linarith
  qed
qed

lemma round2_near: "\<bar>round2 x - x\<bar> \<le> 1 / 200"
proof -
  have "of_int (round_even (x * 100)) - x * 100 \<le> (1 / 2 :: rat)" "x * 100 - of_int (round_even (x * 100)) \<le> (1 / 2 :: rat)"
    by (rule round_even_bounds)+
  then show ?thesis unfolding round2_def abs_le_iff by (simp add: field_simps)
qed

lemma set_dict_set: "set (dict_set k v d) \<subseteq> insert (k, v) (set d)"
  by (induction d) auto

lemma set_dict_del: "set (dict_del k d) \<subseteq> set d"
  by (auto simp: AList.delete_eq)

lemma rmap_cong: "(\<And>x. x \<in> set xs \<Longrightarrow> f x = g x) \<Longrightarrow> rmap f xs = rmap g xs"
  by (induction xs) (simp_all split: sum.splits)

end
