(* ===== verification/Json.thy ===== *)
theory Json
  imports Prelude
begin

text \<open>
  The part of Python's \<open>json\<close> module and of \<open>str\<close> the service uses: JSON values as Python
  objects (\<open>json\<close>), \<open>json.loads\<close> with the decoder's error messages and positions (\<open>loads\<close>),
  \<open>json.dumps\<close> (\<open>dumps\<close>), truth values (\<open>truthy\<close>) and \<open>str(value)\<close> (\<open>py_str\<close>).
  Floats are exact rationals. A \<open>\u\<close> escape above U+00FF lies outside the character set of the
  model and is read as a question mark. The decoder runs on fuel; \<open>loads_total\<close> shows that the
  fuel \<open>loads\<close> gives it is always enough.
\<close>

datatype json =
    JNull
  | JBool bool
  | JInt int
  | JFloat rat
  | JNaN
  | JInf bool
  | JStr string
  | JList "json list"
  | JDict "(string \<times> json) list"

fun truthy :: "json \<Rightarrow> bool" where
  "truthy JNull = False"
| "truthy (JBool b) = b"
| "truthy (JInt i) = (i \<noteq> 0)"
| "truthy (JFloat r) = (r \<noteq> 0)"
| "truthy JNaN = True"
| "truthy (JInf _) = True"
| "truthy (JStr s) = (s \<noteq> [])"
| "truthy (JList xs) = (xs \<noteq> [])"
| "truthy (JDict d) = (d \<noteq> [])"

section \<open>Decoding\<close>

datatype json_error = JSONDecodeError string nat | OutOfFuel

definition is_json_ws :: "char \<Rightarrow> bool" where
  "is_json_ws c = (c \<in> {CHR '' '', CHR 0x09, CHR 0x0A, CHR 0x0D})"

definition skip_ws :: "string \<Rightarrow> string" where
  "skip_ws s = dropWhile is_json_ws s"

definition digit_val :: "char \<Rightarrow> nat" where
  "digit_val c = of_char c - 48"

definition is_digit :: "char \<Rightarrow> bool" where
  "is_digit c = (let n = (of_char c :: nat) in 48 \<le> n \<and> n \<le> 57)"

definition hex_val :: "char \<Rightarrow> nat option" where
  "hex_val c = (let n = (of_char c :: nat) in
     if 48 \<le> n \<and> n \<le> 57 then Some (n - 48)
     else if 97 \<le> n \<and> n \<le> 102 then Some (n - 87)
     else if 65 \<le> n \<and> n \<le> 70 then Some (n - 55)
     else None)"

fun hex4 :: "string \<Rightarrow> nat option" where
  "hex4 [a, b, c, d] =
     (case (hex_val a, hex_val b, hex_val c, hex_val d) of
        (Some p, Some q, Some r, Some s) \<Rightarrow> Some (((p * 16 + q) * 16 + r) * 16 + s)
      | _ \<Rightarrow> None)"
| "hex4 _ = None"

definition code_point :: "nat \<Rightarrow> char" where
  "code_point n = (if n < 256 then char_of n else CHR ''?'')"

definition simple_escape :: "char \<Rightarrow> char option" where
  "simple_escape c = map_of
     [(CHR 0x22, CHR 0x22), (CHR 0x5C, CHR 0x5C), (CHR ''/'', CHR ''/''),
      (CHR ''b'', CHR 0x08), (CHR ''f'', CHR 0x0C), (CHR ''n'', CHR 0x0A),
      (CHR ''r'', CHR 0x0D), (CHR ''t'', CHR 0x09)] c"

text \<open>
  \<open>n\<close> is the length of the document, \<open>b\<close> the position of the opening quote; a position is \<open>n\<close>
  minus the length of the rest.
\<close>

fun scan_string :: "nat \<Rightarrow> nat \<Rightarrow> string \<Rightarrow> string \<Rightarrow> json_error + string \<times> string" where
  "scan_string n b acc [] = Inl (JSONDecodeError ''Unterminated string starting at'' b)"
| "scan_string n b acc (c # cs) =
     (if c = CHR 0x22 then Inr (acc, cs)
      else if (of_char c :: nat) < 32
        then Inl (JSONDecodeError ''Invalid control character at'' (n - length (c # cs)))
      else if c = CHR 0x5C then
        (case cs of
           [] \<Rightarrow> Inl (JSONDecodeError ''Unterminated string starting at'' b)
         | d # ds \<Rightarrow>
             if d = CHR ''u'' then
               (if length ds \<le> 4
                  then Inl (JSONDecodeError (''Invalid '' @ [CHR 0x5C] @ ''uXXXX escape'') (n - length cs))
                else (case hex4 (take 4 ds) of
                        None \<Rightarrow> Inl (JSONDecodeError (''Invalid '' @ [CHR 0x5C] @ ''uXXXX escape'') (n - length cs))
                      | Some k \<Rightarrow> scan_string n b (acc @ [code_point k]) (drop 4 ds)))
             else (case simple_escape d of
                     None \<Rightarrow> Inl (JSONDecodeError (''Invalid '' @ [CHR 0x5C] @ ''escape'') (n - length (c # cs)))
                   | Some e \<Rightarrow> scan_string n b (acc @ [e]) ds))
      else scan_string n b (acc @ [c]) cs)"

definition digits_val :: "string \<Rightarrow> nat" where
  "digits_val ds = foldl (\<lambda>v d. 10 * v + digit_val d) 0 ds"

definition frac_val :: "string \<Rightarrow> rat" where
  "frac_val ds = of_nat (digits_val ds) / 10 ^ length ds"

text \<open>The exponent after \<open>e\<close> or \<open>E\<close>: its value and the rest, if it has a digit.\<close>

definition scan_exp :: "string \<Rightarrow> (int \<times> string) option" where
  "scan_exp s = (case s of
      e # r \<Rightarrow>
        if e = CHR ''e'' \<or> e = CHR ''E'' then
          (let neg = (case r of c # _ \<Rightarrow> c = CHR ''-'' | [] \<Rightarrow> False);
               r' = (case r of c # t \<Rightarrow> if c = CHR ''-'' \<or> c = CHR ''+'' then t else r | [] \<Rightarrow> r);
               ds = takeWhile is_digit r'
           in if ds = [] then None
              else Some ((if neg then - int (digits_val ds) else int (digits_val ds)), dropWhile is_digit r'))
        else None
    | [] \<Rightarrow> None)"

definition pow10 :: "int \<Rightarrow> rat" where
  "pow10 k = (if k < 0 then 1 / 10 ^ nat (- k) else 10 ^ nat k)"

text \<open>The three parts of a number: the digits before the point, the fraction, the exponent.\<close>

definition scan_int :: "string \<Rightarrow> string \<times> string" where
  "scan_int s = (case s of
     c # r \<Rightarrow> if c = CHR ''0'' then ([c], r) else (takeWhile is_digit s, dropWhile is_digit s)
   | [] \<Rightarrow> ([], []))"

definition scan_frac :: "string \<Rightarrow> string \<times> string" where
  "scan_frac s = (case s of
     c # r \<Rightarrow> if c = CHR ''.'' \<and> takeWhile is_digit r \<noteq> []
              then (takeWhile is_digit r, dropWhile is_digit r) else ([], s)
   | [] \<Rightarrow> ([], []))"

definition number_val :: "bool \<Rightarrow> string \<Rightarrow> string \<Rightarrow> int option \<Rightarrow> json" where
  "number_val neg ip fp ex =
     (if fp = [] \<and> ex = None
      then JInt (if neg then - int (digits_val ip) else int (digits_val ip))
      else (let m = (of_nat (digits_val ip) + frac_val fp) * pow10 (case ex of None \<Rightarrow> 0 | Some k \<Rightarrow> k)
            in JFloat (if neg then - m else m)))"

definition scan_number :: "string \<Rightarrow> (json \<times> string) option" where
  "scan_number s =
     (let neg = (case s of c # _ \<Rightarrow> c = CHR ''-'' | [] \<Rightarrow> False);
          (ip, s2) = scan_int (if neg then tl s else s);
          (fp, s3) = scan_frac s2
      in if ip = [] then None
         else (case scan_exp s3 of
                 None \<Rightarrow> Some (number_val neg ip fp None, s3)
               | Some (k, s4) \<Rightarrow> Some (number_val neg ip fp (Some k), s4)))"

definition expecting :: "string \<Rightarrow> string" where
  "expecting d = ''Expecting '' @ [CHR 0x27] @ d @ [CHR 0x27] @ '' delimiter''"

definition lit_match :: "string \<Rightarrow> string \<Rightarrow> bool" where
  "lit_match l s = (take (length l) s = l)"

fun parse_value :: "nat \<Rightarrow> nat \<Rightarrow> string \<Rightarrow> json_error + json \<times> string"
  and parse_list :: "nat \<Rightarrow> nat \<Rightarrow> json list \<Rightarrow> string \<Rightarrow> json_error + json \<times> string"
  and parse_dict :: "nat \<Rightarrow> nat \<Rightarrow> (string, json) dict \<Rightarrow> string \<Rightarrow> json_error + json \<times> string" where
  "parse_value 0 n s = Inl OutOfFuel"
| "parse_value (Suc f) n s =
     (case s of
        [] \<Rightarrow> Inl (JSONDecodeError ''Expecting value'' n)
      | c # r \<Rightarrow>
          if c = CHR 0x22 then
            (case scan_string n (n - length s) [] r of
               Inl e \<Rightarrow> Inl e | Inr (x, r') \<Rightarrow> Inr (JStr x, r'))
          else if c = CHR ''{'' then
            (case skip_ws r of
               d # r' \<Rightarrow> if d = CHR ''}'' then Inr (JDict [], r') else parse_dict f n [] (d # r')
             | [] \<Rightarrow> parse_dict f n [] [])
          else if c = CHR ''['' then
            (case skip_ws r of
               d # r' \<Rightarrow> if d = CHR '']'' then Inr (JList [], r') else parse_list f n [] (d # r')
             | [] \<Rightarrow> parse_list f n [] [])
          else if lit_match ''null'' s then Inr (JNull, drop 4 s)
          else if lit_match ''true'' s then Inr (JBool True, drop 4 s)
          else if lit_match ''false'' s then Inr (JBool False, drop 5 s)
          else if lit_match ''NaN'' s then Inr (JNaN, drop 3 s)
          else if lit_match ''Infinity'' s then Inr (JInf True, drop 8 s)
          else if lit_match ''-Infinity'' s then Inr (JInf False, drop 9 s)
          else (case scan_number s of
                  Some x \<Rightarrow> Inr x
                | None \<Rightarrow> Inl (JSONDecodeError ''Expecting value'' (n - length s))))"
| "parse_list 0 n xs s = Inl OutOfFuel"
| "parse_list (Suc f) n xs s =
     (case parse_value f n s of
        Inl e \<Rightarrow> Inl e
      | Inr (x, r) \<Rightarrow>
          (case skip_ws r of
             [] \<Rightarrow> Inl (JSONDecodeError (expecting '','') n)
           | c # r' \<Rightarrow>
               if c = CHR '']'' then Inr (JList (xs @ [x]), r')
               else if c \<noteq> CHR '','' then Inl (JSONDecodeError (expecting '','') (n - length (c # r')))
               else (case skip_ws r' of
                       d # r'' \<Rightarrow>
                         if d = CHR '']''
                         then Inl (JSONDecodeError ''Illegal trailing comma before end of array'' (n - length (c # r')))
                         else parse_list f n (xs @ [x]) (d # r'')
                     | [] \<Rightarrow> parse_list f n (xs @ [x]) [])))"
| "parse_dict 0 n d s = Inl OutOfFuel"
| "parse_dict (Suc f) n kvs s =
     (case s of
        c # r \<Rightarrow>
          if c \<noteq> CHR 0x22
          then Inl (JSONDecodeError ''Expecting property name enclosed in double quotes'' (n - length s))
          else (case scan_string n (n - length s) [] r of
             Inl e \<Rightarrow> Inl e
           | Inr (k, r1) \<Rightarrow>
               (case skip_ws r1 of
                  [] \<Rightarrow> Inl (JSONDecodeError (expecting '':'') n)
                | d # r2 \<Rightarrow>
                    if d \<noteq> CHR '':'' then Inl (JSONDecodeError (expecting '':'') (n - length (d # r2)))
                    else (case parse_value f n (skip_ws r2) of
                       Inl e \<Rightarrow> Inl e
                     | Inr (v, r3) \<Rightarrow>
                         (case skip_ws r3 of
                            [] \<Rightarrow> Inl (JSONDecodeError (expecting '','') n)
                          | e # r4 \<Rightarrow>
                              if e = CHR ''}'' then Inr (JDict (dict_set k v kvs), r4)
                              else if e \<noteq> CHR '',''
                                then Inl (JSONDecodeError (expecting '','') (n - length (e # r4)))
                              else (case skip_ws r4 of
                                 g # r5 \<Rightarrow>
                                   if g = CHR ''}''
                                   then Inl (JSONDecodeError ''Illegal trailing comma before end of object''
                                               (n - length (e # r4)))
                                   else parse_dict f n (dict_set k v kvs) (g # r5)
                               | [] \<Rightarrow> parse_dict f n (dict_set k v kvs) [])))))
      | [] \<Rightarrow> Inl (JSONDecodeError ''Expecting property name enclosed in double quotes'' n))"

text \<open>\<open>json.loads\<close>: one value, white space around it, nothing after it.\<close>

definition loads :: "string \<Rightarrow> json_error + json" where
  "loads s = (case parse_value (Suc (2 * length s)) (length s) (skip_ws s) of
     Inl e \<Rightarrow> Inl e
   | Inr (v, r) \<Rightarrow>
       (case skip_ws r of [] \<Rightarrow> Inr v
        | c # cs \<Rightarrow> Inl (JSONDecodeError ''Extra data'' (length s - length (c # cs)))))"

text \<open>\<open>str(exc)\<close> of a decoding error, with line and column.\<close>

definition json_error_str :: "string \<Rightarrow> json_error \<Rightarrow> string" where
  "json_error_str doc e = (case e of
     JSONDecodeError msg pos \<Rightarrow>
       (let pre = take pos doc;
            line = Suc (length (filter (\<lambda>c. c = CHR 0x0A) pre));
            col = Suc (length (takeWhile (\<lambda>c. c \<noteq> CHR 0x0A) (rev pre)))
        in msg @ '': line '' @ nat_str line @ '' column '' @ nat_str col @ '' (char '' @ nat_str pos @ '')'')
   | OutOfFuel \<Rightarrow> [])"

section \<open>The decoder always returns\<close>

text \<open>A successful scan leaves a shorter rest, and no scan runs out of fuel.\<close>

definition shrinks :: "string \<Rightarrow> json_error + 'a \<times> string \<Rightarrow> bool" where
  "shrinks s r = (case r of Inl e \<Rightarrow> e \<noteq> OutOfFuel | Inr (_, t) \<Rightarrow> length t < length s)"

lemma shrinks_simps [simp]:
  "shrinks s (Inl e) \<longleftrightarrow> e \<noteq> OutOfFuel"
  "shrinks s (Inr (x, t)) \<longleftrightarrow> length t < length s"
  by (simp_all add: shrinks_def)

lemma shrinks_mono: "shrinks s r \<Longrightarrow> length s \<le> length s' \<Longrightarrow> shrinks s' r"
  by (auto simp: shrinks_def split: sum.splits)

lemma skip_ws_length: "length (skip_ws s) \<le> length s"
  by (simp add: skip_ws_def length_dropWhile_le)

lemma skip_ws_Cons_length: "skip_ws s = c # r \<Longrightarrow> length r < length s"
  using skip_ws_length [of s] by simp

lemma scan_string_shrinks: "shrinks (x # s) (scan_string n b acc s)"
proof (induction n b acc s arbitrary: x rule: scan_string.induct)
  case (1 n b acc)
  then show ?case by simp
next
  case (2 n b acc c cs)
  consider (quote) "c = CHR 0x22" | (ctrl) "c \<noteq> CHR 0x22" "(of_char c :: nat) < 32"
    | (esc) "c = CHR 0x5C" | (plain) "c \<noteq> CHR 0x22" "\<not> (of_char c :: nat) < 32" "c \<noteq> CHR 0x5C"
    by blast
  then show ?case
  proof cases
    case esc
    show ?thesis
    proof (cases cs)
      case Nil
      with esc show ?thesis by simp
    next
      case (Cons d ds)
      have u: "shrinks (x # c # cs) (scan_string n b (acc @ [code_point k]) (drop 4 ds))"
        if "d = CHR ''u''" "\<not> length ds \<le> 4" "hex4 (take 4 ds) = Some k" for k
        using esc Cons that by (intro shrinks_mono [OF "2.IH"(1)]) auto
      have e: "shrinks (x # c # cs) (scan_string n b (acc @ [e]) ds)"
        if "d \<noteq> CHR ''u''" "simple_escape d = Some e" for e
        using esc Cons that by (intro shrinks_mono [OF "2.IH"(2)]) auto
      show ?thesis
        using esc Cons u e by (simp split: option.splits)
    qed
  next
    case plain
    then have "shrinks (c # cs) (scan_string n b (acc @ [c]) cs)" by (intro "2.IH")
    then have "shrinks (x # c # cs) (scan_string n b (acc @ [c]) cs)"
      by (rule shrinks_mono) simp
    with plain show ?thesis by simp
  qed simp_all
qed

lemma scan_int_length: "scan_int s = (ip, r) \<Longrightarrow> ip \<noteq> [] \<Longrightarrow> length r < length s"
  by (auto simp: scan_int_def length_dropWhile_le less_Suc_eq_le split: list.splits if_splits)

lemma scan_frac_length: "scan_frac s = (fp, r) \<Longrightarrow> length r \<le> length s"
  by (auto simp: scan_frac_def length_dropWhile_le le_SucI split: list.splits if_splits)

lemma scan_exp_length: "scan_exp s = Some (k, r) \<Longrightarrow> length r \<le> length s"
  by (auto simp: scan_exp_def Let_def length_dropWhile_le le_SucI split: list.splits if_splits)

lemma scan_number_length: "scan_number s = Some (x, r) \<Longrightarrow> length r < length s"
  by (fastforce simp: scan_number_def Let_def split: prod.splits if_splits option.splits list.splits
       dest: scan_exp_length scan_frac_length scan_int_length)

lemma shrinks_if:
  "(P \<Longrightarrow> shrinks s a) \<Longrightarrow> (\<not> P \<Longrightarrow> shrinks s b) \<Longrightarrow> shrinks s (if P then a else b)"
  by simp

lemma parse_shrinks:
  "(2 * length s < f \<longrightarrow> shrinks s (parse_value f n s)) \<and>
   (2 * length s + 1 < f \<longrightarrow> shrinks s (parse_list f n xs s)) \<and>
   (2 * length s + 1 < f \<longrightarrow> shrinks s (parse_dict f n d s))"
proof (induction f arbitrary: s xs d)
  case 0
  then show ?case by simp
next
  case (Suc f)
  have V: "shrinks s' (parse_value f n s')" if "2 * length s' < f" for s'
    using Suc.IH that by blast
  have L: "shrinks s' (parse_list f n xs' s')" if "2 * length s' + 1 < f" for s' xs'
    using Suc.IH that by blast
  have D: "shrinks s' (parse_dict f n d' s')" if "2 * length s' + 1 < f" for s' d'
    using Suc.IH that by blast
  have val: "shrinks s (parse_value (Suc f) n s)" if f: "2 * length s < Suc f"
  proof (cases s)
    case Nil
    then show ?thesis by simp
  next
    case (Cons c r)
    have S: "shrinks s (case scan_string n (n - length s) [] r of Inl e \<Rightarrow> Inl e | Inr (x, r') \<Rightarrow> Inr (JStr x, r'))"
      using scan_string_shrinks [of c r n "n - length s" "[]"] Cons
      by (auto simp: shrinks_def split: sum.splits)
    have D': "shrinks (c # r) (parse_dict f n [] t)" if "length t \<le> length r" for t
      using that f Cons by (intro shrinks_mono [OF D]) auto
    have L': "shrinks (c # r) (parse_list f n [] t)" if "length t \<le> length r" for t
      using that f Cons by (intro shrinks_mono [OF L]) auto
    have obj: "shrinks s (case skip_ws r of
               d # r' \<Rightarrow> if d = CHR ''}'' then Inr (JDict [], r') else parse_dict f n [] (d # r')
             | [] \<Rightarrow> parse_dict f n [] [])"
      using Cons skip_ws_length [of r] by (auto split: list.splits intro!: D')
    have arr: "shrinks s (case skip_ws r of
               d # r' \<Rightarrow> if d = CHR '']'' then Inr (JList [], r') else parse_list f n [] (d # r')
             | [] \<Rightarrow> parse_list f n [] [])"
      using Cons skip_ws_length [of r] by (auto split: list.splits intro!: L')
    have num: "shrinks s (case scan_number s of Some x \<Rightarrow> Inr x
                | None \<Rightarrow> Inl (JSONDecodeError ''Expecting value'' (n - length s)))"
      by (auto simp: shrinks_def split: option.splits dest: scan_number_length)
    show ?thesis
      unfolding Cons parse_value.simps list.case
      by (intro shrinks_if S [unfolded Cons] obj [unfolded Cons] arr [unfolded Cons] num [unfolded Cons])
        simp_all
  qed
  have list: "shrinks s (parse_list (Suc f) n xs s)" if f: "2 * length s + 1 < Suc f"
  proof (cases "parse_value f n s")
    case (Inl e)
    with V [of s] f show ?thesis by simp
  next
    case (Inr q)
    obtain x r where q: "q = (x, r)" by (cases q)
    from V [of s] f Inr q have r: "length r < length s" by simp
    have step: "shrinks s (parse_list f n (xs @ [x]) t)" if "length t < length r" for t
      using that r f by (intro shrinks_mono [OF L]) auto
    show ?thesis
      using r skip_ws_length [of r] Inr q 
      by (auto split: list.splits intro!: step dest!: skip_ws_Cons_length)
  qed
  have dict: "shrinks s (parse_dict (Suc f) n d s)" if f: "2 * length s + 1 < Suc f"
  proof (cases s)
    case Nil
    then show ?thesis by simp
  next
    case (Cons c s')
    show ?thesis
    proof (cases "scan_string n (n - length s) [] s'")
      case (Inl e)
      then show ?thesis
        using scan_string_shrinks [of c s' n "n - length s" "[]"] Cons by simp
    next
      case (Inr q)
      obtain k r1 where q: "q = (k, r1)" by (cases q)
      have r1: "length r1 < length s"
        using scan_string_shrinks [of c s' n "n - length s" "[]"] Inr q Cons by simp
      have fin: "shrinks s (case skip_ws r3 of
              [] \<Rightarrow> Inl (JSONDecodeError (expecting '','') n)
            | e # r4 \<Rightarrow>
                if e = CHR ''}'' then Inr (JDict (dict_set k v d), r4)
                else if e \<noteq> CHR '','' then Inl (JSONDecodeError (expecting '','') (n - length (e # r4)))
                else (case skip_ws r4 of
                   g # r5 \<Rightarrow>
                     if g = CHR ''}''
                     then Inl (JSONDecodeError ''Illegal trailing comma before end of object'' (n - length (e # r4)))
                     else parse_dict f n (dict_set k v d) (g # r5)
                 | [] \<Rightarrow> parse_dict f n (dict_set k v d) []))" if r3: "length r3 < length s" for v r3
      proof -
        have step: "shrinks s (parse_dict f n d' t)" if "length t < length r3" for t d'
          using that r3 f by (intro shrinks_mono [OF D]) auto
        show ?thesis
          using r3 by (auto split: list.splits intro!: step dest!: skip_ws_Cons_length)
      qed
      have W: "shrinks r2 (parse_value f n (skip_ws r2))" if "length r2 < length r1" for r2
        using that r1 f skip_ws_length [of r2] by (intro shrinks_mono [OF V, of _ r2]) auto
      show ?thesis
      proof (cases "skip_ws r1")
        case Nil
        with Inr q Cons show ?thesis by simp
      next
        case (Cons e r2)
        then have r2: "length r2 < length r1" by (rule skip_ws_Cons_length)
        show ?thesis
        proof (cases "parse_value f n (skip_ws r2)")
          case (Inl err)
          with W [OF r2] Cons Inr q \<open>s = c # s'\<close> show ?thesis by auto
        next
          case (Inr p)
          obtain v r3 where p: "p = (v, r3)" by (cases p)
          have "length r3 < length s" using W [OF r2] Inr p r2 r1 by simp
          from fin [OF this, of v] Inr p Cons q \<open>scan_string _ _ _ _ = Inr q\<close> \<open>s = c # s'\<close>
          show ?thesis by (cases "c = CHR 0x22"; cases "e = CHR '':''") simp_all
        qed
      qed
    qed
  qed
  show ?case using val list dict by blast
qed

lemma loads_total: "loads s \<noteq> Inl OutOfFuel"
proof -
  define r where "r = parse_value (Suc (2 * length s)) (length s) (skip_ws s)"
  have "shrinks (skip_ws s) r"
    using parse_shrinks [of "skip_ws s" "Suc (2 * length s)"] skip_ws_length [of s]
    by (simp add: r_def del: parse_value.simps)
  then show ?thesis
    unfolding loads_def r_def [symmetric]
    by (auto simp: shrinks_def split: sum.splits list.splits)
qed

section \<open>Encoding\<close>

text \<open>
  Floats print as the decimal expansion of the rational, cut after 17 digits: \<open>repr\<close> of the
  floats the service handles, which have few digits.
\<close>

fun frac_digits :: "nat \<Rightarrow> rat \<Rightarrow> string" where
  "frac_digits 0 r = []"
| "frac_digits (Suc n) r =
     (if r = 0 then []
      else (let d = nat \<lfloor>r * 10\<rfloor> in char_of (48 + d) # frac_digits n (r * 10 - of_nat d)))"

definition float_str :: "rat \<Rightarrow> string" where
  "float_str r =
     (let a = abs r; i = nat \<lfloor>a\<rfloor>; ds = frac_digits 17 (a - of_nat i)
      in (if r < 0 then ''-'' else []) @ nat_str i @ ''.'' @ (if ds = [] then ''0'' else ds))"

definition esc_char :: "char \<Rightarrow> string" where
  "esc_char c = (let n = (of_char c :: nat) in
     if c = CHR 0x22 then [CHR 0x5C, CHR 0x22]
     else if c = CHR 0x5C then [CHR 0x5C, CHR 0x5C]
     else if c = CHR 0x0A then [CHR 0x5C, CHR ''n'']
     else if c = CHR 0x0D then [CHR 0x5C, CHR ''r'']
     else if c = CHR 0x09 then [CHR 0x5C, CHR ''t'']
     else if c = CHR 0x08 then [CHR 0x5C, CHR ''b'']
     else if c = CHR 0x0C then [CHR 0x5C, CHR ''f'']
     else if 32 \<le> n \<and> n < 127 then [c]
     else [CHR 0x5C, CHR ''u'', CHR ''0'', CHR ''0'', hex_digit (n div 16), hex_digit (n mod 16)])"

definition quote_str :: "string \<Rightarrow> string" where
  "quote_str s = [CHR 0x22] @ concat (map esc_char s) @ [CHR 0x22]"

fun dumps :: "json \<Rightarrow> string" where
  "dumps JNull = ''null''"
| "dumps (JBool b) = (if b then ''true'' else ''false'')"
| "dumps (JInt i) = int_str i"
| "dumps (JFloat r) = float_str r"
| "dumps JNaN = ''NaN''"
| "dumps (JInf p) = (if p then ''Infinity'' else ''-Infinity'')"
| "dumps (JStr s) = quote_str s"
| "dumps (JList xs) = ''['' @ join '', '' (map dumps xs) @ '']''"
| "dumps (JDict d) = ''{'' @ join '', '' (map (\<lambda>(k, v). quote_str k @ '': '' @ dumps v) d) @ ''}''"

text \<open>\<open>sort_keys=True\<close>: every dictionary of the payload is printed in key order.\<close>

fun sort_keys :: "json \<Rightarrow> json" where
  "sort_keys (JDict d) = JDict (sort_key fst (map (\<lambda>(k, v). (k, sort_keys v)) d))"
| "sort_keys (JList xs) = JList (map sort_keys xs)"
| "sort_keys j = j"

text \<open>\<open>json.dumps(value, indent=2)\<close>; \<open>lvl\<close> is the nesting level.\<close>

definition newline_indent :: "nat \<Rightarrow> string" where
  "newline_indent lvl = nl @ replicate (2 * lvl) CHR '' ''"

fun dumps_indent :: "nat \<Rightarrow> json \<Rightarrow> string" where
  "dumps_indent lvl (JList xs) =
     (if xs = [] then ''[]''
      else ''['' @ newline_indent (Suc lvl)
             @ join ('','' @ newline_indent (Suc lvl)) (map (dumps_indent (Suc lvl)) xs)
             @ newline_indent lvl @ '']'')"
| "dumps_indent lvl (JDict d) =
     (if d = [] then ''{}''
      else ''{'' @ newline_indent (Suc lvl)
             @ join ('','' @ newline_indent (Suc lvl))
                 (map (\<lambda>(k, v). quote_str k @ '': '' @ dumps_indent (Suc lvl) v) d)
             @ newline_indent lvl @ ''}'')"
| "dumps_indent lvl j = dumps j"

text \<open>\<open>str(value)\<close>: strings as they are, everything else as \<open>repr\<close>.\<close>

fun py_repr :: "json \<Rightarrow> string" where
  "py_repr JNull = ''None''"
| "py_repr (JBool b) = (if b then ''True'' else ''False'')"
| "py_repr (JInt i) = int_str i"
| "py_repr (JFloat r) = float_str r"
| "py_repr JNaN = ''nan''"
| "py_repr (JInf p) = (if p then ''inf'' else ''-inf'')"
| "py_repr (JStr s) = repr_str s"
| "py_repr (JList xs) = ''['' @ join '', '' (map py_repr xs) @ '']''"
| "py_repr (JDict d) = ''{'' @ join '', '' (map (\<lambda>(k, v). repr_str k @ '': '' @ py_repr v) d) @ ''}''"

definition py_str :: "json \<Rightarrow> string" where
  "py_str j = (case j of JStr s \<Rightarrow> s | _ \<Rightarrow> py_repr j)"

definition opt_json :: "string option \<Rightarrow> json" where
  "opt_json o' = (case o' of None \<Rightarrow> JNull | Some s \<Rightarrow> JStr s)"

text \<open>\<open>repr\<close> of a list of strings, as f-strings print it.\<close>

definition repr_str_list :: "string list \<Rightarrow> string" where
  "repr_str_list xs = ''['' @ join '', '' (map repr_str xs) @ '']''"

end
