(* ===== verification/Contracts.thy ===== *)
theory Contracts
  imports Json
begin

text \<open>
  The data model: the enums and the pydantic contract models of the packages \<open>errors\<close>,
  \<open>generation\<close>, \<open>providers\<close>, \<open>context\<close>, \<open>memory\<close>, \<open>skills\<close>, \<open>metadata\<close>, \<open>testgen\<close>,
  \<open>catalogue\<close>, \<open>learning\<close> and \<open>ratelimit\<close>. A \<open>StrEnum\<close> is a \<open>datatype\<close> with its value strings,
  a model is a \<open>record\<close>, and the declared field constraints are the predicate \<open>wf_...\<close>, which an
  instance that passed pydantic's validation satisfies. \<open>ContractModel\<close> strips every string it
  validates, so a validated string is its own \<open>trim\<close>. Timestamps are \<open>rat\<close>.
\<close>

named_theorems enum_simps \<open>values of enums and their inverses\<close>

section \<open>Contract strings\<close>

definition contract_str :: "string \<Rightarrow> bool" where
  "contract_str s = (trim s = s)"

definition contract_str1 :: "string \<Rightarrow> bool" where
  "contract_str1 s = (trim s = s \<and> s \<noteq> [])"

definition contract_opt :: "string option \<Rightarrow> bool" where
  "contract_opt o' = (case o' of None \<Rightarrow> True | Some s \<Rightarrow> contract_str s)"

text \<open>Validating a \<open>str\<close> field with \<open>min_length=1\<close>: strip, then check; the error names the field.\<close>

definition validate_str1 :: "string \<Rightarrow> string \<Rightarrow> string result" where
  "validate_str1 field s = (if trim s = [] then Inl (ValidationError field) else Inr (trim s))"

lemma rstrip_by_fixed: "rstrip_by P s = s \<longleftrightarrow> s = [] \<or> \<not> P (last s)"
proof (cases s rule: rev_cases)
  case Nil
  then show ?thesis by (simp add: rstrip_by_def)
next
  case (snoc t c)
  have "length (dropWhile P (rev t)) \<le> length t"
    using length_dropWhile_le [of P "rev t"] by simp
  have "rev (dropWhile P (rev t)) \<noteq> t @ [c]"
  proof
    assume "rev (dropWhile P (rev t)) = t @ [c]"
    then have "length (rev (dropWhile P (rev t))) = Suc (length t)" by simp
    with \<open>length (dropWhile P (rev t)) \<le> length t\<close> show False by simp
  qed
  then show ?thesis by (simp add: snoc rstrip_by_def)
qed

lemma last_rstrip_by: "rstrip_by P s \<noteq> [] \<Longrightarrow> \<not> P (last (rstrip_by P s))"
  using hd_dropWhile [of P "rev s"] by (auto simp: rstrip_by_def last_rev)

lemma hd_rstrip_by: "rstrip_by P s \<noteq> [] \<Longrightarrow> hd (rstrip_by P s) = hd s"
proof -
  assume ne: "rstrip_by P s \<noteq> []"
  have "rev s = takeWhile P (rev s) @ dropWhile P (rev s)" by simp
  then have "s = rstrip_by P s @ rev (takeWhile P (rev s))"
    unfolding rstrip_by_def by (metis rev_append rev_rev_ident)
  with ne show ?thesis by (metis hd_append2)
qed

lemma strip_by_Nil [simp]: "strip_by P [] = []"
  by (simp add: strip_by_def rstrip_by_def)

lemma strip_by_idem [simp]: "strip_by P (strip_by P s) = strip_by P s"
proof (cases "strip_by P s = []")
  case True
  then show ?thesis by simp
next
  case False
  let ?t = "strip_by P s"
  have hd: "\<not> P (hd ?t)"
    using False hd_rstrip_by [of P "dropWhile P s"] hd_dropWhile [of P s]
    by (metis dropWhile.simps(1) rev.simps(1) rstrip_by_def strip_by_def)
  then have "dropWhile P ?t = ?t" using False by (cases ?t) auto
  moreover have "rstrip_by P ?t = ?t"
    using False last_rstrip_by [of P "dropWhile P s"] by (simp add: rstrip_by_fixed strip_by_def)
  ultimately show ?thesis by (simp add: strip_by_def)
qed

lemma trim_idem [simp]: "trim (trim s) = trim s"
  by (simp add: trim_def)

lemma strip_idem [simp]: "strip (strip s) = strip s"
  by (simp add: strip_def)

lemma validate_str1_Inr: "validate_str1 f s = Inr t \<longleftrightarrow> t = trim s \<and> t \<noteq> []"
  by (auto simp: validate_str1_def)

lemma validate_str1_contract: "validate_str1 f s = Inr t \<Longrightarrow> contract_str1 t"
  by (auto simp: validate_str1_Inr contract_str1_def)

lemma validate_str1_id: "contract_str1 s \<Longrightarrow> validate_str1 f s = Inr s"
  by (simp add: validate_str1_def contract_str1_def)

section \<open>errors.py\<close>

datatype service_error_code =
    VALIDATION_FAILED | UNAUTHORIZED | FORBIDDEN | NOT_FOUND | CONFLICT
  | PROVIDER_UNAVAILABLE | PROVIDER_RATE_LIMITED | PROVIDER_AUTH_FAILED
  | MEMORY_UNAVAILABLE | MEMORY_SCHEMA_MISMATCH | INTERNAL_ERROR
  | GUARDRAIL_BLOCKED | NORMALIZATION_FAILED

record service_error =
  se_code :: service_error_code
  se_message :: string
  se_retryable :: bool
  se_details :: "(string, json) dict"
  se_correlation_id :: "string option"

definition mk_error :: "service_error_code \<Rightarrow> string \<Rightarrow> service_error" where
  "mk_error c m = \<lparr>se_code = c, se_message = m, se_retryable = False, se_details = [],
     se_correlation_id = None\<rparr>"

section \<open>generation/models.py\<close>

datatype language = PYTHON | TYPESCRIPT | JAVA
datatype framework = PLAYWRIGHT | PYTEST | JUNIT | TESTNG
datatype automation_pattern = POM
datatype locator_strategy = PAGE_FILE | CENTRAL_MODULE | EXTERNAL_STORE
datatype artifact_type = PAGE_OBJECT | TEST_SPEC | FIXTURE | CONFIG | SUPPORT
datatype validation_status = V_NOT_RUN | V_PASSED | V_FAILED | V_WARNING
datatype generation_status = G_ACCEPTED | G_RUNNING | G_COMPLETED | G_FAILED

fun language_value :: "language \<Rightarrow> string" where
  "language_value PYTHON = ''python''"
| "language_value TYPESCRIPT = ''typescript''"
| "language_value JAVA = ''java''"

fun framework_value :: "framework \<Rightarrow> string" where
  "framework_value PLAYWRIGHT = ''playwright''"
| "framework_value PYTEST = ''pytest''"
| "framework_value JUNIT = ''junit''"
| "framework_value TESTNG = ''testng''"

fun pattern_value :: "automation_pattern \<Rightarrow> string" where
  "pattern_value POM = ''pom''"

fun locator_value :: "locator_strategy \<Rightarrow> string" where
  "locator_value PAGE_FILE = ''page_file''"
| "locator_value CENTRAL_MODULE = ''central_module''"
| "locator_value EXTERNAL_STORE = ''external_store''"

fun artifact_type_value :: "artifact_type \<Rightarrow> string" where
  "artifact_type_value PAGE_OBJECT = ''page_object''"
| "artifact_type_value TEST_SPEC = ''test_spec''"
| "artifact_type_value FIXTURE = ''fixture''"
| "artifact_type_value CONFIG = ''config''"
| "artifact_type_value SUPPORT = ''support''"

fun validation_status_value :: "validation_status \<Rightarrow> string" where
  "validation_status_value V_NOT_RUN = ''not_run''"
| "validation_status_value V_PASSED = ''passed''"
| "validation_status_value V_FAILED = ''failed''"
| "validation_status_value V_WARNING = ''warning''"

fun generation_status_value :: "generation_status \<Rightarrow> string" where
  "generation_status_value G_ACCEPTED = ''accepted''"
| "generation_status_value G_RUNNING = ''running''"
| "generation_status_value G_COMPLETED = ''completed''"
| "generation_status_value G_FAILED = ''failed''"

text \<open>\<open>Enum(value)\<close>: the member with that value, if there is one.\<close>

definition language_of :: "string \<Rightarrow> language option" where
  "language_of s = find (\<lambda>l. language_value l = s) [PYTHON, TYPESCRIPT, JAVA]"

definition artifact_type_of :: "string \<Rightarrow> artifact_type option" where
  "artifact_type_of s =
     find (\<lambda>t. artifact_type_value t = s) [PAGE_OBJECT, TEST_SPEC, FIXTURE, CONFIG, SUPPORT]"

lemma language_of_value [simp, enum_simps]: "language_of (language_value l) = Some l"
  by (cases l) (simp_all add: language_of_def)

lemma artifact_type_of_value [simp, enum_simps]: "artifact_type_of (artifact_type_value t) = Some t"
  by (cases t) (simp_all add: artifact_type_of_def)

lemma language_of_Some [enum_simps]: "language_of s = Some l \<longleftrightarrow> s = language_value l"
  by (cases l) (auto simp: language_of_def split: if_splits)

lemma artifact_type_of_Some [enum_simps]: "artifact_type_of s = Some t \<longleftrightarrow> s = artifact_type_value t"
  by (cases t) (auto simp: artifact_type_of_def split: if_splits)

text \<open>Sets of artifact types are iterated in the order of their values.\<close>

lemma artifact_type_value_inj: "artifact_type_value a = artifact_type_value b \<Longrightarrow> a = b"
  using artifact_type_of_value by (metis option.inject)

instantiation artifact_type :: linorder
begin

definition less_eq_artifact_type :: "artifact_type \<Rightarrow> artifact_type \<Rightarrow> bool" where
  "less_eq_artifact_type a b = (artifact_type_value a \<le> artifact_type_value b)"

definition less_artifact_type :: "artifact_type \<Rightarrow> artifact_type \<Rightarrow> bool" where
  "less_artifact_type a b = (artifact_type_value a < artifact_type_value b)"

instance
  by standard (auto simp: less_eq_artifact_type_def less_artifact_type_def
      intro: artifact_type_value_inj)

end

datatype test_type = FUNCTIONAL | NEGATIVE | EDGE_CASE | API | REGRESSION

fun test_type_value :: "test_type \<Rightarrow> string" where
  "test_type_value FUNCTIONAL = ''functional''"
| "test_type_value NEGATIVE = ''negative''"
| "test_type_value EDGE_CASE = ''edge_case''"
| "test_type_value API = ''api''"
| "test_type_value REGRESSION = ''regression''"

definition all_test_types :: "test_type list" where
  "all_test_types = [FUNCTIONAL, NEGATIVE, EDGE_CASE, API, REGRESSION]"

definition test_type_of :: "string \<Rightarrow> test_type option" where
  "test_type_of s = find (\<lambda>t. test_type_value t = s) all_test_types"

lemma test_type_of_value [simp, enum_simps]: "test_type_of (test_type_value t) = Some t"
  by (cases t) (simp_all add: test_type_of_def all_test_types_def)

lemma test_type_of_Some [enum_simps]: "test_type_of s = Some t \<longleftrightarrow> s = test_type_value t"
  by (cases t) (auto simp: test_type_of_def all_test_types_def split: if_splits)

record generation_target =
  gt_language :: language
  gt_framework :: framework
  gt_pattern :: automation_pattern
  gt_locator_strategy :: locator_strategy

record generation_scope =
  gs_domain :: string
  gs_route :: "string option"
  gs_tags :: "string list"

record provider_selection =
  ps_provider_id :: string
  ps_model :: string
  ps_fallback_provider_ids :: "string list"

record generation_options =
  go_validation_enabled :: bool
  go_allow_repair :: bool
  go_max_input_tokens :: int
  go_max_output_tokens :: "int option"

record generation_request =
  gr_tenant_id :: string
  gr_application_id :: string
  gr_prompt :: string
  gr_target :: generation_target
  gr_scope :: generation_scope
  gr_provider :: provider_selection
  gr_options :: generation_options
  gr_jira_key :: "string option"
  gr_test_types :: "test_type list option"

text \<open>The field constraints of a request that passed validation.\<close>

definition wf_scope :: "generation_scope \<Rightarrow> bool" where
  "wf_scope sc = (contract_str1 (gs_domain sc) \<and> contract_opt (gs_route sc)
     \<and> list_all contract_str (gs_tags sc))"

definition wf_selection :: "provider_selection \<Rightarrow> bool" where
  "wf_selection ps = (contract_str1 (ps_provider_id ps) \<and> contract_str1 (ps_model ps)
     \<and> list_all contract_str (ps_fallback_provider_ids ps))"

definition wf_options :: "generation_options \<Rightarrow> bool" where
  "wf_options go = (1 \<le> go_max_input_tokens go
     \<and> (case go_max_output_tokens go of None \<Rightarrow> True | Some n \<Rightarrow> 1 \<le> n))"

definition wf_request :: "generation_request \<Rightarrow> bool" where
  "wf_request r = (contract_str1 (gr_tenant_id r) \<and> contract_str1 (gr_application_id r)
     \<and> contract_str1 (gr_prompt r) \<and> wf_scope (gr_scope r) \<and> wf_selection (gr_provider r)
     \<and> wf_options (gr_options r) \<and> contract_opt (gr_jira_key r))"

record generated_artifact =
  ga_path :: string
  ga_language :: language
  ga_content :: string
  ga_artifact_type :: artifact_type

definition mk_artifact :: "string \<Rightarrow> artifact_type \<Rightarrow> language \<Rightarrow> string \<Rightarrow> generated_artifact result" where
  "mk_artifact path ty lang content =
     (case validate_str1 ''path'' path of Inl e \<Rightarrow> Inl e
      | Inr p \<Rightarrow> Inr \<lparr>ga_path = p, ga_language = lang, ga_content = trim content, ga_artifact_type = ty\<rparr>)"

record validation_diagnostic =
  vd_code :: string
  vd_message :: string
  vd_path :: "string option"
  vd_severity :: validation_status
  vd_details :: "(string, json) dict"

record validation_summary =
  vs_status :: validation_status
  vs_diagnostics :: "validation_diagnostic list"

record generation_context_metadata =
  gc_context_plan_id :: "string option"
  gc_skill_ids :: "string list"
  gc_memory_ids :: "string list"
  gc_estimated_input_tokens :: int
  gc_baseline_input_tokens :: int
  gc_estimated_tokens_saved :: int
  gc_token_savings_percent :: rat
  gc_excluded_memory_count :: nat
  gc_max_input_tokens :: int

definition empty_context :: generation_context_metadata where
  "empty_context = \<lparr>gc_context_plan_id = None, gc_skill_ids = [], gc_memory_ids = [],
     gc_estimated_input_tokens = 0, gc_baseline_input_tokens = 0, gc_estimated_tokens_saved = 0,
     gc_token_savings_percent = 0, gc_excluded_memory_count = 0, gc_max_input_tokens = 0\<rparr>"

definition empty_validation :: validation_summary where
  "empty_validation = \<lparr>vs_status = V_NOT_RUN, vs_diagnostics = []\<rparr>"

section \<open>testgen models\<close>

record reformulated_intent =
  ri_jira_key :: "string option"
  ri_intent_summary :: string
  ri_test_types :: "test_type list"
  ri_output_format :: string
  ri_raw_prompt :: string
  ri_confidence :: rat

definition mk_intent ::
  "string option \<Rightarrow> string \<Rightarrow> test_type list \<Rightarrow> string \<Rightarrow> string \<Rightarrow> rat \<Rightarrow> reformulated_intent result" where
  "mk_intent key summary types fmt raw conf =
     rbind (validate_str1 ''intent_summary'' summary) (\<lambda>s.
     rbind (validate_str1 ''raw_prompt'' raw) (\<lambda>r.
       if conf < 0 \<or> 1 < conf then Inl (ValidationError ''confidence'')
       else Inr \<lparr>ri_jira_key = map_option trim key, ri_intent_summary = s, ri_test_types = types,
                 ri_output_format = trim fmt, ri_raw_prompt = r, ri_confidence = conf\<rparr>))"

record test_case =
  tc_id :: string
  tc_type :: test_type
  tc_title :: string
  tc_preconditions :: "string list"
  tc_steps :: "string list"
  tc_expected_result :: string
  tc_acceptance_criterion_ref :: "string option"
  tc_tags :: "string list"

record traceability_entry =
  te_acceptance_criterion :: string
  te_test_case_ids :: "string list"

record test_case_pack =
  tp_story_summary :: string
  tp_assumptions :: "string list"
  tp_test_cases :: "test_case list"
  tp_traceability_matrix :: "traceability_entry list"
  tp_coverage_summary :: string
  tp_generated_at :: rat
  tp_source_jira_key :: "string option"
  tp_test_types_covered :: "test_type list"

record jira_acceptance_criterion =
  jc_index :: nat
  jc_text :: string

record jira_story =
  js_jira_key :: string
  js_summary :: string
  js_description :: string
  js_acceptance_criteria :: "jira_acceptance_criterion list"
  js_story_type :: string
  js_status :: string
  js_labels :: "string list"
  js_fetched_at :: rat

record rag_chunk =
  rc_chunk_id :: string
  rc_source_ref :: string
  rc_chunk_text :: string
  rc_similarity :: rat
  rc_metadata :: "(string, json) dict"

record rag_ingest_request =
  rq_tenant_id :: string
  rq_source_ref :: string
  rq_chunk_index :: nat
  rq_chunk_text :: string
  rq_metadata :: "(string, json) dict"

datatype guardrail_code = UNSAFE_CONTENT | NOT_QA_DOMAIN | MISSING_REQUIRED_FIELD | JIRA_KEY_FORMAT

record guardrail_violation =
  gv_code :: guardrail_code
  gv_message :: string
  gv_field :: "string option"

record guardrail_result =
  gd_passed :: bool
  gd_violations :: "guardrail_violation list"

record generation_result =
  gn_request_id :: string
  gn_status :: generation_status
  gn_artifacts :: "generated_artifact list"
  gn_validation :: validation_summary
  gn_context :: generation_context_metadata
  gn_errors :: "service_error list"
  gn_test_case_pack :: "test_case_pack option"

section \<open>providers/models.py\<close>

datatype provider_role = SYSTEM | USER | ASSISTANT
datatype finish_reason = F_STOP | F_LENGTH | F_TOOL_CALL | F_ERROR | F_UNKNOWN
datatype health_status = H_OK | H_DEGRADED | H_UNAVAILABLE

fun role_value :: "provider_role \<Rightarrow> string" where
  "role_value SYSTEM = ''system''"
| "role_value USER = ''user''"
| "role_value ASSISTANT = ''assistant''"

fun health_value :: "health_status \<Rightarrow> string" where
  "health_value H_OK = ''ok''"
| "health_value H_DEGRADED = ''degraded''"
| "health_value H_UNAVAILABLE = ''unavailable''"

record provider_message =
  pm_role :: provider_role
  pm_content :: string

definition mk_message :: "provider_role \<Rightarrow> string \<Rightarrow> provider_message result" where
  "mk_message role content =
     (case validate_str1 ''content'' content of Inl e \<Rightarrow> Inl e
      | Inr c \<Rightarrow> Inr \<lparr>pm_role = role, pm_content = c\<rparr>)"

record provider_config =
  pc_provider_id :: string
  pc_model :: string
  pc_timeout_seconds :: int
  pc_max_output_tokens :: "int option"
  pc_temperature :: rat

definition mk_config :: "string \<Rightarrow> string \<Rightarrow> int option \<Rightarrow> provider_config" where
  "mk_config pid model mx = \<lparr>pc_provider_id = pid, pc_model = model, pc_timeout_seconds = 60,
     pc_max_output_tokens = mx, pc_temperature = 0\<rparr>"

record provider_request =
  pq_request_id :: string
  pq_tenant_id :: string
  pq_messages :: "provider_message list"
  pq_config :: provider_config

record provider_usage =
  pu_input_tokens :: nat
  pu_output_tokens :: nat

record provider_response =
  pr_request_id :: string
  pr_provider_id :: string
  pr_model :: string
  pr_raw_text :: string
  pr_usage :: provider_usage
  pr_finish_reason :: finish_reason
  pr_errors :: "service_error list"
  pr_latency_ms :: "nat option"

record provider_health =
  ph_provider_id :: string
  ph_status :: health_status
  ph_model :: "string option"
  ph_latency_ms :: "nat option"
  ph_error :: "service_error option"

section \<open>context/models.py\<close>

datatype exclusion_reason =
  DOMAIN_MISMATCH | ROUTE_MISMATCH | FRAMEWORK_MISMATCH | TOMBSTONED | TOKEN_BUDGET | POLICY

record context_exclusion =
  ce_entity_id :: string
  ce_reason :: exclusion_reason
  ce_details :: "(string, json) dict"

record token_budget =
  tb_max_input_tokens :: int
  tb_estimated_input_tokens :: int
  tb_baseline_estimate :: int
  tb_estimated_tokens_saved :: int

record selected_skill =
  ss_skill_id :: string
  ss_version :: string
  ss_reason :: "string option"

record selected_memory =
  sm_memory_id :: string
  sm_confidence :: rat
  sm_reason :: "string option"

record context_plan =
  cp_context_plan_id :: string
  cp_tenant_id :: string
  cp_application_id :: string
  cp_request_id :: string
  cp_selected_skills :: "selected_skill list"
  cp_selected_memories :: "selected_memory list"
  cp_skill_ids :: "string list"
  cp_memory_ids :: "string list"
  cp_excluded :: "context_exclusion list"
  cp_token_budget :: token_budget
  cp_jira_story :: "jira_story option"
  cp_rag_chunks :: "rag_chunk list"

section \<open>memory/models.py\<close>

datatype memory_status = M_ACTIVE | M_DELETED | M_TOMBSTONED | M_DEPRECATED

fun memory_status_value :: "memory_status \<Rightarrow> string" where
  "memory_status_value M_ACTIVE = ''active''"
| "memory_status_value M_DELETED = ''deleted''"
| "memory_status_value M_TOMBSTONED = ''tombstoned''"
| "memory_status_value M_DEPRECATED = ''deprecated''"

definition memory_status_of :: "string \<Rightarrow> memory_status option" where
  "memory_status_of s =
     find (\<lambda>m. memory_status_value m = s) [M_ACTIVE, M_DELETED, M_TOMBSTONED, M_DEPRECATED]"

record memory_entry =
  me_entity_id :: string
  me_tenant_id :: string
  me_application_id :: string
  me_summary :: string
  me_knowledge :: string
  me_tags :: "(string, json) dict"
  me_confidence :: rat
  me_status :: memory_status

record memory_search_request =
  mq_tenant_id :: string
  mq_application_id :: string
  mq_query :: string
  mq_filters :: "(string, json) dict"
  mq_limit :: nat

definition wf_search_request :: "memory_search_request \<Rightarrow> bool" where
  "wf_search_request q = (contract_str1 (mq_tenant_id q) \<and> contract_str1 (mq_application_id q)
     \<and> contract_str (mq_query q) \<and> 1 \<le> mq_limit q \<and> mq_limit q \<le> 100)"

record memory_search_result =
  mr_items :: "memory_entry list"
  mr_adapter_version :: string

record memory_get_request =
  mg_tenant_id :: string
  mg_application_id :: string
  mg_entity_id :: string

record memory_delete_request =
  md_tenant_id :: string
  md_application_id :: string
  md_entity_id :: string
  md_deleted_by :: string
  md_reason :: "string option"

record memory_delete_result =
  mx_entity_id :: string
  mx_deleted :: bool
  mx_adapter_version :: string

record memory_health =
  mh_status :: health_status
  mh_adapter_version :: string
  mh_degraded :: bool

record memory_capabilities =
  mc_adapter_version :: string
  mc_supports_search :: bool
  mc_supports_get :: bool
  mc_supports_upsert :: bool
  mc_supports_delete :: bool
  mc_supports_shadow_read :: bool

section \<open>skills/models.py\<close>

datatype skill_status = S_DRAFT | S_ACTIVE | S_DEPRECATED | S_DISABLED
datatype skill_validator_type = STRUCTURE | SYNTAX | VT_POLICY | DRY_RUN

fun skill_status_value :: "skill_status \<Rightarrow> string" where
  "skill_status_value S_DRAFT = ''draft''"
| "skill_status_value S_ACTIVE = ''active''"
| "skill_status_value S_DEPRECATED = ''deprecated''"
| "skill_status_value S_DISABLED = ''disabled''"

definition skill_status_of :: "string \<Rightarrow> skill_status option" where
  "skill_status_of s =
     find (\<lambda>x. skill_status_value x = s) [S_DRAFT, S_ACTIVE, S_DEPRECATED, S_DISABLED]"

record skill_output_file =
  so_artifact_type :: artifact_type
  so_path_template :: string
  so_template_ref :: string

record skill_validator =
  sv_type :: skill_validator_type
  sv_command :: "string option"
  sv_rules :: "string list"

record skill_definition =
  sk_skill_id :: string
  sk_version :: string
  sk_language :: language
  sk_framework :: framework
  sk_pattern :: automation_pattern
  sk_supported_locator_strategies :: "locator_strategy list"
  sk_output_files :: "skill_output_file list"
  sk_generation_rules :: "string list"
  sk_validators :: "skill_validator list"
  sk_status :: skill_status
  sk_owner :: "string option"
  sk_description :: "string option"

section \<open>metadata/models.py\<close>

record target_stack_resolution =
  ts_language :: language
  ts_framework :: framework
  ts_pattern :: automation_pattern
  ts_locator_strategy :: locator_strategy
  ts_is_known_combination :: bool

record request_metadata =
  rm_domain :: string
  rm_route :: "string option"
  rm_test_intent :: "string list"
  rm_target_stack :: target_stack_resolution
  rm_warnings :: "string list"

section \<open>ratelimit/models.py\<close>

record rate_limit_policy =
  rp_max_requests :: nat
  rp_window_seconds :: nat

definition wf_policy :: "rate_limit_policy \<Rightarrow> bool" where
  "wf_policy p = (1 \<le> rp_max_requests p \<and> 1 \<le> rp_window_seconds p)"

record rate_limit_result =
  rr_allowed :: bool
  rr_remaining :: nat
  rr_retry_after_seconds :: int

end
