(* ===== verification/Auth.thy ===== *)
theory Auth
  imports Prelude
begin

text \<open>
  \<open>totalrecall/auth\<close> and the request dependencies of \<open>totalrecall/api/dependencies.py\<close>: the
  role-permission table, bearer-token authentication, and the repositories a request may need.
\<close>

section \<open>permissions.py\<close>

definition READ_CATALOGUE :: string where "READ_CATALOGUE = ''catalogue:read''"
definition GENERATE :: string where "GENERATE = ''generation:create''"
definition DELETE_MEMORY :: string where "DELETE_MEMORY = ''memory:delete''"
definition PROMOTE_LEARNING :: string where "PROMOTE_LEARNING = ''learning:promote''"
definition WRITE_MEMORY :: string where "WRITE_MEMORY = ''memory:write''"
definition PUBLISH_SKILL :: string where "PUBLISH_SKILL = ''skill:publish''"
definition MANAGE_CREDENTIALS :: string where "MANAGE_CREDENTIALS = ''credential:manage''"

lemmas permission_defs = READ_CATALOGUE_def GENERATE_def DELETE_MEMORY_def PROMOTE_LEARNING_def
  WRITE_MEMORY_def PUBLISH_SKILL_def MANAGE_CREDENTIALS_def

definition ROLE_PERMISSIONS :: "(string, string list) dict" where
  "ROLE_PERMISSIONS =
     [(''reader'', [READ_CATALOGUE]),
      (''generator'', [READ_CATALOGUE, GENERATE]),
      (''maintainer'', [READ_CATALOGUE, GENERATE, WRITE_MEMORY, PROMOTE_LEARNING]),
      (''admin'', [READ_CATALOGUE, GENERATE, DELETE_MEMORY, PROMOTE_LEARNING, WRITE_MEMORY,
         PUBLISH_SKILL, MANAGE_CREDENTIALS])]"

definition role_permissions :: "string \<Rightarrow> string list" where
  "role_permissions role = dict_get_or ROLE_PERMISSIONS role []"

definition permissions_for_roles :: "string list \<Rightarrow> string list" where
  "permissions_for_roles roles = sorted_set (concat (map role_permissions roles))"

definition has_permission :: "string list \<Rightarrow> string \<Rightarrow> bool" where
  "has_permission roles p = (p \<in> set (permissions_for_roles roles))"

section \<open>provider.py\<close>

record auth_token_config =
  at_tenant_id :: string
  at_actor_id :: string
  at_roles :: "string list"

record tenant_context =
  cx_tenant_id :: string
  cx_actor_id :: string
  cx_roles :: "string list"
  cx_permissions :: "string list"

type_synonym token_map = "(string, auth_token_config) dict"

definition authenticate :: "token_map \<Rightarrow> string \<Rightarrow> tenant_context result" where
  "authenticate tm token =
     (case dict_get tm token of
        None \<Rightarrow> Inl (AuthError ''Invalid bearer token.'')
      | Some c \<Rightarrow> Inr \<lparr>cx_tenant_id = at_tenant_id c, cx_actor_id = at_actor_id c,
                     cx_roles = at_roles c, cx_permissions = permissions_for_roles (at_roles c)\<rparr>)"

definition require_permission :: "tenant_context \<Rightarrow> string \<Rightarrow> unit result" where
  "require_permission cx p =
     (if p \<notin> set (cx_permissions cx)
      then Inl (AuthError (''Missing permission: '' @ p @ ''.'')) else Inr ())"

section \<open>Request dependencies\<close>

text \<open>\<open>authorization.split(" ", 1)[1].strip()\<close>\<close>

definition bearer_token :: "string \<Rightarrow> string" where
  "bearer_token h = strip (tl (dropWhile (\<lambda>c. c \<noteq> CHR '' '') h))"

definition get_tenant_context :: "token_map \<Rightarrow> string option \<Rightarrow> tenant_context result" where
  "get_tenant_context tm authorization =
     (case authorization of
        None \<Rightarrow> Inl (HTTPException 401 ''Missing bearer token.'')
      | Some h \<Rightarrow>
          if h = [] \<or> \<not> prefix ''bearer '' (lower h)
          then Inl (HTTPException 401 ''Missing bearer token.'')
          else (case authenticate tm (bearer_token h) of
                  Inl (AuthError m) \<Rightarrow> Inl (HTTPException 401 m)
                | r \<Rightarrow> r))"

text \<open>The pool and the repositories exist only when a database is configured.\<close>

definition require_repo :: "'r option \<Rightarrow> 'r result" where
  "require_repo repo =
     (case repo of None \<Rightarrow> Inl (HTTPException 503 ''Database not available.'') | Some r \<Rightarrow> Inr r)"

text \<open>The guard every protected route starts with.\<close>

definition require_role_permission :: "tenant_context \<Rightarrow> string \<Rightarrow> unit result" where
  "require_role_permission cx p =
     (if has_permission (cx_roles cx) p then Inr ()
      else Inl (HTTPException 403 (''Permission '' @ [CHR 0x27] @ p @ [CHR 0x27] @ '' required.'')))"

section \<open>Lemmas\<close>

lemma permissions_for_roles_iff:
  "p \<in> set (permissions_for_roles roles) \<longleftrightarrow> (\<exists>r \<in> set roles. p \<in> set (role_permissions r))"
  by (auto simp: permissions_for_roles_def sorted_set_def)

lemma has_permission_iff:
  "has_permission roles p \<longleftrightarrow> (\<exists>r \<in> set roles. p \<in> set (role_permissions r))"
  by (simp add: has_permission_def permissions_for_roles_iff)

lemma permissions_sorted_distinct:
  "sorted (permissions_for_roles roles) \<and> distinct (permissions_for_roles roles)"
  by (simp add: permissions_for_roles_def sorted_set_def sorted_remdups)

lemma role_permissions_cases:
  "role_permissions r =
     (if r = ''reader'' then [READ_CATALOGUE]
      else if r = ''generator'' then [READ_CATALOGUE, GENERATE]
      else if r = ''maintainer'' then [READ_CATALOGUE, GENERATE, WRITE_MEMORY, PROMOTE_LEARNING]
      else if r = ''admin'' then [READ_CATALOGUE, GENERATE, DELETE_MEMORY, PROMOTE_LEARNING,
         WRITE_MEMORY, PUBLISH_SKILL, MANAGE_CREDENTIALS]
      else [])"
  by (simp add: role_permissions_def ROLE_PERMISSIONS_def dict_get_or_def)

lemma role_grants:
  "DELETE_MEMORY \<in> set (role_permissions r) \<longleftrightarrow> r = ''admin''"
  "PUBLISH_SKILL \<in> set (role_permissions r) \<longleftrightarrow> r = ''admin''"
  "MANAGE_CREDENTIALS \<in> set (role_permissions r) \<longleftrightarrow> r = ''admin''"
  "WRITE_MEMORY \<in> set (role_permissions r) \<longleftrightarrow> r = ''admin'' \<or> r = ''maintainer''"
  "PROMOTE_LEARNING \<in> set (role_permissions r) \<longleftrightarrow> r = ''admin'' \<or> r = ''maintainer''"
  "GENERATE \<in> set (role_permissions r) \<longleftrightarrow> r = ''admin'' \<or> r = ''maintainer'' \<or> r = ''generator''"
  by (simp_all add: role_permissions_cases permission_defs)

lemma role_ladder:
  "set (role_permissions ''reader'') \<subseteq> set (role_permissions ''generator'')"
  "set (role_permissions ''generator'') \<subseteq> set (role_permissions ''maintainer'')"
  "set (role_permissions ''maintainer'') \<subseteq> set (role_permissions ''admin'')"
  by (simp_all add: role_permissions_cases)

lemma some_role: "(\<exists>r \<in> set roles. r = a \<or> r = b) \<longleftrightarrow> a \<in> set roles \<or> b \<in> set roles"
  by blast

lemma get_tenant_context_error:
  "get_tenant_context tm h = Inl e \<Longrightarrow> \<exists>m. e = HTTPException 401 m"
  by (auto simp: get_tenant_context_def authenticate_def split: option.splits if_splits)

lemma get_tenant_context_Inr:
  assumes "get_tenant_context tm h = Inr cx"
  shows "\<exists>s c. h = Some s \<and> prefix ''bearer '' (lower s) \<and> dict_get tm (bearer_token s) = Some c \<and>
     cx = \<lparr>cx_tenant_id = at_tenant_id c, cx_actor_id = at_actor_id c, cx_roles = at_roles c,
           cx_permissions = permissions_for_roles (at_roles c)\<rparr>"
  using assms
  by (auto simp: get_tenant_context_def authenticate_def split: option.splits if_splits)

section \<open>Properties\<close>


text \<open>Only administrators may delete memories, publish skills or manage credentials; writing
  memories and promoting learned objects takes a maintainer or an administrator; and the role ladder
  reader, generator, maintainer, admin is monotone.\<close>

theorem privileged_roles:
  "(has_permission roles DELETE_MEMORY \<longleftrightarrow> ''admin'' \<in> set roles) \<and>
   (has_permission roles PUBLISH_SKILL \<longleftrightarrow> ''admin'' \<in> set roles) \<and>
   (has_permission roles MANAGE_CREDENTIALS \<longleftrightarrow> ''admin'' \<in> set roles) \<and>
   (has_permission roles WRITE_MEMORY \<longleftrightarrow> ''admin'' \<in> set roles \<or> ''maintainer'' \<in> set roles) \<and>
   (has_permission roles PROMOTE_LEARNING \<longleftrightarrow> ''admin'' \<in> set roles \<or> ''maintainer'' \<in> set roles) \<and>
   set (role_permissions ''reader'') \<subseteq> set (role_permissions ''generator'') \<and>
   set (role_permissions ''generator'') \<subseteq> set (role_permissions ''maintainer'') \<and>
   set (role_permissions ''maintainer'') \<subseteq> set (role_permissions ''admin'')"
  by (simp add: has_permission_iff role_grants role_ladder some_role)

end
