(* ===== verification/Skills.thy ===== *)
theory Skills
  imports Contracts Auth
begin

text \<open>
  \<open>totalrecall/skills/registry.py\<close>, \<open>api/routes/skills.py\<close> and
  \<open>storage/skill_governance_repo.py\<close>: the file-backed registry with its governance overrides, the
  promotion and deprecation routes, and the table that keeps the overrides across restarts. The
  directory is the list of its \<open>*.json\<close> files with their contents.
\<close>

section \<open>Validation of a definition\<close>

definition framework_of :: "string \<Rightarrow> framework option" where
  "framework_of s = find (\<lambda>x. framework_value x = s) [PLAYWRIGHT, PYTEST, JUNIT, TESTNG]"

definition pattern_of :: "string \<Rightarrow> automation_pattern option" where
  "pattern_of s = find (\<lambda>x. pattern_value x = s) [POM]"

definition locator_of :: "string \<Rightarrow> locator_strategy option" where
  "locator_of s = find (\<lambda>x. locator_value x = s) [PAGE_FILE, CENTRAL_MODULE, EXTERNAL_STORE]"

fun validator_type_value :: "skill_validator_type \<Rightarrow> string" where
  "validator_type_value STRUCTURE = ''structure''"
| "validator_type_value SYNTAX = ''syntax''"
| "validator_type_value VT_POLICY = ''policy''"
| "validator_type_value DRY_RUN = ''dry_run''"

definition validator_type_of :: "string \<Rightarrow> skill_validator_type option" where
  "validator_type_of s = find (\<lambda>x. validator_type_value x = s) [STRUCTURE, SYNTAX, VT_POLICY, DRY_RUN]"

text \<open>Fields of a JSON object, as pydantic validates them; the error names the field.\<close>

definition invalid :: "string \<Rightarrow> 'a result" where
  "invalid field = Inl (ValidationError field)"

definition as_str :: "string \<Rightarrow> json \<Rightarrow> string result" where
  "as_str field j = (case j of JStr s \<Rightarrow> Inr (trim s) | _ \<Rightarrow> invalid field)"

definition as_str1 :: "string \<Rightarrow> json \<Rightarrow> string result" where
  "as_str1 field j = (case j of JStr s \<Rightarrow> validate_str1 field s | _ \<Rightarrow> invalid field)"

definition as_enum :: "string \<Rightarrow> (string \<Rightarrow> 'e option) \<Rightarrow> json \<Rightarrow> 'e result" where
  "as_enum field of_value j =
     (case j of JStr s \<Rightarrow> (case of_value s of Some e \<Rightarrow> Inr e | None \<Rightarrow> invalid field) | _ \<Rightarrow> invalid field)"

definition as_list :: "string \<Rightarrow> (json \<Rightarrow> 'a result) \<Rightarrow> json \<Rightarrow> 'a list result" where
  "as_list field f j = (case j of JList xs \<Rightarrow> rmap f xs | _ \<Rightarrow> invalid field)"

definition as_opt :: "(json \<Rightarrow> 'a result) \<Rightarrow> json \<Rightarrow> 'a option result" where
  "as_opt f j = (case j of JNull \<Rightarrow> Inr None | _ \<Rightarrow> rbind (f j) (\<lambda>x. Inr (Some x)))"

definition required :: "(string, json) dict \<Rightarrow> string \<Rightarrow> (json \<Rightarrow> 'a result) \<Rightarrow> 'a result" where
  "required d k f = (case dict_get d k of None \<Rightarrow> invalid k | Some j \<Rightarrow> f j)"

definition optional :: "(string, json) dict \<Rightarrow> string \<Rightarrow> 'a \<Rightarrow> (json \<Rightarrow> 'a result) \<Rightarrow> 'a result" where
  "optional d k dflt f = (case dict_get d k of None \<Rightarrow> Inr dflt | Some j \<Rightarrow> f j)"

definition no_extra :: "string list \<Rightarrow> (string, json) dict \<Rightarrow> unit result" where
  "no_extra ks d = (if \<exists>k \<in> set (dict_keys d). k \<notin> set ks then invalid ''extra'' else Inr ())"

definition output_file_of_json :: "json \<Rightarrow> skill_output_file result" where
  "output_file_of_json j =
     (case j of
        JDict d \<Rightarrow>
          rbind (no_extra [''artifact_type'', ''path_template'', ''template_ref''] d) (\<lambda>_.
          rbind (required d ''artifact_type'' (as_enum ''artifact_type'' artifact_type_of)) (\<lambda>ty.
          rbind (required d ''path_template'' (as_str1 ''path_template'')) (\<lambda>p.
          rbind (required d ''template_ref'' (as_str1 ''template_ref'')) (\<lambda>r.
            Inr \<lparr>so_artifact_type = ty, so_path_template = p, so_template_ref = r\<rparr>))))
      | _ \<Rightarrow> invalid ''output_files'')"

definition validator_of_json :: "json \<Rightarrow> skill_validator result" where
  "validator_of_json j =
     (case j of
        JDict d \<Rightarrow>
          rbind (no_extra [''type'', ''command'', ''rules''] d) (\<lambda>_.
          rbind (required d ''type'' (as_enum ''type'' validator_type_of)) (\<lambda>ty.
          rbind (optional d ''command'' None (as_opt (as_str ''command''))) (\<lambda>c.
          rbind (optional d ''rules'' [] (as_list ''rules'' (as_str ''rules''))) (\<lambda>rs.
            Inr \<lparr>sv_type = ty, sv_command = c, sv_rules = rs\<rparr>))))
      | _ \<Rightarrow> invalid ''validators'')"

definition skill_of_json :: "json \<Rightarrow> skill_definition result" where
  "skill_of_json j =
     (case j of
        JDict d \<Rightarrow>
          rbind (no_extra [''skill_id'', ''version'', ''language'', ''framework'', ''pattern'',
             ''supported_locator_strategies'', ''output_files'', ''generation_rules'', ''validators'',
             ''status'', ''owner'', ''description''] d) (\<lambda>_.
          rbind (required d ''skill_id'' (as_str1 ''skill_id'')) (\<lambda>sid.
          rbind (required d ''version'' (as_str1 ''version'')) (\<lambda>ver.
          rbind (required d ''language'' (as_enum ''language'' language_of)) (\<lambda>lang.
          rbind (required d ''framework'' (as_enum ''framework'' framework_of)) (\<lambda>fw.
          rbind (optional d ''pattern'' POM (as_enum ''pattern'' pattern_of)) (\<lambda>pat.
          rbind (optional d ''supported_locator_strategies'' [PAGE_FILE]
             (as_list ''supported_locator_strategies'' (as_enum ''supported_locator_strategies'' locator_of))) (\<lambda>locs.
          rbind (required d ''output_files'' (as_list ''output_files'' output_file_of_json)) (\<lambda>outs.
          rbind (if outs = [] then invalid ''output_files'' else Inr ()) (\<lambda>_.
          rbind (optional d ''generation_rules'' [] (as_list ''generation_rules'' (as_str ''generation_rules''))) (\<lambda>rules.
          rbind (optional d ''validators'' [] (as_list ''validators'' validator_of_json)) (\<lambda>vals.
          rbind (optional d ''status'' S_DRAFT (as_enum ''status'' skill_status_of)) (\<lambda>st.
          rbind (optional d ''owner'' None (as_opt (as_str ''owner''))) (\<lambda>owner.
          rbind (optional d ''description'' None (as_opt (as_str ''description''))) (\<lambda>descr.
            Inr \<lparr>sk_skill_id = sid, sk_version = ver, sk_language = lang, sk_framework = fw, sk_pattern = pat,
                 sk_supported_locator_strategies = locs, sk_output_files = outs, sk_generation_rules = rules,
                 sk_validators = vals, sk_status = st, sk_owner = owner, sk_description = descr\<rparr>))))))))))))))
      | _ \<Rightarrow> invalid ''SkillDefinition'')"

section \<open>SkillRegistry\<close>

record skill_registry =
  sr_skills :: "(string, skill_definition) dict"
  sr_governance_overrides :: "(string, skill_status) dict"

definition new_registry :: skill_registry where
  "new_registry = \<lparr>sr_skills = [], sr_governance_overrides = []\<rparr>"

definition load_error :: "string \<Rightarrow> string \<Rightarrow> py_exn" where
  "load_error name msg = SkillLoadError (''Failed to load skill from '' @ name @ '': '' @ msg)"

definition load_skill :: "string \<Rightarrow> string \<Rightarrow> skill_definition result" where
  "load_skill name content =
     (case loads content of
        Inl e \<Rightarrow> Inl (load_error name (json_error_str content e))
      | Inr raw \<Rightarrow> (case skill_of_json raw of Inl e \<Rightarrow> Inl (load_error name (exn_str e)) | Inr s \<Rightarrow> Inr s))"

fun load_files ::
  "(string \<times> string) list \<Rightarrow> (string, skill_definition) dict \<Rightarrow> (string, skill_definition) dict result" where
  "load_files [] loaded = Inr loaded"
| "load_files ((name, content) # fs) loaded =
     (case load_skill name content of
        Inl e \<Rightarrow> Inl e
      | Inr s \<Rightarrow>
          if dict_get loaded (sk_skill_id s) \<noteq> None
          then Inl (SkillLoadError (''Duplicate skill_id '' @ [CHR 0x27] @ sk_skill_id s @ [CHR 0x27] @ '' found in '' @ name))
          else load_files fs (dict_set (sk_skill_id s) s loaded))"

text \<open>\<open>load()\<close>: \<open>None\<close> is a directory that does not exist; files are read in the order of their names.\<close>

definition registry_load ::
  "string \<Rightarrow> (string \<times> string) list option \<Rightarrow> skill_registry \<Rightarrow> unit result \<times> skill_registry" where
  "registry_load dir files r =
     (case files of
        None \<Rightarrow> (Inl (SkillLoadError (''Skills directory does not exist: '' @ dir)), r)
      | Some fs \<Rightarrow>
          (case load_files (sort_key fst fs) [] of
             Inl e \<Rightarrow> (Inl e, r)
           | Inr loaded \<Rightarrow> (Inr (), r\<lparr>sr_skills := loaded\<rparr>)))"

definition registry_get :: "string \<Rightarrow> skill_registry \<Rightarrow> skill_definition result" where
  "registry_get sid r =
     (case dict_get (sr_skills r) sid of
        None \<Rightarrow> Inl (SkillNotFoundError (''Skill '' @ [CHR 0x27] @ sid @ [CHR 0x27] @ '' not found in registry''))
      | Some s \<Rightarrow> Inr s)"

definition apply_governance_overrides :: "(string, skill_status) dict \<Rightarrow> skill_registry \<Rightarrow> skill_registry" where
  "apply_governance_overrides ov r = r\<lparr>sr_governance_overrides := ov\<rparr>"

definition effective_status :: "skill_registry \<Rightarrow> skill_definition \<Rightarrow> skill_status" where
  "effective_status r s = dict_get_or (sr_governance_overrides r) (sk_skill_id s) (sk_status s)"

definition all_skills :: "skill_registry \<Rightarrow> skill_definition list" where
  "all_skills r = map snd (sr_skills r)"

definition select :: "language \<Rightarrow> framework \<Rightarrow> skill_registry \<Rightarrow> skill_definition option" where
  "select lang fw r =
     find (\<lambda>s. sk_language s = lang \<and> sk_framework s = fw \<and> effective_status r s = S_ACTIVE) (all_skills r)"

definition all_active :: "skill_registry \<Rightarrow> skill_definition list" where
  "all_active r = filter (\<lambda>s. effective_status r s = S_ACTIVE) (all_skills r)"

section \<open>The governance table\<close>

record governance_row =
  gv0_skill_id :: string
  gv0_version :: string
  gv0_status :: string
  gv0_promoted_by :: string
  gv0_promoted_at :: "rat option"
  gv0_notes :: "string option"
  gv0_updated_at :: rat

definition governed_again :: "rat \<Rightarrow> string \<Rightarrow> string \<Rightarrow> string option \<Rightarrow> governance_row \<Rightarrow> governance_row" where
  "governed_again now st actor notes x =
     x\<lparr>gv0_status := st, gv0_promoted_by := actor,
       gv0_promoted_at := (if st = ''active'' then Some now else gv0_promoted_at x),
       gv0_notes := notes, gv0_updated_at := now\<rparr>"

definition governance_upsert ::
  "rat \<Rightarrow> string \<Rightarrow> string \<Rightarrow> string \<Rightarrow> string \<Rightarrow> string option \<Rightarrow> governance_row list \<Rightarrow> governance_row list" where
  "governance_upsert now sid ver st actor notes rows =
     (let same = (\<lambda>x. gv0_skill_id x = sid \<and> gv0_version x = ver)
      in if \<exists>x \<in> set rows. same x
         then map (\<lambda>x. if same x then governed_again now st actor notes x else x) rows
         else rows @ [\<lparr>gv0_skill_id = sid, gv0_version = ver, gv0_status = st, gv0_promoted_by = actor,
                 gv0_promoted_at = (if st = ''active'' then Some now else None), gv0_notes = notes,
                 gv0_updated_at = now\<rparr>])"

definition governance_get :: "string \<Rightarrow> string \<Rightarrow> governance_row list \<Rightarrow> governance_row option" where
  "governance_get sid ver rows = find (\<lambda>x. gv0_skill_id x = sid \<and> gv0_version x = ver) rows"

text \<open>The most recently updated row of a skill wins.\<close>

definition load_overrides :: "governance_row list \<Rightarrow> (string, string) dict" where
  "load_overrides rows =
     fold (\<lambda>x ov. if dict_get ov (gv0_skill_id x) = None then dict_set (gv0_skill_id x) (gv0_status x) ov else ov)
       (sort_key (\<lambda>x. - gv0_updated_at x) rows) []"

text \<open>At startup, rows with an unknown status are left out.\<close>

definition startup_overrides :: "governance_row list \<Rightarrow> (string, skill_status) dict" where
  "startup_overrides rows =
     List.map_filter (\<lambda>(sid, s). map_option (\<lambda>st. (sid, st)) (skill_status_of s)) (load_overrides rows)"

section \<open>api/routes/skills.py\<close>

record skill_summary =
  sy_skill_id :: string
  sy_version :: string
  sy_language :: string
  sy_framework :: string
  sy_status :: string

definition list_skills :: "skill_registry \<Rightarrow> skill_summary list" where
  "list_skills r =
     map (\<lambda>s. \<lparr>sy_skill_id = sk_skill_id s, sy_version = sk_version s,
        sy_language = language_value (sk_language s), sy_framework = framework_value (sk_framework s),
        sy_status = skill_status_value (effective_status r s)\<rparr>) (all_skills r)"

record governance_response =
  ge_skill_id :: string
  ge_version :: string
  ge_status :: string
  ge_promoted_by :: string

record governance_state =
  go0_registry :: skill_registry
  go0_rows :: "governance_row list option"

definition govern ::
  "skill_status \<Rightarrow> rat \<Rightarrow> tenant_context \<Rightarrow> string \<Rightarrow> string option \<Rightarrow> governance_state
   \<Rightarrow> governance_response result \<times> governance_state" where
  "govern st now cx sid notes s =
     (if \<not> has_permission (cx_roles cx) PUBLISH_SKILL
      then (Inl (HTTPException 403 ''Insufficient permissions: skill:publish required.''), s)
      else (case registry_get sid (go0_registry s) of
          Inl _ \<Rightarrow> (Inl (HTTPException 404 (''Skill '' @ [CHR 0x27] @ sid @ [CHR 0x27] @ '' not found.'')), s)
        | Inr skill \<Rightarrow>
            (let r = go0_registry s;
                 r1 = apply_governance_overrides (dict_set sid st (sr_governance_overrides r)) r;
                 rows1 = map_option (governance_upsert now sid (sk_version skill) (skill_status_value st)
                           (cx_actor_id cx) notes) (go0_rows s)
             in (Inr \<lparr>ge_skill_id = sid, ge_version = sk_version skill, ge_status = skill_status_value st,
                    ge_promoted_by = cx_actor_id cx\<rparr>,
                 s\<lparr>go0_registry := r1, go0_rows := rows1\<rparr>))))"

definition promote_skill ::
  "rat \<Rightarrow> tenant_context \<Rightarrow> string \<Rightarrow> string option \<Rightarrow> governance_state \<Rightarrow> governance_response result \<times> governance_state" where
  "promote_skill = govern S_ACTIVE"

definition deprecate_skill ::
  "rat \<Rightarrow> tenant_context \<Rightarrow> string \<Rightarrow> string option \<Rightarrow> governance_state \<Rightarrow> governance_response result \<times> governance_state" where
  "deprecate_skill = govern S_DEPRECATED"

section \<open>The registry\<close>

definition registry_ok :: "skill_registry \<Rightarrow> bool" where
  "registry_ok r = (dict_ok (sr_skills r) \<and> (\<forall>(k, s) \<in> set (sr_skills r). sk_skill_id s = k))"

lemma load_files_Inr:
  assumes "load_files fs loaded = Inr loaded'"
  shows "loaded' = loaded @ map (\<lambda>s. (sk_skill_id s, s)) (map snd (drop (length loaded) loaded')) \<and>
    length loaded' = length loaded + length fs \<and>
    (dict_ok loaded \<longrightarrow> dict_ok loaded') \<and>
    list_all2 (\<lambda>(n, c) s. load_skill n c = Inr s) fs (map snd (drop (length loaded) loaded'))"
  using assms
proof (induction fs loaded arbitrary: loaded' rule: load_files.induct)
  case (1 loaded)
  then show ?case by simp
next
  case (2 name content fs loaded)
  then obtain s where s: "load_skill name content = Inr s" and new: "dict_get loaded (sk_skill_id s) = None"
    and rest: "load_files fs (dict_set (sk_skill_id s) s loaded) = Inr loaded'"
    by (auto split: sum.splits if_splits)
  have set: "dict_set (sk_skill_id s) s loaded = loaded @ [(sk_skill_id s, s)]"
    using new by (induction loaded) (auto split: if_splits)
  note IH = "2.IH" [OF s _ rest]
  have ok: "dict_ok loaded \<Longrightarrow> dict_ok (loaded @ [(sk_skill_id s, s)])"
    unfolding set [symmetric] by (rule dict_ok_set)
  have len: "length loaded < length loaded'" using IH new set by simp
  then have drop: "drop (length loaded) loaded' = loaded' ! length loaded # drop (Suc (length loaded)) loaded'"
    by (rule Cons_nth_drop_Suc [symmetric])
  have "loaded' ! length loaded = (sk_skill_id s, s)"
    using IH new set by (metis (no_types, lifting) append.assoc append_Cons nth_append_length)
  then show ?case
    using IH new s ok by (auto simp: set drop)
qed

lemma registry_load_ok:
  assumes "registry_load dir files r = (Inr (), r')"
  shows "registry_ok r'"
proof -
  from assms obtain fs where l: "load_files (sort_key fst fs) [] = Inr (sr_skills r')"
    by (auto simp: registry_load_def split: option.splits sum.splits)
  have d: "dict_ok (sr_skills r')"
    and e: "sr_skills r' = map (\<lambda>s. (sk_skill_id s, s)) (map snd (sr_skills r'))"
    using load_files_Inr [OF l] by simp_all
  have "sk_skill_id (snd kv) = fst kv" if "kv \<in> set (sr_skills r')" for kv
    using that by (subst (asm) e) auto
  with d show ?thesis by (auto simp: registry_ok_def)
qed

section \<open>The governance table after a restart\<close>

definition first_of :: "('a \<Rightarrow> bool) \<Rightarrow> 'a list \<Rightarrow> 'a option" where
  "first_of P xs = (case filter P xs of [] \<Rightarrow> None | x # _ \<Rightarrow> Some x)"

lemma load_overrides_fold:
  "dict_get (fold (\<lambda>x ov. if dict_get ov (gv0_skill_id x) = None
       then dict_set (gv0_skill_id x) (gv0_status x) ov else ov) rows ov) sid =
   (case dict_get ov sid of Some v \<Rightarrow> Some v
    | None \<Rightarrow> map_option gv0_status (first_of (\<lambda>x. gv0_skill_id x = sid) rows))"
proof (induction rows arbitrary: ov)
  case Nil
  then show ?case by (simp add: first_of_def split: option.splits)
next
  case (Cons x rows)
  then show ?case by (auto simp: first_of_def dict_get_set split: option.splits)
qed

lemma load_overrides_get:
  "dict_get (load_overrides rows) sid =
     map_option gv0_status (first_of (\<lambda>x. gv0_skill_id x = sid) (sort_key (\<lambda>x. - gv0_updated_at x) rows))"
  by (simp add: load_overrides_def load_overrides_fold)

lemma load_overrides_ok: "dict_ok (load_overrides rows)"
proof -
  have "dict_ok ov \<Longrightarrow> dict_ok (fold (\<lambda>x ov. if dict_get ov (gv0_skill_id x) = None
       then dict_set (gv0_skill_id x) (gv0_status x) ov else ov) xs ov)" for xs ov
    by (induction xs arbitrary: ov) auto
  then show ?thesis unfolding load_overrides_def using dict_ok_Nil by blast
qed

lemma map_filter_get:
  "dict_ok d \<Longrightarrow> dict_get (List.map_filter (\<lambda>(k, s). map_option (\<lambda>v. (k, v)) (f s)) d) k =
     Option.bind (dict_get d k) f"
proof (induction d)
  case Nil
  then show ?case by (simp add: List.map_filter_simps)
next
  case (Cons kv d)
  obtain k' v where kv: "kv = (k', v)" by (cases kv)
  from Cons.prems have ok: "dict_ok d" and fresh: "k' \<notin> fst ` set d" by (auto simp: dict_ok_def kv)
  have "dict_get (List.map_filter (\<lambda>(k, s). map_option (\<lambda>v. (k, v)) (f s)) d) k' = None"
  proof (rule ccontr)
    assume "dict_get (List.map_filter (\<lambda>(k, s). map_option (\<lambda>v. (k, v)) (f s)) d) k' \<noteq> None"
    then obtain y where "(k', y) \<in> set (List.map_filter (\<lambda>(k, s). map_option (\<lambda>v. (k, v)) (f s)) d)"
      by (auto dest: map_of_SomeD)
    with fresh show False by (force simp: List.map_filter_def)
  qed
  with Cons.IH [OF ok] fresh show ?case
    by (auto simp: kv List.map_filter_simps map_of_eq_None_iff split: option.splits)
qed

lemma startup_overrides_get:
  "dict_get (startup_overrides rows) sid = Option.bind (dict_get (load_overrides rows) sid) skill_status_of"
  unfolding startup_overrides_def by (rule map_filter_get [OF load_overrides_ok])

lemma hd_sort_key_least:
  assumes "x \<in> set xs"
  shows "sort_key f xs \<noteq> [] \<and> hd (sort_key f xs) \<in> set xs \<and> f (hd (sort_key f xs)) \<le> f x"
proof -
  have ne: "sort_key f xs \<noteq> []" using assms by (metis empty_iff list.set(1) set_sort)
  then obtain y ys where y: "sort_key f xs = y # ys" by (cases "sort_key f xs") auto
  have "sorted (map f (y # ys))" using sorted_sort_key [of f xs] by (simp add: y)
  moreover have "x \<in> set (y # ys)" "y \<in> set xs"
    using assms y by (metis set_sort, metis list.set_intros(1) set_sort)
  ultimately show ?thesis by (auto simp: y)
qed

lemma upsert_other:
  "sid' \<noteq> sid \<Longrightarrow> filter (\<lambda>x. gv0_skill_id x = sid') (governance_upsert now sid ver st actor notes rows) =
     filter (\<lambda>x. gv0_skill_id x = sid') rows"
proof -
  assume ne: "sid' \<noteq> sid"
  have "filter (\<lambda>x. gv0_skill_id x = sid') (map (\<lambda>x. if gv0_skill_id x = sid \<and> gv0_version x = ver then g x else x) rows) =
      filter (\<lambda>x. gv0_skill_id x = sid') rows" if "\<And>x. gv0_skill_id (g x) = gv0_skill_id x" for g
    using ne by (induction rows) (auto simp: that)
  with ne show ?thesis by (simp add: governance_upsert_def governed_again_def Let_def)
qed

lemma upsert_latest:
  assumes "\<forall>x \<in> set rows. gv0_updated_at x < now"
  shows "\<exists>e \<in> set (governance_upsert now sid ver st actor notes rows). gv0_skill_id e = sid \<and> gv0_updated_at e = now"
    and "x \<in> set (governance_upsert now sid ver st actor notes rows) \<Longrightarrow> now \<le> gv0_updated_at x \<Longrightarrow> gv0_status x = st"
proof -
  show "\<exists>e \<in> set (governance_upsert now sid ver st actor notes rows). gv0_skill_id e = sid \<and> gv0_updated_at e = now"
  proof (cases "\<exists>x \<in> set rows. gv0_skill_id x = sid \<and> gv0_version x = ver")
    case True
    then obtain x where x: "x \<in> set rows" "gv0_skill_id x = sid" "gv0_version x = ver" by blast
    then have "governed_again now st actor notes x \<in> set (governance_upsert now sid ver st actor notes rows)"
      by (force simp: governance_upsert_def Let_def)
    then show ?thesis by (rule bexI [rotated]) (simp add: governed_again_def x)
  next
    case False
    then show ?thesis by (auto simp: governance_upsert_def Let_def)
  qed
  assume "x \<in> set (governance_upsert now sid ver st actor notes rows)" "now \<le> gv0_updated_at x"
  with assms show "gv0_status x = st"
    by (fastforce simp: governance_upsert_def governed_again_def Let_def split: if_splits)
qed

lemma load_overrides_upsert:
  assumes "\<forall>x \<in> set rows. gv0_updated_at x < now"
  shows "dict_get (load_overrides (governance_upsert now sid ver st actor notes rows)) sid' =
    (if sid' = sid then Some st else dict_get (load_overrides rows) sid')"
proof (cases "sid' = sid")
  case False
  then show ?thesis by (simp add: load_overrides_get first_of_def filter_sort upsert_other)
next
  case True
  let ?rows = "governance_upsert now sid ver st actor notes rows"
  let ?xs = "filter (\<lambda>x. gv0_skill_id x = sid) ?rows" and ?f = "\<lambda>x. - gv0_updated_at x"
  obtain e where e: "e \<in> set ?xs" "gv0_updated_at e = now"
    using upsert_latest(1) [OF assms] by force
  from hd_sort_key_least [OF e(1), of ?f] e(2)
  have h: "sort_key ?f ?xs \<noteq> []" "hd (sort_key ?f ?xs) \<in> set ?rows" "now \<le> gv0_updated_at (hd (sort_key ?f ?xs))"
    by auto
  have "gv0_status (hd (sort_key ?f ?xs)) = st" by (rule upsert_latest(2) [OF assms h(2,3)])
  with h(1) True show ?thesis
    by (cases "sort_key ?f ?xs") (simp_all add: load_overrides_get first_of_def filter_sort)
qed

lemma skill_status_of_value [simp]: "skill_status_of (skill_status_value st) = Some st"
  by (cases st) (simp_all add: skill_status_of_def)

section \<open>Properties\<close>

text \<open>Loading the skills is all or nothing: either every file of the directory is a valid definition,
  with distinct skill ids, and the registry holds exactly these in the order of the file names, or an
  error is reported and the registry is unchanged.\<close>

theorem registry_load_atomic:
  "(case registry_load dir files r of
      (Inl e, r') \<Rightarrow> (\<exists>m. e = SkillLoadError m) \<and> r' = r
    | (Inr _, r') \<Rightarrow> (\<exists>fs. files = Some fs \<and>
        list_all2 (\<lambda>(n, c) s. load_skill n c = Inr s) (sort_key fst fs) (all_skills r') \<and>
        distinct (map sk_skill_id (all_skills r')) \<and>
        sr_governance_overrides r' = sr_governance_overrides r))"
proof -
  have err: "\<exists>m. e = SkillLoadError m" if "load_files fs l = Inl e" for fs l e
    using that by (induction fs l rule: load_files.induct)
      (auto simp: load_skill_def load_error_def split: sum.splits if_splits)
  show ?thesis
  proof (cases "registry_load dir files r")
    case (Pair res r')
    show ?thesis
    proof (cases res)
      case (Inl e)
      with Pair have "registry_load dir files r = (Inl e, r')" by simp
      then have "(\<exists>m. e = SkillLoadError m) \<and> r' = r"
        unfolding registry_load_def using err
        by (cases files) (auto split: sum.splits)
      with Pair Inl show ?thesis by simp
    next
      case (Inr u)
      with Pair obtain fs where fs: "files = Some fs" "load_files (sort_key fst fs) [] = Inr (sr_skills r')"
        "sr_governance_overrides r' = sr_governance_overrides r"
        by (auto simp: registry_load_def split: option.splits sum.splits)
      have "registry_ok r'" using Pair Inr by (intro registry_load_ok [of dir files r]) simp
      then have "map sk_skill_id (all_skills r') = map fst (sr_skills r')" "dict_ok (sr_skills r')"
        by (auto simp: registry_ok_def all_skills_def)
      then have "distinct (map sk_skill_id (all_skills r'))" by (simp only: dict_ok_def)
      with fs load_files_Inr [OF fs(2)] Pair Inr show ?thesis
        by (simp add: all_skills_def)
    qed
  qed
qed

text \<open>Skill selection: the result is an active skill (after overrides) of the requested language and
  framework, and there is no result only when no loaded skill qualifies.\<close>

theorem select_correct:
  "(case select lang fw r of
      Some s \<Rightarrow> s \<in> set (all_active r) \<and> sk_language s = lang \<and> sk_framework s = fw
    | None \<Rightarrow> filter (\<lambda>s. sk_language s = lang \<and> sk_framework s = fw) (all_active r) = [])"
  by (auto simp: select_def all_active_def find_None_iff find_Some_iff filter_empty_conv split: option.splits)

text \<open>Promotion and deprecation take effect at once and survive a restart: the governed skill has the
  new status in the running registry, other skills keep theirs, and the overrides a fresh process
  loads from the table say the same.\<close>

theorem governance_persists:
  assumes "govern st now cx sid notes s = (Inr resp, s')"
    and "go0_rows s = Some rows" and "\<forall>x \<in> set rows. gv0_updated_at x < now"
  shows "effective_status (go0_registry s') sk =
      (if sk_skill_id sk = sid then st else effective_status (go0_registry s) sk) \<and>
    (\<exists>rows'. go0_rows s' = Some rows' \<and>
      dict_get (startup_overrides rows') sid' =
        (if sid' = sid then Some st else dict_get (startup_overrides rows) sid'))"
proof -
  have "\<exists>skill. registry_get sid (go0_registry s) = Inr skill"
    using assms(1) by (cases "registry_get sid (go0_registry s)") (auto simp: govern_def split: if_splits)
  then obtain skill where skill: "registry_get sid (go0_registry s) = Inr skill" by blast
  have s': "s' = s\<lparr>go0_registry := apply_governance_overrides
          (dict_set sid st (sr_governance_overrides (go0_registry s))) (go0_registry s),
        go0_rows := map_option (governance_upsert now sid (sk_version skill) (skill_status_value st)
          (cx_actor_id cx) notes) (go0_rows s)\<rparr>"
    using assms(1) unfolding govern_def Let_def by (simp add: skill split: if_splits)
  then show ?thesis
    using assms(2) load_overrides_upsert [OF assms(3)]
    by (auto simp: effective_status_def apply_governance_overrides_def dict_get_or_set startup_overrides_get)
qed

definition demo_skill :: skill_definition where
  "demo_skill = \<lparr>sk_skill_id = ''pw-pom'', sk_version = ''1.0.0'', sk_language = PYTHON,
     sk_framework = PLAYWRIGHT, sk_pattern = POM, sk_supported_locator_strategies = [PAGE_FILE],
     sk_output_files = [\<lparr>so_artifact_type = PAGE_OBJECT, so_path_template = ''pages/{domain}.py'',
       so_template_ref = ''page''\<rparr>],
     sk_generation_rules = [], sk_validators = [], sk_status = S_DRAFT, sk_owner = None, sk_description = None\<rparr>"

definition demo_governance :: governance_state where
  "demo_governance = \<lparr>go0_registry = \<lparr>sr_skills = [(''pw-pom'', demo_skill)], sr_governance_overrides = []\<rparr>,
     go0_rows = Some []\<rparr>"

definition demo_admin :: tenant_context where
  "demo_admin = \<lparr>cx_tenant_id = ''t'', cx_actor_id = ''ann'', cx_roles = [''admin''], cx_permissions = []\<rparr>"

lemma governance_persists_witness:
  "effective_status (go0_registry (snd (promote_skill 5 demo_admin ''pw-pom'' None demo_governance))) demo_skill = S_ACTIVE"
proof -
  have "govern S_ACTIVE 5 demo_admin ''pw-pom'' None demo_governance =
      (Inr \<lparr>ge_skill_id = ''pw-pom'', ge_version = ''1.0.0'', ge_status = ''active'', ge_promoted_by = ''ann''\<rparr>,
       snd (promote_skill 5 demo_admin ''pw-pom'' None demo_governance))"
    by code_simp
  from governance_persists [OF this, of "[]" demo_skill "''pw-pom''"]
  show ?thesis by (simp add: demo_governance_def demo_skill_def)
qed

end
