(* ===== verification/PyRegex.thy ===== *)
theory PyRegex
  imports Prelude
begin

text \<open>
  The part of Python's \<open>re\<close> module the service uses: patterns as data and a backtracking matcher
  that lists the ways to match from a position in the order the engine tries them, so the first
  one is the match \<open>re\<close> reports. The only capture kept is that of the group a caller reads.
  Bodies of repetitions consume at least one character, as in every pattern of the service.
  The relation \<open>matches\<close> is the declarative meaning, and \<open>run_iff\<close> shows that the matcher finds
  exactly the spans it allows.
\<close>

datatype re =
    Cls "char \<Rightarrow> bool"
  | Eps
  | Cat re re
  | Or re re
  | Rep nat "nat option" re
  | Grp re
  | Bound
  | Bol
  | Eol
  | Bos
  | Eos
  | NotBehind "char \<Rightarrow> bool"
  | NotAhead "char \<Rightarrow> bool"

type_synonym span = "nat \<times> nat"
type_synonym rstate = "nat \<times> span option"

section \<open>Characters\<close>

definition is_alnum :: "char \<Rightarrow> bool" where
  "is_alnum c = (let n = (of_char c :: nat) in
     (48 \<le> n \<and> n \<le> 57) \<or> (65 \<le> n \<and> n \<le> 90) \<or> (97 \<le> n \<and> n \<le> 122)
     \<or> n \<in> {170, 178, 179, 181, 185, 186, 188, 189, 190}
     \<or> (192 \<le> n \<and> n \<noteq> 215 \<and> n \<noteq> 247))"

definition is_word :: "char \<Rightarrow> bool" where
  "is_word c = (is_alnum c \<or> c = CHR ''_'')"

definition is_dec :: "char \<Rightarrow> bool" where
  "is_dec c = (let n = (of_char c :: nat) in 48 \<le> n \<and> n \<le> 57)"

definition is_upper_az :: "char \<Rightarrow> bool" where
  "is_upper_az c = (let n = (of_char c :: nat) in 65 \<le> n \<and> n \<le> 90)"

definition is_lower_az :: "char \<Rightarrow> bool" where
  "is_lower_az c = (let n = (of_char c :: nat) in 97 \<le> n \<and> n \<le> 122)"

definition is_ascii_alnum :: "char \<Rightarrow> bool" where
  "is_ascii_alnum c = (is_dec c \<or> is_upper_az c \<or> is_lower_az c)"

definition at_bound :: "string \<Rightarrow> nat \<Rightarrow> bool" where
  "at_bound s i = ((0 < i \<and> i \<le> length s \<and> is_word (s ! (i - 1))) \<noteq> (i < length s \<and> is_word (s ! i)))"

section \<open>Pattern abbreviations\<close>

definition chr :: "char \<Rightarrow> re" where
  "chr c = Cls (\<lambda>x. x = c)"

definition chr_ci :: "char \<Rightarrow> re" where
  "chr_ci c = Cls (\<lambda>x. lower_char x = lower_char c)"

definition one_of :: "string \<Rightarrow> re" where
  "one_of cs = Cls (\<lambda>x. x \<in> set cs)"

definition none_of :: "string \<Rightarrow> re" where
  "none_of cs = Cls (\<lambda>x. x \<notin> set cs)"

definition word :: "string \<Rightarrow> re" where
  "word s = foldr (\<lambda>c r. Cat (chr c) r) s Eps"

definition word_ci :: "string \<Rightarrow> re" where
  "word_ci s = foldr (\<lambda>c r. Cat (chr_ci c) r) s Eps"

definition cats :: "re list \<Rightarrow> re" where
  "cats rs = foldr Cat rs Eps"

fun alts :: "re list \<Rightarrow> re" where
  "alts [] = Cls (\<lambda>_. False)"
| "alts [r] = r"
| "alts (r # rs) = Or r (alts rs)"

definition opt :: "re \<Rightarrow> re" where
  "opt r = Rep 0 (Some 1) r"

definition star :: "re \<Rightarrow> re" where
  "star r = Rep 0 None r"

definition plus :: "re \<Rightarrow> re" where
  "plus r = Rep 1 None r"

definition times :: "nat \<Rightarrow> re \<Rightarrow> re" where
  "times n r = Rep n (Some n) r"

definition space :: re where
  "space = Cls is_space"

section \<open>The matcher\<close>

fun iter :: "nat \<Rightarrow> (rstate \<Rightarrow> rstate list) \<Rightarrow> nat \<Rightarrow> nat option \<Rightarrow> rstate \<Rightarrow> rstate list" where
  "iter 0 step lo hi st = (if lo = 0 then [st] else [])"
| "iter (Suc f) step lo hi st =
     (if hi = Some 0 then []
      else concat (map (iter f step (lo - 1) (map_option (\<lambda>h. h - 1) hi))
                     (filter (\<lambda>st'. fst st < fst st') (step st))))
     @ (if lo = 0 then [st] else [])"

fun run :: "string \<Rightarrow> re \<Rightarrow> rstate \<Rightarrow> rstate list" where
  "run s (Cls p) (i, c) = (if i < length s \<and> p (s ! i) then [(Suc i, c)] else [])"
| "run s Eps st = [st]"
| "run s (Cat a b) st = concat (map (run s b) (run s a st))"
| "run s (Or a b) st = run s a st @ run s b st"
| "run s (Rep lo hi a) st = iter (Suc (length s)) (run s a) lo hi st"
| "run s (Grp a) (i, c) = map (\<lambda>(j, _). (j, Some (i, j))) (run s a (i, c))"
| "run s Bound (i, c) = (if at_bound s i then [(i, c)] else [])"
| "run s Bol (i, c) = (if i = 0 \<or> (i \<le> length s \<and> s ! (i - 1) = CHR 0x0A) then [(i, c)] else [])"
| "run s Eol (i, c) = (if i = length s \<or> (i < length s \<and> s ! i = CHR 0x0A) then [(i, c)] else [])"
| "run s Bos (i, c) = (if i = 0 then [(i, c)] else [])"
| "run s Eos (i, c) =
     (if i = length s \<or> (Suc i = length s \<and> s ! i = CHR 0x0A) then [(i, c)] else [])"
| "run s (NotBehind p) (i, c) = (if 0 < i \<and> i \<le> length s \<and> p (s ! (i - 1)) then [] else [(i, c)])"
| "run s (NotAhead p) (i, c) = (if i < length s \<and> p (s ! i) then [] else [(i, c)])"

text \<open>\<open>re.match\<close> at a position: the end of the first way to match and the captured span.\<close>

definition match_at :: "string \<Rightarrow> re \<Rightarrow> nat \<Rightarrow> rstate option" where
  "match_at s r i = (case run s r (i, None) of [] \<Rightarrow> None | st # _ \<Rightarrow> Some st)"

text \<open>The first match at or after a position: start, end, captured span.\<close>

fun search_in :: "string \<Rightarrow> re \<Rightarrow> nat list \<Rightarrow> (nat \<times> rstate) option" where
  "search_in s r [] = None"
| "search_in s r (i # is) =
     (case match_at s r i of Some st \<Rightarrow> Some (i, st) | None \<Rightarrow> search_in s r is)"

definition search_from :: "string \<Rightarrow> re \<Rightarrow> nat \<Rightarrow> (nat \<times> rstate) option" where
  "search_from s r i = search_in s r [i..<Suc (length s)]"

definition search :: "string \<Rightarrow> re \<Rightarrow> bool" where
  "search s r = (search_from s r 0 \<noteq> None)"

definition slice :: "string \<Rightarrow> nat \<Rightarrow> nat \<Rightarrow> string" where
  "slice s i j = take (j - i) (drop i s)"

text \<open>\<open>re.finditer\<close>: the next search starts at the end of a match, one further after an empty one.\<close>

fun find_all :: "nat \<Rightarrow> string \<Rightarrow> re \<Rightarrow> nat \<Rightarrow> (nat \<times> rstate) list" where
  "find_all 0 s r p = []"
| "find_all (Suc f) s r p =
     (case search_from s r p of
        None \<Rightarrow> []
      | Some (i, j, c) \<Rightarrow> (i, j, c) # find_all f s r (if i < j then j else Suc j))"

definition finditer :: "string \<Rightarrow> re \<Rightarrow> (nat \<times> rstate) list" where
  "finditer s r = find_all (Suc (length s)) s r 0"

text \<open>\<open>m.group(1)\<close> of a match.\<close>

definition group1 :: "string \<Rightarrow> nat \<times> rstate \<Rightarrow> string" where
  "group1 s m = (case m of (_, _, Some (i, j)) \<Rightarrow> slice s i j | _ \<Rightarrow> [])"

definition findall1 :: "string \<Rightarrow> re \<Rightarrow> string list" where
  "findall1 s r = map (group1 s) (finditer s r)"

text \<open>\<open>pattern.sub(rep, s)\<close>.\<close>

fun replace_spans :: "string \<Rightarrow> string \<Rightarrow> nat \<Rightarrow> (nat \<times> rstate) list \<Rightarrow> string" where
  "replace_spans s rep p [] = drop p s"
| "replace_spans s rep p ((i, j, _) # ms) = slice s p i @ rep @ replace_spans s rep j ms"

definition sub :: "re \<Rightarrow> string \<Rightarrow> string \<Rightarrow> string" where
  "sub r rep s = replace_spans s rep 0 (finditer s r)"

section \<open>The matcher finds exactly the spans of the declarative relation\<close>

inductive matches :: "string \<Rightarrow> re \<Rightarrow> nat \<Rightarrow> nat \<Rightarrow> bool" for s where
  m_cls: "i < length s \<Longrightarrow> p (s ! i) \<Longrightarrow> matches s (Cls p) i (Suc i)"
| m_eps: "matches s Eps i i"
| m_cat: "matches s a i j \<Longrightarrow> matches s b j k \<Longrightarrow> matches s (Cat a b) i k"
| m_or1: "matches s a i j \<Longrightarrow> matches s (Or a b) i j"
| m_or2: "matches s b i j \<Longrightarrow> matches s (Or a b) i j"
| m_rep0: "matches s (Rep 0 hi a) i i"
| m_rep: "matches s a i j \<Longrightarrow> i < j \<Longrightarrow> hi \<noteq> Some 0 \<Longrightarrow>
     matches s (Rep (lo - 1) (map_option (\<lambda>h. h - 1) hi) a) j k \<Longrightarrow> matches s (Rep lo hi a) i k"
| m_grp: "matches s a i j \<Longrightarrow> matches s (Grp a) i j"
| m_bound: "at_bound s i \<Longrightarrow> matches s Bound i i"
| m_bol: "i = 0 \<or> (i \<le> length s \<and> s ! (i - 1) = CHR 0x0A) \<Longrightarrow> matches s Bol i i"
| m_eol: "i = length s \<or> (i < length s \<and> s ! i = CHR 0x0A) \<Longrightarrow> matches s Eol i i"
| m_bos: "matches s Bos 0 0"
| m_eos: "i = length s \<or> (Suc i = length s \<and> s ! i = CHR 0x0A) \<Longrightarrow> matches s Eos i i"
| m_behind: "\<not> (0 < i \<and> i \<le> length s \<and> p (s ! (i - 1))) \<Longrightarrow> matches s (NotBehind p) i i"
| m_ahead: "\<not> (i < length s \<and> p (s ! i)) \<Longrightarrow> matches s (NotAhead p) i i"

inductive_simps matches_simps:
  "matches s (Cls p) i j" "matches s Eps i j" "matches s (Cat a b) i j" "matches s (Or a b) i j"
  "matches s (Grp a) i j" "matches s Bound i j" "matches s Bol i j" "matches s Eol i j"
  "matches s Bos i j" "matches s Eos i j" "matches s (NotBehind p) i j" "matches s (NotAhead p) i j"

inductive_cases rep_cases: "matches s (Rep lo hi a) i k"

lemma iter_sound:
  assumes step: "\<And>i c j c'. (j, c') \<in> set (step (i, c)) \<Longrightarrow> matches s a i j"
  shows "(k, d) \<in> set (iter f step lo hi (i, c)) \<Longrightarrow> matches s (Rep lo hi a) i k"
proof (induction f arbitrary: lo hi i c)
  case 0
  then show ?case by (auto split: if_splits intro: m_rep0)
next
  case (Suc f)
  from Suc.prems consider (stop) "lo = 0" "k = i"
    | (go) j c' where "hi \<noteq> Some 0" "i < j" "(j, c') \<in> set (step (i, c))"
        "(k, d) \<in> set (iter f step (lo - 1) (map_option (\<lambda>h. h - 1) hi) (j, c'))"
    by (auto split: if_splits)
  then show ?case
  proof cases
    case stop
    then show ?thesis by (auto intro: m_rep0)
  next
    case go
    show ?thesis
      by (rule m_rep [OF step [OF go(3)] go(2,1) Suc.IH [OF go(4)]])
  qed
qed

lemma run_sound: "(j, d) \<in> set (run s r (i, c)) \<Longrightarrow> matches s r i j"
proof (induction r arbitrary: i j c d)
  case (Cat a b)
  from Cat.prems obtain k e where "(k, e) \<in> set (run s a (i, c))" "(j, d) \<in> set (run s b (k, e))"
    by auto
  with Cat.IH show ?case by (blast intro: m_cat)
next
  case (Rep lo hi a)
  show ?case
    by (rule iter_sound [where step = "run s a"])
      (use Rep in \<open>simp_all only: run.simps\<close>)
qed (auto split: if_splits intro: matches.intros)

lemma matches_mono: "matches s r i j \<Longrightarrow> i \<le> j"
  by (induction rule: matches.induct) auto

lemma matches_length: "matches s r i j \<Longrightarrow> i \<le> length s \<Longrightarrow> j \<le> length s"
  by (induction rule: matches.induct) auto

lemma iter_complete:
  assumes step: "\<And>i j c. matches s a i j \<Longrightarrow> \<exists>c'. (j, c') \<in> set (step (i, c))"
    and bnd: "\<And>i j. matches s a i j \<Longrightarrow> i < j \<Longrightarrow> j \<le> length s"
  shows "matches s (Rep lo hi a) i k \<Longrightarrow> length s - i < f \<Longrightarrow>
    \<exists>d. (k, d) \<in> set (iter f step lo hi (i, c))"
proof (induction f arbitrary: lo hi i c)
  case 0
  then show ?case by simp
next
  case (Suc f)
  from Suc.prems(1) have "(lo = 0 \<and> k = i) \<or> (\<exists>j. matches s a i j \<and> i < j \<and> hi \<noteq> Some 0 \<and>
      matches s (Rep (lo - 1) (map_option (\<lambda>h. h - 1) hi) a) j k)"
    by (cases rule: matches.cases) blast+
  then consider (stop) "lo = 0" "k = i"
    | (go) j where "matches s a i j" "i < j" "hi \<noteq> Some 0"
        "matches s (Rep (lo - 1) (map_option (\<lambda>h. h - 1) hi) a) j k"
    by blast
  then show ?case
  proof cases
    case stop
    then have "(k, c) \<in> set (iter (Suc f) step lo hi (i, c))" by simp
    then show ?thesis by blast
  next
    case go
    from step [OF go(1)] obtain c' where c': "(j, c') \<in> set (step (i, c))" by blast
    have "length s - j < f"
      using Suc.prems(2) go(2) bnd [OF go(1,2)] by linarith
    with Suc.IH [OF go(4)] obtain d
      where "(k, d) \<in> set (iter f step (lo - 1) (map_option (\<lambda>h. h - 1) hi) (j, c'))" by blast
    with c' go show ?thesis by fastforce
  qed
qed

lemma matches_bound: "matches s r i j \<Longrightarrow> i < j \<Longrightarrow> j \<le> length s"
proof (induction rule: matches.induct)
  case (m_cat a i j b k)
  then show ?case using matches_mono [OF m_cat(1)] matches_mono [OF m_cat(2)]
    by (metis le_neq_implies_less)
next
  case (m_rep a i j hi lo k)
  then show ?case using matches_mono [OF m_rep(4)] by (metis le_neq_implies_less)
qed auto

lemma run_complete: "matches s r i j \<Longrightarrow> \<exists>d. (j, d) \<in> set (run s r (i, c))"
proof (induction r arbitrary: i j c)
  case (Cat a b)
  then show ?case by (fastforce simp: matches_simps)
next
  case (Rep lo hi a)
  then show ?case
    unfolding run.simps
    by (intro iter_complete [of s a]) (auto intro: matches_bound)
next
  case (Grp a)
  then have "matches s a i j" by (simp add: matches_simps)
  from Grp.IH [OF this] obtain d where "(j, d) \<in> set (run s a (i, c))" by blast
  then show ?case by force
next
  case (Or a b)
  then show ?case by (fastforce simp: matches_simps)
qed (auto simp: matches_simps)

lemma run_iff: "(\<exists>d. (j, d) \<in> set (run s r (i, c))) \<longleftrightarrow> matches s r i j"
  using run_sound run_complete by blast

lemma match_at_None: "match_at s r i = None \<longleftrightarrow> (\<nexists>j. matches s r i j)"
proof -
  have "match_at s r i = None \<longleftrightarrow> run s r (i, None) = []"
    by (simp add: match_at_def split: list.splits)
  also have "\<dots> \<longleftrightarrow> (\<forall>j d. (j, d) \<notin> set (run s r (i, None)))"
    by (metis list.set_intros(1) list.exhaust surj_pair set_empty empty_iff)
  also have "\<dots> \<longleftrightarrow> (\<nexists>j. matches s r i j)"
    using run_iff by blast
  finally show ?thesis .
qed

lemma match_at_Some: "match_at s r i = Some (j, d) \<Longrightarrow> matches s r i j"
  by (rule run_sound [of j d s r i None]) (auto simp: match_at_def split: list.splits) 

lemma search_in_None: "search_in s r is = None \<longleftrightarrow> (\<forall>i \<in> set is. \<nexists>j. matches s r i j)"
  by (induction "is") (auto simp: match_at_None split: option.splits dest: match_at_Some)

lemma search_in_Some: "search_in s r is = Some (i, j, d) \<Longrightarrow> i \<in> set is \<and> matches s r i j"
  by (induction "is") (auto split: option.splits dest: match_at_Some)

lemma search_iff: "search s r \<longleftrightarrow> (\<exists>i j. i \<le> length s \<and> matches s r i j)"
  by (auto simp: search_def search_from_def search_in_None less_Suc_eq_le simp del: upt_Suc)

end
