(* ===== verification/Validation.thy ===== *)
theory Validation
  imports Skills PyRegex
begin

text \<open>
  \<open>totalrecall/validation/coordinator.py\<close> and \<open>worker.py\<close>: the checks on generated artifacts and the
  client of the Playwright worker. \<open>ast.parse\<close> and the worker's process are parameters. Python iterates
  a set of missing artifact types in hash order; here it is the order of the values.
\<close>

section \<open>Diagnostics\<close>

definition mk_diag :: "string \<Rightarrow> string \<Rightarrow> string option \<Rightarrow> validation_status \<Rightarrow> (string, json) dict \<Rightarrow> validation_diagnostic" where
  "mk_diag code msg path sev details =
     \<lparr>vd_code = code, vd_message = msg, vd_path = path, vd_severity = sev, vd_details = details\<rparr>"

definition tick :: "string \<Rightarrow> string" where
  "tick s = [CHR 0x27] @ s @ [CHR 0x27]"

section \<open>The worker's client\<close>

datatype process_outcome =
    CommandNotFound string
  | TimedOut
  | Exited int string string
  | RunError py_exn

datatype parse_outcome = Parsed | SyntaxErr string json json | ParseError py_exn

record 'p val_ext =
  vx_parse :: "string \<Rightarrow> parse_outcome"
  vx_run :: "string list \<Rightarrow> string \<Rightarrow> generated_artifact list \<Rightarrow> int \<Rightarrow> 'p \<Rightarrow> process_outcome \<times> 'p"

record worker_client =
  wc_command :: "string list"
  wc_timeout_seconds :: int

definition mk_worker_client :: "string list \<Rightarrow> int \<Rightarrow> worker_client result" where
  "mk_worker_client command timeout =
     (if command = [] then Inl (ValueError ''Playwright worker command must not be empty'')
      else if timeout < 1 then Inl (ValueError ''Playwright worker timeout must be >= 1 second'')
      else Inr \<lparr>wc_command = command, wc_timeout_seconds = timeout\<rparr>)"

definition worker_warning :: "string \<Rightarrow> string \<Rightarrow> (string, json) dict \<Rightarrow> validation_summary" where
  "worker_warning code msg details =
     \<lparr>vs_status = V_WARNING, vs_diagnostics = [mk_diag code msg None V_WARNING details]\<rparr>"

definition validation_status_of :: "string \<Rightarrow> validation_status option" where
  "validation_status_of s = find (\<lambda>x. validation_status_value x = s) [V_NOT_RUN, V_PASSED, V_FAILED, V_WARNING]"

definition diagnostic_of_json :: "json \<Rightarrow> validation_diagnostic result" where
  "diagnostic_of_json j =
     (case j of
        JDict d \<Rightarrow>
          rbind (no_extra [''code'', ''message'', ''path'', ''severity'', ''details''] d) (\<lambda>_.
          rbind (required d ''code'' (as_str1 ''code'')) (\<lambda>code.
          rbind (required d ''message'' (as_str1 ''message'')) (\<lambda>msg.
          rbind (optional d ''path'' None (as_opt (as_str ''path''))) (\<lambda>path.
          rbind (optional d ''severity'' V_FAILED (as_enum ''severity'' validation_status_of)) (\<lambda>sev.
          rbind (optional d ''details'' [] (\<lambda>x. case x of JDict e \<Rightarrow> Inr e | _ \<Rightarrow> invalid ''details'')) (\<lambda>details.
            Inr (mk_diag code msg path sev details)))))))
      | _ \<Rightarrow> invalid ''diagnostics'')"

definition worker_response_of_json :: "json \<Rightarrow> validation_summary result" where
  "worker_response_of_json j =
     (case j of
        JDict d \<Rightarrow>
          rbind (no_extra [''status'', ''diagnostics''] d) (\<lambda>_.
          rbind (required d ''status'' (as_enum ''status'' validation_status_of)) (\<lambda>st.
          rbind (optional d ''diagnostics'' [] (as_list ''diagnostics'' diagnostic_of_json)) (\<lambda>ds.
            Inr \<lparr>vs_status = st, vs_diagnostics = ds\<rparr>)))
      | _ \<Rightarrow> invalid ''PlaywrightWorkerResponse'')"

definition last_chars :: "nat \<Rightarrow> string \<Rightarrow> string" where
  "last_chars n s = drop (length s - n) s"

definition failure_without_diagnostics :: validation_diagnostic where
  "failure_without_diagnostics =
     mk_diag ''TYPESCRIPT_WORKER_FAILED'' ''Playwright validation worker reported failure without diagnostics'' None V_FAILED []"

definition read_worker_output :: "string \<Rightarrow> validation_summary" where
  "read_worker_output out =
     (let bad = (\<lambda>e. worker_warning ''TYPESCRIPT_WORKER_BAD_RESPONSE'' ''Playwright validation worker returned an invalid response''
            [(''error'', JStr e), (''stdout'', JStr (last_chars 2000 out))])
      in (case loads out of
            Inl e \<Rightarrow> bad (json_error_str out e)
          | Inr raw \<Rightarrow>
              (case worker_response_of_json raw of
                 Inl e \<Rightarrow> bad (exn_str e)
               | Inr s \<Rightarrow>
                   if vs_status s = V_FAILED \<and> vs_diagnostics s = []
                   then s\<lparr>vs_diagnostics := [failure_without_diagnostics]\<rparr> else s)))"

definition worker_validate ::
  "'p val_ext \<Rightarrow> worker_client \<Rightarrow> string \<Rightarrow> generated_artifact list \<Rightarrow> 'p \<Rightarrow> validation_summary result \<times> 'p" where
  "worker_validate V c rid arts r =
     (case vx_run V (wc_command c) rid arts (wc_timeout_seconds c) r of
        (out, r1) \<Rightarrow>
          ((case out of
              CommandNotFound f \<Rightarrow>
                Inr (worker_warning ''TYPESCRIPT_WORKER_UNAVAILABLE''
                  (''Playwright validation worker command was not found: '' @ f)
                  [(''command'', JList (map JStr (wc_command c)))])
            | TimedOut \<Rightarrow>
                Inr (worker_warning ''TYPESCRIPT_WORKER_TIMEOUT'' ''Playwright validation worker timed out''
                  [(''timeout_seconds'', JInt (wc_timeout_seconds c))])
            | RunError e \<Rightarrow> Inl e
            | Exited code stdout stderr \<Rightarrow>
                Inr (if code \<noteq> 0
                     then worker_warning ''TYPESCRIPT_WORKER_FAILED''
                       (''Playwright validation worker exited with status '' @ int_str code)
                       [(''stderr'', JStr (last_chars 2000 stderr)), (''stdout'', JStr (last_chars 2000 stdout))]
                     else read_worker_output stdout)), r1))"

section \<open>Structural checks\<close>

definition class_pattern :: re where
  "class_pattern = cats [Bound, word ''class'', plus space, plus (Cls is_word)]"

definition of_type :: "artifact_type \<Rightarrow> generated_artifact list \<Rightarrow> generated_artifact list" where
  "of_type ty arts = filter (\<lambda>a. ga_artifact_type a = ty) arts"

text \<open>The first artifact that breaks a rule is the only one reported.\<close>

definition first_offender ::
  "(generated_artifact \<Rightarrow> bool) \<Rightarrow> (generated_artifact \<Rightarrow> validation_diagnostic) \<Rightarrow> generated_artifact list
   \<Rightarrow> validation_diagnostic list" where
  "first_offender bad diag arts = (case find bad arts of None \<Rightarrow> [] | Some a \<Rightarrow> [diag a])"

definition lacks_constructor :: "generated_artifact \<Rightarrow> bool" where
  "lacks_constructor a = (ga_language a = TYPESCRIPT \<and> \<not> contains ''constructor'' (ga_content a))"

definition check_rule :: "string \<Rightarrow> generated_artifact list \<Rightarrow> validation_diagnostic list" where
  "check_rule rule arts =
     (if rule = ''page_object_class_required'' then
        first_offender (\<lambda>a. \<not> search (ga_content a) class_pattern)
          (\<lambda>a. mk_diag ''POM_CLASS_MISSING'' (''Page object '' @ tick (ga_path a) @ '' must define a class'')
                 (Some (ga_path a)) V_FAILED [])
          (of_type PAGE_OBJECT arts)
      else if rule = ''pytest_test_functions_required'' then
        first_offender (\<lambda>a. \<not> contains ''def test_'' (ga_content a))
          (\<lambda>a. mk_diag ''NO_TEST_FUNCTIONS''
                 (''Test spec '' @ tick (ga_path a) @ '' must define at least one test_ function'')
                 (Some (ga_path a)) V_FAILED [])
          (of_type TEST_SPEC arts)
      else if rule = ''locator_in_constructor_required'' then
        first_offender lacks_constructor
          (\<lambda>a. mk_diag ''CONSTRUCTOR_MISSING''
                 (''Playwright page object '' @ tick (ga_path a) @ '' should define a constructor with locators'')
                 (Some (ga_path a)) V_WARNING [])
          (of_type PAGE_OBJECT arts)
      else if rule = ''fixture_required'' then
        (if of_type FIXTURE arts = []
         then [mk_diag ''FIXTURE_MISSING'' ''Pytest skill requires at least one fixture artifact'' None V_WARNING []]
         else [])
      else [])"

definition structure_validators :: "skill_definition \<Rightarrow> skill_validator list" where
  "structure_validators s = filter (\<lambda>v. sv_type v = STRUCTURE) (sk_validators s)"

definition missing_types :: "generated_artifact list \<Rightarrow> skill_definition \<Rightarrow> artifact_type list" where
  "missing_types arts s =
     sorted_set (filter (\<lambda>t. t \<notin> ga_artifact_type ` set arts) (map so_artifact_type (sk_output_files s)))"

definition missing_type_diag :: "generated_artifact list \<Rightarrow> artifact_type \<Rightarrow> validation_diagnostic" where
  "missing_type_diag arts ty =
     mk_diag ''MISSING_ARTIFACT_TYPE''
       (''Expected artifact of type '' @ tick (artifact_type_value ty) @ '' but none was generated'') None V_WARNING
       [(''required_type'', JStr (artifact_type_value ty)),
        (''produced_types'', JList (map JStr (sorted_set (map (artifact_type_value \<circ> ga_artifact_type) arts))))]"

definition check_structure :: "generated_artifact list \<Rightarrow> skill_definition option \<Rightarrow> validation_diagnostic list" where
  "check_structure arts skill =
     (case skill of
        None \<Rightarrow> []
      | Some s \<Rightarrow>
          if structure_validators s = [] then []
          else map (missing_type_diag arts) (missing_types arts s)
               @ concat (map (\<lambda>v. concat (map (\<lambda>rule. check_rule rule arts) (sv_rules v))) (structure_validators s)))"

section \<open>Language checks\<close>

fun check_python_syntax ::
  "(string \<Rightarrow> parse_outcome) \<Rightarrow> generated_artifact list \<Rightarrow> validation_diagnostic list result" where
  "check_python_syntax parse [] = Inr []"
| "check_python_syntax parse (a # arts) =
     (if ga_language a \<noteq> PYTHON then check_python_syntax parse arts
      else (case parse (ga_content a) of
              Parsed \<Rightarrow> check_python_syntax parse arts
            | ParseError e \<Rightarrow> Inl e
            | SyntaxErr msg line offset \<Rightarrow>
                rbind (check_python_syntax parse arts) (\<lambda>ds. Inr
                  (mk_diag ''PYTHON_SYNTAX_ERROR'' (''Python syntax error in '' @ tick (ga_path a) @ '': '' @ msg)
                     (Some (ga_path a)) V_FAILED [(''line'', line), (''offset'', offset)] # ds))))"

text \<open>The dash of the message is U+2014 in the code.\<close>

definition check_java_syntax :: "generated_artifact list \<Rightarrow> validation_diagnostic list" where
  "check_java_syntax arts =
     map (\<lambda>a. mk_diag ''JAVA_VALIDATION_NOT_SUPPORTED''
            (''Java artifact '' @ tick (ga_path a) @ '' cannot be validated without the JVM worker. ''
             @ ''Validation deferred - artifact may still be syntactically valid.'')
            (Some (ga_path a)) V_WARNING [])
       (filter (\<lambda>a. ga_language a = JAVA) arts)"

definition typescript_of :: "generated_artifact list \<Rightarrow> generated_artifact list" where
  "typescript_of arts = filter (\<lambda>a. ga_language a = TYPESCRIPT) arts"

definition worker_applies :: "worker_client option \<Rightarrow> generated_artifact list \<Rightarrow> skill_definition option \<Rightarrow> bool" where
  "worker_applies wc arts skill =
     (wc \<noteq> None \<and> typescript_of arts \<noteq> [] \<and>
      (case skill of None \<Rightarrow> False | Some s \<Rightarrow> sk_language s = TYPESCRIPT \<and> sk_framework s = PLAYWRIGHT))"

definition check_playwright_worker ::
  "'p val_ext \<Rightarrow> worker_client option \<Rightarrow> string \<Rightarrow> generated_artifact list \<Rightarrow> skill_definition option \<Rightarrow> 'p
   \<Rightarrow> validation_diagnostic list \<times> 'p" where
  "check_playwright_worker V wc rid arts skill r =
     (if \<not> worker_applies wc arts skill then ([], r)
      else (case worker_validate V (the wc) rid (typescript_of arts) r of
              (Inl e, r1) \<Rightarrow>
                ([mk_diag ''TYPESCRIPT_WORKER_ERROR''
                    (''Playwright validation worker raised an unexpected error: '' @ exn_str e) None V_WARNING []], r1)
            | (Inr s, r1) \<Rightarrow>
                (if vs_status s = V_FAILED \<and> vs_diagnostics s = [] then [failure_without_diagnostics]
                 else vs_diagnostics s, r1)))"

section \<open>ValidationCoordinator\<close>

definition overall_status :: "validation_diagnostic list \<Rightarrow> validation_status" where
  "overall_status ds =
     (if \<exists>d \<in> set ds. vd_severity d = V_FAILED then V_FAILED
      else if \<exists>d \<in> set ds. vd_severity d = V_WARNING then V_WARNING else V_PASSED)"

definition no_artifacts_summary :: validation_summary where
  "no_artifacts_summary = \<lparr>vs_status = V_FAILED,
     vs_diagnostics = [mk_diag ''NO_ARTIFACTS'' ''Generation produced no artifacts'' None V_FAILED []]\<rparr>"

definition validate ::
  "'p val_ext \<Rightarrow> worker_client option \<Rightarrow> string \<Rightarrow> generated_artifact list \<Rightarrow> skill_definition option \<Rightarrow> 'p
   \<Rightarrow> validation_summary result \<times> 'p" where
  "validate V wc rid arts skill r =
     (if arts = [] then (Inr no_artifacts_summary, r)
      else (case check_python_syntax (vx_parse V) arts of
              Inl e \<Rightarrow> (Inl e, r)
            | Inr py \<Rightarrow>
                (case check_playwright_worker V wc rid arts skill r of
                   (ts, r1) \<Rightarrow>
                     (let ds = check_structure arts skill @ py @ check_java_syntax arts @ ts
                      in (Inr \<lparr>vs_status = overall_status ds, vs_diagnostics = ds\<rparr>, r1)))))"

section \<open>What the checks find\<close>

lemma first_offender_Nil: "first_offender bad diag arts = [] \<longleftrightarrow> (\<forall>a \<in> set arts. \<not> bad a)"
  by (auto simp: first_offender_def find_None_iff find_Some_iff split: option.splits)

text \<open>The meaning of a rule.\<close>

definition rule_holds :: "string \<Rightarrow> generated_artifact list \<Rightarrow> bool" where
  "rule_holds rule arts =
     ((rule = ''page_object_class_required'' \<longrightarrow>
         (\<forall>a \<in> set arts. ga_artifact_type a = PAGE_OBJECT \<longrightarrow> search (ga_content a) class_pattern)) \<and>
      (rule = ''pytest_test_functions_required'' \<longrightarrow>
         (\<forall>a \<in> set arts. ga_artifact_type a = TEST_SPEC \<longrightarrow> contains ''def test_'' (ga_content a))) \<and>
      (rule = ''locator_in_constructor_required'' \<longrightarrow>
         (\<forall>a \<in> set arts. ga_artifact_type a = PAGE_OBJECT \<longrightarrow> \<not> lacks_constructor a)) \<and>
      (rule = ''fixture_required'' \<longrightarrow> (\<exists>a \<in> set arts. ga_artifact_type a = FIXTURE)))"

lemma check_rule_Nil: "check_rule rule arts = [] \<longleftrightarrow> rule_holds rule arts"
proof -
  have "of_type ty arts = [] \<longleftrightarrow> \<not> (\<exists>a \<in> set arts. ga_artifact_type a = ty)" for ty
    by (auto simp: of_type_def filter_empty_conv)
  moreover have "(\<forall>a \<in> set (of_type ty arts). P a) \<longleftrightarrow> (\<forall>a \<in> set arts. ga_artifact_type a = ty \<longrightarrow> P a)" for ty P
    by (auto simp: of_type_def)
  ultimately show ?thesis
    unfolding check_rule_def rule_holds_def by (simp add: first_offender_Nil)
qed

text \<open>All diagnostics of the coordinator itself are failures or warnings.\<close>

definition serious :: "validation_diagnostic \<Rightarrow> bool" where
  "serious d = (vd_severity d = V_FAILED \<or> vd_severity d = V_WARNING)"

lemma overall_passed: "overall_status ds = V_PASSED \<longleftrightarrow> (\<forall>d \<in> set ds. \<not> serious d)"
  by (auto simp: overall_status_def serious_def)

lemma first_offender_serious: "(\<And>a. serious (diag a)) \<Longrightarrow> d \<in> set (first_offender bad diag arts) \<Longrightarrow> serious d"
  by (auto simp: first_offender_def split: option.splits)

lemma check_rule_serious: "d \<in> set (check_rule rule arts) \<Longrightarrow> serious d"
proof -
  have s: "serious (mk_diag c m p V_FAILED ds)" "serious (mk_diag c m p V_WARNING ds)" for c m p ds
    by (simp_all add: serious_def mk_diag_def)
  assume "d \<in> set (check_rule rule arts)"
  then show ?thesis
    unfolding check_rule_def by (auto split: if_splits dest: first_offender_serious [rotated] intro: s)
qed

lemma check_python_Nil:
  "check_python_syntax parse arts = Inr [] \<longleftrightarrow> (\<forall>a \<in> set arts. ga_language a = PYTHON \<longrightarrow> parse (ga_content a) = Parsed)"
  by (induction arts) (auto simp: rbind_Inr_iff split: parse_outcome.splits)

lemma check_python_serious: "check_python_syntax parse arts = Inr ds \<Longrightarrow> list_all serious ds"
  by (induction arts arbitrary: ds)
    (auto simp: rbind_Inr_iff serious_def mk_diag_def split: if_splits parse_outcome.splits)

lemma check_structure_Nil:
  "(\<forall>d \<in> set (check_structure arts skill). \<not> serious d) \<longleftrightarrow>
   (\<forall>s. skill = Some s \<and> structure_validators s \<noteq> [] \<longrightarrow>
      so_artifact_type ` set (sk_output_files s) \<subseteq> ga_artifact_type ` set arts \<and>
      (\<forall>v \<in> set (structure_validators s). \<forall>rule \<in> set (sv_rules v). rule_holds rule arts))"
proof (cases skill)
  case None
  then show ?thesis by (simp add: check_structure_def)
next
  case (Some s)
  have m: "serious (missing_type_diag arts ty)" for ty
    by (simp add: missing_type_diag_def serious_def mk_diag_def)
  have miss: "missing_types arts s = [] \<longleftrightarrow> so_artifact_type ` set (sk_output_files s) \<subseteq> ga_artifact_type ` set arts"
  proof -
    have "set (missing_types arts s) = so_artifact_type ` set (sk_output_files s) - ga_artifact_type ` set arts"
      by (auto simp: missing_types_def sorted_set_def)
    then show ?thesis by (metis Diff_eq_empty_iff set_empty)
  qed
  have a: "(\<forall>d \<in> set (map (missing_type_diag arts) (missing_types arts s)). \<not> serious d) \<longleftrightarrow> missing_types arts s = []"
    using m by (cases "missing_types arts s") auto
  have b: "(\<forall>d \<in> set (check_rule rule arts). \<not> serious d) \<longleftrightarrow> rule_holds rule arts" for rule
    using check_rule_serious by (metis check_rule_Nil equals0D hd_in_set list.set(1))
  have c: "(\<forall>d \<in> set (concat (map (\<lambda>v. concat (map (\<lambda>rule. check_rule rule arts) (sv_rules v))) vs)). \<not> serious d) \<longleftrightarrow>
      (\<forall>v \<in> set vs. \<forall>rule \<in> set (sv_rules v). \<forall>d \<in> set (check_rule rule arts). \<not> serious d)" for vs
    by auto
  show ?thesis
    using a c [of "structure_validators s"] unfolding b miss
    by (simp add: check_structure_def Some ball_Un del: set_map set_concat)
qed

section \<open>Properties\<close>

text \<open>C10: artifacts are reported as passed exactly when there are some, every Python artifact parses, none is
  Java, the skill's required artifact types are all there and its structure rules hold, and the
  diagnostics of the Playwright worker, where it applies, contain no failure or warning.\<close>

theorem passed_iff_checked:
  "(\<exists>ds r'. validate V wc rid arts skill r = (Inr \<lparr>vs_status = V_PASSED, vs_diagnostics = ds\<rparr>, r')) \<longleftrightarrow>
   arts \<noteq> [] \<and>
   (\<forall>a \<in> set arts. (ga_language a = PYTHON \<longrightarrow> vx_parse V (ga_content a) = Parsed) \<and> ga_language a \<noteq> JAVA) \<and>
   (\<forall>s. skill = Some s \<and> structure_validators s \<noteq> [] \<longrightarrow>
      so_artifact_type ` set (sk_output_files s) \<subseteq> ga_artifact_type ` set arts \<and>
      (\<forall>v \<in> set (structure_validators s). \<forall>rule \<in> set (sv_rules v). rule_holds rule arts)) \<and>
   (\<forall>d \<in> set (fst (check_playwright_worker V wc rid arts skill r)). \<not> serious d)"
proof (cases "arts = []")
  case True
  then show ?thesis by (simp add: validate_def no_artifacts_summary_def)
next
  case ne: False
  obtain ts r1 where w: "check_playwright_worker V wc rid arts skill r = (ts, r1)"
    by (cases "check_playwright_worker V wc rid arts skill r")
  have j: "(\<forall>d \<in> set (check_java_syntax arts). \<not> serious d) \<longleftrightarrow> (\<forall>a \<in> set arts. ga_language a \<noteq> JAVA)"
    by (auto simp: check_java_syntax_def serious_def mk_diag_def)
  show ?thesis
  proof (cases "check_python_syntax (vx_parse V) arts")
    case (Inl e)
    then have "\<not> (\<forall>a \<in> set arts. ga_language a = PYTHON \<longrightarrow> vx_parse V (ga_content a) = Parsed)"
      using check_python_Nil [of "vx_parse V" arts] by auto
    with Inl ne show ?thesis by (auto simp: validate_def)
  next
    case (Inr py)
    have p: "(\<forall>d \<in> set py. \<not> serious d) \<longleftrightarrow> (\<forall>a \<in> set arts. ga_language a = PYTHON \<longrightarrow> vx_parse V (ga_content a) = Parsed)"
      using check_python_Nil [of "vx_parse V" arts] check_python_serious [OF Inr] Inr
      by (cases py) auto
    let ?ds = "check_structure arts skill @ py @ check_java_syntax arts @ ts"
    have "(\<exists>ds r'. validate V wc rid arts skill r = (Inr \<lparr>vs_status = V_PASSED, vs_diagnostics = ds\<rparr>, r')) \<longleftrightarrow>
        overall_status ?ds = V_PASSED"
      using ne Inr w by (simp add: validate_def Let_def)
    also have "\<dots> \<longleftrightarrow> (\<forall>d \<in> set (check_structure arts skill). \<not> serious d) \<and> (\<forall>d \<in> set py. \<not> serious d) \<and>
        (\<forall>d \<in> set (check_java_syntax arts). \<not> serious d) \<and> (\<forall>d \<in> set ts. \<not> serious d)"
      by (simp add: overall_passed ball_Un)
    finally show ?thesis
      unfolding check_structure_Nil p j using ne w by auto
  qed
qed

text \<open>Trouble with the worker process never fails a validation: a missing command, a timeout, a bad exit
  status and an unreadable answer all give a warning with one diagnostic of severity warning.\<close>

theorem worker_trouble_warns:
  assumes "vx_run V (wc_command c) rid arts (wc_timeout_seconds c) r = (out, r1)"
    and "(case out of Exited code stdout _ \<Rightarrow> code \<noteq> 0 \<or> (\<exists>e. loads stdout = Inl e) \<or>
            (\<exists>j e. loads stdout = Inr j \<and> worker_response_of_json j = Inl e) | RunError _ \<Rightarrow> False | _ \<Rightarrow> True)"
  shows "\<exists>s d. worker_validate V c rid arts r = (Inr s, r1) \<and> vs_status s = V_WARNING \<and>
    vs_diagnostics s = [d] \<and> vd_severity d = V_WARNING"
  using assms
  by (cases out) (auto simp: worker_validate_def worker_warning_def mk_diag_def read_worker_output_def Let_def)

text \<open>The status a worker reports is dropped: when it says failed but lists only warnings, and nothing
  else is wrong, the overall status is warning.\<close>

theorem worker_failure_masked:
  assumes "worker_applies wc arts skill" and "worker_validate V (the wc) rid (typescript_of arts) r = (Inr s, r1)"
    and "vs_status s = V_FAILED" and "vs_diagnostics s \<noteq> []" and "\<forall>d \<in> set (vs_diagnostics s). vd_severity d = V_WARNING"
    and "\<forall>a \<in> set arts. ga_language a = TYPESCRIPT" and "check_structure arts skill = []"
  shows "\<exists>ds. validate V wc rid arts skill r = (Inr \<lparr>vs_status = V_WARNING, vs_diagnostics = ds\<rparr>, r1)"
proof -
  have ne: "arts \<noteq> []" using assms(1) by (auto simp: worker_applies_def typescript_of_def)
  have py: "check_python_syntax (vx_parse V) arts = Inr []" using assms(6) by (simp add: check_python_Nil)
  have j: "check_java_syntax arts = []" using assms(6) by (auto simp: check_java_syntax_def filter_empty_conv)
  have "overall_status (vs_diagnostics s) = V_WARNING"
    using assms(4,5) by (cases "vs_diagnostics s") (auto simp: overall_status_def)
  with ne py j assms show ?thesis
    by (simp add: validate_def check_playwright_worker_def Let_def)
qed

section \<open>Concrete validations\<close>

definition demo_val :: "process_outcome \<Rightarrow> unit val_ext" where
  "demo_val out = \<lparr>vx_parse = (\<lambda>_. Parsed), vx_run = (\<lambda>_ _ _ _ r. (out, r))\<rparr>"

definition demo_worker :: worker_client where
  "demo_worker = \<lparr>wc_command = [''node'', ''worker.js''], wc_timeout_seconds = 10\<rparr>"

definition demo_ts :: generated_artifact where
  "demo_ts = \<lparr>ga_path = ''a.ts'', ga_language = TYPESCRIPT, ga_content = ''class A {}'', ga_artifact_type = PAGE_OBJECT\<rparr>"

definition demo_ts_skill :: skill_definition where
  "demo_ts_skill = demo_skill\<lparr>sk_language := TYPESCRIPT, sk_framework := PLAYWRIGHT\<rparr>"

definition demo_stdout :: string where
  "demo_stdout = dumps (JDict [(''status'', JStr ''failed''), (''diagnostics'', JList
     [JDict [(''code'', JStr ''X''), (''message'', JStr ''flaky''), (''severity'', JStr ''warning'')]])])"

lemma worker_trouble_warns_witness:
  "vs_status (projr (fst (worker_validate (demo_val TimedOut) demo_worker ''v'' [demo_ts] ()))) = V_WARNING"
proof -
  have "vx_run (demo_val TimedOut) (wc_command demo_worker) ''v'' [demo_ts] (wc_timeout_seconds demo_worker) () = (TimedOut, ())"
    by (simp add: demo_val_def)
  from worker_trouble_warns [OF this] show ?thesis by auto
qed

lemma worker_failure_masked_witness:
  "vs_status (projr (fst (validate (demo_val (Exited 0 demo_stdout [])) (Some demo_worker) ''v'' [demo_ts] (Some demo_ts_skill) ()))) = V_WARNING"
proof -
  let ?V = "demo_val (Exited 0 demo_stdout [])"
  have a: "worker_applies (Some demo_worker) [demo_ts] (Some demo_ts_skill)" by code_simp
  have out: "map_sum (\<lambda>_. ()) (\<lambda>s. (vs_status s, map vd_severity (vs_diagnostics s)))
      (fst (worker_validate ?V demo_worker ''v'' (typescript_of [demo_ts]) ())) = Inr (V_FAILED, [V_WARNING])"
    by code_simp
  obtain x where x: "worker_validate ?V demo_worker ''v'' (typescript_of [demo_ts]) () = (x, ())"
    by (cases "worker_validate ?V demo_worker ''v'' (typescript_of [demo_ts]) ()") auto
  with out obtain s where s: "x = Inr s" "vs_status s = V_FAILED" "map vd_severity (vs_diagnostics s) = [V_WARNING]"
    by (cases x) auto
  then have d: "vs_diagnostics s \<noteq> []" "\<forall>d \<in> set (vs_diagnostics s). vd_severity d = V_WARNING" by auto
  have t: "\<forall>a \<in> set [demo_ts]. ga_language a = TYPESCRIPT" by (simp add: demo_ts_def)
  have st: "check_structure [demo_ts] (Some demo_ts_skill) = []" by code_simp
  have w: "worker_validate ?V (the (Some demo_worker)) ''v'' (typescript_of [demo_ts]) () = (Inr s, ())"
    using x s(1) by simp
  from worker_failure_masked [OF a w s(2) d t st] show ?thesis by auto
qed

lemma passed_iff_checked_witness:
  "\<exists>ds r'. validate (demo_val TimedOut) None ''v'' [demo_ts] None () = (Inr \<lparr>vs_status = V_PASSED, vs_diagnostics = ds\<rparr>, r')"
  by (rule passed_iff_checked [THEN iffD2])
    (simp add: demo_ts_def check_playwright_worker_def worker_applies_def)

end
