(* ===== verification/JsonRoundtrip.thy ===== *)
theory JsonRoundtrip
  imports Json
begin

text \<open>
  Round trips of the JSON model: what \<open>json.dumps\<close> prints, compact or indented, \<open>json.loads\<close> reads
  back. \<open>render\<close> is the printer over the white space of the layout; both printers are instances.
  Values with floats are left out (\<open>plain\<close>): their printed form is cut.
\<close>

fun plain :: "json \<Rightarrow> bool" where
  "plain (JFloat _) = False"
| "plain (JList xs) = list_all plain xs"
| "plain (JDict d) = (dict_ok d \<and> list_all (\<lambda>(k, v). plain v) d)"
| "plain _ = True"

section \<open>A printer over the layout\<close>

fun render :: "(nat \<Rightarrow> string) \<Rightarrow> (nat \<Rightarrow> string) \<Rightarrow> (nat \<Rightarrow> string) \<Rightarrow> nat \<Rightarrow> json \<Rightarrow> string" where
  "render op it cl lvl (JList xs) =
     (if xs = [] then ''[]''
      else ''['' @ op lvl @ join ('','' @ it lvl) (map (render op it cl (Suc lvl)) xs) @ cl lvl @ '']'')"
| "render op it cl lvl (JDict d) =
     (if d = [] then ''{}''
      else ''{'' @ op lvl
        @ join ('','' @ it lvl) (map (\<lambda>(k, v). quote_str k @ '': '' @ render op it cl (Suc lvl) v) d)
        @ cl lvl @ ''}'')"
| "render op it cl lvl j = dumps j"

lemma dumps_render: "dumps j = render (\<lambda>_. []) (\<lambda>_. '' '') (\<lambda>_. []) lvl j"
proof (induction j arbitrary: lvl)
  case (JList xs)
  then have "map dumps xs = map (render (\<lambda>_. []) (\<lambda>_. '' '') (\<lambda>_. []) (Suc lvl)) xs" by (simp cong: map_cong)
  then show ?case by (simp only: dumps.simps render.simps) simp
next
  case (JDict d)
  then have "map (\<lambda>(k, v). quote_str k @ '': '' @ dumps v) d =
      map (\<lambda>(k, v). quote_str k @ '': '' @ render (\<lambda>_. []) (\<lambda>_. '' '') (\<lambda>_. []) (Suc lvl) v) d"
    by fastforce
  then show ?case by (simp only: dumps.simps render.simps) simp
qed simp_all

lemma dumps_indent_render:
  "dumps_indent lvl j =
     render (\<lambda>l. newline_indent (Suc l)) (\<lambda>l. newline_indent (Suc l)) newline_indent lvl j"
proof (induction j arbitrary: lvl)
  case (JList xs)
  let ?r = "render (\<lambda>l. newline_indent (Suc l)) (\<lambda>l. newline_indent (Suc l)) newline_indent (Suc lvl)"
  from JList have "map (dumps_indent (Suc lvl)) xs = map ?r xs" by (simp cong: map_cong)
  then show ?case by (simp only: dumps_indent.simps render.simps)
next
  case (JDict d)
  let ?r = "render (\<lambda>l. newline_indent (Suc l)) (\<lambda>l. newline_indent (Suc l)) newline_indent (Suc lvl)"
  from JDict have "map (\<lambda>(k, v). quote_str k @ '': '' @ dumps_indent (Suc lvl) v) d =
      map (\<lambda>(k, v). quote_str k @ '': '' @ ?r v) d"
    by fastforce
  then show ?case by (simp only: dumps_indent.simps render.simps)
qed simp_all

section \<open>Strings\<close>

lemma of_char_lt: "(of_char c :: nat) < 256"
  by (metis of_char_mod_256 mod_less_divisor zero_less_numeral)

lemma hex_val_digit: "k < 16 \<Longrightarrow> hex_val (hex_digit k) = Some k"
  by (simp add: hex_val_def hex_digit_def Let_def of_char_of take_bit_eq_mod)

lemma hex4_esc: "hex4 [CHR ''0'', CHR ''0'', hex_digit (of_char c div 16), hex_digit (of_char c mod 16)] = Some (of_char c)"
proof -
  have "(of_char c :: nat) div 16 < 16" by (rule less_mult_imp_div_less) (simp add: of_char_lt)
  moreover have "hex_val CHR ''0'' = Some 0" by (simp add: hex_val_def)
  ultimately show ?thesis by (simp add: hex_val_digit)
qed

lemma code_point_of_char [simp]: "code_point (of_char c) = c"
  by (simp add: code_point_def of_char_lt)

lemma scan_esc: "scan_string n b acc (esc_char c @ t @ CHR 0x22 # rest) = scan_string n b (acc @ [c]) (t @ CHR 0x22 # rest)"
proof -
  consider "c \<in> {CHR 0x22, CHR 0x5C, CHR 0x0A, CHR 0x0D, CHR 0x09, CHR 0x08, CHR 0x0C}"
    | "c \<notin> {CHR 0x22, CHR 0x5C, CHR 0x0A, CHR 0x0D, CHR 0x09, CHR 0x08, CHR 0x0C}"
      "32 \<le> (of_char c :: nat) \<and> (of_char c :: nat) < 127"
    | "c \<notin> {CHR 0x22, CHR 0x5C, CHR 0x0A, CHR 0x0D, CHR 0x09, CHR 0x08, CHR 0x0C}"
      "\<not> (32 \<le> (of_char c :: nat) \<and> (of_char c :: nat) < 127)"
    by blast
  then show ?thesis
  proof cases
    case 1
    then show ?thesis by (auto simp: esc_char_def simple_escape_def)
  next
    case 2
    then show ?thesis by (simp add: esc_char_def)
  next
    case 3
    then have "esc_char c = [CHR 0x5C, CHR ''u'', CHR ''0'', CHR ''0'',
        hex_digit (of_char c div 16), hex_digit (of_char c mod 16)]"
      by (simp add: esc_char_def Let_def)
    then show ?thesis using hex4_esc [of c] by simp
  qed
qed

lemma scan_quoted:
  "scan_string n b acc (concat (map esc_char s) @ CHR 0x22 # rest) = Inr (acc @ s, rest)"
proof (induction s arbitrary: acc)
  case Nil
  then show ?case by simp
next
  case (Cons c s)
  then show ?case by (simp add: scan_esc del: scan_string.simps)
qed

lemma quote_str_eq: "quote_str s @ rest = CHR 0x22 # concat (map esc_char s) @ CHR 0x22 # rest"
  by (simp add: quote_str_def)

section \<open>Numbers\<close>

definition no_digit_first :: "string \<Rightarrow> bool" where
  "no_digit_first s = (case s of [] \<Rightarrow> True | c # _ \<Rightarrow>
     \<not> is_digit c \<and> c \<noteq> CHR ''.'' \<and> c \<noteq> CHR ''e'' \<and> c \<noteq> CHR ''E'')"

lemma is_digit_char: "d < 10 \<Longrightarrow> is_digit (char_of (48 + d :: nat))"
  by (simp add: is_digit_def Let_def of_char_of take_bit_eq_mod)

lemma digit_val_char: "d < 10 \<Longrightarrow> digit_val (char_of (48 + d :: nat)) = d"
  by (simp add: digit_val_def of_char_of take_bit_eq_mod)

lemma char_zero [simp]: "char_of (48 :: nat) = CHR ''0''"
  by (simp add: char_of_eq_iff take_bit_eq_mod)

lemma nat_str_digits: "list_all is_digit (nat_str n)"
proof (induction n rule: nat_str.induct)
  case (1 n)
  then show ?case
    by (subst nat_str.simps) (auto simp: is_digit_char)
qed

lemma digits_val_nat_str [simp]: "digits_val (nat_str n) = n"
proof (induction n rule: nat_str.induct)
  case (1 n)
  show ?case
  proof (cases "n < 10")
    case True
    then show ?thesis by (subst nat_str.simps) (simp add: digits_val_def digit_val_char)
  next
    case False
    have "digits_val (nat_str n) = 10 * digits_val (nat_str (n div 10)) + n mod 10"
      using False by (subst nat_str.simps) (simp add: digits_val_def digit_val_char)
    with 1 False show ?thesis by simp
  qed
qed

lemma nat_str_not_Nil [simp]: "nat_str n \<noteq> []"
  by (subst nat_str.simps) simp

lemma hd_nat_str: "hd (nat_str n) = CHR ''0'' \<longleftrightarrow> n = 0"
proof (induction n rule: nat_str.induct)
  case (1 n)
  show ?case
  proof (cases "n < 10")
    case True
    then have "char_of (48 + n) = CHR ''0'' \<longleftrightarrow> n = 0"
      using digit_val_char [of n] digit_val_char [of 0] by (metis add_0_right char_zero zero_less_numeral)
    with True show ?thesis by (subst nat_str.simps) simp
  next
    case False
    with 1 show ?thesis by (subst nat_str.simps) auto
  qed
qed

lemma takeWhile_digits:
  "list_all is_digit ds \<Longrightarrow> no_digit_first rest \<Longrightarrow>
   takeWhile is_digit (ds @ rest) = ds \<and> dropWhile is_digit (ds @ rest) = rest"
  by (induction ds) (auto simp: no_digit_first_def split: list.splits)

lemma scan_int_nat_str:
  assumes "no_digit_first rest"
  shows "scan_int (nat_str n @ rest) = (nat_str n, rest)"
proof (cases "n = 0")
  case True
  then show ?thesis by (simp add: scan_int_def nat_str.simps [of 0])
next
  case False
  then obtain c ds where ds: "nat_str n = c # ds" "c \<noteq> CHR ''0''"
    using hd_nat_str [of n] by (cases "nat_str n") auto
  then show ?thesis
    using takeWhile_digits [OF nat_str_digits [of n] assms] by (simp add: scan_int_def)
qed

lemma scan_tail:
  assumes "no_digit_first rest"
  shows "scan_frac rest = ([], rest)" "scan_exp rest = None"
  using assms by (cases rest; simp add: scan_frac_def scan_exp_def no_digit_first_def)+

lemma nat_str_hd_digit: "nat_str n = c # ds \<Longrightarrow> is_digit c"
  using nat_str_digits [of n] by simp

lemma scan_number_int:
  assumes "no_digit_first rest"
  shows "scan_number (int_str i @ rest) = Some (JInt i, rest)"
proof (cases "i < 0")
  case True
  then show ?thesis
    using scan_int_nat_str [OF assms] scan_tail [OF assms]
    by (simp add: scan_number_def int_str_def Let_def number_val_def)
next
  case False
  obtain c ds where ds: "nat_str (nat i) = c # ds" by (cases "nat_str (nat i)") auto
  from nat_str_hd_digit [OF ds] have "c \<noteq> CHR ''-''" by (auto simp: is_digit_def)
  with False ds show ?thesis
    using scan_int_nat_str [OF assms, of "nat i"] scan_tail [OF assms] digits_val_nat_str [of "nat i"]
    by (simp add: scan_number_def int_str_def Let_def number_val_def)
qed


section \<open>Values\<close>

definition ws_only :: "string \<Rightarrow> bool" where
  "ws_only w = list_all is_json_ws w"

lemma skip_ws_append [simp]: "ws_only w \<Longrightarrow> skip_ws (w @ s) = skip_ws s"
  by (induction w) (simp_all add: ws_only_def skip_ws_def)

lemma skip_ws_Cons [simp]: "\<not> is_json_ws c \<Longrightarrow> skip_ws (c # s) = c # s"
  by (simp add: skip_ws_def)

lemma skip_ws_space [simp]: "skip_ws (CHR '' '' # s) = skip_ws s"
  by (simp add: skip_ws_def is_json_ws_def)

lemma no_digit_first_ws:
  "ws_only w \<Longrightarrow> \<not> is_digit c \<Longrightarrow> c \<noteq> CHR ''.'' \<Longrightarrow> c \<noteq> CHR ''e'' \<Longrightarrow> c \<noteq> CHR ''E'' \<Longrightarrow>
   no_digit_first (w @ c # s)"
  by (cases w) (auto simp: no_digit_first_def ws_only_def is_json_ws_def is_digit_def)

lemma is_digit_not_start:
  "is_digit c \<Longrightarrow> c \<noteq> CHR 0x22 \<and> c \<noteq> CHR ''{'' \<and> c \<noteq> CHR ''['' \<and> c \<noteq> CHR ''n'' \<and> c \<noteq> CHR ''t'' \<and>
     c \<noteq> CHR ''f'' \<and> c \<noteq> CHR ''N'' \<and> c \<noteq> CHR ''I'' \<and> c \<noteq> CHR ''-'' \<and> c \<noteq> CHR '']'' \<and> c \<noteq> CHR ''}'' \<and>
     \<not> is_json_ws c"
  by (auto simp: is_digit_def is_json_ws_def)

lemma int_str_start:
  obtains c s where "int_str i = c # s" "is_digit c"
  | c s where "int_str i = CHR ''-'' # c # s" "is_digit c"
proof (cases "i < 0")
  case True
  obtain c ds where "nat_str (nat (- i)) = c # ds" by (cases "nat_str (nat (- i))") auto
  with True show ?thesis using nat_str_hd_digit that(2) by (simp add: int_str_def)
next
  case False
  obtain c ds where "nat_str (nat i) = c # ds" by (cases "nat_str (nat i)") auto
  with False show ?thesis using nat_str_hd_digit that(1) by (simp add: int_str_def)
qed

lemma parse_int:
  assumes "no_digit_first rest"
  shows "parse_value (Suc f) n (int_str i @ rest) = Inr (JInt i, rest)"
proof (cases i rule: int_str_start)
  case (1 c s)
  then show ?thesis
    using scan_number_int [OF assms, of i] is_digit_not_start [of c] by (simp add: lit_match_def)
next
  case (2 c s)
  then show ?thesis
    using scan_number_int [OF assms, of i] is_digit_not_start [of c] by (simp add: lit_match_def)
qed

lemma parse_str: "parse_value (Suc f) n (quote_str s @ rest) = Inr (JStr s, rest)"
  by (simp add: quote_str_eq scan_quoted)

text \<open>What the printer emits starts with a character that ends no white space and closes nothing.\<close>

lemma render_start:
  obtains c s where "render op it cl lvl j = c # s" "\<not> is_json_ws c" "c \<noteq> CHR '']''" "c \<noteq> CHR ''}''"
proof -
  have "\<exists>c s. dumps j = c # s \<and> \<not> is_json_ws c \<and> c \<noteq> CHR '']'' \<and> c \<noteq> CHR ''}''"
    if "\<And>r. j \<noteq> JFloat r" for j
  proof (cases j)
    case (JInt i)
    then show ?thesis
      by (cases i rule: int_str_start) (use is_digit_not_start in \<open>auto simp: is_json_ws_def\<close>)
  qed (use that in \<open>auto simp: quote_str_def is_json_ws_def\<close>)
  moreover have "\<exists>c s. float_str r = c # s \<and> \<not> is_json_ws c \<and> c \<noteq> CHR '']'' \<and> c \<noteq> CHR ''}''" for r
  proof (cases "r < 0")
    case True
    then show ?thesis by (simp add: float_str_def Let_def is_json_ws_def)
  next
    case False
    obtain c ds where c: "nat_str (nat \<lfloor>\<bar>r\<bar>\<rfloor>) = c # ds" by (cases "nat_str (nat \<lfloor>\<bar>r\<bar>\<rfloor>)") auto
    from nat_str_hd_digit [OF c] is_digit_not_start [of c] False c show ?thesis
      by (simp add: float_str_def Let_def)
  qed
  ultimately have "\<exists>c s. render op it cl lvl j = c # s \<and> \<not> is_json_ws c \<and> c \<noteq> CHR '']'' \<and> c \<noteq> CHR ''}''"
    by (cases j) (auto simp: is_json_ws_def simp del: dumps.simps simp add: dumps.simps(4))
  with that show ?thesis by blast
qed


lemma dict_set_fresh: "k \<notin> set (map fst d) \<Longrightarrow> dict_set k v d = d @ [(k, v)]"
  by (induction d) auto

section \<open>Layouts\<close>

text \<open>The white space after an opening bracket, after a comma and before a closing bracket.\<close>

locale json_layout =
  fixes op it cl :: "nat \<Rightarrow> string"
  assumes op_ws: "ws_only (op lvl)" and it_ws: "ws_only (it lvl)" and cl_ws: "ws_only (cl lvl)"
begin

definition reads :: "json \<Rightarrow> bool" where
  "reads j = (\<forall>lvl f n rest. no_digit_first rest \<longrightarrow> 2 * length (render op it cl lvl j) < f \<longrightarrow>
     parse_value f n (render op it cl lvl j @ rest) = Inr (j, rest))"

lemma parse_items:
  assumes "\<forall>x \<in> set xs. reads x" and "xs \<noteq> []"
    and "2 * length (join (CHR '','' # it l) (map (render op it cl lvl) xs)) + 1 < f"
  shows "parse_list f n acc (join (CHR '','' # it l) (map (render op it cl lvl) xs) @ cl l @ CHR '']'' # rest)
      = Inr (JList (acc @ xs), rest)"
  using assms
proof (induction xs arbitrary: acc f)
  case Nil
  then show ?case by simp
next
  case (Cons x xs)
  obtain f' where f: "f = Suc f'" using Cons.prems(3) by (cases f) auto
  show ?case
  proof (cases xs)
    case Nil
    have "no_digit_first (cl l @ CHR '']'' # rest)"
      by (rule no_digit_first_ws [OF cl_ws]) (simp_all add: is_digit_def)
    then have "parse_value f' n (render op it cl lvl x @ cl l @ CHR '']'' # rest) = Inr (x, cl l @ CHR '']'' # rest)"
      using Cons.prems f Nil by (simp add: reads_def)
    then show ?thesis by (simp add: Nil f cl_ws is_json_ws_def)
  next
    case (Cons y ys)
    let ?more = "join (CHR '','' # it l) (map (render op it cl lvl) xs) @ cl l @ CHR '']'' # rest"
    have "no_digit_first (CHR '','' # it l @ ?more)"
      by (simp add: no_digit_first_def is_digit_def)
    then have v: "parse_value f' n (render op it cl lvl x @ CHR '','' # it l @ ?more) =
        Inr (x, CHR '','' # it l @ ?more)"
      using Cons.prems f by (simp add: reads_def Cons)
    obtain c s where c: "?more = c # s" "\<not> is_json_ws c" "c \<noteq> CHR '']''"
      by (rule render_start [of op it cl lvl y]) (cases ys, auto simp: Cons)
    have "parse_list f' n (acc @ [x]) ?more = Inr (JList ((acc @ [x]) @ xs), rest)"
      using Cons.prems f by (intro Cons.IH) (auto simp: Cons)
    then show ?thesis
      using v c by (simp add: f Cons it_ws is_json_ws_def)
  qed
qed

lemma parse_pairs:
  assumes "\<forall>kv \<in> set d. reads (snd kv)" and "d \<noteq> []" and "distinct (map fst (acc @ d))"
    and "2 * length (join (CHR '','' # it l)
           (map (\<lambda>(k, v). quote_str k @ '': '' @ render op it cl lvl v) d)) + 1 < f"
  shows "parse_dict f n acc (join (CHR '','' # it l)
           (map (\<lambda>(k, v). quote_str k @ '': '' @ render op it cl lvl v) d) @ cl l @ CHR ''}'' # rest)
      = Inr (JDict (acc @ d), rest)"
  using assms
proof (induction d arbitrary: acc f)
  case Nil
  then show ?case by simp
next
  case (Cons kv d)
  obtain k v where kv: "kv = (k, v)" by (cases kv)
  obtain f' where f: "f = Suc f'" using Cons.prems(4) by (cases f) auto
  have fresh: "dict_set k v acc = acc @ [(k, v)]"
    using Cons.prems(3) by (intro dict_set_fresh) (auto simp: kv)
  obtain c0 s0 where c0: "render op it cl lvl v = c0 # s0" "\<not> is_json_ws c0"
    by (rule render_start)
  show ?case
  proof (cases d)
    case Nil
    have "no_digit_first (cl l @ CHR ''}'' # rest)"
      by (rule no_digit_first_ws [OF cl_ws]) (simp_all add: is_digit_def)
    then have "parse_value f' n (render op it cl lvl v @ cl l @ CHR ''}'' # rest) = Inr (v, cl l @ CHR ''}'' # rest)"
      using Cons.prems f Nil by (simp add: reads_def kv)
    then show ?thesis
      using c0 by (simp add: Nil f kv quote_str_eq scan_quoted fresh cl_ws is_json_ws_def)
  next
    case (Cons kv' d')
    let ?more = "join (CHR '','' # it l)
      (map (\<lambda>(k, v). quote_str k @ '': '' @ render op it cl lvl v) d) @ cl l @ CHR ''}'' # rest"
    have "no_digit_first (CHR '','' # it l @ ?more)"
      by (simp add: no_digit_first_def is_digit_def)
    then have v: "parse_value f' n (render op it cl lvl v @ CHR '','' # it l @ ?more) =
        Inr (v, CHR '','' # it l @ ?more)"
      using Cons.prems f by (simp add: reads_def Cons kv case_prod_beta)
    obtain s where c: "?more = CHR 0x22 # s"
      by (cases d') (auto simp: Cons case_prod_beta quote_str_def)
    have "parse_dict f' n (acc @ [(k, v)]) ?more = Inr (JDict ((acc @ [(k, v)]) @ d), rest)"
      using Cons.prems f by (intro Cons.IH) (auto simp: Cons kv case_prod_beta)
    then show ?thesis
      using v c c0 by (simp add: f Cons kv quote_str_eq scan_quoted fresh it_ws is_json_ws_def)
  qed
qed

lemma readsI:
  assumes "\<And>lvl f n rest. no_digit_first rest \<Longrightarrow>
    parse_value (Suc f) n (render op it cl lvl j @ rest) = Inr (j, rest)"
  shows "reads j"
  unfolding reads_def
proof (intro allI impI)
  fix lvl f n and rest :: string
  assume "no_digit_first rest" and "2 * length (render op it cl lvl j) < f"
  then show "parse_value f n (render op it cl lvl j @ rest) = Inr (j, rest)"
    using assms by (cases f) (simp_all del: parse_value.simps)
qed

lemma plain_reads: "plain j \<Longrightarrow> reads j"
proof (induction j)
  case JNull
  show ?case by (rule readsI) (simp add: lit_match_def)
next
  case (JBool b)
  show ?case by (rule readsI) (simp add: lit_match_def)
next
  case (JInt i)
  show ?case by (rule readsI) (simp add: parse_int del: parse_value.simps)
next
  case (JFloat r)
  then show ?case by simp
next
  case JNaN
  show ?case by (rule readsI) (simp add: lit_match_def)
next
  case (JInf b)
  show ?case by (rule readsI) (simp add: lit_match_def)
next
  case (JStr s)
  show ?case by (rule readsI) (simp add: parse_str del: parse_value.simps)
next
  case (JList xs)
  then have xs: "\<forall>x \<in> set xs. reads x" by (auto simp: list_all_iff)
  show ?case
    unfolding reads_def
  proof (intro allI impI)
    fix lvl f n and rest :: string
    assume f: "2 * length (render op it cl lvl (JList xs)) < f"
    then obtain f' where f': "f = Suc f'" by (cases f) auto
    show "parse_value f n (render op it cl lvl (JList xs) @ rest) = Inr (JList xs, rest)"
    proof (cases xs)
      case Nil
      then show ?thesis by (simp add: f' is_json_ws_def)
    next
      case (Cons y ys)
      obtain c s where "join (CHR '','' # it lvl) (map (render op it cl (Suc lvl)) xs) @ cl lvl @ CHR '']'' # rest = c # s"
        "\<not> is_json_ws c" "c \<noteq> CHR '']''"
        by (rule render_start [of op it cl "Suc lvl" y]) (cases ys, auto simp: Cons)
      moreover have "parse_list f' n [] (join (CHR '','' # it lvl) (map (render op it cl (Suc lvl)) xs)
          @ cl lvl @ CHR '']'' # rest) = Inr (JList ([] @ xs), rest)"
        using f f' xs Cons by (intro parse_items) auto
      ultimately show ?thesis using Cons by (simp add: f' op_ws)
    qed
  qed
next
  case (JDict d)
  then have d: "\<forall>kv \<in> set d. reads (snd kv)" and ok: "distinct (map fst d)"
    by (fastforce simp: list_all_iff dict_ok_def)+
  show ?case
    unfolding reads_def
  proof (intro allI impI)
    fix lvl f n and rest :: string
    let ?items = "map (\<lambda>(k, v). quote_str k @ '': '' @ render op it cl (Suc lvl) v) d"
    assume f: "2 * length (render op it cl lvl (JDict d)) < f"
    then obtain f' where f': "f = Suc f'" by (cases f) auto
    show "parse_value f n (render op it cl lvl (JDict d) @ rest) = Inr (JDict d, rest)"
    proof (cases d)
      case Nil
      then show ?thesis by (simp add: f' is_json_ws_def)
    next
      case (Cons y ys)
      obtain s where "join (CHR '','' # it lvl) ?items @ cl lvl @ CHR ''}'' # rest = CHR 0x22 # s"
        by (cases ys) (auto simp: Cons case_prod_beta quote_str_def)
      moreover have "parse_dict f' n [] (join (CHR '','' # it lvl) ?items @ cl lvl @ CHR ''}'' # rest) =
          Inr (JDict ([] @ d), rest)"
        using f f' d ok Cons by (intro parse_pairs) auto
      ultimately show ?thesis using Cons by (simp add: f' op_ws is_json_ws_def)
    qed
  qed
qed

lemma loads_render:
  assumes "plain j"
  shows "loads (render op it cl lvl j) = Inr j"
proof -
  obtain c s where c: "render op it cl lvl j = c # s" "\<not> is_json_ws c"
    by (rule render_start)
  have "parse_value (Suc (2 * length (render op it cl lvl j))) (length (render op it cl lvl j))
      (render op it cl lvl j @ []) = Inr (j, [])"
    by (rule plain_reads [OF assms, unfolded reads_def, rule_format]) (simp_all add: no_digit_first_def)
  then show ?thesis using c by (simp add: loads_def skip_ws_def del: parse_value.simps)
qed

end

interpretation compact: json_layout "\<lambda>_. []" "\<lambda>_. '' ''" "\<lambda>_. []"
  by unfold_locales (simp_all add: ws_only_def is_json_ws_def)

lemma newline_indent_ws: "ws_only (newline_indent lvl)"
  by (auto simp: ws_only_def newline_indent_def nl_def is_json_ws_def list_all_iff)

interpretation indented: json_layout "\<lambda>l. newline_indent (Suc l)" "\<lambda>l. newline_indent (Suc l)" newline_indent
  by unfold_locales (rule newline_indent_ws)+

lemma loads_dumps_indent: "plain j \<Longrightarrow> loads (dumps_indent lvl j) = Inr j"
  unfolding dumps_indent_render by (rule indented.loads_render)

section \<open>Sorted keys\<close>

lemma dict_ok_sort_key:
  assumes "dict_ok d"
  shows "dict_ok (sort_key fst d)"
proof -
  have "card (set (map fst (sort_key fst d))) = length (map fst (sort_key fst d))"
    using assms distinct_card [of "map fst d"] by (simp add: dict_ok_def)
  then show ?thesis
    unfolding dict_ok_def by (rule card_distinct)
qed

lemma dict_get_sort_key:
  assumes "dict_ok d"
  shows "dict_get (sort_key fst d) k = dict_get d k"
proof -
  have "dict_get (sort_key fst d) k = Some v \<longleftrightarrow> dict_get d k = Some v" for v
    using assms dict_ok_sort_key [OF assms] by (simp add: dict_get_iff)
  then show ?thesis by (cases "dict_get d k"; cases "dict_get (sort_key fst d) k") auto
qed

text \<open>JSON values survive printing and parsing: whatever \<open>json.dumps\<close> emits for a float-free
  value, compact or indented, \<open>json.loads\<close> reads back as that value.\<close>

theorem json_roundtrip:
  assumes "plain j"
  shows "loads (dumps j) = Inr j \<and> loads (dumps_indent 0 j) = Inr j"
  using compact.loads_render [OF assms, of 0] indented.loads_render [OF assms, of 0]
  by (simp add: dumps_render [of j 0] dumps_indent_render [of 0 j])

theorem json_roundtrip_witness:
  "loads (dumps (JDict [(''values'', JList [JInt (-12), JStr [CHR 0x22, CHR 0x0A, CHR ''a''], JNull])])) =
     Inr (JDict [(''values'', JList [JInt (-12), JStr [CHR 0x22, CHR 0x0A, CHR ''a''], JNull])])"
  by (rule json_roundtrip [THEN conjunct1]) (simp add: dict_ok_def)

end
