(* ===== verification/Flags.thy ===== *)
theory Flags
  imports JsonRoundtrip
begin

text \<open>
  \<open>totalrecall/config/feature_flags.py\<close>, \<open>runtime_flags.py\<close> and the flag half of \<open>factory.py\<close>:
  flags from the settings, from an external service with a cache and a fallback, and local runtime
  overrides on top. The clock reading is the argument \<open>now\<close>; the service is the parameter \<open>http\<close>,
  which maps a URL and the \<open>Authorization\<close> header to the decoded body, \<open>None\<close> for an \<open>OSError\<close>; the
  secrets directory is a dictionary of files (\<open>fs\<close>) from paths to contents.
\<close>

type_synonym fs = "(string, string) dict"
type_synonym http = "string \<Rightarrow> string option \<Rightarrow> string option"
type_synonym flag_values = "(string, json) dict"

text \<open>\<open>Path(dir) / name\<close>: an absolute name replaces the directory.\<close>

definition path_join :: "string \<Rightarrow> string \<Rightarrow> string" where
  "path_join d n = (if prefix ''/'' n then n else if n = [] then d else d @ ''/'' @ n)"

lemma path_join_inj [simp]:
  "\<not> prefix ''/'' n \<Longrightarrow> \<not> prefix ''/'' m \<Longrightarrow> n \<noteq> [] \<Longrightarrow> m \<noteq> [] \<Longrightarrow>
   path_join d n = path_join d m \<longleftrightarrow> n = m"
  by (simp add: path_join_def)

section \<open>Resolving a value\<close>

definition flag_bool :: "json \<Rightarrow> bool" where
  "flag_bool v =
     (case v of
        JBool b \<Rightarrow> b
      | JStr s \<Rightarrow> lower (strip s) \<in> {''1'', ''true'', ''yes'', ''on''}
      | _ \<Rightarrow> truthy v)"

section \<open>RuntimeFeatureFlagStore\<close>

definition flags_file :: "string \<Rightarrow> string" where
  "flags_file secrets_dir = path_join secrets_dir ''runtime_feature_flags.json''"

definition as_dict :: "json option \<Rightarrow> flag_values option" where
  "as_dict j = (case j of Some (JDict d) \<Rightarrow> Some d | _ \<Rightarrow> None)"

definition store_values :: "string \<Rightarrow> fs \<Rightarrow> flag_values" where
  "store_values secrets_dir fs =
     (case dict_get fs (flags_file secrets_dir) of
        None \<Rightarrow> []
      | Some raw \<Rightarrow>
          (case loads raw of
             Inl _ \<Rightarrow> []
           | Inr payload \<Rightarrow>
               (case payload of
                  JDict d \<Rightarrow> (case as_dict (dict_get d ''values'') of None \<Rightarrow> [] | Some vs \<Rightarrow> vs)
                | _ \<Rightarrow> [])))"

definition store_write :: "string \<Rightarrow> flag_values \<Rightarrow> fs \<Rightarrow> fs" where
  "store_write secrets_dir vs fs =
     dict_set (flags_file secrets_dir) (dumps_indent 0 (sort_keys (JDict [(''values'', JDict vs)]))) fs"

definition store_set :: "string \<Rightarrow> string \<Rightarrow> json \<Rightarrow> fs \<Rightarrow> fs" where
  "store_set secrets_dir k v fs =
     store_write secrets_dir (dict_set k v (store_values secrets_dir fs)) fs"

definition store_delete :: "string \<Rightarrow> string \<Rightarrow> fs \<Rightarrow> fs" where
  "store_delete secrets_dir k fs =
     store_write secrets_dir (dict_del k (store_values secrets_dir fs)) fs"

section \<open>The providers\<close>

record external_flags =
  xf_url :: string
  xf_auth_token :: "string option"
  xf_timeout_seconds :: int
  xf_cache_ttl_seconds :: int
  xf_cache :: "flag_values option"
  xf_cache_expires_at :: rat
  xf_last_error :: "string option"

datatype flag_provider =
    ConfigFeatureFlagProvider flag_values
  | ExternalFeatureFlagProvider external_flags flag_provider
  | RuntimeFeatureFlagProvider flag_provider string

definition mk_external_flags ::
  "string \<Rightarrow> string option \<Rightarrow> int \<Rightarrow> int \<Rightarrow> external_flags result" where
  "mk_external_flags url tok timeout ttl =
     (if url = [] then Inl (ValueError ''External feature flag URL must not be empty'')
      else if timeout < 1 then Inl (ValueError ''External feature flag timeout must be >= 1 second'')
      else if ttl < 0 then Inl (ValueError ''External feature flag cache TTL must be >= 0 seconds'')
      else Inr \<lparr>xf_url = url, xf_auth_token = tok, xf_timeout_seconds = timeout,
                xf_cache_ttl_seconds = ttl, xf_cache = None, xf_cache_expires_at = 0,
                xf_last_error = None\<rparr>)"

definition bearer :: "string option \<Rightarrow> string option" where
  "bearer tok =
     (case tok of None \<Rightarrow> None | Some t \<Rightarrow> if t = [] then None else Some (''Bearer '' @ t))"

definition fetch :: "http \<Rightarrow> external_flags \<Rightarrow> flag_values result" where
  "fetch http x =
     (case http (xf_url x) (bearer (xf_auth_token x)) of
        None \<Rightarrow> Inl (RuntimeError ''External feature flag service is unavailable'')
      | Some raw \<Rightarrow>
          (case loads raw of
             Inl _ \<Rightarrow> Inl (RuntimeError ''External feature flag response is not valid JSON'')
           | Inr (JDict d) \<Rightarrow>
               (let vs = (case dict_get d ''values'' of
                            None \<Rightarrow> JDict d | Some JNull \<Rightarrow> JDict d | Some v \<Rightarrow> v)
                in (case vs of
                      JDict e \<Rightarrow> Inr e
                    | _ \<Rightarrow> Inl (RuntimeError ''External feature flag response must be an object'')))
           | Inr _ \<Rightarrow> Inl (RuntimeError ''External feature flag response must be an object'')))"

text \<open>\<open>snapshot()\<close>: the current values, and the provider with its cache and last error updated.\<close>

fun snapshot :: "http \<Rightarrow> fs \<Rightarrow> rat \<Rightarrow> flag_provider \<Rightarrow> flag_values \<times> flag_provider" where
  "snapshot http fs now (ConfigFeatureFlagProvider flags) = (flags, ConfigFeatureFlagProvider flags)"
| "snapshot http fs now (ExternalFeatureFlagProvider x fallback) =
     (case (if now < xf_cache_expires_at x then xf_cache x else None) of
        Some vs \<Rightarrow> (vs, ExternalFeatureFlagProvider x fallback)
      | None \<Rightarrow>
          (case fetch http x of
             Inl e \<Rightarrow>
               (let (vs, fallback1) = snapshot http fs now fallback
                in (vs, ExternalFeatureFlagProvider (x\<lparr>xf_last_error := Some (exn_str e)\<rparr>) fallback1))
           | Inr vs \<Rightarrow>
               (vs, ExternalFeatureFlagProvider
                  (x\<lparr>xf_cache := Some vs,
                     xf_cache_expires_at := now + of_int (xf_cache_ttl_seconds x),
                     xf_last_error := None\<rparr>) fallback)))"
| "snapshot http fs now (RuntimeFeatureFlagProvider fallback secrets_dir) =
     (let (vs, fallback1) = snapshot http fs now fallback
      in (dict_update vs (store_values secrets_dir fs), RuntimeFeatureFlagProvider fallback1 secrets_dir))"

definition get_bool ::
  "http \<Rightarrow> fs \<Rightarrow> rat \<Rightarrow> string \<Rightarrow> bool \<Rightarrow> flag_provider \<Rightarrow> bool \<times> flag_provider" where
  "get_bool http fs now k dflt p =
     (let (vs, p1) = snapshot http fs now p in (flag_bool (dict_get_or vs k (JBool dflt)), p1))"

definition get_string ::
  "http \<Rightarrow> fs \<Rightarrow> rat \<Rightarrow> string \<Rightarrow> string \<Rightarrow> flag_provider \<Rightarrow> string \<times> flag_provider" where
  "get_string http fs now k dflt p =
     (let (vs, p1) = snapshot http fs now p in (py_str (dict_get_or vs k (JStr dflt)), p1))"

section \<open>factory.py\<close>

record flag_settings =
  st_feature_flags :: flag_values
  st_external_url :: "string option"
  st_external_auth_token :: "string option"
  st_external_timeout_seconds :: int
  st_external_cache_ttl_seconds :: int

definition default_feature_flags :: flag_values where
  "default_feature_flags =
     [(''memory.adapter'', JStr ''mem0_v1''),
      (''memory.write_enabled'', JBool True),
      (''memory.fail_open_on_search'', JBool True),
      (''reformulator.adapter'', JStr ''keyword''),
      (''jira.enabled'', JBool False),
      (''rag.enabled'', JBool False),
      (''guardrails.input_enabled'', JBool False),
      (''guardrails.output_enabled'', JBool False),
      (''tone_check.enabled'', JBool False)]"

definition build_feature_flag_provider ::
  "flag_settings \<Rightarrow> string option \<Rightarrow> flag_provider result" where
  "build_feature_flag_provider s runtime_dir =
     (let config = ConfigFeatureFlagProvider (st_feature_flags s);
          base = (case st_external_url s of
                    None \<Rightarrow> Inr config
                  | Some url \<Rightarrow>
                      if url = [] then Inr config
                      else rbind (mk_external_flags url (st_external_auth_token s)
                                    (st_external_timeout_seconds s) (st_external_cache_ttl_seconds s))
                             (\<lambda>x. Inr (ExternalFeatureFlagProvider x config)))
      in rbind base (\<lambda>p. Inr (case runtime_dir of None \<Rightarrow> p | Some d \<Rightarrow> RuntimeFeatureFlagProvider p d)))"

section \<open>Stored values\<close>

lemma plain_sort_keys: "plain j \<Longrightarrow> plain (sort_keys j)"
proof (induction j)
  case (JList xs)
  then show ?case by (simp add: list_all_iff)
next
  case (JDict d)
  let ?m = "map (\<lambda>(k, v). (k, sort_keys v)) d"
  from JDict have "list_all (\<lambda>(k, v). plain v) ?m"
    by (fastforce simp: list_all_iff)
  then have "list_all (\<lambda>(k, v). plain v) (sort_key fst ?m)"
    by (simp add: list_all_iff)
  moreover have "dict_ok (sort_key fst ?m)"
    using JDict.prems by (intro dict_ok_sort_key) (simp add: dict_ok_def comp_def case_prod_beta)
  ultimately show ?case by simp
qed simp_all

lemma flag_bool_sort_keys [simp]: "flag_bool (sort_keys v) = flag_bool v"
proof (cases v)
  case (JDict d)
  have "(sort_key fst (map (\<lambda>(k, v). (k, sort_keys v)) d) = []) = (d = [])"
    by (metis length_0_conv length_map length_sort)
  with JDict show ?thesis by (simp add: flag_bool_def)
qed (simp_all add: flag_bool_def)

lemma dict_ok_map: "dict_ok d \<Longrightarrow> dict_ok (map (\<lambda>(k, v). (k, f v)) d)"
  by (simp add: dict_ok_def comp_def case_prod_beta)

lemma dict_get_sorted_map:
  "dict_ok d \<Longrightarrow> dict_get (sort_key fst (map (\<lambda>(k, v). (k, f v)) d)) k = map_option f (dict_get d k)"
  by (subst dict_get_sort_key) (simp_all add: dict_ok_def comp_def case_prod_beta map_of_map)

lemma plain_dict_ok: "plain (JDict d) \<Longrightarrow> dict_ok d"
  by simp

lemma store_values_write:
  assumes "plain (JDict vs)"
  shows "store_values dir (store_write dir vs fs) = sort_key fst (map (\<lambda>(k, v). (k, sort_keys v)) vs)"
proof -
  have "plain (JDict [(''values'', JDict vs)])" using assms by (simp add: dict_ok_def)
  then have "loads (dumps_indent 0 (sort_keys (JDict [(''values'', JDict vs)]))) =
      Inr (sort_keys (JDict [(''values'', JDict vs)]))"
    by (intro loads_dumps_indent plain_sort_keys)
  then show ?thesis
    by (simp add: store_values_def store_write_def dict_get_set as_dict_def)
qed

lemma store_values_ok:
  assumes "plain (JDict (store_values dir fs))"
  shows "plain v \<Longrightarrow> dict_ok (store_values dir (store_set dir k v fs))"
    and "dict_ok (store_values dir (store_delete dir k fs))"
proof -
  have "list_all (\<lambda>(k, v). plain v) (dict_set k v (store_values dir fs))" if "plain v"
    using assms that by (auto simp: list_all_iff dest!: set_dict_set [THEN subsetD])
  then show "plain v \<Longrightarrow> dict_ok (store_values dir (store_set dir k v fs))"
    using assms
    by (simp add: store_set_def store_values_write dict_ok_sort_key dict_ok_map)
  have "list_all (\<lambda>(k, v). plain v) (dict_del k (store_values dir fs))"
    using assms by (auto simp: list_all_iff dest: set_dict_del [THEN subsetD])
  then show "dict_ok (store_values dir (store_delete dir k fs))"
    using assms
    by (simp add: store_delete_def store_values_write dict_ok_sort_key dict_ok_map)
qed

lemma store_get_set:
  assumes "plain (JDict (store_values dir fs))" and "plain v"
  shows "dict_get (store_values dir (store_set dir k v fs)) k' =
    (if k' = k then Some (sort_keys v) else map_option sort_keys (dict_get (store_values dir fs) k'))"
proof -
  let ?vs = "dict_set k v (store_values dir fs)"
  have "list_all (\<lambda>(k, v). plain v) ?vs"
    using assms by (auto simp: list_all_iff dest!: set_dict_set [THEN subsetD])
  then have "plain (JDict ?vs)" using assms(1) by simp
  then show ?thesis
    by (simp add: store_set_def store_values_write dict_get_sorted_map plain_dict_ok dict_get_set
        del: plain.simps)
qed

lemma store_get_del:
  assumes "plain (JDict (store_values dir fs))"
  shows "dict_get (store_values dir (store_delete dir k fs)) k' =
    (if k' = k then None else map_option sort_keys (dict_get (store_values dir fs) k'))"
proof -
  let ?vs = "dict_del k (store_values dir fs)"
  have "list_all (\<lambda>(k, v). plain v) ?vs"
    using assms by (auto simp: list_all_iff dest: set_dict_del [THEN subsetD])
  then have "plain (JDict ?vs)" using assms(1) by simp
  then show ?thesis
    by (simp add: store_delete_def store_values_write dict_get_sorted_map plain_dict_ok dict_get_del
        del: plain.simps)
qed

section \<open>Layers\<close>

text \<open>The providers the factory builds: runtime overrides on top of one that reads no files.\<close>

lemma build_cases:
  assumes "build_feature_flag_provider s (Some dir) = Inr p"
  obtains q where "p = RuntimeFeatureFlagProvider q dir"
    and "\<And>http now fs fs'. snapshot http fs now q = snapshot http fs' now q"
proof -
  from assms consider "p = RuntimeFeatureFlagProvider (ConfigFeatureFlagProvider (st_feature_flags s)) dir"
    | x where "p = RuntimeFeatureFlagProvider
          (ExternalFeatureFlagProvider x (ConfigFeatureFlagProvider (st_feature_flags s))) dir"
    by (auto simp: build_feature_flag_provider_def Let_def rbind_Inr_iff split: option.splits if_splits)
  then show thesis
  proof cases
    case 1
    then show ?thesis by (rule that) simp
  next
    case 2
    then show ?thesis by (rule that) (simp split: option.splits sum.splits)
  qed
qed

lemma runtime_get_bool:
  assumes "dict_ok (store_values dir fs)"
  shows "fst (get_bool http fs now k d (RuntimeFeatureFlagProvider q dir)) =
    (case dict_get (store_values dir fs) k of
       Some v \<Rightarrow> flag_bool v
     | None \<Rightarrow> fst (get_bool http fs now k d q))"
  using assms
  by (auto simp: get_bool_def Let_def case_prod_beta dict_get_or_def dict_get_update split: option.splits)


section \<open>Properties\<close>

lemma json_roundtrip_braces: "loads ''{}'' = Inr (JDict [])"
  using loads_dumps_indent [of "JDict []" 0] by simp


lemma get_bool_no_files:
  "(\<And>http now fs fs'. snapshot http fs now q = snapshot http fs' now q) \<Longrightarrow>
   get_bool http fs now k d q = get_bool http fs' now k d q"
  unfolding get_bool_def by (metis (no_types, lifting))

text \<open>Runtime overrides win and are removable: with the provider the application builds, storing
  an override makes the flag read as that value whatever the settings or the flag service say, other
  flags keep their reading, and deleting it restores the underlying value. The override goes through
  the JSON file of the store.\<close>

theorem runtime_override:
  assumes "build_feature_flag_provider s (Some dir) = Inr p"
    and "plain (JDict (store_values dir fs))" and "plain v"
  shows "fst (get_bool http (store_set dir k v fs) now k' d p) =
      (if k' = k then flag_bool v else fst (get_bool http fs now k' d p)) \<and>
    fst (get_bool http (store_delete dir k fs) now k' d p) =
      (if k' = k then fst (get_bool http [] now k d p) else fst (get_bool http fs now k' d p))"
proof -
  from assms(1) obtain q where p: "p = RuntimeFeatureFlagProvider q dir"
    and q: "\<And>http now fs fs'. snapshot http fs now q = snapshot http fs' now q"
    using build_cases [OF assms(1)] by metis
  have ok: "dict_ok (store_values dir fs)" using assms(2) by simp
  have ok1: "dict_ok (store_values dir (store_set dir k v fs))"
    and ok2: "dict_ok (store_values dir (store_delete dir k fs))"
    using assms(2,3) store_values_ok by auto
  have empty: "dict_ok (store_values dir [])" "store_values dir [] = []"
    by (simp_all add: store_values_def)
  have b: "get_bool http fs1 now k1 d q = get_bool http [] now k1 d q" for fs1 k1
    by (rule get_bool_no_files [OF q])
  note bs = b [of "store_set dir k v fs"] b [of "store_delete dir k fs"] b [of fs]
  show ?thesis
    using store_get_set [OF assms(2,3), of k k'] store_get_del [OF assms(2), of k k']
    by (auto simp: p runtime_get_bool ok ok1 ok2 empty bs split: option.splits)
qed


definition demo_settings :: flag_settings where
  "demo_settings = \<lparr>st_feature_flags = default_feature_flags, st_external_url = Some ''http://flags'',
     st_external_auth_token = None, st_external_timeout_seconds = 5, st_external_cache_ttl_seconds = 30\<rparr>"

definition demo_external :: external_flags where
  "demo_external = \<lparr>xf_url = ''http://flags'', xf_auth_token = None, xf_timeout_seconds = 5,
     xf_cache_ttl_seconds = 30, xf_cache = None, xf_cache_expires_at = 0, xf_last_error = None\<rparr>"

theorem runtime_override_witness:
  "fst (get_bool (\<lambda>_ _. None) (store_set ''d'' ''rag.enabled'' (JStr ''yes'') []) 0 ''rag.enabled'' False
     (RuntimeFeatureFlagProvider (ExternalFeatureFlagProvider demo_external
        (ConfigFeatureFlagProvider default_feature_flags)) ''d''))"
proof -
  have "build_feature_flag_provider demo_settings (Some ''d'') =
    Inr (RuntimeFeatureFlagProvider (ExternalFeatureFlagProvider demo_external
        (ConfigFeatureFlagProvider default_feature_flags)) ''d'')"
    by (simp add: build_feature_flag_provider_def demo_settings_def demo_external_def mk_external_flags_def)
  from runtime_override [OF this, of "[]" "JStr ''yes''" "\<lambda>_ _. None" "''rag.enabled''" 0 "''rag.enabled''" False]
  show ?thesis
    by (simp add: store_values_def) (simp add: flag_bool_def lower_def lower_char_def strip_def
        strip_by_def rstrip_by_def is_space_def Let_def)
qed

text \<open>An external flag service is asked at most once per TTL and its outage is survivable: a fetched
  snapshot answers every reading until it expires, without another request; when the fetch fails the
  fallback's values answer, and the cache is left as it was so that the next reading tries again.\<close>

theorem external_flags_ttl:
  assumes "xf_cache_expires_at x \<le> now"
  shows "(case fetch http x of
      Inr vs \<Rightarrow>
        (\<forall>http' fs' now'. now' < now + of_int (xf_cache_ttl_seconds x) \<longrightarrow>
          snapshot http' fs' now' (snd (snapshot http fs now (ExternalFeatureFlagProvider x fb))) =
            (vs, snd (snapshot http fs now (ExternalFeatureFlagProvider x fb))))
    | Inl e \<Rightarrow>
        snapshot http fs now (ExternalFeatureFlagProvider x fb) =
          (fst (snapshot http fs now fb),
           ExternalFeatureFlagProvider (x\<lparr>xf_last_error := Some (exn_str e)\<rparr>) (snd (snapshot http fs now fb))))"
  using assms by (auto simp: case_prod_beta split: sum.splits)

theorem external_flags_ttl_witness:
  "snapshot (\<lambda>_ _. None) [] 29 (snd (snapshot (\<lambda>_ _. Some ''{}'') [] 0
      (ExternalFeatureFlagProvider demo_external (ConfigFeatureFlagProvider default_feature_flags)))) =
   ([], snd (snapshot (\<lambda>_ _. Some ''{}'') [] 0
      (ExternalFeatureFlagProvider demo_external (ConfigFeatureFlagProvider default_feature_flags))))"
proof -
  have "loads ''{}'' = Inr (JDict [])"
    using json_roundtrip_braces by simp
  then have "fetch (\<lambda>_ _. Some ''{}'') demo_external = Inr []"
    by (simp add: fetch_def)
  with external_flags_ttl [of demo_external 0 "\<lambda>_ _. Some ''{}''" "[]" "ConfigFeatureFlagProvider default_feature_flags"]
  show ?thesis by (simp add: demo_external_def)
qed

end
