(* ===== verification/Credentials.thy ===== *)
theory Credentials
  imports Flags Auth Contracts
begin

text \<open>
  \<open>totalrecall/config/credentials.py\<close>, \<open>runtime_credentials.py\<close>, the credential half of
  \<open>factory.py\<close>, and the routes \<open>api/routes/credentials.py\<close> and \<open>api/routes/mem0.py\<close> with the
  self-host manager \<open>selfhost/mem0.py\<close>. Files are the dictionary \<open>fs\<close>; the environment is the
  parameter \<open>env\<close>; the secret manager is \<open>http\<close>; \<open>datetime.now(UTC).isoformat()\<close> is the argument
  \<open>now\<close>; a run of Docker Compose is the parameter \<open>docker\<close>. File permissions are not modelled.
\<close>

section \<open>The supported credentials\<close>

record credential_definition =
  cd_key :: string
  cd_label :: string
  cd_platform :: string
  cd_usage :: string
  cd_provider_id :: "string option"
  cd_memory_adapter :: "string option"
  cd_env_var :: "string option"
  cd_secret :: bool
  cd_notes :: string

definition SUPPORTED_RUNTIME_CREDENTIALS :: "credential_definition list" where
  "SUPPORTED_RUNTIME_CREDENTIALS =
    [\<lparr>cd_key = ''mem0_api_key'', cd_label = ''Mem0 API Key'', cd_platform = ''mem0'',
       cd_usage = ''Per-user Mem0 API key, for example the key generated by the self-hosted Mem0 dashboard setup wizard.'',
       cd_provider_id = None, cd_memory_adapter = Some ''mem0_v1'', cd_env_var = Some ''MEM0_API_KEY'',
       cd_secret = True,
       cd_notes = ''For self-hosted Mem0, create this key in the Mem0 dashboard after running the setup wizard or bootstrap flow.''\<rparr>,
     \<lparr>cd_key = ''mem0_host'', cd_label = ''Mem0 API Host'', cd_platform = ''mem0'',
       cd_usage = ''Optional Mem0 REST API base URL for self-hosted Mem0, for example http://localhost:8888. Leave unset for hosted Mem0.'',
       cd_provider_id = None, cd_memory_adapter = Some ''mem0_v1'', cd_env_var = Some ''MEM0_HOST'',
       cd_secret = False, cd_notes = []\<rparr>,
     \<lparr>cd_key = ''mem0_jwt_secret'', cd_label = ''Mem0 JWT Secret'', cd_platform = ''mem0'',
       cd_usage = ''JWT signing secret used by the self-hosted Mem0 API container.'',
       cd_provider_id = None, cd_memory_adapter = Some ''mem0_v1'', cd_env_var = Some ''MEM0_JWT_SECRET'',
       cd_secret = True, cd_notes = ''Stored locally only for self-hosted Mem0 Docker startup.''\<rparr>,
     \<lparr>cd_key = ''openai_api_key'', cd_label = ''OpenAI API Key'', cd_platform = ''openai'',
       cd_usage = ''OpenAI generation provider and pgvector RAG embedding.'',
       cd_provider_id = Some ''openai'', cd_memory_adapter = None, cd_env_var = Some ''OPENAI_API_KEY'',
       cd_secret = True, cd_notes = []\<rparr>,
     \<lparr>cd_key = ''anthropic_api_key'', cd_label = ''Claude / Anthropic API Key'', cd_platform = ''claude'',
       cd_usage = ''Stored for Claude provider adapters and external secret-manager parity.'',
       cd_provider_id = Some ''claude'', cd_memory_adapter = None, cd_env_var = Some ''ANTHROPIC_API_KEY'',
       cd_secret = True, cd_notes = ''Provider adapter is not registered in this build.''\<rparr>,
     \<lparr>cd_key = ''gemini_api_key'', cd_label = ''Gemini API Key'', cd_platform = ''gemini'',
       cd_usage = ''Stored for Gemini provider adapters and external secret-manager parity.'',
       cd_provider_id = Some ''gemini'', cd_memory_adapter = None, cd_env_var = Some ''GEMINI_API_KEY'',
       cd_secret = True, cd_notes = ''Provider adapter is not registered in this build.''\<rparr>,
     \<lparr>cd_key = ''local_llm_base_url'', cd_label = ''Local LLM Base URL'', cd_platform = ''local'',
       cd_usage = ''Ollama-compatible local provider endpoint, for example http://localhost:11434.'',
       cd_provider_id = Some ''local'', cd_memory_adapter = None, cd_env_var = Some ''LOCAL_LLM_BASE_URL'',
       cd_secret = False, cd_notes = []\<rparr>,
     \<lparr>cd_key = ''local_llm_api_key'', cd_label = ''Local LLM API Key'', cd_platform = ''local'',
       cd_usage = ''Optional bearer token for a protected local/self-hosted LLM endpoint.'',
       cd_provider_id = Some ''local'', cd_memory_adapter = None, cd_env_var = Some ''LOCAL_LLM_API_KEY'',
       cd_secret = True, cd_notes = []\<rparr>,
     \<lparr>cd_key = ''jira_api_token'', cd_label = ''Jira API Token'', cd_platform = ''jira'',
       cd_usage = ''Jira Cloud story and acceptance-criteria retrieval.'',
       cd_provider_id = None, cd_memory_adapter = None, cd_env_var = Some ''JIRA_API_TOKEN'',
       cd_secret = True, cd_notes = []\<rparr>]"

definition supported_key :: "string \<Rightarrow> bool" where
  "supported_key k = list_ex (\<lambda>d. cd_key d = k) SUPPORTED_RUNTIME_CREDENTIALS"

definition definition_of :: "string \<Rightarrow> credential_definition result" where
  "definition_of k =
     (case find (\<lambda>d. cd_key d = k) SUPPORTED_RUNTIME_CREDENTIALS of
        None \<Rightarrow> Inl (KeyError (''Unsupported runtime credential: '' @ k))
      | Some d \<Rightarrow> Inr d)"

section \<open>RuntimeCredentialStore\<close>

type_synonym manifest = "(string, json) dict"

definition manifest_path :: "string \<Rightarrow> string" where
  "manifest_path dir = path_join dir ''runtime_credentials.json''"

definition secret_path :: "string \<Rightarrow> credential_definition \<Rightarrow> string" where
  "secret_path dir d = path_join dir (cd_key d)"

definition read_manifest :: "string \<Rightarrow> fs \<Rightarrow> manifest" where
  "read_manifest dir fs =
     (case dict_get fs (manifest_path dir) of
        None \<Rightarrow> []
      | Some raw \<Rightarrow>
          (case loads raw of
             Inr (JDict d) \<Rightarrow> (case dict_get d ''credentials'' of Some (JDict m) \<Rightarrow> m | _ \<Rightarrow> [])
           | _ \<Rightarrow> []))"

definition write_manifest :: "string \<Rightarrow> manifest \<Rightarrow> fs \<Rightarrow> fs" where
  "write_manifest dir m fs =
     dict_set (manifest_path dir) (dumps_indent 0 (sort_keys (JDict [(''credentials'', JDict m)]))) fs"

definition cred_has :: "string \<Rightarrow> fs \<Rightarrow> string \<Rightarrow> bool result" where
  "cred_has dir fs k = rbind (definition_of k) (\<lambda>d. Inr (dict_get fs (secret_path dir d) \<noteq> None))"

definition cred_get :: "string \<Rightarrow> fs \<Rightarrow> string \<Rightarrow> string result" where
  "cred_get dir fs k =
     rbind (definition_of k) (\<lambda>d.
       (case dict_get fs (secret_path dir d) of
          None \<Rightarrow> Inl (CredentialNotFoundError (''Runtime credential '' @ k @ '' is not configured.''))
        | Some raw \<Rightarrow>
            (let v = strip raw
             in if v = [] then Inl (CredentialNotFoundError (''Runtime credential '' @ k @ '' is empty.''))
                else Inr v)))"

record credential_mutation =
  cm_key :: string
  cm_configured :: bool
  cm_ref :: "string option"
  cm_updated_at :: "string option"

definition cred_upsert :: "string \<Rightarrow> string \<Rightarrow> string \<Rightarrow> string \<Rightarrow> fs \<Rightarrow> credential_mutation result \<times> fs" where
  "cred_upsert dir now k v fs =
     (case definition_of k of
        Inl e \<Rightarrow> (Inl e, fs)
      | Inr d \<Rightarrow>
          (let clean = strip v
           in if clean = [] then (Inl (ValueError ''Credential value must not be empty.''), fs)
              else
                (let fs1 = dict_set (secret_path dir d) (clean @ nl) fs;
                     m = dict_set (cd_key d)
                           (JDict [(''ref'', JStr (''local:'' @ cd_key d)), (''updated_at'', JStr now)])
                           (read_manifest dir fs1)
                 in (Inr \<lparr>cm_key = cd_key d, cm_configured = True, cm_ref = Some (''local:'' @ cd_key d),
                         cm_updated_at = Some now\<rparr>,
                     write_manifest dir m fs1))))"

definition cred_delete :: "string \<Rightarrow> string \<Rightarrow> fs \<Rightarrow> credential_mutation result \<times> fs" where
  "cred_delete dir k fs =
     (case definition_of k of
        Inl e \<Rightarrow> (Inl e, fs)
      | Inr d \<Rightarrow>
          (let fs1 = dict_del (secret_path dir d) fs
           in (Inr \<lparr>cm_key = cd_key d, cm_configured = False, cm_ref = None, cm_updated_at = None\<rparr>,
               write_manifest dir (dict_del (cd_key d) (read_manifest dir fs1)) fs1)))"

record credential_status =
  cs_definition :: credential_definition
  cs_configured :: bool
  cs_ref :: "string option"
  cs_updated_at :: "json option"

definition credential_status_of :: "string \<Rightarrow> fs \<Rightarrow> credential_definition \<Rightarrow> credential_status result" where
  "credential_status_of dir fs d =
     (let m = read_manifest dir fs;
          entry = dict_get_or m (cd_key d) (JDict []);
          configured = dict_get fs (secret_path dir d) \<noteq> None
      in if configured then
           (case entry of
              JDict r \<Rightarrow> Inr \<lparr>cs_definition = d, cs_configured = True,
                 cs_ref = Some (''local:'' @ cd_key d), cs_updated_at = dict_get r ''updated_at''\<rparr>
            | _ \<Rightarrow> Inl (OtherError ''AttributeError'' ''get''))
         else Inr \<lparr>cs_definition = d, cs_configured = False, cs_ref = None, cs_updated_at = None\<rparr>)"

definition list_statuses :: "string \<Rightarrow> fs \<Rightarrow> credential_status list result" where
  "list_statuses dir fs = rmap (credential_status_of dir fs) SUPPORTED_RUNTIME_CREDENTIALS"

section \<open>Credential providers\<close>

type_synonym env = "string \<Rightarrow> string option"

definition missing_ref :: "string \<Rightarrow> py_exn" where
  "missing_ref k = CredentialNotFoundError (''Credential reference missing for '' @ k @ ''.'')"

definition unsupported_ref :: "string \<Rightarrow> py_exn" where
  "unsupported_ref k = CredentialNotFoundError (''Unsupported credential reference for '' @ k @ ''.'')"

definition env_local_get :: "env \<Rightarrow> fs \<Rightarrow> (string, string) dict \<Rightarrow> string \<Rightarrow> string \<Rightarrow> string result" where
  "env_local_get env fs refs dir k =
     (case dict_get refs k of
        None \<Rightarrow> Inl (missing_ref k)
      | Some ref \<Rightarrow>
          if prefix ''env:'' ref then
            (let name = drop 4 ref
             in case env name of
                  Some v \<Rightarrow> if v = [] then Inl (CredentialNotFoundError (''Environment credential '' @ name @ '' is not set.''))
                           else Inr v
                | None \<Rightarrow> Inl (CredentialNotFoundError (''Environment credential '' @ name @ '' is not set.'')))
          else if prefix ''local:'' ref then
            (let name = drop 6 ref
             in case dict_get fs (path_join dir name) of
                  None \<Rightarrow> Inl (CredentialNotFoundError (''Local credential '' @ name @ '' is not available.''))
                | Some raw \<Rightarrow> Inr (strip raw))
          else if prefix ''file:'' ref then
            (let path = path_join dir (drop 5 ref)
             in case dict_get fs path of
                  None \<Rightarrow> Inl (CredentialNotFoundError (''File credential '' @ path @ '' is not available.''))
                | Some raw \<Rightarrow> Inr (strip raw))
          else Inl (unsupported_ref k))"

text \<open>\<open>urllib.parse.quote(s, safe="")\<close>: unreserved characters stay, others become UTF-8 bytes in hex.\<close>

definition upper_hex :: "nat \<Rightarrow> char" where
  "upper_hex n = (if n < 10 then char_of (48 + n) else char_of (55 + n))"

definition pct :: "nat \<Rightarrow> string" where
  "pct n = [CHR 0x25, upper_hex (n div 16), upper_hex (n mod 16)]"

definition quote_char :: "char \<Rightarrow> string" where
  "quote_char c =
     (let n = (of_char c :: nat)
      in if (48 \<le> n \<and> n \<le> 57) \<or> (65 \<le> n \<and> n \<le> 90) \<or> (97 \<le> n \<and> n \<le> 122) \<or> c \<in> set ''_.-~''
         then [c]
         else if n < 128 then pct n
         else pct (192 + n div 64) @ pct (128 + n mod 64))"

definition url_quote :: "string \<Rightarrow> string" where
  "url_quote s = concat (map quote_char s)"

record external_credentials =
  ec_refs :: "(string, string) dict"
  ec_base_url :: string
  ec_auth_token :: "string option"
  ec_timeout_seconds :: int

definition mk_external_credentials ::
  "(string, string) dict \<Rightarrow> string \<Rightarrow> string option \<Rightarrow> int \<Rightarrow> external_credentials result" where
  "mk_external_credentials refs url tok timeout =
     (if url = [] then Inl (ValueError ''External credential base URL must not be empty'')
      else if timeout < 1 then Inl (ValueError ''External credential timeout must be >= 1 second'')
      else Inr \<lparr>ec_refs = refs, ec_base_url = rstrip_chr ''/'' url, ec_auth_token = tok,
                ec_timeout_seconds = timeout\<rparr>)"

definition external_get :: "http \<Rightarrow> external_credentials \<Rightarrow> string \<Rightarrow> string result" where
  "external_get http x k =
     (case dict_get (ec_refs x) k of
        None \<Rightarrow> Inl (missing_ref k)
      | Some ref \<Rightarrow>
          if \<not> (prefix ''external:'' ref \<or> prefix ''cloud:'' ref) then Inl (unsupported_ref k)
          else
            (let name = tl (dropWhile (\<lambda>c. c \<noteq> CHR '':'') ref)
             in if name = [] then Inl (CredentialNotFoundError (''External credential name missing for '' @ k @ ''.''))
                else
                  (case http (ec_base_url x @ ''/secrets/'' @ url_quote name) (bearer (ec_auth_token x)) of
                     None \<Rightarrow> Inl (CredentialNotFoundError (''External credential '' @ name @ '' is not available.''))
                   | Some body \<Rightarrow>
                       (let raw = strip body;
                            no_value = Inl (CredentialNotFoundError
                              (''External credential '' @ name @ '' response did not contain a value.''))
                        in if raw = [] then Inl (CredentialNotFoundError (''External credential '' @ name @ '' is empty.''))
                           else (case loads raw of
                              Inl _ \<Rightarrow> Inr raw
                            | Inr (JDict d) \<Rightarrow>
                                (case dict_get d ''value'' of
                                   Some (JStr v) \<Rightarrow> if strip v = [] then no_value else Inr (strip v)
                                 | _ \<Rightarrow> no_value)
                            | Inr _ \<Rightarrow> no_value)))))"

fun chain_try :: "string result list \<Rightarrow> string list \<Rightarrow> string result" where
  "chain_try [] errs = Inl (CredentialNotFoundError (join ''; '' errs))"
| "chain_try (Inr v # rs) errs = Inr v"
| "chain_try (Inl (CredentialNotFoundError m) # rs) errs = chain_try rs (errs @ [m])"
| "chain_try (Inl e # rs) errs = Inl e"

datatype credential_provider =
    EnvLocalCredentialProvider "(string, string) dict" string
  | ExternalCredentialProvider external_credentials
  | RuntimeCredentialProvider string
  | CredentialProviderChain "credential_provider list"

fun credential_get :: "env \<Rightarrow> http \<Rightarrow> fs \<Rightarrow> credential_provider \<Rightarrow> string \<Rightarrow> string result" where
  "credential_get env http fs (EnvLocalCredentialProvider refs dir) k = env_local_get env fs refs dir k"
| "credential_get env http fs (ExternalCredentialProvider x) k = external_get http x k"
| "credential_get env http fs (RuntimeCredentialProvider dir) k = cred_get dir fs k"
| "credential_get env http fs (CredentialProviderChain ps) k =
     chain_try (map (\<lambda>p. credential_get env http fs p k) ps) []"

record credential_settings =
  sc_refs :: "(string, string) dict"
  sc_secrets_dir :: string
  sc_external_base_url :: "string option"
  sc_external_auth_token :: "string option"
  sc_external_timeout_seconds :: int

definition default_credential_refs :: "(string, string) dict" where
  "default_credential_refs = [(''mem0_api_key'', ''local:mem0_api_key''), (''mem0_host'', ''env:MEM0_HOST'')]"

definition build_credential_provider ::
  "credential_settings \<Rightarrow> string option \<Rightarrow> credential_provider result" where
  "build_credential_provider s runtime_dir =
     (let env_local = EnvLocalCredentialProvider (sc_refs s) (sc_secrets_dir s);
          providers = (case runtime_dir of None \<Rightarrow> [] | Some d \<Rightarrow> [RuntimeCredentialProvider d]) @ [env_local];
          url = (case sc_external_base_url s of None \<Rightarrow> [] | Some u \<Rightarrow> u)
      in if url = [] then
           Inr (case providers of [p] \<Rightarrow> p | _ \<Rightarrow> CredentialProviderChain providers)
         else rbind (mk_external_credentials (sc_refs s) url (sc_external_auth_token s)
                (sc_external_timeout_seconds s))
              (\<lambda>x. Inr (CredentialProviderChain (providers @ [ExternalCredentialProvider x]))))"


section \<open>The store\<close>

lemma supported_key_path:
  assumes "supported_key k"
  shows "k \<noteq> [] \<and> \<not> prefix ''/'' k \<and> k \<noteq> ''runtime_credentials.json'' \<and> k \<noteq> ''runtime_feature_flags.json''
    \<and> k \<noteq> ''mem0-selfhost.env''"
proof -
  have "list_all (\<lambda>d. cd_key d \<noteq> [] \<and> \<not> prefix ''/'' (cd_key d) \<and> cd_key d \<noteq> ''runtime_credentials.json''
      \<and> cd_key d \<noteq> ''runtime_feature_flags.json'' \<and> cd_key d \<noteq> ''mem0-selfhost.env'') SUPPORTED_RUNTIME_CREDENTIALS"
    by (simp add: SUPPORTED_RUNTIME_CREDENTIALS_def)
  with assms show ?thesis
    by (auto simp: supported_key_def list_all_iff list_ex_iff)
qed

lemma definition_of_supported: "supported_key k \<Longrightarrow> \<exists>d. definition_of k = Inr d \<and> cd_key d = k"
  by (auto simp: supported_key_def list_ex_iff definition_of_def find_None_iff find_Some_iff
      split: option.splits)

lemma definition_of_unsupported:
  "\<not> supported_key k \<Longrightarrow> definition_of k = Inl (KeyError (''Unsupported runtime credential: '' @ k))"
  by (auto simp: supported_key_def list_ex_iff definition_of_def find_None_iff find_Some_iff
      split: option.splits)

lemma supported_paths [simp]:
  assumes "supported_key k"
  shows "path_join dir k \<noteq> manifest_path dir" "path_join dir k \<noteq> flags_file dir"
    "path_join dir k \<noteq> path_join dir ''mem0-selfhost.env''"
    "supported_key k' \<Longrightarrow> path_join dir k = path_join dir k' \<longleftrightarrow> k = k'"
  using supported_key_path [OF assms] supported_key_path [of k']
  by (auto simp: manifest_path_def flags_file_def)

lemma strip_rstrip: "strip_by P (strip_by P s @ w) = strip_by P s" if "list_all P w"
proof (cases "strip_by P s = []")
  case True
  have "strip_by P w = []"
    using that by (auto simp: strip_by_def rstrip_by_def list_all_iff dest: set_dropWhileD)
  with True show ?thesis by simp
next
  case False
  let ?t = "strip_by P s"
  have idem: "strip_by P ?t = ?t" by simp
  have hd: "dropWhile P ?t = ?t"
  proof (rule ccontr)
    assume "dropWhile P ?t \<noteq> ?t"
    then have "length (dropWhile P ?t) < length ?t"
      using length_dropWhile_le [of P ?t] dropWhile_eq_self_iff [of P ?t]
      by (metis False dropWhile.simps(2) impossible_Cons le_neq_implies_less length_Cons list.collapse
          length_dropWhile_le not_less_eq_eq)
    moreover have "length (strip_by P ?t) \<le> length (dropWhile P ?t)"
      using length_dropWhile_le [of P "rev (dropWhile P ?t)"] by (simp add: strip_by_def rstrip_by_def)
    ultimately show False using idem by simp
  qed
  have w: "dropWhile P (rev w @ rev ?t) = dropWhile P (rev ?t)"
    using that by (intro dropWhile_append2) (auto simp: list_all_iff)
  have "dropWhile P (?t @ w) = ?t @ w"
    using False hd by (simp add: dropWhile_eq_self_iff)
  then have "strip_by P (?t @ w) = rev (dropWhile P (rev ?t))"
    by (simp only: strip_by_def [of P "?t @ w"] rstrip_by_def rev_append w)
  also have "\<dots> = strip_by P ?t"
    by (simp only: strip_by_def [of P ?t] rstrip_by_def hd)
  finally show ?thesis using idem by simp
qed

lemma strip_line [simp]: "strip (strip v @ nl) = strip v"
  unfolding strip_def by (rule strip_rstrip) (simp add: nl_def is_space_def)

lemma write_manifest_get [simp]:
  "path \<noteq> manifest_path dir \<Longrightarrow> dict_get (write_manifest dir m fs) path = dict_get fs path"
  by (simp add: write_manifest_def dict_get_set)

lemma upsert_files:
  assumes "supported_key k" and "strip v \<noteq> []" and "path \<noteq> manifest_path dir"
  shows "ok (fst (cred_upsert dir now k v fs)) \<and>
    dict_get (snd (cred_upsert dir now k v fs)) path =
      (if path = path_join dir k then Some (strip v @ nl) else dict_get fs path)"
proof -
  obtain d where "definition_of k = Inr d" "cd_key d = k"
    using definition_of_supported [OF assms(1)] by blast
  with assms show ?thesis
    by (simp add: cred_upsert_def Let_def secret_path_def dict_get_set)
qed

lemma delete_files:
  assumes "supported_key k" and "path \<noteq> manifest_path dir"
  shows "ok (fst (cred_delete dir k fs)) \<and>
    dict_get (snd (cred_delete dir k fs)) path = (if path = path_join dir k then None else dict_get fs path)"
proof -
  obtain d where "definition_of k = Inr d" "cd_key d = k"
    using definition_of_supported [OF assms(1)] by blast
  with assms show ?thesis
    by (simp add: cred_delete_def Let_def secret_path_def dict_get_del)
qed

lemma cred_get_file:
  assumes "supported_key k"
  shows "cred_get dir fs k =
    (case dict_get fs (path_join dir k) of
       None \<Rightarrow> Inl (CredentialNotFoundError (''Runtime credential '' @ k @ '' is not configured.''))
     | Some raw \<Rightarrow> if strip raw = []
         then Inl (CredentialNotFoundError (''Runtime credential '' @ k @ '' is empty.'')) else Inr (strip raw))"
proof -
  obtain d where "definition_of k = Inr d" "cd_key d = k"
    using definition_of_supported [OF assms] by blast
  then show ?thesis by (simp add: cred_get_def secret_path_def Let_def split: option.splits)
qed

section \<open>Sources of credentials\<close>

text \<open>
  What the chain relies on: for the keys it is asked for, a source that has no value says so with
  \<open>CredentialNotFoundError\<close>, the only exception the chain catches.
\<close>

locale credential_source =
  fixes source :: "string \<Rightarrow> string result" and key_ok :: "string \<Rightarrow> bool"
  assumes not_found: "key_ok k \<Longrightarrow> source k = Inl e \<Longrightarrow> \<exists>m. e = CredentialNotFoundError m"
begin

lemma chain_step:
  "key_ok k \<Longrightarrow> chain_try (source k # rs) errs =
     (case source k of Inr v \<Rightarrow> Inr v | Inl e \<Rightarrow> chain_try rs (errs @ [exn_str e]))"
  using not_found [of k] by (cases "source k") fastforce+

end

interpretation env_local: credential_source "env_local_get env fs refs dir" "\<lambda>_. True"
  by unfold_locales
    (auto simp: env_local_get_def missing_ref_def unsupported_ref_def Let_def split: option.splits if_splits)

interpretation external: credential_source "external_get http x" "\<lambda>_. True"
  by unfold_locales
    (auto simp: external_get_def missing_ref_def unsupported_ref_def Let_def
      split: option.splits if_splits sum.splits json.splits)

interpretation runtime: credential_source "cred_get dir fs" supported_key
  by unfold_locales (auto simp: cred_get_file split: option.splits if_splits)

section \<open>Properties\<close>



text \<open>The chain the application builds tries the runtime store, then the configured reference, then
  the external secret manager, and reports every source's reason when none has a value; but a key
  outside the supported table never gets past the runtime store, even when a reference for it is
  configured.\<close>

theorem credential_chain_order:
  assumes "build_credential_provider s (Some dir) = Inr p" and "sc_external_base_url s = None"
  shows "credential_get env http fs p k =
    (if supported_key k then
       (case cred_get dir fs k of
          Inr v \<Rightarrow> Inr v
        | Inl e1 \<Rightarrow>
            (case env_local_get env fs (sc_refs s) (sc_secrets_dir s) k of
               Inr v \<Rightarrow> Inr v
             | Inl e2 \<Rightarrow> Inl (CredentialNotFoundError (exn_str e1 @ ''; '' @ exn_str e2))))
     else Inl (KeyError (''Unsupported runtime credential: '' @ k)))"
proof (cases "supported_key k")
  case True
  let ?env = "env_local_get env fs (sc_refs s) (sc_secrets_dir s) k"
  have "credential_get env http fs p k = chain_try [cred_get dir fs k, ?env] []"
    using assms by (auto simp: build_credential_provider_def)
  also have "\<dots> = (case cred_get dir fs k of Inr v \<Rightarrow> Inr v | Inl e \<Rightarrow> chain_try [?env] [exn_str e])"
    unfolding runtime.chain_step [OF True, of dir fs "[?env]" "[]"] append_Nil ..
  also have "(\<lambda>e. chain_try [?env] [exn_str e]) = (\<lambda>e. case ?env of Inr v \<Rightarrow> Inr v
      | Inl e2 \<Rightarrow> Inl (CredentialNotFoundError (exn_str e @ ''; '' @ exn_str e2)))"
    using env_local.chain_step [where k = k and env = env and fs = fs and refs = "sc_refs s"
        and dir = "sc_secrets_dir s" and rs = "[]"]
    by (auto simp: fun_eq_iff split: sum.splits)
  finally show ?thesis using True by simp
next
  case False
  then show ?thesis
    using assms by (auto simp: build_credential_provider_def cred_get_def definition_of_unsupported)
qed

definition demo_credentials :: credential_settings where
  "demo_credentials = \<lparr>sc_refs = [(''custom'', ''env:CUSTOM'')], sc_secrets_dir = ''s'',
     sc_external_base_url = None, sc_external_auth_token = None, sc_external_timeout_seconds = 5\<rparr>"

theorem credential_chain_order_witness:
  "env_local_get (\<lambda>_. Some ''v'') [] (sc_refs demo_credentials) ''s'' ''custom'' = Inr ''v'' \<and>
   credential_get (\<lambda>_. Some ''v'') (\<lambda>_ _. None) []
     (CredentialProviderChain [RuntimeCredentialProvider ''s'', EnvLocalCredentialProvider (sc_refs demo_credentials) ''s''])
     ''custom'' = Inl (KeyError ''Unsupported runtime credential: custom'')"
proof
  show "env_local_get (\<lambda>_. Some ''v'') [] (sc_refs demo_credentials) ''s'' ''custom'' = Inr ''v''"
    by (simp add: env_local_get_def demo_credentials_def)
  have "build_credential_provider demo_credentials (Some ''s'') =
      Inr (CredentialProviderChain [RuntimeCredentialProvider ''s'', EnvLocalCredentialProvider (sc_refs demo_credentials) ''s''])"
    by (simp add: build_credential_provider_def demo_credentials_def)
  from credential_chain_order [OF this, of "\<lambda>_. Some ''v''" "\<lambda>_ _. None" "[]" "''custom''"]
  show "credential_get (\<lambda>_. Some ''v'') (\<lambda>_ _. None) []
     (CredentialProviderChain [RuntimeCredentialProvider ''s'', EnvLocalCredentialProvider (sc_refs demo_credentials) ''s''])
     ''custom'' = Inl (KeyError ''Unsupported runtime credential: custom'')"
    by (simp add: demo_credentials_def supported_key_def SUPPORTED_RUNTIME_CREDENTIALS_def)
qed

end
