(* ===== verification/Normalizer.thy ===== *)
theory Normalizer
  imports Contracts JsonRoundtrip
begin

text \<open>
  \<open>totalrecall/providers/normalizer.py\<close>: the raw text of a provider response becomes a list of
  artifacts and a list of errors. What the code raises (an unhashable enum value, a blank path) is an
  \<open>Inl\<close>.
\<close>

section \<open>ResponseNormalizer\<close>

definition VALID_ARTIFACT_TYPES :: "string list" where
  "VALID_ARTIFACT_TYPES = map artifact_type_value [PAGE_OBJECT, TEST_SPEC, FIXTURE, CONFIG, SUPPORT]"

definition VALID_LANGUAGES :: "string list" where
  "VALID_LANGUAGES = map language_value [PYTHON, TYPESCRIPT, JAVA]"

definition REQUIRED_FIELDS :: "string list" where
  "REQUIRED_FIELDS = [''path'', ''artifact_type'', ''language'', ''content'']"

definition norm_error :: "string \<Rightarrow> (string, json) dict \<Rightarrow> service_error" where
  "norm_error msg details = (mk_error VALIDATION_FAILED msg)\<lparr>se_details := details\<rparr>"

text \<open>\<open>value in a_set_of_strings\<close>: lists and dictionaries are not hashable.\<close>

definition enum_member :: "(string \<Rightarrow> 'e option) \<Rightarrow> json \<Rightarrow> 'e option result" where
  "enum_member of_value j =
     (case j of
        JStr s \<Rightarrow> Inr (of_value s)
      | JList _ \<Rightarrow> Inl (TypeError (''unhashable type: '' @ [CHR 0x27] @ ''list'' @ [CHR 0x27]))
      | JDict _ \<Rightarrow> Inl (TypeError (''unhashable type: '' @ [CHR 0x27] @ ''dict'' @ [CHR 0x27]))
      | _ \<Rightarrow> Inr None)"

definition quoted :: "json \<Rightarrow> string" where
  "quoted j = [CHR 0x27] @ py_str j @ [CHR 0x27]"

definition missing_fields :: "(string, json) dict \<Rightarrow> string list" where
  "missing_fields d = filter (\<lambda>f. dict_get d f = None) REQUIRED_FIELDS"

definition the_field :: "(string, json) dict \<Rightarrow> string \<Rightarrow> json" where
  "the_field d k = dict_get_or d k JNull"

definition parse_artifact :: "nat \<Rightarrow> json \<Rightarrow> (generated_artifact option \<times> service_error list) result" where
  "parse_artifact index item =
     (let pre = ''artifacts['' @ nat_str index @ '']''
      in (case item of
        JDict d \<Rightarrow>
          (let missing = missing_fields d
           in if missing \<noteq> []
              then Inr (None, [norm_error (pre @ '': missing required fields: '' @ join '', '' missing)
                                [(''missing'', JList (map JStr missing))]])
              else
                (case enum_member artifact_type_of (the_field d ''artifact_type'') of
                   Inl e \<Rightarrow> Inl e
                 | Inr None \<Rightarrow>
                     Inr (None, [norm_error (pre @ '': unknown artifact_type '' @ quoted (the_field d ''artifact_type''))
                                  [(''valid'', JList (map JStr (sort VALID_ARTIFACT_TYPES)))]])
                 | Inr (Some ty) \<Rightarrow>
                     (case enum_member language_of (the_field d ''language'') of
                        Inl e \<Rightarrow> Inl e
                      | Inr None \<Rightarrow>
                          Inr (None, [norm_error (pre @ '': unknown language '' @ quoted (the_field d ''language''))
                                       [(''valid'', JList (map JStr (sort VALID_LANGUAGES)))]])
                      | Inr (Some lang) \<Rightarrow>
                          (case mk_artifact (py_str (the_field d ''path'')) ty lang (py_str (the_field d ''content'')) of
                             Inl e \<Rightarrow> Inl e
                           | Inr a \<Rightarrow> Inr (Some a, [])))))
      | _ \<Rightarrow> Inr (None, [norm_error (pre @ '': each artifact must be a JSON object'') []])))"

fun parse_artifacts ::
  "nat \<Rightarrow> json list \<Rightarrow> generated_artifact list \<Rightarrow> service_error list
   \<Rightarrow> (generated_artifact list \<times> service_error list) result" where
  "parse_artifacts i [] arts errs = Inr (arts, errs)"
| "parse_artifacts i (item # items) arts errs =
     (case parse_artifact i item of
        Inl e \<Rightarrow> Inl e
      | Inr (a, es) \<Rightarrow>
          parse_artifacts (Suc i) items (case a of None \<Rightarrow> arts | Some x \<Rightarrow> arts @ [x]) (errs @ es))"

definition normalize :: "string \<Rightarrow> (generated_artifact list \<times> service_error list) result" where
  "normalize raw =
     (case loads raw of
        Inl e \<Rightarrow>
          Inr ([], [norm_error (''Provider response is not valid JSON: '' @ json_error_str raw e)
                     [(''raw_text_preview'', JStr (take 200 raw))]])
      | Inr payload \<Rightarrow>
          (let keys = (case payload of JDict d \<Rightarrow> dict_keys d | _ \<Rightarrow> [])
           in (case (case payload of JDict d \<Rightarrow> dict_get d ''artifacts'' | _ \<Rightarrow> None) of
                 None \<Rightarrow>
                   Inr ([], [norm_error (''Provider response missing required '' @ quote_str ''artifacts'' @ '' key'')
                              [(''keys_found'', JList (map JStr keys))]])
               | Some (JList items) \<Rightarrow> parse_artifacts 0 items [] []
               | Some _ \<Rightarrow> Inr ([], [norm_error (quote_str ''artifacts'' @ '' must be a JSON array'') []]))))"

section \<open>Items\<close>

definition wf_artifact :: "generated_artifact \<Rightarrow> bool" where
  "wf_artifact a = (contract_str1 (ga_path a) \<and> contract_str (ga_content a))"

lemma mk_artifact_wf: "mk_artifact p ty lang c = Inr a \<Longrightarrow> wf_artifact a"
  by (auto simp: mk_artifact_def wf_artifact_def contract_str_def dest: validate_str1_contract split: sum.splits)

text \<open>One item gives one artifact or one error.\<close>

definition one_outcome :: "generated_artifact option \<times> service_error list \<Rightarrow> bool" where
  "one_outcome r = (case r of (None, es) \<Rightarrow> length es = 1 | (Some a, es) \<Rightarrow> es = [] \<and> wf_artifact a)"

lemma parse_artifact_outcome: "parse_artifact i item = Inr r \<Longrightarrow> one_outcome r"
  by (auto simp: parse_artifact_def Let_def one_outcome_def split: json.splits if_splits sum.splits option.splits
      dest: mk_artifact_wf)

lemma parse_artifacts_count:
  "parse_artifacts i items arts errs = Inr (arts', errs') \<Longrightarrow>
     length arts' + length errs' = length arts + length errs + length items \<and>
     (list_all wf_artifact arts \<longrightarrow> list_all wf_artifact arts')"
proof (induction items arbitrary: i arts errs)
  case Nil
  then show ?case by simp
next
  case (Cons item items)
  then obtain a es where p: "parse_artifact i item = Inr (a, es)" by (auto split: sum.splits)
  with Cons.prems Cons.IH parse_artifact_outcome [OF p] show ?case
    by (fastforce simp: one_outcome_def split: option.splits)
qed

text \<open>The items on which the code raises instead of reporting an error.\<close>

definition unhashable :: "json \<Rightarrow> bool" where
  "unhashable j = (case j of JList _ \<Rightarrow> True | JDict _ \<Rightarrow> True | _ \<Rightarrow> False)"

definition raising_item :: "json \<Rightarrow> bool" where
  "raising_item item =
     (case item of
        JDict d \<Rightarrow>
          missing_fields d = [] \<and>
          (unhashable (the_field d ''artifact_type'') \<or>
           the_field d ''artifact_type'' \<in> JStr ` set VALID_ARTIFACT_TYPES \<and>
             (unhashable (the_field d ''language'') \<or>
              the_field d ''language'' \<in> JStr ` set VALID_LANGUAGES \<and> trim (py_str (the_field d ''path'')) = []))
      | _ \<Rightarrow> False)"

lemma enum_member_cases:
  "enum_member f j = Inl e \<Longrightarrow> unhashable j"
  "unhashable j \<Longrightarrow> \<exists>e. enum_member f j = Inl e"
  "enum_member f j = Inr (Some x) \<longleftrightarrow> (\<exists>s. j = JStr s \<and> f s = Some x)"
  by (cases j; simp add: enum_member_def unhashable_def)+

lemma all_artifact_types: "set [PAGE_OBJECT, TEST_SPEC, FIXTURE, CONFIG, SUPPORT] = UNIV"
  using artifact_type.exhaust by auto

lemma all_languages: "set [PYTHON, TYPESCRIPT, JAVA] = UNIV"
  using language.exhaust by auto

lemma valid_types: "s \<in> set VALID_ARTIFACT_TYPES \<longleftrightarrow> (\<exists>ty. artifact_type_of s = Some ty)"
  unfolding VALID_ARTIFACT_TYPES_def set_map all_artifact_types artifact_type_of_Some by (rule image_iff [THEN trans]) simp

lemma valid_languages: "s \<in> set VALID_LANGUAGES \<longleftrightarrow> (\<exists>l. language_of s = Some l)"
  unfolding VALID_LANGUAGES_def set_map all_languages language_of_Some by (rule image_iff [THEN trans]) simp

lemma parse_artifact_raises: "(\<exists>e. parse_artifact i item = Inl e) \<longleftrightarrow> raising_item item"
proof (cases item)
  case (JDict d)
  define ty lang where "ty = the_field d ''artifact_type''" and "lang = the_field d ''language''"
  show ?thesis
  proof (cases "missing_fields d = []")
    case True
    show ?thesis
    proof (cases "enum_member artifact_type_of ty")
      case (Inl e)
      with enum_member_cases(1) [OF Inl] True JDict show ?thesis
        by (simp add: parse_artifact_def raising_item_def ty_def)
    next
      case (Inr r)
      then have h: "\<not> unhashable ty" using enum_member_cases(2) [of ty artifact_type_of] by auto
      show ?thesis
      proof (cases r)
        case None
        with Inr have "ty \<notin> JStr ` set VALID_ARTIFACT_TYPES"
          by (auto simp: enum_member_def valid_types)
        with h None Inr True JDict show ?thesis
          by (simp add: parse_artifact_def raising_item_def ty_def)
      next
        case (Some t)
        with Inr have v: "ty \<in> JStr ` set VALID_ARTIFACT_TYPES"
          by (auto simp: enum_member_cases(3) valid_types)
        show ?thesis
        proof (cases "enum_member language_of lang")
          case (Inl e)
          with enum_member_cases(1) [OF Inl] v Some \<open>enum_member artifact_type_of ty = Inr r\<close> True JDict show ?thesis
            by (simp add: parse_artifact_def raising_item_def ty_def lang_def)
        next
          case L: (Inr l)
          then have hl: "\<not> unhashable lang" using enum_member_cases(2) [of lang language_of] by auto
          have lv: "lang \<in> JStr ` set VALID_LANGUAGES \<longleftrightarrow> l \<noteq> None"
            using L hl by (cases lang) (auto simp: enum_member_def valid_languages unhashable_def)
          show ?thesis
            using L hl lv v h Some Inr True JDict
            by (cases l) (auto simp: parse_artifact_def raising_item_def ty_def lang_def mk_artifact_def
                validate_str1_def split: sum.splits)
        qed
      qed
    qed
  next
    case False
    with JDict show ?thesis by (simp add: parse_artifact_def raising_item_def Let_def)
  qed
qed (simp_all add: parse_artifact_def raising_item_def)

lemma parse_artifacts_raises:
  "(\<exists>e. parse_artifacts i items arts errs = Inl e) \<longleftrightarrow> (\<exists>item \<in> set items. raising_item item)"
proof (induction items arbitrary: i arts errs)
  case Nil
  then show ?case by simp
next
  case (Cons item items)
  show ?case
  proof (cases "parse_artifact i item")
    case (Inl e)
    then show ?thesis using parse_artifact_raises [of i item] by auto
  next
    case (Inr r)
    obtain a es where r: "r = (a, es)" by (cases r)
    from Inr have "\<not> raising_item item" using parse_artifact_raises [of i item] by auto
    with Cons.IH [of "Suc i" "case a of None \<Rightarrow> arts | Some x \<Rightarrow> arts @ [x]" "errs @ es"] Inr r show ?thesis
      by simp
  qed
qed

section \<open>Properties\<close>

definition artifact_json :: "generated_artifact \<Rightarrow> json" where
  "artifact_json a = JDict
     [(''path'', JStr (ga_path a)), (''artifact_type'', JStr (artifact_type_value (ga_artifact_type a))),
      (''language'', JStr (language_value (ga_language a))), (''content'', JStr (ga_content a))]"

definition response_json :: "generated_artifact list \<Rightarrow> json" where
  "response_json as = JDict [(''artifacts'', JList (map artifact_json as))]"

lemma parse_artifact_json:
  assumes "wf_artifact a"
  shows "parse_artifact i (artifact_json a) = Inr (Some a, [])"
proof -
  let ?d = "[(''path'', JStr (ga_path a)), (''artifact_type'', JStr (artifact_type_value (ga_artifact_type a))),
      (''language'', JStr (language_value (ga_language a))), (''content'', JStr (ga_content a))]"
  have m: "missing_fields ?d = []" by (simp add: missing_fields_def REQUIRED_FIELDS_def)
  have f: "the_field ?d ''path'' = JStr (ga_path a)" "the_field ?d ''content'' = JStr (ga_content a)"
    "the_field ?d ''artifact_type'' = JStr (artifact_type_value (ga_artifact_type a))"
    "the_field ?d ''language'' = JStr (language_value (ga_language a))"
    by (simp_all add: the_field_def dict_get_or_def)
  have "mk_artifact (ga_path a) (ga_artifact_type a) (ga_language a) (ga_content a) = Inr a"
    using assms by (cases a) (simp add: mk_artifact_def wf_artifact_def contract_str_def validate_str1_id)
  then show ?thesis
    by (simp add: artifact_json_def parse_artifact_def m f enum_member_def py_str_def del: missing_fields_def)
qed

lemma parse_artifacts_json:
  "list_all wf_artifact as \<Longrightarrow> parse_artifacts i (map artifact_json as) arts errs = Inr (arts @ as, errs)"
  by (induction as arbitrary: i arts) (simp_all add: parse_artifact_json)

lemma normalize_rendered:
  assumes "list_all wf_artifact as"
  shows "normalize (dumps (response_json as)) = Inr (as, [])"
    and "normalize (dumps_indent 0 (response_json as)) = Inr (as, [])"
proof -
  have "plain (response_json as)"
    by (auto simp: response_json_def artifact_json_def dict_ok_def list_all_iff)
  from json_roundtrip [OF this]
  show "normalize (dumps (response_json as)) = Inr (as, [])"
    "normalize (dumps_indent 0 (response_json as)) = Inr (as, [])"
    by (simp_all add: normalize_def response_json_def parse_artifacts_json [OF assms])
qed

text \<open>C11: a provider that answers with the JSON rendering of valid artifacts, compact or indented, is
  understood exactly: the same artifacts in the same order, and no error.\<close>

theorem normalize_roundtrip:
  assumes "list_all wf_artifact as"
  shows "normalize (dumps (response_json as)) = Inr (as, []) \<and>
    normalize (dumps_indent 0 (response_json as)) = Inr (as, [])"
  using normalize_rendered [OF assms] by blast

definition demo_artifact :: generated_artifact where
  "demo_artifact = \<lparr>ga_path = ''a.py'', ga_language = PYTHON, ga_content = ''pass'', ga_artifact_type = TEST_SPEC\<rparr>"

lemma normalize_roundtrip_witness:
  "normalize (dumps (response_json [demo_artifact])) = Inr ([demo_artifact], [])"
  by (rule normalize_roundtrip [THEN conjunct1]) code_simp

text \<open>A normalisation that returns accounts for every item of the response's artifact list: each is an
  artifact, which satisfies its contract, or one error.\<close>

theorem normalize_accounts:
  assumes "loads raw = Inr (JDict d)" and "dict_get d ''artifacts'' = Some (JList items)"
    and "normalize raw = Inr (as, errs)"
  shows "length as + length errs = length items \<and> list_all wf_artifact as"
  using parse_artifacts_count [of 0 items "[]" "[]" as errs] assms by (simp add: normalize_def)

lemma normalize_accounts_witness:
  "length (snd (projr (normalize ''{\"artifacts\": [1, {}]}''))) = 2"
proof -
  have l: "loads ''{\"artifacts\": [1, {}]}'' = Inr (JDict [(''artifacts'', JList [JInt 1, JDict []])])"
    by code_simp
  have "ok (normalize ''{\"artifacts\": [1, {}]}'')" by code_simp
  then obtain as errs where n: "normalize ''{\"artifacts\": [1, {}]}'' = Inr (as, errs)"
    by (auto simp: ok_iff)
  moreover have "fst (projr (normalize ''{\"artifacts\": [1, {}]}'')) = []" by code_simp
  ultimately show ?thesis using normalize_accounts [OF l _ n, of "[JInt 1, JDict []]"] by simp
qed


end
