(* ===== verification/Providers.thy ===== *)
theory Providers
  imports Credentials Normalizer
begin

text \<open>
  \<open>totalrecall/providers\<close>: the stub, OpenAI and local adapters and the gateway that routes a request
  along its chain of provider ids. The \<open>openai\<close> package and the HTTP exchange with a local server are
  parameters: one call takes the request and the state of the outside world and returns the decoded
  answer or the exception, the elapsed milliseconds and the new state.
\<close>

section \<open>The outside world\<close>

record openai_reply =
  oa_choices :: "(string option \<times> string option) list"
  oa_model :: string
  oa_usage :: "(nat \<times> nat) option"

datatype openai_call = ChatCreate "(string, json) dict" | ModelsList

record 'p llm_ext =
  lx_http :: http
  lx_env :: env
  lx_openai :: "(string \<Rightarrow> openai_call \<Rightarrow> 'p \<Rightarrow> openai_reply result \<times> nat \<times> 'p) option"
  lx_post :: "string \<Rightarrow> (string, string) dict \<Rightarrow> json \<Rightarrow> int \<Rightarrow> 'p \<Rightarrow> json result \<times> nat \<times> 'p"
  lx_get :: "string \<Rightarrow> (string, string) dict \<Rightarrow> 'p \<Rightarrow> bool result \<times> nat \<times> 'p"

section \<open>Responses\<close>

definition mk_response ::
  "provider_request \<Rightarrow> string \<Rightarrow> string \<Rightarrow> string \<Rightarrow> provider_usage \<Rightarrow> finish_reason \<Rightarrow> service_error list
   \<Rightarrow> nat \<Rightarrow> provider_response result" where
  "mk_response q pid model raw usage fr errs ms =
     rbind (validate_str1 ''request_id'' (pq_request_id q)) (\<lambda>rid.
     rbind (validate_str1 ''provider_id'' pid) (\<lambda>p.
     rbind (validate_str1 ''model'' model) (\<lambda>m.
       Inr \<lparr>pr_request_id = rid, pr_provider_id = p, pr_model = m, pr_raw_text = trim raw, pr_usage = usage,
            pr_finish_reason = fr, pr_errors = errs, pr_latency_ms = Some ms\<rparr>)))"

definition no_usage :: provider_usage where
  "no_usage = \<lparr>pu_input_tokens = 0, pu_output_tokens = 0\<rparr>"

text \<open>The \<open>ServiceError\<close> of a failed call; its message must not be blank.\<close>

definition unavailable :: "bool \<Rightarrow> string \<Rightarrow> service_error result" where
  "unavailable retry msg =
     rbind (validate_str1 ''message'' msg)
       (\<lambda>m. Inr ((mk_error PROVIDER_UNAVAILABLE m)\<lparr>se_retryable := retry\<rparr>))"

definition error_response :: "provider_request \<Rightarrow> string \<Rightarrow> string \<Rightarrow> py_exn \<Rightarrow> nat \<Rightarrow> provider_response result" where
  "error_response q pid model e ms =
     rbind (unavailable True (exn_str e)) (\<lambda>err. mk_response q pid model [] no_usage F_ERROR [err] ms)"

section \<open>The stub provider\<close>

definition DEFAULT_ARTIFACT :: json where
  "DEFAULT_ARTIFACT = JDict [(''artifacts'', JList
     [JDict
        [(''path'', JStr ''pages/stub/stub.page.ts''), (''artifact_type'', JStr ''page_object''),
         (''language'', JStr ''typescript''),
         (''content'', JStr (''// stub generated page object'' @ nl @ ''export class StubPage {}''))]])]"

definition DEFAULT_TEST_CASE_PACK :: json where
  "DEFAULT_TEST_CASE_PACK = JDict
     [(''story_summary'', JStr ''Stub story summary''),
      (''assumptions'', JList [JStr ''Stub provider returns deterministic local test cases.'']),
      (''test_cases'', JList
        [JDict
          [(''id'', JStr ''TC-001''), (''type'', JStr ''negative''),
           (''title'', JStr ''Reject invalid login credentials''),
           (''preconditions'', JList [JStr ''User is on the login page'']),
           (''steps'', JList [JStr ''Enter an invalid username or password'', JStr ''Submit the login form'']),
           (''expected_result'', JStr ''The user remains on the login page and sees a validation error.''),
           (''acceptance_criterion_ref'', JStr ''AC-001''),
           (''tags'', JList [JStr ''login'', JStr ''negative''])]]),
      (''traceability_matrix'', JList
        [JDict [(''acceptance_criterion'', JStr ''Invalid credentials are rejected''),
                (''test_case_ids'', JList [JStr ''TC-001''])]]),
      (''coverage_summary'', JStr ''Covers one deterministic negative-path login scenario.''),
      (''test_types_covered'', JList [JStr ''negative''])]"

definition default_response_for :: "provider_request \<Rightarrow> json" where
  "default_response_for q =
     (let prompt = join nl (map pm_content (pq_messages q))
      in if contains (quote_str ''test_cases'') prompt \<and> contains (quote_str ''story_summary'') prompt
         then DEFAULT_TEST_CASE_PACK else DEFAULT_ARTIFACT)"

definition stub_generate :: "(string, json) dict option \<Rightarrow> provider_request \<Rightarrow> provider_response result" where
  "stub_generate fixed q =
     (let raw = dumps (case fixed of Some d \<Rightarrow> if d = [] then default_response_for q else JDict d
                       | None \<Rightarrow> default_response_for q)
      in mk_response q ''stub'' (pc_model (pq_config q)) raw
           \<lparr>pu_input_tokens = sum_list (map (\<lambda>m. count_words (pm_content m)) (pq_messages q)),
            pu_output_tokens = count_words raw\<rparr> F_STOP [] 0)"

section \<open>The OpenAI provider\<close>

record openai_provider =
  op_credentials :: credential_provider
  op_credential_ref :: string
  op_client :: "string option"

definition OPENAI_NOT_INSTALLED :: string where
  "OPENAI_NOT_INSTALLED = ''The '' @ [CHR 0x27] @ ''openai'' @ [CHR 0x27]
     @ '' package is required to use OpenAIProvider. Install it with: uv add openai''"

text \<open>The client is identified with the API key it was built for.\<close>

definition openai_client ::
  "'p llm_ext \<Rightarrow> fs \<Rightarrow> openai_provider \<Rightarrow> ((openai_call \<Rightarrow> 'p \<Rightarrow> openai_reply result \<times> nat \<times> 'p) result) \<times> openai_provider" where
  "openai_client L fs a =
     (case lx_openai L of
        None \<Rightarrow> (Inl (ImportError OPENAI_NOT_INSTALLED), a)
      | Some sdk \<Rightarrow>
          (case op_client a of
             Some key \<Rightarrow> (Inr (sdk key), a)
           | None \<Rightarrow>
               (case credential_get (lx_env L) (lx_http L) fs (op_credentials a) (op_credential_ref a) of
                  Inl e \<Rightarrow> (Inl e, a)
                | Inr key \<Rightarrow> (Inr (sdk key), a\<lparr>op_client := Some key\<rparr>))))"

definition openai_kwargs :: "provider_request \<Rightarrow> (string, json) dict" where
  "openai_kwargs q =
     (let c = pq_config q
      in [(''model'', JStr (pc_model c)),
          (''messages'', JList (map (\<lambda>m. JDict [(''role'', JStr (role_value (pm_role m))), (''content'', JStr (pm_content m))])
             (pq_messages q))),
          (''temperature'', JFloat (pc_temperature c)),
          (''timeout'', JInt (pc_timeout_seconds c))]
         @ (case pc_max_output_tokens c of
              Some n \<Rightarrow> if n \<noteq> 0 then [(''max_tokens'', JInt n)] else [] | None \<Rightarrow> []))"

definition finish_of :: "string option \<Rightarrow> finish_reason" where
  "finish_of s = dict_get_or [(''stop'', F_STOP), (''length'', F_LENGTH), (''tool_calls'', F_TOOL_CALL)]
     (case s of None \<Rightarrow> [] | Some x \<Rightarrow> x) F_UNKNOWN"

definition openai_generate ::
  "'p llm_ext \<Rightarrow> fs \<Rightarrow> provider_request \<Rightarrow> openai_provider \<Rightarrow> 'p \<Rightarrow> provider_response result \<times> openai_provider \<times> 'p" where
  "openai_generate L fs q a r =
     (case openai_client L fs a of
        (Inl e, a1) \<Rightarrow> (error_response q ''openai'' (pc_model (pq_config q)) e 0, a1, r)
      | (Inr client, a1) \<Rightarrow>
          (case client (ChatCreate (openai_kwargs q)) r of
             (Inl e, ms, r1) \<Rightarrow> (error_response q ''openai'' (pc_model (pq_config q)) e ms, a1, r1)
           | (Inr reply, ms, r1) \<Rightarrow>
               ((case oa_choices reply of
                   [] \<Rightarrow> Inl (IndexError ''list index out of range'')
                 | (finish, content) # _ \<Rightarrow>
                     mk_response q ''openai'' (oa_model reply) (case content of None \<Rightarrow> [] | Some c \<Rightarrow> c)
                       (case oa_usage reply of None \<Rightarrow> no_usage
                        | Some (i, out) \<Rightarrow> \<lparr>pu_input_tokens = i, pu_output_tokens = out\<rparr>)
                       (finish_of finish) [] ms), a1, r1)))"

definition openai_health ::
  "'p llm_ext \<Rightarrow> fs \<Rightarrow> openai_provider \<Rightarrow> 'p \<Rightarrow> provider_health result \<times> openai_provider \<times> 'p" where
  "openai_health L fs a r =
     (let down = (\<lambda>e. rbind (unavailable False (exn_str e)) (\<lambda>err. Inr
            \<lparr>ph_provider_id = ''openai'', ph_status = H_UNAVAILABLE, ph_model = None, ph_latency_ms = None, ph_error = Some err\<rparr>))
      in (case openai_client L fs a of
            (Inl e, a1) \<Rightarrow> (down e, a1, r)
          | (Inr client, a1) \<Rightarrow>
              (case client ModelsList r of
                 (Inl e, _, r1) \<Rightarrow> (down e, a1, r1)
               | (Inr _, ms, r1) \<Rightarrow>
                   (Inr \<lparr>ph_provider_id = ''openai'', ph_status = H_OK, ph_model = None, ph_latency_ms = Some ms,
                         ph_error = None\<rparr>, a1, r1))))"

section \<open>The local provider\<close>

record local_provider =
  lp_credentials :: "credential_provider option"
  lp_base_url :: string
  lp_model :: string

definition local_base_url :: "'p llm_ext \<Rightarrow> fs \<Rightarrow> local_provider \<Rightarrow> string result" where
  "local_base_url L fs a =
     (case lp_credentials a of
        None \<Rightarrow> Inr (rstrip_chr ''/'' (lp_base_url a))
      | Some cp \<Rightarrow>
          (case credential_get (lx_env L) (lx_http L) fs cp ''local_llm_base_url'' of
             Inr u \<Rightarrow> Inr (rstrip_chr ''/'' u)
           | Inl (CredentialNotFoundError _) \<Rightarrow> Inr (rstrip_chr ''/'' (lp_base_url a))
           | Inl e \<Rightarrow> Inl e))"

definition local_headers :: "'p llm_ext \<Rightarrow> fs \<Rightarrow> local_provider \<Rightarrow> (string, string) dict result" where
  "local_headers L fs a =
     (case lp_credentials a of
        None \<Rightarrow> Inr []
      | Some cp \<Rightarrow>
          (case credential_get (lx_env L) (lx_http L) fs cp ''local_llm_api_key'' of
             Inr token \<Rightarrow> Inr [(''Authorization'', ''Bearer '' @ token)]
           | Inl (CredentialNotFoundError _) \<Rightarrow> Inr []
           | Inl e \<Rightarrow> Inl e))"

definition or_else :: "string \<Rightarrow> string \<Rightarrow> string" where
  "or_else a b = (if a \<noteq> [] then a else b)"

definition local_prompt :: "provider_request \<Rightarrow> string" where
  "local_prompt q = join (nl @ nl) (map (\<lambda>m. role_value (pm_role m) @ '': '' @ pm_content m) (pq_messages q))"

definition local_payload :: "provider_request \<Rightarrow> local_provider \<Rightarrow> json" where
  "local_payload q a = JDict
     [(''model'', JStr (or_else (pc_model (pq_config q)) (lp_model a))), (''prompt'', JStr (local_prompt q)),
      (''stream'', JBool False), (''options'', JDict [(''temperature'', JFloat (pc_temperature (pq_config q)))])]"

text \<open>\<open>data.get(...)\<close> outside the \<open>try\<close>: an answer that is no JSON object raises.\<close>

definition local_answer :: "provider_request \<Rightarrow> local_provider \<Rightarrow> json \<Rightarrow> nat \<Rightarrow> provider_response result" where
  "local_answer q a data ms =
     (case data of
        JDict d \<Rightarrow>
          (let field = (\<lambda>k. dict_get_or d k JNull);
               raw = (if truthy (field ''response'') then py_str (field ''response'') else []);
               model = (if truthy (field ''model'') then py_str (field ''model'')
                        else or_else (pc_model (pq_config q)) (lp_model a))
           in mk_response q ''local'' model raw
                \<lparr>pu_input_tokens = count_words (local_prompt q), pu_output_tokens = count_words raw\<rparr> F_STOP [] ms)
      | _ \<Rightarrow> Inl (OtherError ''AttributeError'' ''get''))"

definition local_generate ::
  "'p llm_ext \<Rightarrow> fs \<Rightarrow> provider_request \<Rightarrow> local_provider \<Rightarrow> 'p \<Rightarrow> provider_response result \<times> 'p" where
  "local_generate L fs q a r =
     (case local_headers L fs a of
        Inl e \<Rightarrow> (Inl e, r)
      | Inr headers \<Rightarrow>
          (let failed = error_response q ''local'' (or_else (pc_model (pq_config q)) (lp_model a))
           in (case local_base_url L fs a of
                 Inl e \<Rightarrow> (failed e 0, r)
               | Inr url \<Rightarrow>
                   (case lx_post L (url @ ''/api/generate'') headers (local_payload q a)
                           (pc_timeout_seconds (pq_config q)) r of
                      (Inl e, ms, r1) \<Rightarrow> (failed e ms, r1)
                    | (Inr data, ms, r1) \<Rightarrow> (local_answer q a data ms, r1)))))"

definition local_health :: "'p llm_ext \<Rightarrow> fs \<Rightarrow> local_provider \<Rightarrow> 'p \<Rightarrow> provider_health result \<times> 'p" where
  "local_health L fs a r =
     (let down = (\<lambda>e. rbind (unavailable True (exn_str e)) (\<lambda>err. Inr
            \<lparr>ph_provider_id = ''local'', ph_status = H_UNAVAILABLE, ph_model = Some (lp_model a), ph_latency_ms = None,
             ph_error = Some err\<rparr>))
      in (case local_base_url L fs a of
            Inl e \<Rightarrow> (down e, r)
          | Inr url \<Rightarrow>
              (case local_headers L fs a of
                 Inl e \<Rightarrow> (down e, r)
               | Inr headers \<Rightarrow>
                   (case lx_get L (url @ ''/api/tags'') headers r of
                      (Inl e, _, r1) \<Rightarrow> (down e, r1)
                    | (Inr success, ms, r1) \<Rightarrow>
                        (Inr \<lparr>ph_provider_id = ''local'', ph_status = (if success then H_OK else H_DEGRADED),
                              ph_model = Some (lp_model a), ph_latency_ms = Some ms, ph_error = None\<rparr>, r1)))))"

section \<open>ProviderInterface\<close>

datatype provider =
    StubProvider "(string, json) dict option"
  | OpenAIProvider openai_provider
  | LocalProvider local_provider

fun provider_generate ::
  "'p llm_ext \<Rightarrow> fs \<Rightarrow> provider_request \<Rightarrow> provider \<Rightarrow> 'p \<Rightarrow> provider_response result \<times> provider \<times> 'p" where
  "provider_generate L fs q (StubProvider fixed) r = (stub_generate fixed q, StubProvider fixed, r)"
| "provider_generate L fs q (OpenAIProvider a) r =
     (case openai_generate L fs q a r of (x, a1, r1) \<Rightarrow> (x, OpenAIProvider a1, r1))"
| "provider_generate L fs q (LocalProvider a) r =
     (case local_generate L fs q a r of (x, r1) \<Rightarrow> (x, LocalProvider a, r1))"

fun provider_health_check ::
  "'p llm_ext \<Rightarrow> fs \<Rightarrow> provider \<Rightarrow> 'p \<Rightarrow> provider_health result \<times> provider \<times> 'p" where
  "provider_health_check L fs (StubProvider fixed) r =
     (Inr \<lparr>ph_provider_id = ''stub'', ph_status = H_OK, ph_model = Some ''stub'', ph_latency_ms = Some 0, ph_error = None\<rparr>,
      StubProvider fixed, r)"
| "provider_health_check L fs (OpenAIProvider a) r =
     (case openai_health L fs a r of (x, a1, r1) \<Rightarrow> (x, OpenAIProvider a1, r1))"
| "provider_health_check L fs (LocalProvider a) r =
     (case local_health L fs a r of (x, r1) \<Rightarrow> (x, LocalProvider a, r1))"

section \<open>ProviderGateway\<close>

type_synonym gateway = "(string, provider) dict"

definition build_gateway :: "credential_provider \<Rightarrow> gateway" where
  "build_gateway cp =
     [(''stub'', StubProvider None),
      (''openai'', OpenAIProvider \<lparr>op_credentials = cp, op_credential_ref = ''openai_api_key'', op_client = None\<rparr>),
      (''local'', LocalProvider \<lparr>lp_credentials = Some cp, lp_base_url = ''http://localhost:11434'', lp_model = ''llama3''\<rparr>)]"

definition not_registered :: "gateway \<Rightarrow> string \<Rightarrow> py_exn" where
  "not_registered g pid = ProviderNotFoundError (''Provider '' @ [CHR 0x27] @ pid @ [CHR 0x27]
     @ '' is not registered. Available: '' @ repr_str_list (sort (dict_keys g)))"

definition with_provider_id :: "string \<Rightarrow> provider_request \<Rightarrow> provider_request" where
  "with_provider_id pid q = q\<lparr>pq_config := (pq_config q)\<lparr>pc_provider_id := pid\<rparr>\<rparr>"

text \<open>The loop over the chain; the extra argument is the last \<open>ProviderNotFoundError\<close>.\<close>

fun generate_chain ::
  "'p llm_ext \<Rightarrow> fs \<Rightarrow> string list \<Rightarrow> py_exn \<Rightarrow> provider_request \<Rightarrow> gateway \<Rightarrow> 'p
   \<Rightarrow> provider_response result \<times> gateway \<times> 'p" where
  "generate_chain L fs [] e q g r = (Inl e, g, r)"
| "generate_chain L fs (pid # pids) last_exc q g r =
     (case dict_get g pid of
        None \<Rightarrow> generate_chain L fs pids (not_registered g pid) q g r
      | Some p \<Rightarrow>
          (let q1 = (if pid \<noteq> pc_provider_id (pq_config q) then with_provider_id pid q else q)
           in (case provider_generate L fs q1 p r of
                 (Inl (ProviderNotFoundError m), p1, r1) \<Rightarrow>
                   generate_chain L fs pids (ProviderNotFoundError m) q1 (dict_set pid p1 g) r1
               | (Inl e, p1, r1) \<Rightarrow> (Inl e, dict_set pid p1 g, r1)
               | (Inr resp, p1, r1) \<Rightarrow>
                   (Inr (if pr_provider_id resp \<noteq> pid then resp\<lparr>pr_provider_id := pid\<rparr> else resp),
                    dict_set pid p1 g, r1))))"

definition gateway_generate ::
  "'p llm_ext \<Rightarrow> fs \<Rightarrow> provider_request \<Rightarrow> string list \<Rightarrow> gateway \<Rightarrow> 'p \<Rightarrow> provider_response result \<times> gateway \<times> 'p" where
  "gateway_generate L fs q fallbacks g r =
     generate_chain L fs (pc_provider_id (pq_config q) # fallbacks) (TypeError ''exceptions must derive from BaseException'') q g r"

definition gateway_health ::
  "'p llm_ext \<Rightarrow> fs \<Rightarrow> string \<Rightarrow> gateway \<Rightarrow> 'p \<Rightarrow> provider_health result \<times> gateway \<times> 'p" where
  "gateway_health L fs pid g r =
     (case dict_get g pid of
        None \<Rightarrow>
          (rbind (validate_str1 ''provider_id'' pid) (\<lambda>p. Inr
             \<lparr>ph_provider_id = p, ph_status = H_UNAVAILABLE, ph_model = None, ph_latency_ms = None,
              ph_error = Some (mk_error PROVIDER_UNAVAILABLE (''Provider '' @ [CHR 0x27] @ pid @ [CHR 0x27] @ '' is not registered''))\<rparr>),
           g, r)
      | Some p \<Rightarrow> (case provider_health_check L fs p r of (x, p1, r1) \<Rightarrow> (x, dict_set pid p1 g, r1)))"

definition registered_ids :: "gateway \<Rightarrow> string list" where
  "registered_ids g = dict_keys g"

section \<open>Providers never ask for the next one\<close>

text \<open>Only an unregistered id moves the gateway along the chain: what a provider raises itself is never a
  \<open>ProviderNotFoundError\<close>.\<close>

definition not_lost :: "'a result \<Rightarrow> bool" where
  "not_lost x = (case x of Inl (ProviderNotFoundError _) \<Rightarrow> False | _ \<Rightarrow> True)"

lemma not_lost_simps [simp]:
  "not_lost (Inr x)" "not_lost (Inl (ValidationError m))" "not_lost (Inl (CredentialNotFoundError m))"
  "not_lost (Inl (KeyError m))" "not_lost (Inl (IndexError m))" "not_lost (Inl (OtherError c m))"
  "not_lost (Inl (ValueError m))" "not_lost (Inl (TypeError m))" "not_lost (Inl (RuntimeError m))"
  by (simp_all add: not_lost_def)

lemma not_lost_rbind: "not_lost x \<Longrightarrow> (\<And>y. x = Inr y \<Longrightarrow> not_lost (f y)) \<Longrightarrow> not_lost (rbind x f)"
  by (cases x) (auto simp: not_lost_def split: py_exn.splits)

lemma not_lost_validate: "not_lost (validate_str1 f s)"
  by (simp add: validate_str1_def)

lemma not_lost_response: "not_lost (mk_response q pid m raw u fr es ms)"
  unfolding mk_response_def by (intro not_lost_rbind not_lost_validate not_lost_simps)

lemma not_lost_error: "not_lost (error_response q pid m e ms)"
  unfolding error_response_def unavailable_def
  by (intro not_lost_rbind not_lost_validate not_lost_simps not_lost_response)

lemma not_lost_chain: "list_all not_lost rs \<Longrightarrow> not_lost (chain_try rs errs)"
  by (induction rs errs rule: chain_try.induct) (auto simp: not_lost_def split: py_exn.splits)

lemma not_lost_credential: "not_lost (credential_get env http fs cp k)"
proof (induction env http fs cp k rule: credential_get.induct)
  case (1 env http fs refs dir k)
  then show ?case by (auto simp: env_local_get_def missing_ref_def unsupported_ref_def Let_def split: option.splits)
next
  case (2 env http fs x k)
  then show ?case
    by (auto simp: external_get_def missing_ref_def unsupported_ref_def Let_def split: option.splits sum.splits json.splits)
next
  case (3 env http fs dir k)
  then show ?case
    by (auto simp: cred_get_def definition_of_def Let_def split: option.splits sum.splits)
next
  case (4 env http fs ps k)
  then show ?case by (auto simp: list_all_iff intro!: not_lost_chain)
qed

lemma not_lost_headers: "not_lost (local_headers L fs a)"
proof (cases "lp_credentials a")
  case (Some cp)
  then show ?thesis
    using not_lost_credential [of "lx_env L" "lx_http L" fs cp "''local_llm_api_key''"]
    by (auto simp: local_headers_def not_lost_def split: sum.splits py_exn.splits)
qed (simp add: local_headers_def)

lemma provider_generate_not_lost: "not_lost (fst (provider_generate L fs q p r))"
proof (cases p)
  case (StubProvider fixed)
  then show ?thesis by (simp add: stub_generate_def Let_def not_lost_response)
next
  case (OpenAIProvider a)
  then show ?thesis
    by (auto simp: openai_generate_def not_lost_response not_lost_error split: prod.splits sum.splits list.splits)
next
  case (LocalProvider a)
  then show ?thesis
    using not_lost_headers [of L fs a]
    by (cases "local_headers L fs a")
      (auto simp: local_generate_def local_answer_def Let_def not_lost_response not_lost_error
        split: prod.splits sum.splits json.splits, simp add: not_lost_def)
qed

section \<open>Properties\<close>

definition answered_as :: "string \<Rightarrow> provider_response result \<Rightarrow> provider_response result" where
  "answered_as pid x = (case x of Inl e \<Rightarrow> Inl e | Inr resp \<Rightarrow> Inr (resp\<lparr>pr_provider_id := pid\<rparr>))"

lemma generate_chain_find:
  "(case find (\<lambda>pid. dict_get g pid \<noteq> None) pids of
      None \<Rightarrow> generate_chain L fs pids e q g r = (Inl (if pids = [] then e else not_registered g (last pids)), g, r)
    | Some pid \<Rightarrow>
        (case provider_generate L fs (with_provider_id pid q) (the (dict_get g pid)) r of
           (x, p1, r1) \<Rightarrow> generate_chain L fs pids e q g r =
             (answered_as pid x, dict_set pid p1 g, r1)))"
proof (induction pids arbitrary: e)
  case Nil
  then show ?case by simp
next
  case (Cons pid pids)
  show ?case
  proof (cases "dict_get g pid")
    case None
    with Cons [of "not_registered g pid"] show ?thesis by (auto split: option.splits)
  next
    case (Some p)
    have q: "(if pid \<noteq> pc_provider_id (pq_config q) then with_provider_id pid q else q) = with_provider_id pid q"
      by (simp add: with_provider_id_def)
    obtain x p1 r1 where x: "provider_generate L fs (with_provider_id pid q) p r = (x, p1, r1)"
      by (cases "provider_generate L fs (with_provider_id pid q) p r") auto
    have nl: "not_lost x" using provider_generate_not_lost [of L fs "with_provider_id pid q" p r] x by simp
    show ?thesis
    proof (cases x)
      case (Inl err)
      with nl Some x q show ?thesis by (cases err) (simp_all add: not_lost_def answered_as_def)
    next
      case (Inr resp)
      with Some x q show ?thesis by (simp add: answered_as_def)
    qed
  qed
qed


text \<open>Once the OpenAI client exists, later requests use the key it was built with: a change of the
  credentials has no effect on them.\<close>

theorem openai_key_sticky:
  assumes "openai_generate L fs q a r = (x, a1, r1)" and "op_client a1 = Some key"
  shows "openai_generate L fs' q' a1 r' = openai_generate L fs'' q' a1 r' \<and>
    op_client (fst (snd (openai_generate L fs' q' a1 r'))) = Some key"
  using assms(2) by (auto simp: openai_generate_def openai_client_def split: option.splits prod.splits sum.splits)

definition demo_openai :: openai_provider where
  "demo_openai = \<lparr>op_credentials = EnvLocalCredentialProvider [(''openai_api_key'', ''env:KEY'')] [],
     op_credential_ref = ''openai_api_key'', op_client = None\<rparr>"

definition demo_llm :: "unit llm_ext" where
  "demo_llm = \<lparr>lx_http = (\<lambda>_ _. None), lx_env = (\<lambda>k. if k = ''KEY'' then Some ''k1'' else None),
     lx_openai = Some (\<lambda>key call r. (Inr \<lparr>oa_choices = [(Some ''stop'', Some key)], oa_model = ''m'', oa_usage = None\<rparr>, 1, r)),
     lx_post = (\<lambda>_ _ _ _ r. (Inl (RuntimeError ''down''), 1, r)), lx_get = (\<lambda>_ _ r. (Inr True, 1, r))\<rparr>"

definition demo_provider_request :: "string \<Rightarrow> string \<Rightarrow> provider_request" where
  "demo_provider_request pid prompt = \<lparr>pq_request_id = ''r1'', pq_tenant_id = ''acme'',
     pq_messages = [\<lparr>pm_role = USER, pm_content = prompt\<rparr>], pq_config = mk_config pid ''m'' None\<rparr>"

lemma openai_key_sticky_witness:
  "op_client (fst (snd (openai_generate demo_llm [] (demo_provider_request ''openai'' ''hi'')
     (fst (snd (openai_generate demo_llm [] (demo_provider_request ''openai'' ''hi'') demo_openai ()))) ()))) = Some ''k1''"
proof -
  let ?q = "demo_provider_request ''openai'' ''hi''"
  let ?o = "openai_generate demo_llm [] ?q demo_openai ()"
  have k: "op_client (fst (snd ?o)) = Some ''k1''" by code_simp
  obtain x a1 r1 where o': "?o = (x, a1, r1)" by (cases ?o) auto
  with k have "op_client a1 = Some ''k1''" by simp
  from openai_key_sticky [OF o' this] o' show ?thesis by simp
qed

definition stub_artifact :: generated_artifact where
  "stub_artifact = \<lparr>ga_path = ''pages/stub/stub.page.ts'', ga_language = TYPESCRIPT,
     ga_content = ''// stub generated page object'' @ nl @ ''export class StubPage {}'', ga_artifact_type = PAGE_OBJECT\<rparr>"

text \<open>The stub provider answers every code generation request with the same response, and the
  normaliser reads its one artifact back without errors.\<close>

theorem stub_answers_readably:
  assumes "contract_str1 (pq_request_id q)" and "contract_str1 (pc_model (pq_config q))"
    and "default_response_for q = DEFAULT_ARTIFACT"
  shows "\<exists>resp. stub_generate None q = Inr resp \<and> pr_errors resp = [] \<and> pr_finish_reason resp = F_STOP \<and>
    normalize (pr_raw_text resp) = Inr ([stub_artifact], [])"
proof -
  have t: "trim (dumps DEFAULT_ARTIFACT) = dumps DEFAULT_ARTIFACT" by code_simp
  have "DEFAULT_ARTIFACT = response_json [stub_artifact]"
    by (simp add: DEFAULT_ARTIFACT_def response_json_def artifact_json_def stub_artifact_def)
  moreover have "list_all wf_artifact [stub_artifact]" by code_simp
  ultimately have "normalize (dumps DEFAULT_ARTIFACT) = Inr ([stub_artifact], [])"
    using normalize_rendered by metis
  moreover have "contract_str1 ''stub''" by code_simp
  ultimately show ?thesis using assms
    by (simp add: stub_generate_def mk_response_def Let_def validate_str1_id t)
qed

lemma stub_answers_readably_witness:
  "ok (stub_generate None (demo_provider_request ''stub'' ''hi''))"
proof -
  have "contract_str1 (pq_request_id (demo_provider_request ''stub'' ''hi''))"
    "contract_str1 (pc_model (pq_config (demo_provider_request ''stub'' ''hi'')))"
    "default_response_for (demo_provider_request ''stub'' ''hi'') = DEFAULT_ARTIFACT"
    by code_simp+
  from stub_answers_readably [OF this] show ?thesis by auto
qed

end
