(* ===== verification/Metadata.thy ===== *)
theory Metadata
  imports Contracts PyRegex
begin

text \<open>
  \<open>totalrecall/metadata/extractor.py\<close>: domain, route, test intents and target stack of a generation
  request. The regular expressions of the intent rules are values of \<open>re\<close>.
\<close>

section \<open>Intent rules\<close>

definition KNOWN_COMBINATIONS :: "(language \<times> framework) list" where
  "KNOWN_COMBINATIONS = [(TYPESCRIPT, PLAYWRIGHT), (PYTHON, PYTEST), (JAVA, JUNIT), (JAVA, TESTNG)]"

definition bounded :: "re list \<Rightarrow> re" where
  "bounded rs = cats [Bound, alts rs, Bound]"

definition suffix_opt :: "string \<Rightarrow> string \<Rightarrow> re" where
  "suffix_opt s t = Cat (word s) (opt (word t))"

definition INTENT_RULES :: "(re \<times> string) list" where
  "INTENT_RULES =
     [(bounded [cats [suffix_opt ''log'' ''ging'', opt (one_of ''- ''), word ''in''],
                cats [suffix_opt ''sign'' ''ing'', opt (one_of '' -''), word ''in''],
                word ''authenticate'', suffix_opt ''auth'' ''entication''], ''login''),
      (bounded [cats [suffix_opt ''log'' ''ging'', opt (one_of ''- ''), word ''out''],
                cats [suffix_opt ''sign'' ''ing'', opt (one_of '' -''), word ''out'']], ''logout''),
      (bounded [word ''register'', cats [suffix_opt ''sign'' ''ing'', opt (one_of '' -''), word ''up''],
                cats [suffix_opt ''creat'' ''e'', plus space, word ''account'']], ''registration''),
      (bounded [word ''search'', word ''filter'', word ''sort'', word ''find'', word ''lookup''], ''search''),
      (bounded [word ''checkout'', word ''payment'', word ''billing'', word ''pay''], ''checkout''),
      (bounded [word ''cart'', word ''basket'', word ''shopping''], ''cart''),
      (bounded [word ''order'', word ''purchase'', word ''buy''], ''order''),
      (bounded [word ''upload'', word ''download'', word ''import'', word ''export''], ''file_transfer''),
      (bounded [suffix_opt ''creat'' ''e'', word ''add'', word ''new'', word ''submit''], ''create''),
      (bounded [word ''edit'', suffix_opt ''updat'' ''e'', suffix_opt ''modif'' ''y'', suffix_opt ''chang'' ''e''], ''update''),
      (bounded [suffix_opt ''delet'' ''e'', suffix_opt ''remov'' ''e''], ''delete''),
      (bounded [cats [suffix_opt ''navig'' ''a'', suffix_opt ''t'' ''e''], word ''redirect'',
                cats [word ''go'', plus space, word ''to'']], ''navigation''),
      (bounded [suffix_opt ''verif'' ''y'', suffix_opt ''validat'' ''e'', word ''assert'', word ''confirm'', word ''check''],
        ''validation''),
      (bounded [word ''profile'', word ''account'', word ''settings'', word ''preferences''], ''profile''),
      (bounded [word ''dashboard'', word ''overview'', word ''home'', word ''landing''], ''dashboard''),
      (bounded [word ''list'', word ''table'', word ''grid'', suffix_opt ''paginat'' ''e'', word ''pagination''], ''listing''),
      (bounded [word ''modal'', word ''dialog'', word ''popup'', word ''overlay''], ''modal''),
      (bounded [word ''notification'', word ''alert'', word ''message'', word ''toast''], ''notification'')]"

section \<open>The extractor\<close>

definition normalize_route :: "string option \<Rightarrow> string option" where
  "normalize_route route =
     (case route of
        None \<Rightarrow> None
      | Some x \<Rightarrow>
          (let r = strip x in
           if r = [] then None
           else (let r1 = (if hd r = CHR ''/'' then r else CHR ''/'' # r)
                 in Some (if r1 = ''/'' then r1 else rstrip_chr ''/'' r1))))"

definition extract_intent :: "string \<Rightarrow> string list" where
  "extract_intent prompt =
     (let s = lower prompt in sorted_set (map snd (filter (\<lambda>(r, _). search s r) INTENT_RULES)))"

definition resolve_target_stack :: "generation_target \<Rightarrow> target_stack_resolution \<times> string list" where
  "resolve_target_stack t =
     (let known = (gt_language t, gt_framework t) \<in> set KNOWN_COMBINATIONS
      in (\<lparr>ts_language = gt_language t, ts_framework = gt_framework t, ts_pattern = gt_pattern t,
           ts_locator_strategy = gt_locator_strategy t, ts_is_known_combination = known\<rparr>,
          if known then []
          else [''Unknown language/framework combination: '' @ language_value (gt_language t) @ ''/''
                @ framework_value (gt_framework t) @ ''. No matching skill may be available.'']))"

text \<open>\<open>extract\<close>; building the \<open>RequestMetadata\<close> contract strips the strings once more.\<close>

definition extract_metadata :: "generation_request \<Rightarrow> request_metadata result" where
  "extract_metadata q =
     (let sc = gr_scope q; (ts, warnings) = resolve_target_stack (gr_target q)
      in rbind (validate_str1 ''domain'' (lower (strip (gs_domain sc)))) (\<lambda>domain.
           Inr \<lparr>rm_domain = domain, rm_route = map_option trim (normalize_route (gs_route sc)),
                rm_test_intent = extract_intent (gr_prompt q), rm_target_stack = ts, rm_warnings = warnings\<rparr>))"

section \<open>Properties\<close>

lemma rstrip_by_last: "rstrip_by P s = [] \<or> \<not> P (last (rstrip_by P s))"
  using last_rstrip_by by blast

lemma rstrip_by_Nil: "rstrip_by P s = [] \<longleftrightarrow> (\<forall>c \<in> set s. P c)"
  by (simp add: rstrip_by_def)

lemma hd_rstrip_chr: "rstrip_chr cs s \<noteq> [] \<Longrightarrow> hd (rstrip_chr cs s) = hd s"
  by (simp add: rstrip_chr_def hd_rstrip_by)

text \<open>The normal form of a route: a blank route is none; otherwise it is the root, or it starts with a
  slash and does not end with one, or it is empty, which happens exactly for two or more slashes in a
  row with nothing else.\<close>

theorem route_normal_form:
  "(case normalize_route (Some x) of
      None \<Rightarrow> strip x = []
    | Some s \<Rightarrow> (s = [] \<longleftrightarrow> strip x \<noteq> ''/'' \<and> set (strip x) = {CHR ''/''}) \<and>
        (s = [] \<or> s = ''/'' \<or> hd s = CHR ''/'' \<and> last s \<noteq> CHR ''/''))"
proof (cases "strip x = []")
  case True
  then show ?thesis by (simp add: normalize_route_def)
next
  case False
  define r1 where "r1 = (if hd (strip x) = CHR ''/'' then strip x else CHR ''/'' # strip x)"
  have n: "normalize_route (Some x) = Some (if r1 = ''/'' then r1 else rstrip_chr ''/'' r1)"
    using False by (simp add: normalize_route_def r1_def Let_def)
  have r1: "r1 \<noteq> []" "hd r1 = CHR ''/''" using False by (auto simp: r1_def)
  obtain c cs where c: "strip x = c # cs" using False by (cases "strip x") auto
  have r1c: "r1 = (if c = CHR ''/'' then c # cs else CHR ''/'' # c # cs)"
    by (simp add: r1_def c)
  have sx: "set (strip x) = {CHR ''/''} \<longleftrightarrow> set r1 = {CHR ''/''} \<and> c = CHR ''/''"
    unfolding r1c c by (cases "c = CHR ''/''") auto
  have sy: "c = CHR ''/'' \<Longrightarrow> r1 = strip x"
    by (simp add: r1c c)
  have sz: "c \<noteq> CHR ''/'' \<Longrightarrow> set r1 \<noteq> {CHR ''/''} \<and> r1 \<noteq> ''/''"
    by (simp add: r1c)
  have none: "rstrip_chr ''/'' r1 = [] \<longleftrightarrow> set r1 = {CHR ''/''}"
    using r1(1) by (cases r1) (simp_all add: rstrip_chr_def rstrip_by_Nil, blast)
  show ?thesis
  proof (cases "r1 = ''/''")
    case True
    with sy sz have "strip x = ''/''" by metis
    then show ?thesis using n True by simp
  next
    case F: False
    have "rstrip_chr ''/'' r1 = [] \<or> last (rstrip_chr ''/'' r1) \<notin> set ''/''"
      unfolding rstrip_chr_def by (rule rstrip_by_last)
    then have "rstrip_chr ''/'' r1 = [] \<or> hd (rstrip_chr ''/'' r1) = CHR ''/'' \<and> last (rstrip_chr ''/'' r1) \<noteq> CHR ''/''"
      unfolding list.set singleton_iff using hd_rstrip_chr [of "''/''" r1] r1(2) by argo
    moreover have "rstrip_chr ''/'' r1 = [] \<longleftrightarrow> strip x \<noteq> ''/'' \<and> set (strip x) = {CHR ''/''}"
    proof (cases "c = CHR ''/''")
      case True
      then show ?thesis using none sy F by simp
    next
      case nc: False
      then show ?thesis using none sx sz by simp
    qed
    ultimately show ?thesis using F by (simp add: n) blast
  qed
qed

lemma sorted_set_props: "distinct (sorted_set xs) \<and> sorted (sorted_set xs) \<and> set (sorted_set xs) = set xs"
  by (simp add: sorted_set_def)

text \<open>The extracted metadata: the domain is never blank, the intents are sorted without duplicates and
  are exactly those whose pattern occurs somewhere in the lower-case prompt, and there is a warning
  exactly when the combination of language and framework is not a known one.\<close>

theorem extract_faithful:
  assumes "extract_metadata q = Inr m"
  shows "contract_str1 (rm_domain m) \<and>
    sorted (rm_test_intent m) \<and> distinct (rm_test_intent m) \<and>
    (kw \<in> set (rm_test_intent m) \<longleftrightarrow>
      (\<exists>r i j. (r, kw) \<in> set INTENT_RULES \<and> i \<le> length (lower (gr_prompt q)) \<and> matches (lower (gr_prompt q)) r i j)) \<and>
    (rm_warnings m = [] \<longleftrightarrow> (gt_language (gr_target q), gt_framework (gr_target q)) \<in> set KNOWN_COMBINATIONS)"
proof -
  have dom: "contract_str1 (rm_domain m)" and ti: "rm_test_intent m = extract_intent (gr_prompt q)"
    and w: "rm_warnings m = snd (resolve_target_stack (gr_target q))"
    using assms by (auto simp: extract_metadata_def Let_def rbind_Inr_iff split: prod.splits dest: validate_str1_contract)
  have "kw \<in> set (extract_intent p) \<longleftrightarrow> (\<exists>r. (r, kw) \<in> set INTENT_RULES \<and> search (lower p) r)" for p
    by (force simp: extract_intent_def sorted_set_props Let_def)
  moreover have "sorted (extract_intent p)" "distinct (extract_intent p)" for p
    by (simp_all add: extract_intent_def sorted_set_props Let_def)
  ultimately show ?thesis
    using dom by (auto simp: ti w search_iff resolve_target_stack_def Let_def)
qed

end
