(* ===== verification/MemoryAdapters.thy ===== *)
theory MemoryAdapters
  imports Credentials
begin

text \<open>
  \<open>totalrecall/memory/adapters\<close> and \<open>memory/tombstone.py\<close>: the stub, the null and the Mem0
  adapter, and the tombstone filter. The remote Mem0 service is a state \<open>'r\<close>, reached through the
  parameters of \<open>'r ext\<close>: \<open>x_oss host key call\<close> is the HTTP exchange with a self-hosted server
  (connection failures, error statuses and undecodable bodies are \<open>Inl\<close>), \<open>x_sdk\<close> is the client of
  the \<open>mem0ai\<close> package, \<open>None\<close> when it is not installed. The locale \<open>memory_adapter\<close> states what the
  wrapper relies on.
\<close>

section \<open>Equality of JSON values\<close>

text \<open>Python's \<open>==\<close>: booleans and numbers compare as numbers, dictionaries without regard to order.\<close>

definition num_of :: "json \<Rightarrow> rat option" where
  "num_of j = (case j of JBool b \<Rightarrow> Some (if b then 1 else 0) | JInt i \<Rightarrow> Some (of_int i)
     | JFloat r \<Rightarrow> Some r | _ \<Rightarrow> None)"

lemma size_in_list: "x \<in> set xs \<Longrightarrow> size (x :: json) < Suc (size_list size xs)"
  by (induction xs) auto

lemma size_in_dict: "(k :: string, v) \<in> set d \<Longrightarrow> size (v :: json) < Suc (size_list (size_prod (\<lambda>x. 0) size) d)"
  by (induction d) auto

function (sequential) py_eq :: "json \<Rightarrow> json \<Rightarrow> bool" where
  "py_eq (JList xs) (JList ys) = (length xs = length ys \<and> list_all (\<lambda>(x, y). py_eq x y) (zip xs ys))"
| "py_eq (JDict d) (JDict e) = (length d = length e \<and>
     list_all (\<lambda>(k, v). case dict_get e k of None \<Rightarrow> False | Some w \<Rightarrow> py_eq v w) d)"
| "py_eq JNull JNull = True"
| "py_eq (JStr s) (JStr t) = (s = t)"
| "py_eq (JInf p) (JInf q) = (p = q)"
| "py_eq a b = (num_of a \<noteq> None \<and> num_of a = num_of b)"
  by pat_completeness auto
termination
  by (relation "measure (\<lambda>(a, b). size a)") (auto dest: size_in_dict set_zip_leftD size_in_list)

section \<open>tombstone.py\<close>

type_synonym tombstone = "string \<times> string \<times> string"

definition tombstone_add :: "string \<Rightarrow> string \<Rightarrow> string \<Rightarrow> tombstone list \<Rightarrow> tombstone list" where
  "tombstone_add tenant app eid ts = List.insert (tenant, app, eid) ts"

definition tombstone_remove :: "string \<Rightarrow> string \<Rightarrow> string \<Rightarrow> tombstone list \<Rightarrow> tombstone list" where
  "tombstone_remove tenant app eid ts = removeAll (tenant, app, eid) ts"

definition is_tombstoned :: "string \<Rightarrow> string \<Rightarrow> string \<Rightarrow> tombstone list \<Rightarrow> bool" where
  "is_tombstoned tenant app eid ts = ((tenant, app, eid) \<in> set ts)"

definition filter_entries :: "tombstone list \<Rightarrow> memory_entry list \<Rightarrow> memory_entry list" where
  "filter_entries ts es =
     filter (\<lambda>e. \<not> is_tombstoned (me_tenant_id e) (me_application_id e) (me_entity_id e) ts) es"

definition load_bulk :: "tombstone list \<Rightarrow> tombstone list \<Rightarrow> tombstone list" where
  "load_bulk rows ts = fold List.insert rows ts"

lemma set_load_bulk [simp]: "set (load_bulk rows ts) = set rows \<union> set ts"
  by (induction rows arbitrary: ts) (auto simp: load_bulk_def)

section \<open>The stub adapter\<close>

definition matches_filters :: "memory_entry \<Rightarrow> (string, json) dict \<Rightarrow> bool" where
  "matches_filters e fs = list_all (\<lambda>(k, v). py_eq (dict_get_or (me_tags e) k JNull) v) fs"

definition entry_visible :: "string \<Rightarrow> string \<Rightarrow> memory_entry \<Rightarrow> bool" where
  "entry_visible tenant app e =
     (me_tenant_id e = tenant \<and> me_application_id e = app \<and> me_status e = M_ACTIVE)"

type_synonym stub_entries = "(string, memory_entry) dict"

definition stub_init :: "memory_entry list \<Rightarrow> stub_entries" where
  "stub_init es = dict_update [] (map (\<lambda>e. (me_entity_id e, e)) es)"

definition stub_search :: "memory_search_request \<Rightarrow> stub_entries \<Rightarrow> memory_search_result" where
  "stub_search q es =
     \<lparr>mr_items = take (mq_limit q)
        (filter (\<lambda>e. entry_visible (mq_tenant_id q) (mq_application_id q) e \<and> matches_filters e (mq_filters q))
          (map snd es)),
      mr_adapter_version = ''stub''\<rparr>"

definition stub_get :: "memory_get_request \<Rightarrow> stub_entries \<Rightarrow> memory_entry option" where
  "stub_get q es =
     (case dict_get es (mg_entity_id q) of
        Some e \<Rightarrow> if entry_visible (mg_tenant_id q) (mg_application_id q) e then Some e else None
      | None \<Rightarrow> None)"

definition stub_upsert :: "memory_entry \<Rightarrow> stub_entries \<Rightarrow> memory_entry \<times> stub_entries" where
  "stub_upsert e es = (e, dict_set (me_entity_id e) e es)"

definition stub_delete :: "memory_delete_request \<Rightarrow> stub_entries \<Rightarrow> memory_delete_result \<times> stub_entries" where
  "stub_delete q es =
     (let result = (\<lambda>d. \<lparr>mx_entity_id = md_entity_id q, mx_deleted = d, mx_adapter_version = ''stub''\<rparr>)
      in case dict_get es (md_entity_id q) of
           Some e \<Rightarrow>
             if me_tenant_id e = md_tenant_id q \<and> me_application_id e = md_application_id q
             then (result True, dict_set (md_entity_id q) (e\<lparr>me_status := M_DELETED\<rparr>) es)
             else (result False, es)
         | None \<Rightarrow> (result False, es))"

section \<open>The Mem0 adapter\<close>

datatype mem0_call =
    CSearch string "(string, json) dict" nat
  | CGet string
  | CAdd string string "(string, json) dict"
  | CDelete string
  | CHealth

datatype http_call = HttpGet string | HttpPost string json | HttpDelete string

record 'r ext =
  x_http :: http
  x_env :: env
  x_sha :: "string \<Rightarrow> string"
  x_oss :: "string \<Rightarrow> string \<Rightarrow> http_call \<Rightarrow> 'r \<Rightarrow> json result \<times> 'r"
  x_sdk :: "(string \<Rightarrow> mem0_call \<Rightarrow> 'r \<Rightarrow> json result \<times> 'r) option"

definition mem0_user_id :: "string \<Rightarrow> string \<Rightarrow> string" where
  "mem0_user_id tenant app = tenant @ ''::'' @ app"

definition mem0_filters :: "string \<Rightarrow> (string, json) dict \<Rightarrow> (string, json) dict" where
  "mem0_filters user_id fs =
     (if fs = [] then [(''user_id'', JStr user_id)]
      else [(''AND'', JList (JDict [(''user_id'', JStr user_id)] # map (\<lambda>(k, v). JDict [(k, v)]) fs))])"

text \<open>One clause of the filters: \<open>user_id\<close> goes to the payload, every other key to the metadata.\<close>

definition payload_pair ::
  "string \<times> json \<Rightarrow> (string, json) dict \<times> (string, json) dict \<Rightarrow> (string, json) dict \<times> (string, json) dict" where
  "payload_pair kv pm = (case kv of (k, v) \<Rightarrow>
     if k = ''user_id'' then (dict_set ''user_id'' v (fst pm), snd pm)
     else (fst pm, dict_set k v (snd pm)))"

definition payload_clause ::
  "json \<Rightarrow> (string, json) dict \<times> (string, json) dict \<Rightarrow> (string, json) dict \<times> (string, json) dict" where
  "payload_clause c pm = (case c of JDict d \<Rightarrow> fold payload_pair d pm | _ \<Rightarrow> pm)"

definition mem0_oss_search_payload :: "string \<Rightarrow> (string, json) dict \<Rightarrow> nat option \<Rightarrow> json" where
  "mem0_oss_search_payload query fs top_k =
     (let clauses = (case dict_get fs ''AND'' of Some (JList cs) \<Rightarrow> cs | _ \<Rightarrow> [JDict fs]);
          (payload, meta) = fold payload_clause clauses ([(''query'', JStr query)], []);
          payload1 = (if meta \<noteq> [] then dict_set ''filters'' (JDict meta) payload else payload)
      in JDict (case top_k of None \<Rightarrow> payload1 | Some n \<Rightarrow> dict_set ''top_k'' (JInt (int n)) payload1))"

text \<open>\<open>_Mem0OssHttpClient\<close>: the HTTP exchange of each call.\<close>

definition oss_call :: "mem0_call \<Rightarrow> http_call" where
  "oss_call c =
     (case c of
        CSearch q fs k \<Rightarrow> HttpPost ''/search'' (mem0_oss_search_payload q fs (Some k))
      | CGet i \<Rightarrow> HttpGet (''/memories/'' @ i)
      | CAdd message user_id meta \<Rightarrow>
          HttpPost ''/memories''
            (JDict ([(''messages'', JList [JDict [(''role'', JStr ''user''), (''content'', JStr message)]]),
                     (''user_id'', JStr user_id)]
                    @ (if meta \<noteq> [] then [(''metadata'', JDict meta)] else [])))
      | CDelete i \<Rightarrow> HttpDelete (''/memories/'' @ i)
      | CHealth \<Rightarrow> HttpGet ''/auth/setup-status'')"

record mem0_adapter =
  m0_credentials :: credential_provider
  m0_credential_ref :: string
  m0_host_ref :: "string option"
  m0_host :: "string option"
  m0_client_config :: "(string \<times> string option) option"

definition resolved_host :: "'r ext \<Rightarrow> fs \<Rightarrow> mem0_adapter \<Rightarrow> string option result" where
  "resolved_host X fs a =
     (case (case m0_host a of Some h \<Rightarrow> h | None \<Rightarrow> []) of
        c # cs \<Rightarrow> Inr (Some (rstrip_chr ''/'' (c # cs)))
      | [] \<Rightarrow>
          (case m0_host_ref a of
             None \<Rightarrow> Inr None
           | Some ref \<Rightarrow>
               (case credential_get (x_env X) (x_http X) fs (m0_credentials a) ref of
                  Inl (CredentialNotFoundError _) \<Rightarrow> Inr None
                | Inl e \<Rightarrow> Inl e
                | Inr v \<Rightarrow> Inr (if strip v = [] then None else Some (rstrip_chr ''/'' (strip v))))))"

text \<open>The client of the current credentials: rebuilt when they changed, kept otherwise.\<close>

definition get_client :: "'r ext \<Rightarrow> fs \<Rightarrow> mem0_adapter \<Rightarrow> (string \<times> string option) result \<times> mem0_adapter" where
  "get_client X fs a =
     (case credential_get (x_env X) (x_http X) fs (m0_credentials a) (m0_credential_ref a) of
        Inl e \<Rightarrow> (Inl e, a)
      | Inr key \<Rightarrow>
          (case resolved_host X fs a of
             Inl e \<Rightarrow> (Inl e, a)
           | Inr host \<Rightarrow>
               (let cfg = (key, host)
                in if m0_client_config a = Some cfg then (Inr cfg, a)
                      else if host = None \<or> host = Some []
                   then (case x_sdk X of
                           None \<Rightarrow> (Inl (ImportError ''mem0ai''), a)
                         | Some _ \<Rightarrow> (Inr cfg, a\<lparr>m0_client_config := Some cfg\<rparr>))
                   else (Inr cfg, a\<lparr>m0_client_config := Some cfg\<rparr>))))"

definition client_call :: "'r ext \<Rightarrow> string \<times> string option \<Rightarrow> mem0_call \<Rightarrow> 'r \<Rightarrow> json result \<times> 'r" where
  "client_call X cfg c r =
     (let sdk = (case x_sdk X of
           None \<Rightarrow> (Inl (ImportError ''mem0ai''), r) | Some f \<Rightarrow> f (fst cfg) c r)
      in case snd cfg of
           Some h \<Rightarrow> if h \<noteq> [] then x_oss X h (fst cfg) (oss_call c) r else sdk
         | None \<Rightarrow> sdk)"

definition extract_mem0_results :: "json \<Rightarrow> json list" where
  "extract_mem0_results raw =
     (case raw of
        JList xs \<Rightarrow> xs
      | JDict d \<Rightarrow>
          (case dict_get d ''results'' of
             Some (JList xs) \<Rightarrow> xs
           | _ \<Rightarrow> if truthy (dict_get_or d ''id'' JNull) \<or> truthy (dict_get_or d ''memory'' JNull)
                  then [raw] else [])
      | _ \<Rightarrow> [])"

text \<open>The constructor of \<open>MemoryEntry\<close>: strings are stripped, and must not be empty.\<close>

definition mk_entry ::
  "string \<Rightarrow> string \<Rightarrow> string \<Rightarrow> string \<Rightarrow> string \<Rightarrow> (string, json) dict \<Rightarrow> memory_status \<Rightarrow> memory_entry result" where
  "mk_entry eid tenant app summary knowledge tags status =
     rbind (validate_str1 ''entity_id'' eid) (\<lambda>eid1.
     rbind (validate_str1 ''tenant_id'' tenant) (\<lambda>tenant1.
     rbind (validate_str1 ''application_id'' app) (\<lambda>app1.
     rbind (validate_str1 ''summary'' summary) (\<lambda>summary1.
     rbind (validate_str1 ''knowledge'' knowledge) (\<lambda>knowledge1.
       Inr \<lparr>me_entity_id = eid1, me_tenant_id = tenant1, me_application_id = app1,
            me_summary = summary1, me_knowledge = knowledge1,
            me_tags = dict_update [] (map (\<lambda>(k, v). (trim k, v)) tags),
            me_confidence = 1, me_status = status\<rparr>)))))"

definition raw_field :: "json \<Rightarrow> string \<Rightarrow> json \<Rightarrow> json" where
  "raw_field raw k dflt = (case raw of JDict d \<Rightarrow> dict_get_or d k dflt | _ \<Rightarrow> dflt)"

definition raw_status :: "json \<Rightarrow> memory_status result" where
  "raw_status raw =
     (case raw_field raw ''status'' (JStr (memory_status_value M_ACTIVE)) of
        JStr s \<Rightarrow> Inr (case memory_status_of s of Some st \<Rightarrow> st | None \<Rightarrow> M_ACTIVE)
      | JList _ \<Rightarrow> Inl (TypeError ''unhashable'')
      | JDict _ \<Rightarrow> Inl (TypeError ''unhashable'')
      | _ \<Rightarrow> Inr M_ACTIVE)"

definition mem0_to_entry :: "json \<Rightarrow> string \<Rightarrow> string \<Rightarrow> memory_entry result" where
  "mem0_to_entry raw tenant app =
     rbind (raw_status raw) (\<lambda>status.
       (let eid = raw_field raw ''id'' (JStr []);
            memory_text = raw_field raw ''memory'' (JStr []);
            metadata = raw_field raw ''metadata'' (JDict [])
        in rbind (if \<not> truthy memory_text then Inr (''mem0 entry'', [])
                  else (case memory_text of
                      JStr s \<Rightarrow> Inr (take 120 s, s)
                    | JList _ \<Rightarrow> Inl (ValidationError ''summary'')
                    | JDict _ \<Rightarrow> Inl (KeyError ''slice(None, 120, None)'')
                    | _ \<Rightarrow> Inl (TypeError ''not subscriptable''))) (\<lambda>(summary, knowledge).
           rbind (if \<not> truthy eid then Inr ''mem0_unknown''
                  else (case eid of JStr s \<Rightarrow> Inr s | _ \<Rightarrow> Inl (ValidationError ''entity_id''))) (\<lambda>mem_id.
             mk_entry mem_id tenant app summary knowledge
               (case metadata of JDict d \<Rightarrow> d | _ \<Rightarrow> []) status))))"

definition mem0_search ::
  "'r ext \<Rightarrow> fs \<Rightarrow> memory_search_request \<Rightarrow> mem0_adapter \<Rightarrow> 'r \<Rightarrow>
   memory_search_result result \<times> mem0_adapter \<times> 'r" where
  "mem0_search X fs q a r =
     (case get_client X fs a of
        (Inl e, a1) \<Rightarrow> (Inl e, a1, r)
      | (Inr cfg, a1) \<Rightarrow>
          (let user_id = mem0_user_id (mq_tenant_id q) (mq_application_id q);
               query = (if mq_query q \<noteq> [] then mq_query q
                        else join '' '' (map (\<lambda>(k, v). k @ '':'' @ py_str v) (mq_filters q)))
           in case client_call X cfg
                    (CSearch (if query \<noteq> [] then query else ''general'')
                      (mem0_filters user_id (mq_filters q)) (mq_limit q)) r of
                (Inl _, r1) \<Rightarrow> (Inr \<lparr>mr_items = [], mr_adapter_version = ''mem0_v1''\<rparr>, a1, r1)
              | (Inr raw, r1) \<Rightarrow>
                  (rbind (rmap (\<lambda>x. mem0_to_entry x (mq_tenant_id q) (mq_application_id q))
                            (extract_mem0_results raw)) (\<lambda>es.
                     Inr \<lparr>mr_items = filter (\<lambda>e. me_status e = M_ACTIVE) es,
                          mr_adapter_version = ''mem0_v1''\<rparr>), a1, r1)))"

definition mem0_get ::
  "'r ext \<Rightarrow> fs \<Rightarrow> memory_get_request \<Rightarrow> mem0_adapter \<Rightarrow> 'r \<Rightarrow>
   memory_entry option result \<times> mem0_adapter \<times> 'r" where
  "mem0_get X fs q a r =
     (case get_client X fs a of
        (Inl e, a1) \<Rightarrow> (Inl e, a1, r)
      | (Inr cfg, a1) \<Rightarrow>
          (case client_call X cfg (CGet (mg_entity_id q)) r of
             (Inl _, r1) \<Rightarrow> (Inr None, a1, r1)
           | (Inr JNull, r1) \<Rightarrow> (Inr None, a1, r1)
           | (Inr raw, r1) \<Rightarrow>
               (rbind (mem0_to_entry raw (mg_tenant_id q) (mg_application_id q)) (\<lambda>e. Inr (Some e)), a1, r1)))"

definition mem0_upsert ::
  "'r ext \<Rightarrow> fs \<Rightarrow> memory_entry \<Rightarrow> mem0_adapter \<Rightarrow> 'r \<Rightarrow> memory_entry result \<times> mem0_adapter \<times> 'r" where
  "mem0_upsert X fs e a r =
     (case get_client X fs a of
        (Inl x, a1) \<Rightarrow> (Inl x, a1, r)
      | (Inr cfg, a1) \<Rightarrow>
          (case client_call X cfg
                  (CAdd (me_summary e @ '': '' @ me_knowledge e)
                    (mem0_user_id (me_tenant_id e) (me_application_id e)) (me_tags e)) r of
             (Inl _, r1) \<Rightarrow> (Inr e, a1, r1)
           | (Inr raw, r1) \<Rightarrow>
               (Inr (case extract_mem0_results raw of
                       [] \<Rightarrow> e
                     | x # _ \<Rightarrow> (case mem0_to_entry x (me_tenant_id e) (me_application_id e) of
                                  Inl _ \<Rightarrow> e | Inr e1 \<Rightarrow> e1)), a1, r1)))"

definition mem0_delete ::
  "'r ext \<Rightarrow> fs \<Rightarrow> memory_delete_request \<Rightarrow> mem0_adapter \<Rightarrow> 'r \<Rightarrow>
   memory_delete_result result \<times> mem0_adapter \<times> 'r" where
  "mem0_delete X fs q a r =
     (case get_client X fs a of
        (Inl e, a1) \<Rightarrow> (Inl e, a1, r)
      | (Inr cfg, a1) \<Rightarrow>
          (let (res, r1) = client_call X cfg (CDelete (md_entity_id q)) r
           in (Inr \<lparr>mx_entity_id = md_entity_id q, mx_deleted = ok res, mx_adapter_version = ''mem0_v1''\<rparr>,
               a1, r1)))"

definition mem0_health ::
  "'r ext \<Rightarrow> fs \<Rightarrow> mem0_adapter \<Rightarrow> 'r \<Rightarrow> memory_health \<times> mem0_adapter \<times> 'r" where
  "mem0_health X fs a r =
     (let health = (\<lambda>st d. \<lparr>mh_status = st, mh_adapter_version = ''mem0_v1'', mh_degraded = d\<rparr>);
          failed = (\<lambda>e. case e of ImportError _ \<Rightarrow> health H_UNAVAILABLE True | _ \<Rightarrow> health H_DEGRADED True)
      in case get_client X fs a of
           (Inl e, a1) \<Rightarrow> (failed e, a1, r)
         | (Inr cfg, a1) \<Rightarrow>
             (case client_call X cfg CHealth r of
                (Inl e, r1) \<Rightarrow> (failed e, a1, r1)
              | (Inr _, r1) \<Rightarrow> (health H_OK False, a1, r1)))"


section \<open>All adapters\<close>

datatype adapter = StubMemoryAdapter stub_entries | NullMemoryAdapter | Mem0V1Adapter mem0_adapter

definition null_result :: memory_search_result where
  "null_result = \<lparr>mr_items = [], mr_adapter_version = ''null''\<rparr>"

fun adapter_search ::
  "'r ext \<Rightarrow> fs \<Rightarrow> memory_search_request \<Rightarrow> adapter \<Rightarrow> 'r \<Rightarrow> memory_search_result result \<times> adapter \<times> 'r" where
  "adapter_search X fs q (StubMemoryAdapter es) r = (Inr (stub_search q es), StubMemoryAdapter es, r)"
| "adapter_search X fs q NullMemoryAdapter r = (Inr null_result, NullMemoryAdapter, r)"
| "adapter_search X fs q (Mem0V1Adapter a) r =
     (let (res, a1, r1) = mem0_search X fs q a r in (res, Mem0V1Adapter a1, r1))"

fun adapter_get ::
  "'r ext \<Rightarrow> fs \<Rightarrow> memory_get_request \<Rightarrow> adapter \<Rightarrow> 'r \<Rightarrow> memory_entry option result \<times> adapter \<times> 'r" where
  "adapter_get X fs q (StubMemoryAdapter es) r = (Inr (stub_get q es), StubMemoryAdapter es, r)"
| "adapter_get X fs q NullMemoryAdapter r = (Inr None, NullMemoryAdapter, r)"
| "adapter_get X fs q (Mem0V1Adapter a) r =
     (let (res, a1, r1) = mem0_get X fs q a r in (res, Mem0V1Adapter a1, r1))"

fun adapter_upsert ::
  "'r ext \<Rightarrow> fs \<Rightarrow> memory_entry \<Rightarrow> adapter \<Rightarrow> 'r \<Rightarrow> memory_entry result \<times> adapter \<times> 'r" where
  "adapter_upsert X fs e (StubMemoryAdapter es) r =
     (let (e1, es1) = stub_upsert e es in (Inr e1, StubMemoryAdapter es1, r))"
| "adapter_upsert X fs e NullMemoryAdapter r = (Inr e, NullMemoryAdapter, r)"
| "adapter_upsert X fs e (Mem0V1Adapter a) r =
     (let (res, a1, r1) = mem0_upsert X fs e a r in (res, Mem0V1Adapter a1, r1))"

fun adapter_delete ::
  "'r ext \<Rightarrow> fs \<Rightarrow> memory_delete_request \<Rightarrow> adapter \<Rightarrow> 'r \<Rightarrow> memory_delete_result result \<times> adapter \<times> 'r" where
  "adapter_delete X fs q (StubMemoryAdapter es) r =
     (let (res, es1) = stub_delete q es in (Inr res, StubMemoryAdapter es1, r))"
| "adapter_delete X fs q NullMemoryAdapter r =
     (Inr \<lparr>mx_entity_id = md_entity_id q, mx_deleted = False, mx_adapter_version = ''null''\<rparr>,
      NullMemoryAdapter, r)"
| "adapter_delete X fs q (Mem0V1Adapter a) r =
     (let (res, a1, r1) = mem0_delete X fs q a r in (res, Mem0V1Adapter a1, r1))"

fun adapter_health :: "'r ext \<Rightarrow> fs \<Rightarrow> adapter \<Rightarrow> 'r \<Rightarrow> memory_health \<times> adapter \<times> 'r" where
  "adapter_health X fs (StubMemoryAdapter es) r =
     (\<lparr>mh_status = H_OK, mh_adapter_version = ''stub'', mh_degraded = False\<rparr>, StubMemoryAdapter es, r)"
| "adapter_health X fs NullMemoryAdapter r =
     (\<lparr>mh_status = H_DEGRADED, mh_adapter_version = ''null'', mh_degraded = True\<rparr>, NullMemoryAdapter, r)"
| "adapter_health X fs (Mem0V1Adapter a) r =
     (let (h, a1, r1) = mem0_health X fs a r in (h, Mem0V1Adapter a1, r1))"

fun adapter_capabilities :: "adapter \<Rightarrow> memory_capabilities" where
  "adapter_capabilities (StubMemoryAdapter _) =
     \<lparr>mc_adapter_version = ''stub'', mc_supports_search = True, mc_supports_get = True,
      mc_supports_upsert = True, mc_supports_delete = True, mc_supports_shadow_read = True\<rparr>"
| "adapter_capabilities NullMemoryAdapter =
     \<lparr>mc_adapter_version = ''null'', mc_supports_search = True, mc_supports_get = True,
      mc_supports_upsert = False, mc_supports_delete = False, mc_supports_shadow_read = False\<rparr>"
| "adapter_capabilities (Mem0V1Adapter _) =
     \<lparr>mc_adapter_version = ''mem0_v1'', mc_supports_search = True, mc_supports_get = True,
      mc_supports_upsert = True, mc_supports_delete = True, mc_supports_shadow_read = False\<rparr>"

definition build_memory_adapters :: "credential_provider \<Rightarrow> (string, adapter) dict" where
  "build_memory_adapters cp =
     [(''stub'', StubMemoryAdapter (stub_init [])),
      (''null'', NullMemoryAdapter),
      (''mem0_v1'', Mem0V1Adapter \<lparr>m0_credentials = cp, m0_credential_ref = ''mem0_api_key'',
         m0_host_ref = Some ''mem0_host'', m0_host = None, m0_client_config = None\<rparr>)]"

section \<open>What the wrapper relies on\<close>

text \<open>
  A search answers with active entries labelled with the tenant and application of the request, a
  get with an entry so labelled.
\<close>

definition scoped :: "string \<Rightarrow> string \<Rightarrow> memory_entry \<Rightarrow> bool" where
  "scoped tenant app e = (me_tenant_id e = tenant \<and> me_application_id e = app)"

locale memory_adapter =
  fixes search_of :: "memory_search_request \<Rightarrow> 'a \<Rightarrow> memory_search_result result \<times> 'a"
    and get_of :: "memory_get_request \<Rightarrow> 'a \<Rightarrow> memory_entry option result \<times> 'a"
  assumes search_scoped: "wf_search_request q \<Longrightarrow> fst (search_of q a) = Inr res \<Longrightarrow> e \<in> set (mr_items res) \<Longrightarrow>
        scoped (mq_tenant_id q) (mq_application_id q) e \<and> me_status e = M_ACTIVE"
    and get_scoped: "contract_str1 (mg_tenant_id g) \<Longrightarrow> contract_str1 (mg_application_id g) \<Longrightarrow>
        fst (get_of g a) = Inr (Some e) \<Longrightarrow> scoped (mg_tenant_id g) (mg_application_id g) e"
begin

lemma filtered_search:
  assumes "wf_search_request q" and "fst (search_of q a) = Inr res"
    and "e \<in> set (filter_entries ts (mr_items res))"
  shows "scoped (mq_tenant_id q) (mq_application_id q) e" and "me_status e = M_ACTIVE"
    and "\<not> is_tombstoned (mq_tenant_id q) (mq_application_id q) (me_entity_id e) ts"
  using search_scoped [OF assms(1,2), of e] assms(3)
  by (auto simp: filter_entries_def scoped_def)

end

lemma mk_entry_Inr:
  assumes "mk_entry eid tenant app s k tags st = Inr e"
  shows "me_tenant_id e = trim tenant \<and> me_application_id e = trim app \<and> me_status e = st"
  using assms by (auto simp: mk_entry_def rbind_Inr_iff validate_str1_Inr)

lemma mem0_to_entry_scoped:
  assumes "mem0_to_entry raw tenant app = Inr e"
  shows "me_tenant_id e = trim tenant \<and> me_application_id e = trim app"
  using assms by (auto simp: mem0_to_entry_def rbind_Inr_iff Let_def case_prod_beta dest!: mk_entry_Inr)

lemma rmap_set: "rmap f xs = Inr ys \<Longrightarrow> y \<in> set ys \<Longrightarrow> \<exists>x \<in> set xs. f x = Inr y"
  by (induction xs arbitrary: ys) (fastforce split: sum.splits)+

lemma mem0_search_scoped:
  assumes "fst (mem0_search X fs q a r) = Inr res" and "e \<in> set (mr_items res)"
  shows "me_tenant_id e = trim (mq_tenant_id q) \<and> me_application_id e = trim (mq_application_id q) \<and>
    me_status e = M_ACTIVE"
proof -
  obtain c a1 where gc: "get_client X fs a = (c, a1)" by (cases "get_client X fs a")
  with assms obtain cfg where c: "c = Inr cfg" by (cases c) (auto simp: mem0_search_def)
  from assms obtain raw es where "rmap (\<lambda>x. mem0_to_entry x (mq_tenant_id q) (mq_application_id q))
        (extract_mem0_results raw) = Inr es" "e \<in> set es" "me_status e = M_ACTIVE"
    by (auto simp: mem0_search_def gc c Let_def rbind_Inr_iff split: prod.splits sum.splits)
  then show ?thesis by (auto dest!: rmap_set mem0_to_entry_scoped)
qed

lemma mem0_get_scoped:
  assumes "fst (mem0_get X fs g a r) = Inr (Some e)"
  shows "me_tenant_id e = trim (mg_tenant_id g) \<and> me_application_id e = trim (mg_application_id g)"
proof -
  obtain c a1 where gc: "get_client X fs a = (c, a1)" by (cases "get_client X fs a")
  with assms obtain cfg where c: "c = Inr cfg" by (cases c) (auto simp: mem0_get_def)
  from assms obtain raw where "mem0_to_entry raw (mg_tenant_id g) (mg_application_id g) = Inr e"
    by (auto simp: mem0_get_def gc c rbind_Inr_iff split: prod.splits sum.splits json.splits)
  then show ?thesis by (rule mem0_to_entry_scoped)
qed

definition search_step :: "'r ext \<Rightarrow> fs \<Rightarrow> memory_search_request \<Rightarrow> adapter \<times> 'r \<Rightarrow>
    memory_search_result result \<times> (adapter \<times> 'r)" where
  "search_step X fs q ar = adapter_search X fs q (fst ar) (snd ar)"

definition get_step :: "'r ext \<Rightarrow> fs \<Rightarrow> memory_get_request \<Rightarrow> adapter \<times> 'r \<Rightarrow>
    memory_entry option result \<times> (adapter \<times> 'r)" where
  "get_step X fs g ar = adapter_get X fs g (fst ar) (snd ar)"

interpretation adapters: memory_adapter "search_step X fs" "get_step X fs"
proof unfold_locales
  fix q a res e
  assume q: "wf_search_request q" and s: "fst (search_step X fs q a) = Inr res" and e: "e \<in> set (mr_items res)"
  obtain ad r where a: "a = (ad, r)" by (cases a)
  show "scoped (mq_tenant_id q) (mq_application_id q) e \<and> me_status e = M_ACTIVE"
  proof (cases ad)
    case (StubMemoryAdapter es)
    with s e show ?thesis
      by (auto simp: search_step_def a stub_search_def scoped_def entry_visible_def dest!: in_set_takeD)
  next
    case NullMemoryAdapter
    with s e show ?thesis by (auto simp: search_step_def a null_result_def)
  next
    case (Mem0V1Adapter m)
    with s e have "me_tenant_id e = trim (mq_tenant_id q) \<and> me_application_id e = trim (mq_application_id q)
        \<and> me_status e = M_ACTIVE"
      by (intro mem0_search_scoped [of X fs q m r res]) (auto simp: search_step_def a case_prod_beta Let_def)
    with q show ?thesis by (simp add: scoped_def wf_search_request_def contract_str1_def)
  qed
next
  fix g a e
  assume g: "contract_str1 (mg_tenant_id g)" "contract_str1 (mg_application_id g)"
    and s: "fst (get_step X fs g a) = Inr (Some e)"
  obtain ad r where a: "a = (ad, r)" by (cases a)
  show "scoped (mg_tenant_id g) (mg_application_id g) e"
  proof (cases ad)
    case (StubMemoryAdapter es)
    with s show ?thesis
      by (auto simp: get_step_def a stub_get_def scoped_def entry_visible_def split: option.splits if_splits)
  next
    case NullMemoryAdapter
    with s show ?thesis by (simp add: get_step_def a)
  next
    case (Mem0V1Adapter m)
    with s have "me_tenant_id e = trim (mg_tenant_id g) \<and> me_application_id e = trim (mg_application_id g)"
      by (intro mem0_get_scoped [of X fs g m r e]) (auto simp: get_step_def a case_prod_beta Let_def)
    with g show ?thesis by (simp add: scoped_def contract_str1_def)
  qed
qed


section \<open>Properties\<close>

lemma fold_single_clauses:
  "fold payload_clause (map (\<lambda>(k, v). JDict [(k, v)]) fs) pm = fold payload_pair fs pm"
  by (induction fs arbitrary: pm) (auto simp: payload_clause_def)

lemma fold_payload_user:
  "dict_ok fs \<Longrightarrow> dict_get (fst (fold payload_pair fs pm)) ''user_id'' =
     (case dict_get fs ''user_id'' of Some v \<Rightarrow> Some v | None \<Rightarrow> dict_get (fst pm) ''user_id'')"
proof (induction fs arbitrary: pm)
  case Nil
  then show ?case by simp
next
  case (Cons kv fs)
  obtain k v where kv: "kv = (k, v)" by (cases kv)
  from Cons.prems have ok: "dict_ok fs" and "k \<notin> fst ` set fs" by (auto simp: dict_ok_def kv)
  then have "k = ''user_id'' \<Longrightarrow> dict_get fs ''user_id'' = None"
    by (auto simp: map_of_eq_None_iff)
  with Cons.IH [OF ok] show ?case
    by (auto simp: kv payload_pair_def dict_get_set split: option.splits)
qed

text \<open>The namespace of a self-hosted Mem0 search: the request is sent for the user id of the tenant
  and application, unless the caller's own filters hold a \<open>user_id\<close>, which then replaces it.\<close>

theorem mem0_search_namespace:
  assumes "dict_ok fs"
  shows "\<exists>d. oss_call (CSearch q (mem0_filters (mem0_user_id tenant app) fs) k) = HttpPost ''/search'' (JDict d) \<and>
    dict_get d ''user_id'' =
      Some (case dict_get fs ''user_id'' of Some v \<Rightarrow> v | None \<Rightarrow> JStr (mem0_user_id tenant app))"
proof (cases "fs = []")
  case True
  then show ?thesis
    by (simp add: oss_call_def mem0_filters_def mem0_oss_search_payload_def payload_clause_def
        payload_pair_def)
next
  case False
  let ?u = "JStr (mem0_user_id tenant app)"
  have "fold payload_clause (JDict [(''user_id'', ?u)] # map (\<lambda>(k, v). JDict [(k, v)]) fs) ([(''query'', JStr q)], []) =
      fold payload_pair fs ([(''query'', JStr q), (''user_id'', ?u)], [])"
    by (simp add: fold_single_clauses) (simp add: payload_clause_def payload_pair_def)
  with False fold_payload_user [OF assms, of "([(''query'', JStr q), (''user_id'', ?u)], [])"] show ?thesis
    by (auto simp: oss_call_def mem0_filters_def mem0_oss_search_payload_def case_prod_beta Let_def
        dict_get_set split: option.splits)
qed

theorem mem0_search_namespace_witness:
  "\<exists>d. oss_call (CSearch ''q'' (mem0_filters (mem0_user_id ''acme'' ''web'') [(''user_id'', JStr ''rival::web'')]) 10) =
       HttpPost ''/search'' (JDict d) \<and> dict_get d ''user_id'' = Some (JStr ''rival::web'')"
  using mem0_search_namespace [of "[(''user_id'', JStr ''rival::web'')]" "''q''" "''acme''" "''web''" 10]
  by (simp add: dict_ok_def)

definition stub_ok :: "stub_entries \<Rightarrow> bool" where
  "stub_ok es = (dict_ok es \<and> (\<forall>(k, e) \<in> set es. me_entity_id e = k))"

lemma stub_ok_ops [simp, intro]:
  assumes "stub_ok es"
  shows "stub_ok (snd (stub_upsert e es))" and "stub_ok (snd (stub_delete q es))"
proof -
  have upd: "stub_ok (dict_set (me_entity_id e) e es)" for e
    using assms set_dict_set [of "me_entity_id e" e es] by (auto simp: stub_ok_def)
  then show "stub_ok (snd (stub_upsert e es))" by (simp add: stub_upsert_def)
  have "me_entity_id e = md_entity_id q" if "dict_get es (md_entity_id q) = Some e" for e
    using assms that by (auto simp: stub_ok_def dest: map_of_SomeD)
  with upd assms show "stub_ok (snd (stub_delete q es))"
    by (auto simp: stub_delete_def Let_def split: option.splits)
      (metis memory_entry.select_convs(1) memory_entry.surjective memory_entry.update_convs(8))
qed

text \<open>The stub memory forgets what its owner deletes and nothing else: after a delete that reports
  success no get and no search returns the entity; a delete by another tenant or application changes
  nothing and reports failure; and every other entity is found as before.\<close>

theorem stub_delete_effective:
  assumes "stub_ok es"
  shows "(mx_deleted (fst (stub_delete q es)) \<longrightarrow>
      stub_get \<lparr>mg_tenant_id = t, mg_application_id = a, mg_entity_id = md_entity_id q\<rparr> (snd (stub_delete q es)) = None \<and>
      (\<forall>s. \<forall>e \<in> set (mr_items (stub_search s (snd (stub_delete q es)))). me_entity_id e \<noteq> md_entity_id q)) \<and>
    (\<not> mx_deleted (fst (stub_delete q es)) \<longrightarrow> snd (stub_delete q es) = es) \<and>
    (mg_entity_id g \<noteq> md_entity_id q \<longrightarrow> stub_get g (snd (stub_delete q es)) = stub_get g es)"
proof (cases "dict_get es (md_entity_id q)")
  case None
  then show ?thesis by (simp add: stub_delete_def)
next
  case (Some e)
  show ?thesis
  proof (cases "me_tenant_id e = md_tenant_id q \<and> me_application_id e = md_application_id q")
    case False
    with Some show ?thesis by (auto simp: stub_delete_def Let_def)
  next
    case True
    let ?e = "e\<lparr>me_status := M_DELETED\<rparr>"
    let ?es = "dict_set (md_entity_id q) ?e es"
    have d: "stub_delete q es = (\<lparr>mx_entity_id = md_entity_id q, mx_deleted = True, mx_adapter_version = ''stub''\<rparr>, ?es)"
      using Some True by (simp add: stub_delete_def Let_def)
    have ok: "stub_ok ?es" using stub_ok_ops(2) [OF assms, of q] by (simp add: d)
    have "me_entity_id x \<noteq> md_entity_id q" if x: "x \<in> set (mr_items (stub_search s ?es))" for s x
    proof
      assume same: "me_entity_id x = md_entity_id q"
      from x obtain k where k: "(k, x) \<in> set ?es" and active: "me_status x = M_ACTIVE"
        by (auto simp: stub_search_def entry_visible_def dest!: in_set_takeD)
      with ok same have "dict_get ?es (md_entity_id q) = Some x"
        by (auto simp: stub_ok_def dict_get_iff)
      with active show False by (auto simp: dict_get_set)
    qed
    then show ?thesis
      by (auto simp: d stub_get_def dict_get_set entry_visible_def)
  qed
qed

definition demo_entry :: memory_entry where
  "demo_entry = \<lparr>me_entity_id = ''m1'', me_tenant_id = ''acme'', me_application_id = ''web'',
     me_summary = ''login'', me_knowledge = ''the login page'', me_tags = [], me_confidence = 1,
     me_status = M_ACTIVE\<rparr>"

definition demo_delete :: memory_delete_request where
  "demo_delete = \<lparr>md_tenant_id = ''acme'', md_application_id = ''web'', md_entity_id = ''m1'',
     md_deleted_by = ''u'', md_reason = None\<rparr>"

theorem stub_delete_effective_witness:
  "stub_get \<lparr>mg_tenant_id = ''acme'', mg_application_id = ''web'', mg_entity_id = ''m1''\<rparr>
     (snd (stub_delete demo_delete [(''m1'', demo_entry)])) = None"
proof -
  have "stub_ok [(''m1'', demo_entry)]" by (simp add: stub_ok_def dict_ok_def demo_entry_def)
  from stub_delete_effective [OF this, of demo_delete "''acme''" "''web''"]
  show ?thesis by (simp add: stub_delete_def demo_delete_def demo_entry_def)
qed

end
