(* ===== verification/Cache.thy ===== *)
theory Cache
  imports Json
begin

text \<open>
  \<open>totalrecall/cache/provider.py\<close>: the in-process TTL cache and the keys of cached memory
  searches. \<open>time.monotonic()\<close> is the argument \<open>now\<close>; SHA-256 is the parameter \<open>sha\<close>, the hex
  digest of a payload. The locale \<open>prefix_cache\<close> is what the memory wrapper and the delete route
  need of a cache; \<open>ttl\<close> interprets it on \<open>TTLCache\<close>.
\<close>

section \<open>TTLCache\<close>

record 'v cache_entry =
  en_value :: 'v
  en_expires_at :: rat

record 'v ttl_cache =
  ca_ttl :: nat
  ca_store :: "(string, 'v cache_entry) dict"

definition new_cache :: "nat \<Rightarrow> 'v ttl_cache" where
  "new_cache ttl = \<lparr>ca_ttl = ttl, ca_store = []\<rparr>"

definition cache_get :: "rat \<Rightarrow> string \<Rightarrow> 'v ttl_cache \<Rightarrow> 'v option \<times> 'v ttl_cache" where
  "cache_get now key c =
     (case dict_get (ca_store c) key of
        None \<Rightarrow> (None, c)
      | Some e \<Rightarrow>
          if now > en_expires_at e then (None, c\<lparr>ca_store := dict_del key (ca_store c)\<rparr>)
          else (Some (en_value e), c))"

definition cache_set :: "rat \<Rightarrow> string \<Rightarrow> 'v \<Rightarrow> 'v ttl_cache \<Rightarrow> 'v ttl_cache" where
  "cache_set now key v c =
     c\<lparr>ca_store := dict_set key \<lparr>en_value = v, en_expires_at = now + of_nat (ca_ttl c)\<rparr> (ca_store c)\<rparr>"

definition invalidate_prefix :: "string \<Rightarrow> 'v ttl_cache \<Rightarrow> nat \<times> 'v ttl_cache" where
  "invalidate_prefix p c =
     (let to_remove = filter (\<lambda>k. prefix p k) (dict_keys (ca_store c))
      in (length to_remove, c\<lparr>ca_store := fold dict_del to_remove (ca_store c)\<rparr>))"

definition cache_clear :: "'v ttl_cache \<Rightarrow> 'v ttl_cache" where
  "cache_clear c = c\<lparr>ca_store := []\<rparr>"

definition cache_size :: "rat \<Rightarrow> 'v ttl_cache \<Rightarrow> nat \<times> 'v ttl_cache" where
  "cache_size now c =
     (let expired = map fst (filter (\<lambda>kv. now > en_expires_at (snd kv)) (ca_store c));
          store = fold dict_del expired (ca_store c)
      in (length store, c\<lparr>ca_store := store\<rparr>))"

definition cache_ok :: "'v ttl_cache \<Rightarrow> bool" where
  "cache_ok c = dict_ok (ca_store c)"

section \<open>Keys of cached memory searches\<close>

definition search_payload :: "string \<Rightarrow> (string, json) dict \<Rightarrow> nat \<Rightarrow> json" where
  "search_payload query filters limit =
     JDict [(''query'', JStr query), (''filters'', JDict (sort_key fst filters)),
            (''limit'', JInt (int limit))]"

definition search_invalidation_prefix :: "string \<Rightarrow> string \<Rightarrow> string" where
  "search_invalidation_prefix tenant app = ''msearch:'' @ tenant @ '':'' @ app @ '':''"

definition build_search_cache_key ::
  "(string \<Rightarrow> string) \<Rightarrow> string \<Rightarrow> string \<Rightarrow> string \<Rightarrow> (string, json) dict \<Rightarrow> nat \<Rightarrow> string" where
  "build_search_cache_key sha tenant app query filters limit =
     (let payload = dumps (sort_keys (search_payload query filters limit));
          digest = take 16 (sha payload)
      in ''msearch:'' @ tenant @ '':'' @ app @ '':'' @ digest)"

section \<open>Lemmas\<close>

lemma fold_dict_del: "fold dict_del ks d = filter (\<lambda>kv. fst kv \<notin> set ks) d"
proof (induction ks arbitrary: d)
  case Nil
  then show ?case by (simp add: case_prod_beta)
next
  case (Cons k ks)
  have "dict_del k d = filter (\<lambda>kv. fst kv \<noteq> k) d"
    by (auto simp: AList.delete_eq intro!: filter_cong)
  with Cons.IH show ?case
    by (auto simp: case_prod_beta intro!: filter_cong)
qed

lemma invalidate_store:
  "ca_store (snd (invalidate_prefix p c)) = filter (\<lambda>kv. \<not> prefix p (fst kv)) (ca_store c)"
  by (auto simp: invalidate_prefix_def fold_dict_del dict_keys_def intro: rev_image_eqI intro!: filter_cong)

lemma cache_ok_ops [simp, intro]:
  "cache_ok (new_cache n)"
  "cache_ok c \<Longrightarrow> cache_ok (cache_set now k v c)"
  "cache_ok c \<Longrightarrow> cache_ok (snd (cache_get now k c))"
  "cache_ok c \<Longrightarrow> cache_ok (snd (invalidate_prefix p c))"
  "cache_ok c \<Longrightarrow> cache_ok (snd (cache_size now c))"
  "cache_ok (cache_clear c)"
  by (auto simp: cache_ok_def new_cache_def cache_set_def cache_get_def invalidate_prefix_def
      cache_size_def cache_clear_def fold_dict_del split: option.splits)

definition cache_peek :: "rat \<Rightarrow> string \<Rightarrow> 'v ttl_cache \<Rightarrow> 'v option" where
  "cache_peek now k c = fst (cache_get now k c)"

lemma cache_peek_iff:
  "cache_peek now k c = Some v \<longleftrightarrow>
     (\<exists>e. dict_get (ca_store c) k = Some e \<and> now \<le> en_expires_at e \<and> v = en_value e)"
  by (auto simp: cache_peek_def cache_get_def split: option.splits)

lemma cache_peek_set:
  "cache_peek now k' (cache_set t k v c) =
     (if k' = k then (if now \<le> t + of_nat (ca_ttl c) then Some v else None) else cache_peek now k' c)"
  by (auto simp: cache_peek_def cache_get_def cache_set_def dict_get_set split: option.splits)

lemma cache_peek_get: "t \<le> now \<Longrightarrow> cache_peek now k' (snd (cache_get t k c)) = cache_peek now k' c"
  by (auto simp: cache_peek_def cache_get_def dict_get_del split: option.splits)

lemma cache_peek_invalidate:
  "cache_ok c \<Longrightarrow> cache_peek now k (snd (invalidate_prefix p c)) =
     (if prefix p k then None else cache_peek now k c)"
  by (auto simp: cache_peek_def cache_get_def invalidate_store dict_get_filter cache_ok_def
      split: option.splits)

section \<open>The interface its clients rely on\<close>

text \<open>
  A client of the cache looks keys up (\<open>peek\<close> is the answer at a time, \<open>look\<close> the cache after the
  lookup), stores values and drops a prefix. A fact \<open>P\<close> about every value the cache can serve is
  then kept by each operation under the obvious condition.
\<close>

definition served_ok :: "(rat \<Rightarrow> string \<Rightarrow> 'c \<Rightarrow> 'v option) \<Rightarrow> (string \<Rightarrow> 'v \<Rightarrow> bool) \<Rightarrow> 'c \<Rightarrow> bool" where
  "served_ok peek P c = (\<forall>now k v. peek now k c = Some v \<longrightarrow> P k v)"

locale prefix_cache =
  fixes peek :: "rat \<Rightarrow> string \<Rightarrow> 'c \<Rightarrow> 'v option"
    and look :: "rat \<Rightarrow> string \<Rightarrow> 'c \<Rightarrow> 'c"
    and put :: "rat \<Rightarrow> string \<Rightarrow> 'v \<Rightarrow> 'c \<Rightarrow> 'c"
    and drop_prefix :: "string \<Rightarrow> 'c \<Rightarrow> 'c"
    and inv :: "'c \<Rightarrow> bool"
  assumes peek_look: "peek now k' (look t k c) = Some w \<Longrightarrow> peek now k' c = Some w"
    and peek_put: "peek now k' (put t k v c) = Some w \<Longrightarrow>
           (k' = k \<and> w = v) \<or> (k' \<noteq> k \<and> peek now k' c = Some w)"
    and peek_drop: "inv c \<Longrightarrow> peek now k (drop_prefix p c) = Some w \<Longrightarrow>
           \<not> prefix p k \<and> peek now k c = Some w"
    and inv_look: "inv c \<Longrightarrow> inv (look t k c)"
    and inv_put: "inv c \<Longrightarrow> inv (put t k v c)"
    and inv_drop: "inv c \<Longrightarrow> inv (drop_prefix p c)"
begin

lemma served_look: "served_ok peek P c \<Longrightarrow> served_ok peek P (look t k c)"
  unfolding served_ok_def using peek_look by blast

lemma served_put: "served_ok peek P c \<Longrightarrow> P k v \<Longrightarrow> served_ok peek P (put t k v c)"
  unfolding served_ok_def using peek_put by blast

lemma served_drop:
  "inv c \<Longrightarrow> served_ok peek P c \<Longrightarrow> (\<And>k v. P k v \<Longrightarrow> \<not> prefix p k \<Longrightarrow> Q k v) \<Longrightarrow>
   served_ok peek Q (drop_prefix p c)"
  unfolding served_ok_def using peek_drop by blast

end

definition cache_look :: "rat \<Rightarrow> string \<Rightarrow> 'v ttl_cache \<Rightarrow> 'v ttl_cache" where
  "cache_look now k c = snd (cache_get now k c)"

definition cache_drop :: "string \<Rightarrow> 'v ttl_cache \<Rightarrow> 'v ttl_cache" where
  "cache_drop p c = snd (invalidate_prefix p c)"

interpretation ttl: prefix_cache cache_peek cache_look cache_set cache_drop cache_ok
proof unfold_locales
  show "cache_peek now k' (cache_look t k c) = Some w \<Longrightarrow> cache_peek now k' c = Some w"
    for now k' t k and c :: "'v ttl_cache" and w
    by (auto simp: cache_look_def cache_peek_def cache_get_def dict_get_del split: option.splits if_splits)
qed (auto simp: cache_look_def cache_drop_def cache_peek_set cache_peek_invalidate split: if_splits)

lemma append_fresh_inj:
  "x \<notin> set a \<Longrightarrow> x \<notin> set b \<Longrightarrow> a @ x # u = b @ x # v \<Longrightarrow> a = b \<and> u = v"
proof (induction a arbitrary: b)
  case Nil
  then show ?case by (cases b) auto
next
  case (Cons y a)
  then show ?case by (cases b) auto
qed

lemma key_has_prefix [simp]:
  "prefix (search_invalidation_prefix tenant app) (build_search_cache_key sha tenant app q f l)"
  by (simp add: search_invalidation_prefix_def build_search_cache_key_def Let_def prefix_def)

lemma search_key_inj:
  assumes "CHR '':'' \<notin> set tenant" "CHR '':'' \<notin> set app" "CHR '':'' \<notin> set tenant'" "CHR '':'' \<notin> set app'"
    and key: "build_search_cache_key sha tenant app q f l = build_search_cache_key sha tenant' app' q' f' l'"
  shows "tenant = tenant' \<and> app = app'"
proof -
  from key obtain d d' where e: "tenant @ CHR '':'' # (app @ CHR '':'' # d) = tenant' @ CHR '':'' # (app' @ CHR '':'' # d')"
    by (simp add: build_search_cache_key_def Let_def)
  have t: "tenant = tenant'" and "app @ CHR '':'' # d = app' @ CHR '':'' # d'"
    using append_fresh_inj [OF assms(1,3) e] by auto
  with append_fresh_inj [OF assms(2,4)] show ?thesis by simp
qed

section \<open>Properties\<close>

text \<open>A stored value is served until its TTL has passed and never afterwards, and storing it does
  not affect what any other key is answered.\<close>

theorem cache_set_then_get:
  "fst (cache_get now k' (cache_set t k v c)) =
     (if k' = k then (if now \<le> t + of_nat (ca_ttl c) then Some v else None) else fst (cache_get now k' c))"
  using cache_peek_set [of now k' t k v c] by (simp add: cache_peek_def)

text \<open>\<open>invalidate_prefix\<close> drops exactly the keys with the prefix, keeps every other answer, and
  reports how many entries it removed.\<close>

theorem invalidate_prefix_exact:
  assumes "cache_ok c"
  shows "fst (cache_get now k (snd (invalidate_prefix p c))) =
           (if prefix p k then None else fst (cache_get now k c)) \<and>
         length (ca_store c) = fst (invalidate_prefix p c) + length (ca_store (snd (invalidate_prefix p c)))"
proof
  show "fst (cache_get now k (snd (invalidate_prefix p c))) =
           (if prefix p k then None else fst (cache_get now k c))"
    using cache_peek_invalidate [OF assms, of now k p] by (simp add: cache_peek_def)
  have "length (filter (prefix p) (map fst (ca_store c)))
      = length (filter (\<lambda>kv. prefix p (fst kv)) (ca_store c))"
    by (simp add: filter_map comp_def)
  then show "length (ca_store c) = fst (invalidate_prefix p c) + length (ca_store (snd (invalidate_prefix p c)))"
    using sum_length_filter_compl [of "\<lambda>kv. prefix p (fst kv)" "ca_store c"]
    by (simp add: invalidate_store, simp add: invalidate_prefix_def dict_keys_def)
qed

theorem invalidate_prefix_exact_witness:
  "fst (cache_get 0 ''msearch:a:b:1'' (snd (invalidate_prefix ''msearch:a:b:''
     (cache_set 0 ''msearch:a:b:1'' (7 :: nat) (new_cache 300))))) = None"
  using invalidate_prefix_exact [of "cache_set 0 ''msearch:a:b:1'' (7 :: nat) (new_cache 300)" 0
      "''msearch:a:b:1''" "''msearch:a:b:''"]
  by (simp add: cache_ok_ops)

end
