(* ===== verification/MemoryWrapper.thy ===== *)
theory MemoryWrapper
  imports MemoryAdapters Cache
begin

text \<open>
  \<open>totalrecall/memory/wrapper/service.py\<close> and \<open>memory/factory.py\<close>: the memory wrapper with its
  search cache, shadow reads, tombstone filter and operation metrics. A call returns its answer, the
  wrapper afterwards and the remote memory service afterwards. The clock readings of a call are the
  record \<open>reading\<close>: the time of the cache lookup, the later time of the cache store, the time stamp
  and the elapsed milliseconds.
\<close>

section \<open>_MemoryOperationMetrics\<close>

record op_metrics =
  om_totals :: "(string, nat) dict"
  om_successes :: "(string, nat) dict"
  om_failures :: "(string, nat) dict"
  om_latency_totals_ms :: "(string, rat) dict"
  om_search_cache_hit_total :: nat
  om_last_success_at :: "string option"
  om_last_failure_at :: "string option"
  om_last_error_type :: "string option"

definition new_metrics :: op_metrics where
  "new_metrics = \<lparr>om_totals = [], om_successes = [], om_failures = [], om_latency_totals_ms = [],
     om_search_cache_hit_total = 0, om_last_success_at = None, om_last_failure_at = None,
     om_last_error_type = None\<rparr>"

definition bump :: "string \<Rightarrow> 'a::comm_monoid_add \<Rightarrow> (string, 'a) dict \<Rightarrow> (string, 'a) dict" where
  "bump k n d = dict_set k (dict_get_or d k 0 + n) d"

definition record_success :: "string \<Rightarrow> rat \<Rightarrow> string \<Rightarrow> bool \<Rightarrow> op_metrics \<Rightarrow> op_metrics" where
  "record_success op ms stamp hit m =
     m\<lparr>om_totals := bump op 1 (om_totals m), om_successes := bump op 1 (om_successes m),
       om_latency_totals_ms := bump op ms (om_latency_totals_ms m),
       om_search_cache_hit_total := om_search_cache_hit_total m + (if hit then 1 else 0),
       om_last_success_at := Some stamp\<rparr>"

definition record_failure :: "string \<Rightarrow> rat \<Rightarrow> string \<Rightarrow> py_exn \<Rightarrow> op_metrics \<Rightarrow> op_metrics" where
  "record_failure op ms stamp e m =
     m\<lparr>om_totals := bump op 1 (om_totals m), om_failures := bump op 1 (om_failures m),
       om_latency_totals_ms := bump op ms (om_latency_totals_ms m),
       om_last_failure_at := Some stamp, om_last_error_type := Some (exn_name e)\<rparr>"

definition operation_stats_of :: "op_metrics \<Rightarrow> string \<Rightarrow> (string, json) dict" where
  "operation_stats_of m op =
     (let success = dict_get_or (om_successes m) op 0;
          latency = dict_get_or (om_latency_totals_ms m) op 0
      in [(op @ ''_total'', JInt (int (dict_get_or (om_totals m) op 0))),
          (op @ ''_success_total'', JInt (int success)),
          (op @ ''_failure_total'', JInt (int (dict_get_or (om_failures m) op 0))),
          (''average_'' @ op @ ''_latency_ms'',
             JFloat (if success \<noteq> 0 then round2 (latency / of_nat success) else 0))])"

definition operation_metrics_snapshot :: "op_metrics \<Rightarrow> (string, json) dict" where
  "operation_metrics_snapshot m =
     [(''search_cache_hit_total'', JInt (int (om_search_cache_hit_total m))),
      (''last_success_at'', opt_json (om_last_success_at m)),
      (''last_failure_at'', opt_json (om_last_failure_at m)),
      (''last_error_type'', opt_json (om_last_error_type m))]
     @ concat (map (operation_stats_of m) [''search'', ''get'', ''upsert'', ''delete''])"

section \<open>MemoryWrapper\<close>

record shadow_entry =
  sh_primary_adapter :: string
  sh_shadow_adapter :: string
  sh_counts :: "(nat \<times> nat) option"
  sh_error :: "string option"
  sh_discrepancy :: bool

record memory_wrapper =
  mw_feature_flags :: flag_provider
  mw_adapters :: "(string, adapter) dict"
  mw_tombstones :: "tombstone list"
  mw_cache :: "memory_search_result ttl_cache option"
  mw_shadow_log :: "shadow_entry list"
  mw_metrics :: op_metrics

record reading =
  rd_now :: rat
  rd_later :: rat
  rd_iso :: string
  rd_ms :: rat

definition note_success :: "string \<Rightarrow> reading \<Rightarrow> bool \<Rightarrow> memory_wrapper \<Rightarrow> memory_wrapper" where
  "note_success op t hit w = w\<lparr>mw_metrics := record_success op (rd_ms t) (rd_iso t) hit (mw_metrics w)\<rparr>"

definition note_failure :: "string \<Rightarrow> reading \<Rightarrow> py_exn \<Rightarrow> memory_wrapper \<Rightarrow> memory_wrapper" where
  "note_failure op t e w = w\<lparr>mw_metrics := record_failure op (rd_ms t) (rd_iso t) e (mw_metrics w)\<rparr>"

definition flag_string ::
  "'r ext \<Rightarrow> fs \<Rightarrow> reading \<Rightarrow> string \<Rightarrow> string \<Rightarrow> memory_wrapper \<Rightarrow> string \<times> memory_wrapper" where
  "flag_string X fs t k dflt w =
     (let (v, p) = get_string (x_http X) fs (rd_now t) k dflt (mw_feature_flags w)
      in (v, w\<lparr>mw_feature_flags := p\<rparr>))"

definition active_adapter_name :: "'r ext \<Rightarrow> fs \<Rightarrow> reading \<Rightarrow> memory_wrapper \<Rightarrow> string \<times> memory_wrapper" where
  "active_adapter_name X fs t w = flag_string X fs t ''memory.adapter'' ''null'' w"

text \<open>The adapter named by the flag, or the null adapter; its name is returned with it.\<close>

definition active_adapter ::
  "'r ext \<Rightarrow> fs \<Rightarrow> reading \<Rightarrow> memory_wrapper \<Rightarrow> (string \<times> adapter) result \<times> memory_wrapper" where
  "active_adapter X fs t w =
     (let (name, w1) = active_adapter_name X fs t w
      in (case dict_get (mw_adapters w1) name of
            Some a \<Rightarrow> Inr (name, a)
          | None \<Rightarrow> (case dict_get (mw_adapters w1) ''null'' of
                       Some a \<Rightarrow> Inr (''null'', a) | None \<Rightarrow> Inl (KeyError ''null'')), w1))"

definition put_adapter :: "string \<Rightarrow> adapter \<Rightarrow> memory_wrapper \<Rightarrow> memory_wrapper" where
  "put_adapter name a w = w\<lparr>mw_adapters := dict_set name a (mw_adapters w)\<rparr>"

definition entity_ids :: "memory_search_result \<Rightarrow> string set" where
  "entity_ids res = me_entity_id ` set (mr_items res)"

text \<open>The comparison with a shadow adapter; its failures are logged, never raised.\<close>

definition shadow_read ::
  "'r ext \<Rightarrow> fs \<Rightarrow> reading \<Rightarrow> memory_search_request \<Rightarrow> memory_search_result \<Rightarrow> memory_wrapper \<Rightarrow> 'r
   \<Rightarrow> memory_wrapper \<times> 'r" where
  "shadow_read X fs t q primary w r =
     (let (shadow, w1) = flag_string X fs t ''memory.shadow_adapter'' [] w;
          (active, w2) = active_adapter_name X fs t w1
      in if shadow \<noteq> [] \<and> shadow \<noteq> active then
           (case dict_get (mw_adapters w2) shadow of
              None \<Rightarrow> (w2, r)
            | Some a \<Rightarrow>
                (let (res, a1, r1) = adapter_search X fs q a r;
                     entry = (case res of
                        Inr s \<Rightarrow>
                          \<lparr>sh_primary_adapter = mr_adapter_version primary, sh_shadow_adapter = mr_adapter_version s,
                           sh_counts = Some (length (mr_items primary), length (mr_items s)), sh_error = None,
                           sh_discrepancy = (entity_ids primary \<noteq> entity_ids s)\<rparr>
                      | Inl e \<Rightarrow>
                          \<lparr>sh_primary_adapter = mr_adapter_version primary, sh_shadow_adapter = shadow,
                           sh_counts = None, sh_error = Some (exn_str e), sh_discrepancy = True\<rparr>);
                     w3 = put_adapter shadow a1 w2
                 in (w3\<lparr>mw_shadow_log := mw_shadow_log w3 @ [entry]\<rparr>, r1)))
         else (w2, r))"

definition request_key :: "'r ext \<Rightarrow> memory_search_request \<Rightarrow> string" where
  "request_key X q =
     build_search_cache_key (x_sha X) (mq_tenant_id q) (mq_application_id q) (mq_query q) (mq_filters q) (mq_limit q)"

definition cache_lookup ::
  "'r ext \<Rightarrow> reading \<Rightarrow> memory_search_request \<Rightarrow> memory_wrapper \<Rightarrow> memory_search_result option \<times> memory_wrapper" where
  "cache_lookup X t q w =
     (case mw_cache w of
        None \<Rightarrow> (None, w)
      | Some c \<Rightarrow> (let (v, c1) = cache_get (rd_now t) (request_key X q) c in (v, w\<lparr>mw_cache := Some c1\<rparr>)))"

definition cache_store ::
  "'r ext \<Rightarrow> reading \<Rightarrow> memory_search_request \<Rightarrow> memory_search_result \<Rightarrow> memory_wrapper \<Rightarrow> memory_wrapper" where
  "cache_store X t q res w =
     w\<lparr>mw_cache := map_option (cache_set (rd_later t) (request_key X q) res) (mw_cache w)\<rparr>"

text \<open>The part of a search after a cache miss, up to the result that is cached and returned.\<close>

definition search_uncached ::
  "'r ext \<Rightarrow> fs \<Rightarrow> reading \<Rightarrow> memory_search_request \<Rightarrow> memory_wrapper \<Rightarrow> 'r
   \<Rightarrow> memory_search_result result \<times> memory_wrapper \<times> 'r" where
  "search_uncached X fs t q w r =
     (case active_adapter X fs t w of
        (Inl e, w1) \<Rightarrow> (Inl e, w1, r)
      | (Inr (name, a), w1) \<Rightarrow>
          (case adapter_search X fs q a r of
             (Inl e, a1, r1) \<Rightarrow> (Inl e, put_adapter name a1 w1, r1)
           | (Inr primary, a1, r1) \<Rightarrow>
               (let (w2, r2) = shadow_read X fs t q primary (put_adapter name a1 w1) r1
                in (Inr \<lparr>mr_items = filter_entries (mw_tombstones w2) (mr_items primary),
                        mr_adapter_version = mr_adapter_version primary\<rparr>, w2, r2))))"

definition wrapper_search ::
  "'r ext \<Rightarrow> fs \<Rightarrow> reading \<Rightarrow> memory_search_request \<Rightarrow> memory_wrapper \<Rightarrow> 'r
   \<Rightarrow> memory_search_result result \<times> memory_wrapper \<times> 'r" where
  "wrapper_search X fs t q w r =
     (case cache_lookup X t q w of
        (Some cached, w1) \<Rightarrow> (Inr cached, note_success ''search'' t True w1, r)
      | (None, w1) \<Rightarrow>
          (case search_uncached X fs t q w1 r of
             (Inl e, w2, r2) \<Rightarrow> (Inl e, note_failure ''search'' t e w2, r2)
           | (Inr res, w2, r2) \<Rightarrow> (Inr res, note_success ''search'' t False (cache_store X t q res w2), r2)))"

definition wrapper_get ::
  "'r ext \<Rightarrow> fs \<Rightarrow> reading \<Rightarrow> memory_get_request \<Rightarrow> memory_wrapper \<Rightarrow> 'r
   \<Rightarrow> memory_entry option result \<times> memory_wrapper \<times> 'r" where
  "wrapper_get X fs t g w r =
     (if is_tombstoned (mg_tenant_id g) (mg_application_id g) (mg_entity_id g) (mw_tombstones w)
      then (Inr None, note_success ''get'' t False w, r)
      else
        (case active_adapter X fs t w of
           (Inl e, w1) \<Rightarrow> (Inl e, note_failure ''get'' t e w1, r)
         | (Inr (name, a), w1) \<Rightarrow>
             (case adapter_get X fs g a r of
                (Inl e, a1, r1) \<Rightarrow> (Inl e, note_failure ''get'' t e (put_adapter name a1 w1), r1)
              | (Inr x, a1, r1) \<Rightarrow> (Inr x, note_success ''get'' t False (put_adapter name a1 w1), r1))))"

definition wrapper_upsert ::
  "'r ext \<Rightarrow> fs \<Rightarrow> reading \<Rightarrow> memory_entry \<Rightarrow> memory_wrapper \<Rightarrow> 'r
   \<Rightarrow> memory_entry result \<times> memory_wrapper \<times> 'r" where
  "wrapper_upsert X fs t m w r =
     (case active_adapter X fs t w of
        (Inl e, w1) \<Rightarrow> (Inl e, note_failure ''upsert'' t e w1, r)
      | (Inr (name, a), w1) \<Rightarrow>
          (case adapter_upsert X fs m a r of
             (Inl e, a1, r1) \<Rightarrow> (Inl e, note_failure ''upsert'' t e (put_adapter name a1 w1), r1)
           | (Inr x, a1, r1) \<Rightarrow> (Inr x, note_success ''upsert'' t False (put_adapter name a1 w1), r1)))"

definition wrapper_delete ::
  "'r ext \<Rightarrow> fs \<Rightarrow> reading \<Rightarrow> memory_delete_request \<Rightarrow> memory_wrapper \<Rightarrow> 'r
   \<Rightarrow> memory_delete_result result \<times> memory_wrapper \<times> 'r" where
  "wrapper_delete X fs t d w r =
     (case active_adapter X fs t w of
        (Inl e, w1) \<Rightarrow> (Inl e, note_failure ''delete'' t e w1, r)
      | (Inr (name, a), w1) \<Rightarrow>
          (case adapter_delete X fs d a r of
             (Inl e, a1, r1) \<Rightarrow> (Inl e, note_failure ''delete'' t e (put_adapter name a1 w1), r1)
           | (Inr x, a1, r1) \<Rightarrow> (Inr x, note_success ''delete'' t False (put_adapter name a1 w1), r1)))"

definition wrapper_health ::
  "'r ext \<Rightarrow> fs \<Rightarrow> reading \<Rightarrow> memory_wrapper \<Rightarrow> 'r \<Rightarrow> memory_health result \<times> memory_wrapper \<times> 'r" where
  "wrapper_health X fs t w r =
     (case active_adapter X fs t w of
        (Inl e, w1) \<Rightarrow> (Inl e, w1, r)
      | (Inr (name, a), w1) \<Rightarrow>
          (let (h, a1, r1) = adapter_health X fs a r in (Inr h, put_adapter name a1 w1, r1)))"

definition wrapper_capabilities ::
  "'r ext \<Rightarrow> fs \<Rightarrow> reading \<Rightarrow> memory_wrapper \<Rightarrow> memory_capabilities result \<times> memory_wrapper" where
  "wrapper_capabilities X fs t w =
     (case active_adapter X fs t w of
        (Inl e, w1) \<Rightarrow> (Inl e, w1)
      | (Inr (_, a), w1) \<Rightarrow> (Inr (adapter_capabilities a), w1))"

definition operation_stats :: "memory_wrapper \<Rightarrow> (string, json) dict" where
  "operation_stats w = operation_metrics_snapshot (mw_metrics w)"

definition build_memory_wrapper ::
  "flag_provider \<Rightarrow> credential_provider \<Rightarrow> tombstone list \<Rightarrow> memory_search_result ttl_cache option \<Rightarrow> memory_wrapper" where
  "build_memory_wrapper flags cp ts cache =
     \<lparr>mw_feature_flags = flags, mw_adapters = build_memory_adapters cp, mw_tombstones = ts,
      mw_cache = cache, mw_shadow_log = [], mw_metrics = new_metrics\<rparr>"

end
