(* ===== verification/MemoryService.thy ===== *)
theory MemoryService
  imports MemoryWrapper
begin

text \<open>
  The routes over memory: \<open>memory/service_app.py\<close> and the deletion route \<open>api/routes/memories.py\<close>,
  with the repositories \<open>storage/tombstone_repo.py\<close> and \<open>storage/audit_repo.py\<close> as lists of rows, and
  the startup that loads the tombstones. \<open>mem_step\<close> is one request; \<open>mem_inv\<close> is the invariant of the
  cache that every request keeps.
\<close>

section \<open>Repositories\<close>

record tombstone_row =
  tr_memory_id :: string
  tr_tenant_id :: string
  tr_application_id :: string
  tr_reason :: "string option"
  tr_deleted_by :: string

text \<open>\<open>on conflict (memory_id) do nothing\<close>: the memory id is the primary key of the table.\<close>

definition tombstone_repo_add :: "tombstone_row \<Rightarrow> tombstone_row list \<Rightarrow> tombstone_row list" where
  "tombstone_repo_add row rows =
     (if \<exists>x \<in> set rows. tr_memory_id x = tr_memory_id row then rows else rows @ [row])"

definition tombstone_load_all :: "tombstone_row list \<Rightarrow> tombstone list" where
  "tombstone_load_all rows = map (\<lambda>x. (tr_tenant_id x, tr_application_id x, tr_memory_id x)) rows"

definition tombstone_exists :: "string \<Rightarrow> string \<Rightarrow> string \<Rightarrow> tombstone_row list \<Rightarrow> bool" where
  "tombstone_exists tenant app eid rows =
     (\<exists>x \<in> set rows. tr_memory_id x = eid \<and> tr_tenant_id x = tenant \<and> tr_application_id x = app)"

record audit_event =
  ae_id :: string
  ae_tenant_id :: string
  ae_actor_id :: string
  ae_event_type :: string
  ae_subject_type :: string
  ae_subject_id :: "string option"
  ae_details :: string
  ae_created_at :: rat

text \<open>\<open>uid\<close> is the fresh UUID, \<open>now\<close> the default of the \<open>created_at\<close> column.\<close>

definition audit_record ::
  "string \<Rightarrow> rat \<Rightarrow> string \<Rightarrow> string \<Rightarrow> string \<Rightarrow> string \<Rightarrow> string option \<Rightarrow> (string, json) dict \<Rightarrow>
   audit_event list \<Rightarrow> audit_event list" where
  "audit_record uid now tenant actor event_type subject_type subject details rows =
     rows @ [\<lparr>ae_id = uid, ae_tenant_id = tenant, ae_actor_id = actor, ae_event_type = event_type,
       ae_subject_type = subject_type, ae_subject_id = subject, ae_details = dumps (JDict details),
       ae_created_at = now\<rparr>]"

text \<open>Newest first; rows of the same time keep the order of the table here, which SQL leaves open.\<close>

definition audit_recent :: "string \<Rightarrow> nat \<Rightarrow> audit_event list \<Rightarrow> audit_event list" where
  "audit_recent tenant limit rows =
     take limit (sort_key (\<lambda>x. - ae_created_at x) (filter (\<lambda>x. ae_tenant_id x = tenant) rows))"

section \<open>The state of the memory part of the application\<close>

record 'r mem_state =
  ms_wrapper :: memory_wrapper
  ms_remote :: 'r
  ms_tombstone_rows :: "tombstone_row list option"
  ms_audit_rows :: "audit_event list option"

section \<open>memory/service_app.py\<close>

definition require_tenant :: "tenant_context \<Rightarrow> string \<Rightarrow> unit result" where
  "require_tenant cx tenant =
     (if cx_tenant_id cx \<noteq> tenant
      then Inl (HTTPException 403 ''Request tenant_id does not match authenticated tenant.'') else Inr ())"

definition run_wrapper ::
  "(memory_wrapper \<Rightarrow> 'r \<Rightarrow> 'a result \<times> memory_wrapper \<times> 'r) \<Rightarrow> 'r mem_state \<Rightarrow> 'a result \<times> 'r mem_state" where
  "run_wrapper f s =
     (let (res, w, r) = f (ms_wrapper s) (ms_remote s) in (res, s\<lparr>ms_wrapper := w, ms_remote := r\<rparr>))"

definition guarded :: "unit result \<Rightarrow> ('s \<Rightarrow> 'a result \<times> 's) \<Rightarrow> 's \<Rightarrow> 'a result \<times> 's" where
  "guarded g f s = (case g of Inl e \<Rightarrow> (Inl e, s) | Inr _ \<Rightarrow> f s)"

definition route_search ::
  "'r ext \<Rightarrow> fs \<Rightarrow> reading \<Rightarrow> tenant_context \<Rightarrow> memory_search_request \<Rightarrow> 'r mem_state
   \<Rightarrow> memory_search_result result \<times> 'r mem_state" where
  "route_search X fs t cx q =
     guarded (require_tenant cx (mq_tenant_id q)) (run_wrapper (wrapper_search X fs t q))"

definition route_get ::
  "'r ext \<Rightarrow> fs \<Rightarrow> reading \<Rightarrow> tenant_context \<Rightarrow> memory_get_request \<Rightarrow> 'r mem_state
   \<Rightarrow> memory_entry option result \<times> 'r mem_state" where
  "route_get X fs t cx g =
     guarded (require_tenant cx (mg_tenant_id g)) (run_wrapper (wrapper_get X fs t g))"

definition route_upsert ::
  "'r ext \<Rightarrow> fs \<Rightarrow> reading \<Rightarrow> tenant_context \<Rightarrow> memory_entry \<Rightarrow> 'r mem_state
   \<Rightarrow> memory_entry result \<times> 'r mem_state" where
  "route_upsert X fs t cx m =
     guarded (require_tenant cx (me_tenant_id m))
       (guarded (require_role_permission cx WRITE_MEMORY) (run_wrapper (wrapper_upsert X fs t m)))"

definition route_delete ::
  "'r ext \<Rightarrow> fs \<Rightarrow> reading \<Rightarrow> tenant_context \<Rightarrow> memory_delete_request \<Rightarrow> 'r mem_state
   \<Rightarrow> memory_delete_result result \<times> 'r mem_state" where
  "route_delete X fs t cx d =
     guarded (require_tenant cx (md_tenant_id d))
       (guarded (require_role_permission cx DELETE_MEMORY)
         (guarded (if md_deleted_by d \<noteq> cx_actor_id cx
                   then Inl (HTTPException 403 ''deleted_by must match authenticated actor.'') else Inr ())
           (run_wrapper (wrapper_delete X fs t d))))"

section \<open>api/routes/memories.py\<close>

record memory_delete_response =
  dr_entity_id :: string
  dr_deleted :: bool
  dr_tombstoned :: bool

text \<open>
  \<open>DELETE /v1/memories/{entity_id}\<close>, after the dependencies delivered the context: the tombstone
  row, the filter, the audit event, then the cached searches of the application.
\<close>

definition delete_memory ::
  "string \<Rightarrow> rat \<Rightarrow> tenant_context \<Rightarrow> string \<Rightarrow> string \<Rightarrow> string option \<Rightarrow> 'r mem_state
   \<Rightarrow> memory_delete_response result \<times> 'r mem_state" where
  "delete_memory uid now cx eid app reason s =
     (case require_repo (ms_tombstone_rows s) of
        Inl e \<Rightarrow> (Inl e, s)
      | Inr rows \<Rightarrow>
     (case require_repo (ms_audit_rows s) of
        Inl e \<Rightarrow> (Inl e, s)
      | Inr events \<Rightarrow>
     (case require_role_permission cx DELETE_MEMORY of
        Inl e \<Rightarrow> (Inl e, s)
      | Inr _ \<Rightarrow>
          (let tenant = cx_tenant_id cx;
               rows1 = tombstone_repo_add
                 \<lparr>tr_memory_id = eid, tr_tenant_id = tenant, tr_application_id = app, tr_reason = reason,
                  tr_deleted_by = cx_actor_id cx\<rparr> rows;
               w = ms_wrapper s;
               w1 = w\<lparr>mw_tombstones := tombstone_add tenant app eid (mw_tombstones w)\<rparr>;
               events1 = audit_record uid now tenant (cx_actor_id cx) ''memory.deleted'' ''memory'' (Some eid)
                 [(''application_id'', JStr app), (''reason'', opt_json reason)] events;
               w2 = w1\<lparr>mw_cache := map_option (cache_drop (search_invalidation_prefix tenant app)) (mw_cache w1)\<rparr>
           in (Inr \<lparr>dr_entity_id = eid, dr_deleted = True, dr_tombstoned = True\<rparr>,
               s\<lparr>ms_wrapper := w2, ms_tombstone_rows := Some rows1, ms_audit_rows := Some events1\<rparr>)))))"

text \<open>The wrapper of a fresh process over the same database: its filter holds the loaded rows.\<close>

definition startup ::
  "flag_provider \<Rightarrow> credential_provider \<Rightarrow> nat \<Rightarrow> tombstone_row list option \<Rightarrow> memory_wrapper" where
  "startup flags cp ttl rows =
     build_memory_wrapper flags cp
       (case rows of None \<Rightarrow> [] | Some rs \<Rightarrow> load_bulk (tombstone_load_all rs) []) (Some (new_cache ttl))"

section \<open>Requests as steps\<close>

text \<open>
  One request of either application, at any clock reading and with any credentials on disk; \<open>adm\<close>
  restricts the search requests that are made.
\<close>

inductive mem_step ::
  "'r ext \<Rightarrow> (memory_search_request \<Rightarrow> bool) \<Rightarrow> 'r mem_state \<Rightarrow> 'r mem_state \<Rightarrow> bool"
  for X :: "'r ext" and adm :: "memory_search_request \<Rightarrow> bool" where
  search: "adm q \<Longrightarrow> wf_search_request q \<Longrightarrow> mem_step X adm s (snd (run_wrapper (wrapper_search X fs t q) s))"
| get: "mem_step X adm s (snd (run_wrapper (wrapper_get X fs t g) s))"
| upsert: "mem_step X adm s (snd (run_wrapper (wrapper_upsert X fs t m) s))"
| delete: "mem_step X adm s (snd (run_wrapper (wrapper_delete X fs t d) s))"
| tombstone: "mem_step X adm s (snd (delete_memory uid now cx eid app reason s))"

inductive_cases mem_stepE: "mem_step X adm s s'"

definition mem_steps ::
  "'r ext \<Rightarrow> (memory_search_request \<Rightarrow> bool) \<Rightarrow> 'r mem_state \<Rightarrow> 'r mem_state \<Rightarrow> bool" where
  "mem_steps X adm = (mem_step X adm)\<^sup>*\<^sup>*"

section \<open>The invariant\<close>

definition entry_tombstoned :: "tombstone list \<Rightarrow> memory_entry \<Rightarrow> bool" where
  "entry_tombstoned ts e = is_tombstoned (me_tenant_id e) (me_application_id e) (me_entity_id e) ts"

text \<open>A cached result answers some admitted request under its key, and none of its items is tombstoned.\<close>

definition served ::
  "'r ext \<Rightarrow> (memory_search_request \<Rightarrow> bool) \<Rightarrow> tombstone list \<Rightarrow> string \<Rightarrow> memory_search_result \<Rightarrow> bool" where
  "served X adm ts k res =
     (\<exists>q. adm q \<and> wf_search_request q \<and> k = request_key X q \<and>
        (\<forall>e \<in> set (mr_items res). scoped (mq_tenant_id q) (mq_application_id q) e \<and>
           me_status e = M_ACTIVE \<and> \<not> entry_tombstoned ts e))"

definition cache_inv :: "(string \<Rightarrow> 'v \<Rightarrow> bool) \<Rightarrow> 'v ttl_cache option \<Rightarrow> bool" where
  "cache_inv P co = (case co of None \<Rightarrow> True | Some c \<Rightarrow> cache_ok c \<and> served_ok cache_peek P c)"

definition mem_inv :: "'r ext \<Rightarrow> (memory_search_request \<Rightarrow> bool) \<Rightarrow> memory_wrapper \<Rightarrow> bool" where
  "mem_inv X adm w = cache_inv (served X adm (mw_tombstones w)) (mw_cache w)"

text \<open>What the calls of the wrapper leave alone.\<close>

definition same_store :: "memory_wrapper \<Rightarrow> memory_wrapper \<Rightarrow> bool" where
  "same_store w w' = (mw_cache w' = mw_cache w \<and> mw_tombstones w' = mw_tombstones w)"

lemma same_store_refl [simp]: "same_store w w"
  by (simp add: same_store_def)

lemma same_store_trans: "same_store w w1 \<Longrightarrow> same_store w1 w2 \<Longrightarrow> same_store w w2"
  by (simp add: same_store_def)

lemma same_store_note [simp]:
  "same_store w (note_success op t h w') = same_store w w'"
  "same_store w (note_failure op t e w') = same_store w w'"
  "same_store w (put_adapter n a w') = same_store w w'"
  by (simp_all add: same_store_def note_success_def note_failure_def put_adapter_def)

lemma flag_string_same: "same_store w (snd (flag_string X fs t k d w))"
  by (simp add: flag_string_def same_store_def case_prod_beta)

lemma active_adapter_same: "same_store w (snd (active_adapter X fs t w))"
  using flag_string_same [of w X fs t "''memory.adapter''" "''null''"]
  by (simp add: active_adapter_def active_adapter_name_def case_prod_beta)

lemma active_adapter_same' [dest]: "active_adapter X fs t w = (x, w1) \<Longrightarrow> same_store w w1"
  using active_adapter_same [of w X fs t] by simp

lemma shadow_read_same: "same_store w (fst (shadow_read X fs t q p w r))"
proof -
  let ?w1 = "snd (flag_string X fs t ''memory.shadow_adapter'' [] w)"
  let ?w2 = "snd (active_adapter_name X fs t ?w1)"
  have "same_store w ?w2"
    unfolding active_adapter_name_def by (rule same_store_trans; rule flag_string_same)
  then show ?thesis
    by (auto simp: shadow_read_def case_prod_beta Let_def same_store_def put_adapter_def split: option.splits)
qed

lemma wrapper_get_same: "same_store w (fst (snd (wrapper_get X fs t g w r)))"
  by (auto simp: wrapper_get_def split: prod.splits sum.splits)

lemma wrapper_upsert_same: "same_store w (fst (snd (wrapper_upsert X fs t m w r)))"
  by (auto simp: wrapper_upsert_def split: prod.splits sum.splits)

lemma wrapper_delete_same: "same_store w (fst (snd (wrapper_delete X fs t d w r)))"
  by (auto simp: wrapper_delete_def split: prod.splits sum.splits)

lemmas wrapper_same = wrapper_get_same wrapper_upsert_same wrapper_delete_same

lemma search_uncached_same: "same_store w (fst (snd (search_uncached X fs t q w r)))"
proof -
  obtain x w1 where a: "active_adapter X fs t w = (x, w1)" by (cases "active_adapter X fs t w")
  then have w1: "same_store w w1" by (rule active_adapter_same')
  show ?thesis
  proof (cases x)
    case (Inl e)
    with a w1 show ?thesis by (simp add: search_uncached_def)
  next
    case (Inr na)
    obtain name ad where na: "na = (name, ad)" by (cases na)
    obtain res a1 r1 where s: "adapter_search X fs q ad r = (res, a1, r1)" by (cases "adapter_search X fs q ad r") auto
    show ?thesis
    proof (cases res)
      case (Inl e)
      with a w1 s Inr na show ?thesis by (simp add: search_uncached_def)
    next
      case p: (Inr p)
      have "same_store w (put_adapter name a1 w1)" using w1 by simp
      from same_store_trans [OF this shadow_read_same [of _ X fs t q p r1]] a s Inr na p show ?thesis
        by (simp add: search_uncached_def case_prod_beta)
    qed
  qed
qed

lemma search_uncached_items:
  assumes q: "wf_search_request q" and s: "fst (search_uncached X fs t q w r) = Inr res"
    and e: "e \<in> set (mr_items res)"
  shows "scoped (mq_tenant_id q) (mq_application_id q) e \<and> me_status e = M_ACTIVE \<and>
    \<not> entry_tombstoned (mw_tombstones w) e"
proof -
  obtain x w1 where a: "active_adapter X fs t w = (x, w1)" by (cases "active_adapter X fs t w")
  with s obtain name ad where x: "x = Inr (name, ad)"
    by (cases x) (auto simp: search_uncached_def)
  obtain res0 a1 r1 where ad: "adapter_search X fs q ad r = (res0, a1, r1)"
    by (cases "adapter_search X fs q ad r") auto
  with s a x obtain p where p: "res0 = Inr p"
    by (cases res0) (auto simp: search_uncached_def)
  let ?w2 = "fst (shadow_read X fs t q p (put_adapter name a1 w1) r1)"
  have "same_store w ?w2"
    using active_adapter_same' [OF a] by (intro same_store_trans [OF _ shadow_read_same]) simp
  then have ts: "mw_tombstones ?w2 = mw_tombstones w" by (simp add: same_store_def)
  have "e \<in> set (filter_entries (mw_tombstones w) (mr_items p))"
    using s e by (auto simp: search_uncached_def a x ad p case_prod_beta ts)
  with adapters.filtered_search [of q X fs "(ad, r)" p e "mw_tombstones w"] q ad p show ?thesis
    by (auto simp: search_step_def entry_tombstoned_def scoped_def)
qed


lemma cache_inv_mono: "cache_inv P co \<Longrightarrow> (\<And>k v. P k v \<Longrightarrow> Q k v) \<Longrightarrow> cache_inv Q co"
  by (auto simp: cache_inv_def served_ok_def split: option.splits)

lemma mem_inv_same: "same_store w w' \<Longrightarrow> mem_inv X adm w' = mem_inv X adm w"
  by (simp add: mem_inv_def same_store_def)

lemma same_store_inv:
  "same_store w w' \<Longrightarrow> mem_inv X adm w \<Longrightarrow>
   mem_inv X adm w' \<and> set (mw_tombstones w) \<subseteq> set (mw_tombstones w')"
  by (simp add: mem_inv_def same_store_def)

lemma cache_lookup_miss:
  assumes "mem_inv X adm w" and "cache_lookup X t q w = (v, w1)"
  shows "mem_inv X adm w1 \<and> mw_tombstones w1 = mw_tombstones w \<and> mw_adapters w1 = mw_adapters w \<and>
    (\<forall>res. v = Some res \<longrightarrow> served X adm (mw_tombstones w) (request_key X q) res)"
proof (cases "mw_cache w")
  case None
  with assms show ?thesis by (auto simp: cache_lookup_def)
next
  case (Some c)
  then have c: "cache_ok c" "served_ok cache_peek (served X adm (mw_tombstones w)) c"
    using assms(1) by (simp_all add: mem_inv_def cache_inv_def)
  have v: "v = cache_peek (rd_now t) (request_key X q) c"
    and w1: "w1 = w\<lparr>mw_cache := Some (cache_look (rd_now t) (request_key X q) c)\<rparr>"
    using assms(2) Some by (auto simp: cache_lookup_def cache_peek_def cache_look_def case_prod_beta)
  have "cache_ok (cache_look (rd_now t) (request_key X q) c)"
    using c(1) by (rule ttl.inv_look)
  moreover have "served_ok cache_peek (served X adm (mw_tombstones w)) (cache_look (rd_now t) (request_key X q) c)"
    using c(2) by (rule ttl.served_look)
  ultimately show ?thesis
    using c(2) by (auto simp: w1 v mem_inv_def cache_inv_def served_ok_def)
qed

lemma cache_store_inv:
  assumes "mem_inv X adm w" and "served X adm (mw_tombstones w) (request_key X q) res"
  shows "mem_inv X adm (cache_store X t q res w)"
proof (cases "mw_cache w")
  case None
  then show ?thesis by (simp add: mem_inv_def cache_inv_def cache_store_def)
next
  case (Some c)
  then have "cache_ok c" "served_ok cache_peek (served X adm (mw_tombstones w)) c"
    using assms(1) by (simp_all add: mem_inv_def cache_inv_def)
  with Some assms(2) show ?thesis
    by (simp add: mem_inv_def cache_inv_def cache_store_def ttl.inv_put ttl.served_put)
qed

lemma wrapper_search_inv:
  assumes inv: "mem_inv X adm w" and q: "adm q" "wf_search_request q"
    and s: "wrapper_search X fs t q w r = (res, w', r')"
  shows "mem_inv X adm w' \<and> mw_tombstones w' = mw_tombstones w \<and>
    (\<forall>a. res = Inr a \<longrightarrow> served X adm (mw_tombstones w) (request_key X q) a)"
proof -
  obtain v w1 where l: "cache_lookup X t q w = (v, w1)" by (cases "cache_lookup X t q w")
  note miss = cache_lookup_miss [OF inv l]
  show ?thesis
  proof (cases v)
    case (Some cached)
    with s l miss show ?thesis
      by (auto simp: wrapper_search_def note_success_def mem_inv_def)
  next
    case None
    obtain x w2 r2 where u: "search_uncached X fs t q w1 r = (x, w2, r2)"
      by (cases "search_uncached X fs t q w1 r") auto
    have same: "same_store w1 w2" using search_uncached_same [of w1 X fs t q r] u by simp
    then have inv2: "mem_inv X adm w2" and ts: "mw_tombstones w2 = mw_tombstones w"
      using miss mem_inv_same [OF same] by (auto simp: same_store_def)
    show ?thesis
    proof (cases x)
      case (Inl e)
      with s l None u inv2 ts show ?thesis
        by (auto simp: wrapper_search_def note_failure_def mem_inv_def)
    next
      case (Inr a)
      have "served X adm (mw_tombstones w) (request_key X q) a"
        using q search_uncached_items [OF q(2), of X fs t w1 r a] u Inr miss
        by (auto simp: served_def)
      with s l None u inv2 ts Inr cache_store_inv [OF inv2, of q a t] show ?thesis
        by (auto simp: wrapper_search_def note_success_def mem_inv_def cache_store_def)
    qed
  qed
qed

lemma request_key_prefix:
  "prefix (search_invalidation_prefix (mq_tenant_id q) (mq_application_id q)) (request_key X q)"
  by (simp add: request_key_def)

lemma delete_memory_cases:
  assumes "delete_memory uid now cx eid app reason s = (res, s')"
  obtains e where "res = Inl e" "s' = s"
  | rows where "ms_tombstone_rows s = Some rows"
      "mw_tombstones (ms_wrapper s') = tombstone_add (cx_tenant_id cx) app eid (mw_tombstones (ms_wrapper s))"
      "mw_cache (ms_wrapper s') =
         map_option (cache_drop (search_invalidation_prefix (cx_tenant_id cx) app)) (mw_cache (ms_wrapper s))"
      "ms_tombstone_rows s' = Some (tombstone_repo_add \<lparr>tr_memory_id = eid, tr_tenant_id = cx_tenant_id cx,
         tr_application_id = app, tr_reason = reason, tr_deleted_by = cx_actor_id cx\<rparr> rows)"
  using assms by (auto simp: delete_memory_def require_repo_def Let_def split: option.splits sum.splits)

lemma delete_memory_inv:
  assumes inv: "mem_inv X adm (ms_wrapper s)" and d: "delete_memory uid now cx eid app reason s = (res, s')"
  shows "mem_inv X adm (ms_wrapper s') \<and>
    set (mw_tombstones (ms_wrapper s)) \<subseteq> set (mw_tombstones (ms_wrapper s'))"
  using d
proof (cases rule: delete_memory_cases)
  case 1
  with inv show ?thesis by simp
next
  case (2 rows)
  let ?p = "search_invalidation_prefix (cx_tenant_id cx) app"
  let ?ts = "mw_tombstones (ms_wrapper s)" and ?ts' = "mw_tombstones (ms_wrapper s')"
  have keep: "served X adm ?ts' k v" if v: "served X adm ?ts k v" and k: "\<not> prefix ?p k" for k v
  proof -
    from v obtain q where q: "adm q" "wf_search_request q" "k = request_key X q"
      and items: "\<forall>e \<in> set (mr_items v). scoped (mq_tenant_id q) (mq_application_id q) e \<and>
        me_status e = M_ACTIVE \<and> \<not> entry_tombstoned ?ts e"
      by (auto simp: served_def)
    have "(mq_tenant_id q, mq_application_id q) \<noteq> (cx_tenant_id cx, app)"
      using k q(3) request_key_prefix [of q X] by auto
    with items have "\<forall>e \<in> set (mr_items v). \<not> entry_tombstoned ?ts' e"
      by (auto simp: 2 entry_tombstoned_def is_tombstoned_def tombstone_add_def scoped_def)
    with q items show ?thesis by (auto simp: served_def)
  qed
  have "mem_inv X adm (ms_wrapper s')"
  proof (cases "mw_cache (ms_wrapper s)")
    case None
    with 2 show ?thesis by (simp add: mem_inv_def cache_inv_def)
  next
    case (Some c)
    then have c: "cache_ok c" "served_ok cache_peek (served X adm ?ts) c"
      using inv by (simp_all add: mem_inv_def cache_inv_def)
    have "served_ok cache_peek (served X adm ?ts') (cache_drop ?p c)"
      using c keep by (rule ttl.served_drop)
    with 2 Some c(1) show ?thesis by (simp add: mem_inv_def cache_inv_def ttl.inv_drop)
  qed
  with 2 show ?thesis by (auto simp: tombstone_add_def)
qed

lemma run_wrapper_state:
  "ms_wrapper (snd (run_wrapper f s)) = fst (snd (f (ms_wrapper s) (ms_remote s)))"
  by (simp add: run_wrapper_def case_prod_beta)

lemma mem_step_inv:
  assumes "mem_step X adm s s'" and "mem_inv X adm (ms_wrapper s)"
  shows "mem_inv X adm (ms_wrapper s') \<and>
    set (mw_tombstones (ms_wrapper s)) \<subseteq> set (mw_tombstones (ms_wrapper s'))"
  using assms
proof cases
  case (search q fs t)
  obtain res w' r' where w: "wrapper_search X fs t q (ms_wrapper s) (ms_remote s) = (res, w', r')"
    by (cases "wrapper_search X fs t q (ms_wrapper s) (ms_remote s)") auto
  from wrapper_search_inv [OF assms(2) search(2,3) w] search w show ?thesis
    by (simp add: run_wrapper_state)
next
  case (tombstone uid now cx eid app reason)
  then show ?thesis
    using delete_memory_inv [OF assms(2), of uid now cx eid app reason]
    by (cases "delete_memory uid now cx eid app reason s") auto
next
  case (get fs t g)
  then show ?thesis using same_store_inv [OF wrapper_get_same assms(2)] by (simp add: run_wrapper_state)
next
  case (upsert fs t m)
  then show ?thesis using same_store_inv [OF wrapper_upsert_same assms(2)] by (simp add: run_wrapper_state)
next
  case (delete fs t d)
  then show ?thesis using same_store_inv [OF wrapper_delete_same assms(2)] by (simp add: run_wrapper_state)
qed

lemma mem_steps_inv:
  assumes "mem_steps X adm s s'" and "mem_inv X adm (ms_wrapper s)"
  shows "mem_inv X adm (ms_wrapper s') \<and>
    set (mw_tombstones (ms_wrapper s)) \<subseteq> set (mw_tombstones (ms_wrapper s'))"
  using assms unfolding mem_steps_def
proof (induction rule: rtranclp_induct)
  case base
  then show ?case by simp
next
  case (step y z)
  then show ?case using mem_step_inv [of X adm y z] by blast
qed

lemma startup_inv: "mem_inv X adm (startup flags cp ttl rows)"
  by (simp add: startup_def build_memory_wrapper_def mem_inv_def cache_inv_def served_ok_def
      cache_peek_def cache_get_def new_cache_def cache_ok_def)


section \<open>Properties\<close>

text \<open>C1: deleted memories stay deleted: once the deletion route has tombstoned an entity, no search of
  any later request, whether answered by an adapter or from the cache, returns it, and no get does;
  whatever requests happen in between.\<close>

theorem deleted_never_served:
  assumes "ms_wrapper s0 = startup flags cp ttl db"
    and "mem_steps X adm s0 s1"
    and "delete_memory uid now cx eid app reason s1 = (Inr d, s2)"
    and "mem_steps X adm s2 s"
    and "adm q" and "wf_search_request q"
    and "wrapper_search X fs t q (ms_wrapper s) (ms_remote s) = (Inr res, w', r')"
    and "mg_tenant_id g = cx_tenant_id cx" and "mg_application_id g = app" and "mg_entity_id g = eid"
  shows "(\<forall>e \<in> set (mr_items res). \<not> (me_tenant_id e = cx_tenant_id cx \<and> me_application_id e = app \<and>
      me_entity_id e = eid)) \<and>
    fst (wrapper_get X fs t g (ms_wrapper s) (ms_remote s)) = Inr None"
proof -
  have "mem_inv X adm (ms_wrapper s0)" unfolding assms(1) by (rule startup_inv)
  then have "mem_inv X adm (ms_wrapper s1)"
    using mem_steps_inv [OF assms(2)] by blast
  then have inv2: "mem_inv X adm (ms_wrapper s2)"
    using delete_memory_inv [OF _ assms(3)] by blast
  have ts2: "(cx_tenant_id cx, app, eid) \<in> set (mw_tombstones (ms_wrapper s2))"
    using assms(3) by (cases rule: delete_memory_cases) (auto simp: tombstone_add_def)
  have inv: "mem_inv X adm (ms_wrapper s)" and ts: "(cx_tenant_id cx, app, eid) \<in> set (mw_tombstones (ms_wrapper s))"
    using mem_steps_inv [OF assms(4) inv2] ts2 by auto
  have "served X adm (mw_tombstones (ms_wrapper s)) (request_key X q) res"
    using wrapper_search_inv [OF inv assms(5,6,7)] by simp
  then have "\<forall>e \<in> set (mr_items res). \<not> entry_tombstoned (mw_tombstones (ms_wrapper s)) e"
    by (auto simp: served_def)
  with ts show ?thesis
    by (auto simp: entry_tombstoned_def is_tombstoned_def wrapper_get_def assms(8-10))
qed

definition colon_free :: "memory_search_request \<Rightarrow> bool" where
  "colon_free q = (CHR '':'' \<notin> set (mq_tenant_id q) \<and> CHR '':'' \<notin> set (mq_application_id q))"

text \<open>C2: tenants are isolated in memory searches: as long as the tenant and application ids of all
  search requests hold no colon, every search of every run answers only with active entries labelled
  with the tenant and application that asked, cached answers included.\<close>

theorem search_tenant_isolation:
  assumes "ms_wrapper s0 = startup flags cp ttl db" and "mem_steps X colon_free s0 s"
    and "colon_free q" and "wf_search_request q"
    and "wrapper_search X fs t q (ms_wrapper s) (ms_remote s) = (Inr res, w', r')"
  shows "\<forall>e \<in> set (mr_items res). me_tenant_id e = mq_tenant_id q \<and>
    me_application_id e = mq_application_id q \<and> me_status e = M_ACTIVE"
proof -
  have "mem_inv X colon_free (ms_wrapper s0)" unfolding assms(1) by (rule startup_inv)
  then have inv: "mem_inv X colon_free (ms_wrapper s)"
    using mem_steps_inv [OF assms(2)] by blast
  have "served X colon_free (mw_tombstones (ms_wrapper s)) (request_key X q) res"
    using wrapper_search_inv [OF inv assms(3,4,5)] by simp
  then obtain q' where "colon_free q'" "request_key X q = request_key X q'"
    and items: "\<forall>e \<in> set (mr_items res). scoped (mq_tenant_id q') (mq_application_id q') e \<and> me_status e = M_ACTIVE"
    by (auto simp: served_def)
  then have "mq_tenant_id q = mq_tenant_id q' \<and> mq_application_id q = mq_application_id q'"
    using assms(3) by (intro search_key_inj [of _ _ _ _ "x_sha X"]) (auto simp: colon_free_def request_key_def)
  with items show ?thesis by (simp add: scoped_def)
qed


section \<open>A small run\<close>

definition demo_X :: "unit ext" where
  "demo_X = \<lparr>x_http = (\<lambda>_ _. None), x_env = (\<lambda>_. None), x_sha = (\<lambda>s. s),
     x_oss = (\<lambda>_ _ _ r. (Inl (RuntimeError ''down''), r)), x_sdk = None\<rparr>"

definition demo_reading :: "rat \<Rightarrow> reading" where
  "demo_reading now = \<lparr>rd_now = now, rd_later = now, rd_iso = ''iso'', rd_ms = 1\<rparr>"

definition demo_mem_admin :: tenant_context where
  "demo_mem_admin = \<lparr>cx_tenant_id = ''acme'', cx_actor_id = ''u'', cx_roles = [''admin''],
     cx_permissions = permissions_for_roles [''admin'']\<rparr>"

definition demo_query :: "string \<Rightarrow> string \<Rightarrow> memory_search_request" where
  "demo_query tenant app = \<lparr>mq_tenant_id = tenant, mq_application_id = app, mq_query = ''login'', mq_filters = [],
     mq_limit = 10\<rparr>"

definition demo_state :: "unit mem_state" where
  "demo_state = \<lparr>ms_wrapper = startup (ConfigFeatureFlagProvider [(''memory.adapter'', JStr ''stub'')])
       (CredentialProviderChain []) 300 (Some []),
     ms_remote = (), ms_tombstone_rows = Some [], ms_audit_rows = Some []\<rparr>"

definition demo_filled :: "unit mem_state" where
  "demo_filled = snd (run_wrapper (wrapper_upsert demo_X [] (demo_reading 0) demo_entry) demo_state)"

definition demo_deleted :: "unit mem_state" where
  "demo_deleted = snd (delete_memory ''ev'' 0 demo_mem_admin ''m1'' ''web'' None demo_filled)"

lemma demo_search_filled:
  "map me_entity_id (mr_items (projr (fst (wrapper_search demo_X [] (demo_reading 1) (demo_query ''acme'' ''web'')
     (ms_wrapper demo_filled) ())))) = [''m1'']"
  by code_simp

lemma demo_search_deleted:
  "ok (fst (wrapper_search demo_X [] (demo_reading 1) (demo_query ''acme'' ''web'') (ms_wrapper demo_deleted) ()))"
  by code_simp


theorem deleted_never_served_witness:
  "fst (wrapper_get demo_X [] (demo_reading 1) \<lparr>mg_tenant_id = ''acme'', mg_application_id = ''web'', mg_entity_id = ''m1''\<rparr>
     (ms_wrapper demo_deleted) ()) = Inr None"
proof -
  obtain res w' r' where s: "wrapper_search demo_X [] (demo_reading 1) (demo_query ''acme'' ''web'')
      (ms_wrapper demo_deleted) (ms_remote demo_deleted) = (Inr res, w', r')"
    using demo_search_deleted
    by (cases "wrapper_search demo_X [] (demo_reading 1) (demo_query ''acme'' ''web'') (ms_wrapper demo_deleted) ()")
      (auto simp: ok_iff)
  have up: "mem_steps demo_X (\<lambda>_. True) demo_state demo_filled"
    unfolding mem_steps_def demo_filled_def by (intro r_into_rtranclp mem_step.upsert)
  have del: "delete_memory ''ev'' 0 demo_mem_admin ''m1'' ''web'' None demo_filled =
      (Inr \<lparr>dr_entity_id = ''m1'', dr_deleted = True, dr_tombstoned = True\<rparr>, demo_deleted)"
    unfolding prod_eq_iff fst_conv snd_conv demo_deleted_def by (rule conjI [OF _ refl]) code_simp
  have stay: "mem_steps demo_X (\<lambda>_. True) demo_deleted demo_deleted" by (simp add: mem_steps_def)
  have wf: "wf_search_request (demo_query ''acme'' ''web'')" by code_simp
  show ?thesis
    using deleted_never_served [OF _ up del stay _ wf s, of _ _ _ _
        "\<lparr>mg_tenant_id = ''acme'', mg_application_id = ''web'', mg_entity_id = ''m1''\<rparr>"]
    by (simp add: demo_state_def demo_mem_admin_def)
qed

theorem search_tenant_isolation_witness:
  "set (map me_tenant_id (mr_items (projr (fst (wrapper_search demo_X [] (demo_reading 1) (demo_query ''acme'' ''web'')
     (ms_wrapper demo_filled) (ms_remote demo_filled)))))) \<subseteq> {''acme''}"
proof -
  have "ok (fst (wrapper_search demo_X [] (demo_reading 1) (demo_query ''acme'' ''web'')
      (ms_wrapper demo_filled) (ms_remote demo_filled)))"
    by code_simp
  then obtain res w' r' where s: "wrapper_search demo_X [] (demo_reading 1) (demo_query ''acme'' ''web'')
      (ms_wrapper demo_filled) (ms_remote demo_filled) = (Inr res, w', r')"
    by (cases "wrapper_search demo_X [] (demo_reading 1) (demo_query ''acme'' ''web'')
      (ms_wrapper demo_filled) (ms_remote demo_filled)") (auto simp: ok_iff)
  have up: "mem_steps demo_X colon_free demo_state demo_filled"
    unfolding mem_steps_def demo_filled_def by (intro r_into_rtranclp mem_step.upsert)
  have q: "colon_free (demo_query ''acme'' ''web'')" "wf_search_request (demo_query ''acme'' ''web'')"
    by code_simp+
  show ?thesis
    using search_tenant_isolation [OF _ up q s] s by (auto simp: demo_state_def demo_query_def)
qed

section \<open>Answers from the cache\<close>

lemma cached_answer:
  assumes "mw_cache w = Some c" and "cache_peek (rd_now t) (request_key X q) c = Some res"
  shows "fst (wrapper_search X fs t q w r) = Inr res"
  using assms by (simp add: wrapper_search_def cache_lookup_def cache_peek_def case_prod_beta)

lemma search_caches:
  assumes c: "mw_cache w = Some c" and miss: "cache_peek (rd_now t) (request_key X q) c = None"
    and s: "wrapper_search X fs t q w r = (Inr res, w1, r1)"
    and now: "now \<le> rd_later t + of_nat (ca_ttl c)"
  shows "\<exists>c1. mw_cache w1 = Some c1 \<and> cache_peek now (request_key X q) c1 = Some res"
proof -
  obtain w0 where l: "cache_lookup X t q w = (None, w0)" and c0: "mw_cache w0 = Some (cache_look (rd_now t) (request_key X q) c)"
    using c miss by (auto simp: cache_lookup_def cache_peek_def cache_look_def case_prod_beta)
  obtain x w2 r2 where u: "search_uncached X fs t q w0 r = (x, w2, r2)"
    by (cases "search_uncached X fs t q w0 r") auto
  have "mw_cache w2 = mw_cache w0" using search_uncached_same [of w0 X fs t q r] u by (simp add: same_store_def)
  moreover have ttl: "ca_ttl (cache_look (rd_now t) (request_key X q) c) = ca_ttl c"
    by (simp add: cache_look_def cache_get_def split: option.splits)
  ultimately show ?thesis
    using s l u c0 now
    by (cases x) (auto simp: wrapper_search_def cache_store_def note_success_def cache_peek_set)
qed

text \<open>A delete through the memory service does not reach the cache: a search answered before it is
  answered the same after it, deleted entity included, until the entry expires; the same holds for an
  upsert.\<close>

theorem service_writes_keep_cache:
  assumes "mw_cache w = Some c" and "cache_peek (rd_now t) (request_key X q) c = None"
    and "wrapper_search X fs t q w r = (Inr res, w1, r1)"
    and "rd_now t' \<le> rd_later t + of_nat (ca_ttl c)"
  shows "fst (wrapper_search X fs' t' q (fst (snd (wrapper_delete X fs1 t1 d w1 r1))) r2) = Inr res \<and>
    fst (wrapper_search X fs' t' q (fst (snd (wrapper_upsert X fs1 t1 m w1 r1))) r2) = Inr res"
proof -
  obtain c1 where "mw_cache w1 = Some c1" "cache_peek (rd_now t') (request_key X q) c1 = Some res"
    using search_caches [OF assms] by blast
  moreover have "mw_cache (fst (snd (wrapper_delete X fs1 t1 d w1 r1))) = mw_cache w1"
    by (rule wrapper_delete_same [unfolded same_store_def, THEN conjunct1])
  moreover have "mw_cache (fst (snd (wrapper_upsert X fs1 t1 m w1 r1))) = mw_cache w1"
    by (rule wrapper_upsert_same [unfolded same_store_def, THEN conjunct1])
  ultimately show ?thesis by (simp add: cached_answer)
qed

definition demo_del_request :: memory_delete_request where
  "demo_del_request = \<lparr>md_tenant_id = ''acme'', md_application_id = ''web'', md_entity_id = ''m1'',
     md_deleted_by = ''u'', md_reason = None\<rparr>"

definition demo_searched :: "memory_search_result result \<times> memory_wrapper \<times> unit" where
  "demo_searched = wrapper_search demo_X [] (demo_reading 1) (demo_query ''acme'' ''web'') (ms_wrapper demo_filled) ()"

theorem service_writes_keep_cache_witness:
  "fst (wrapper_search demo_X [] (demo_reading 5) (demo_query ''acme'' ''web'')
      (fst (snd (wrapper_delete demo_X [] (demo_reading 2) demo_del_request (fst (snd demo_searched)) ()))) ()) =
     Inr (projr (fst demo_searched)) \<and>
   map me_entity_id (mr_items (projr (fst demo_searched))) = [''m1'']"
proof -
  have ids: "map me_entity_id (mr_items (projr (fst demo_searched))) = [''m1'']" by code_simp
  have "ok (fst demo_searched)" by code_simp
  then obtain res where "fst demo_searched = Inr res" by (auto simp: ok_iff)
  then have res: "res = projr (fst demo_searched)" by simp
  define w1 where w1: "w1 = fst (snd demo_searched)"
  have s: "wrapper_search demo_X [] (demo_reading 1) (demo_query ''acme'' ''web'') (ms_wrapper demo_filled) () = (Inr res, w1, ())"
    using \<open>fst demo_searched = Inr res\<close> by (simp add: prod_eq_iff w1 demo_searched_def)
  have c: "mw_cache (ms_wrapper demo_filled) = Some (new_cache 300)" by code_simp
  have miss: "cache_peek (rd_now (demo_reading 1)) (request_key demo_X (demo_query ''acme'' ''web'')) (new_cache 300) = (None :: memory_search_result option)"
    by (simp add: cache_peek_def cache_get_def new_cache_def)
  have "fst (wrapper_search demo_X [] (demo_reading 5) (demo_query ''acme'' ''web'')
      (fst (snd (wrapper_delete demo_X [] (demo_reading 2) demo_del_request w1 ()))) ()) = Inr res"
    by (rule service_writes_keep_cache [OF c miss s, THEN conjunct1]) (simp add: demo_reading_def new_cache_def)
  then show ?thesis unfolding w1 res using ids by blast
qed

text \<open>Ids with a colon break the isolation of the cache: a request of another tenant whose ids join
  to the same string is answered with the first tenant's cached result.\<close>

theorem colon_ids_share_cache:
  assumes "mw_cache w = Some c" and "cache_peek (rd_now t) (request_key X q) c = None"
    and "wrapper_search X fs t q w r = (Inr res, w1, r1)"
    and "rd_now t' \<le> rd_later t + of_nat (ca_ttl c)"
    and "mq_tenant_id q' @ '':'' @ mq_application_id q' = mq_tenant_id q @ '':'' @ mq_application_id q"
    and "mq_query q' = mq_query q" "mq_filters q' = mq_filters q" "mq_limit q' = mq_limit q"
  shows "fst (wrapper_search X fs' t' q' w1 r') = Inr res"
proof -
  have split_app: "u @ '':'' @ d = v @ '':'' @ d \<Longrightarrow> u = v" for u v d :: string by simp
  have "mq_tenant_id q' @ '':'' @ mq_application_id q' @ x = mq_tenant_id q @ '':'' @ mq_application_id q @ x" for x
    using assms(5) by (metis append.assoc)
  then have "request_key X q' = request_key X q"
    by (simp add: request_key_def build_search_cache_key_def assms(6-8) Let_def)
  moreover obtain c1 where "mw_cache w1 = Some c1" "cache_peek (rd_now t') (request_key X q) c1 = Some res"
    using search_caches [OF assms(1-4)] by blast
  ultimately show ?thesis by (simp add: cached_answer)
qed

theorem colon_ids_share_cache_witness:
  "fst (wrapper_search demo_X [] (demo_reading 2) (demo_query ''acme:web'' ''shop'')
     (fst (snd (wrapper_search demo_X [] (demo_reading 1) (demo_query ''acme'' ''web:shop'') (ms_wrapper demo_filled) ()))) ())
   = fst (wrapper_search demo_X [] (demo_reading 1) (demo_query ''acme'' ''web:shop'') (ms_wrapper demo_filled) ())"
proof -
  let ?s = "wrapper_search demo_X [] (demo_reading 1) (demo_query ''acme'' ''web:shop'') (ms_wrapper demo_filled) ()"
  have "ok (fst ?s)" by code_simp
  then obtain res w1 r1 where s: "?s = (Inr res, w1, r1)" by (cases ?s) (auto simp: ok_iff)
  have c: "mw_cache (ms_wrapper demo_filled) = Some (new_cache 300)" by code_simp
  have miss: "cache_peek (rd_now (demo_reading 1)) (request_key demo_X (demo_query ''acme'' ''web:shop'')) (new_cache 300) = (None :: memory_search_result option)"
    by (simp add: cache_peek_def cache_get_def new_cache_def)
  show ?thesis
    using colon_ids_share_cache [OF c miss s, of "demo_reading 2" "demo_query ''acme:web'' ''shop''" "[]" "()"] s
    by (simp add: demo_reading_def demo_query_def new_cache_def)
qed

text \<open>A tombstone survives a restart exactly when no other tenant or application tombstoned the same
  memory id before: the table keeps one row per memory id.\<close>

theorem tombstone_after_restart:
  assumes "delete_memory uid now cx eid app reason s = (Inr d, s')" and "ms_tombstone_rows s = Some rows"
    and "distinct (map tr_memory_id rows)"
  shows "(cx_tenant_id cx, app, eid) \<in> set (mw_tombstones (startup flags cp ttl (ms_tombstone_rows s'))) \<longleftrightarrow>
    (\<forall>x \<in> set rows. tr_memory_id x = eid \<longrightarrow> tr_tenant_id x = cx_tenant_id cx \<and> tr_application_id x = app)"
proof -
  let ?new = "\<lparr>tr_memory_id = eid, tr_tenant_id = cx_tenant_id cx, tr_application_id = app, tr_reason = reason,
     tr_deleted_by = cx_actor_id cx\<rparr>"
  have rows': "ms_tombstone_rows s' = Some (tombstone_repo_add ?new rows)"
    using assms(1,2) by (cases rule: delete_memory_cases) auto
  have uniq: "x = y" if "x \<in> set rows" "y \<in> set rows" "tr_memory_id x = tr_memory_id y" for x y
    using assms(3) that by (auto simp: distinct_map inj_on_def)
  have "(cx_tenant_id cx, app, eid) \<in> set (mw_tombstones (startup flags cp ttl (ms_tombstone_rows s'))) \<longleftrightarrow>
      (\<exists>x \<in> set (tombstone_repo_add ?new rows). tr_tenant_id x = cx_tenant_id cx \<and> tr_application_id x = app \<and>
        tr_memory_id x = eid)"
    by (force simp: rows' startup_def build_memory_wrapper_def tombstone_load_all_def)
  also have "\<dots> \<longleftrightarrow> (\<forall>x \<in> set rows. tr_memory_id x = eid \<longrightarrow> tr_tenant_id x = cx_tenant_id cx \<and> tr_application_id x = app)"
    using uniq by (auto simp: tombstone_repo_add_def)
  finally show ?thesis .
qed

theorem tombstone_after_restart_witness:
  "(''acme'', ''web'', ''m1'') \<in> set (mw_tombstones (startup (ConfigFeatureFlagProvider []) (CredentialProviderChain []) 300
     (ms_tombstone_rows demo_deleted)))"
proof -
  have del: "delete_memory ''ev'' 0 demo_mem_admin ''m1'' ''web'' None demo_filled =
      (Inr \<lparr>dr_entity_id = ''m1'', dr_deleted = True, dr_tombstoned = True\<rparr>, demo_deleted)"
    unfolding prod_eq_iff fst_conv snd_conv demo_deleted_def by (rule conjI [OF _ refl]) code_simp
  have "ms_tombstone_rows demo_filled = Some []" by code_simp
  from tombstone_after_restart [OF del this] show ?thesis by (simp add: demo_mem_admin_def)
qed


definition demo_pending :: "memory_search_result result \<times> memory_wrapper \<times> unit" where
  "demo_pending = search_uncached demo_X [] (demo_reading 1) (demo_query ''acme'' ''web'') (ms_wrapper demo_filled) (ms_remote demo_filled)"


text \<open>C32: the routes of the memory service are guarded: a request for another tenant, a write without
  the write permission, a delete by a caller who is not an administrator or not the named actor are
  all answered 403, without touching any state.\<close>

theorem memory_routes_guarded:
  assumes "(cx_tenant_id cx \<noteq> mq_tenant_id q \<and> cx_tenant_id cx \<noteq> mg_tenant_id g)"
    and "(cx_tenant_id cx \<noteq> me_tenant_id m \<or> \<not> has_permission (cx_roles cx) WRITE_MEMORY)"
    and "(cx_tenant_id cx \<noteq> md_tenant_id d \<or> \<not> has_permission (cx_roles cx) DELETE_MEMORY \<or>
          md_deleted_by d \<noteq> cx_actor_id cx)"
  shows "(\<exists>x. route_search X fs t cx q s = (Inl (HTTPException 403 x), s)) \<and>
    (\<exists>x. route_get X fs t cx g s = (Inl (HTTPException 403 x), s)) \<and>
    (\<exists>x. route_upsert X fs t cx m s = (Inl (HTTPException 403 x), s)) \<and>
    (\<exists>x. route_delete X fs t cx d s = (Inl (HTTPException 403 x), s))"
  using assms
  by (auto simp: route_search_def route_get_def route_upsert_def route_delete_def guarded_def
      require_tenant_def require_role_permission_def)


theorem memory_routes_guarded_witness:
  "\<exists>x. route_delete demo_X [] (demo_reading 0) demo_mem_admin (demo_del_request\<lparr>md_deleted_by := ''other''\<rparr>) demo_filled =
     (Inl (HTTPException 403 x), demo_filled)"
  by (rule memory_routes_guarded [of demo_mem_admin "demo_query ''x'' ''y''"
        "\<lparr>mg_tenant_id = ''x'', mg_application_id = ''y'', mg_entity_id = ''z''\<rparr>"
        "demo_entry\<lparr>me_tenant_id := ''x''\<rparr>", THEN conjunct2, THEN conjunct2, THEN conjunct2])
    (simp_all add: demo_mem_admin_def demo_query_def demo_del_request_def)

end
