(* ===== verification/Planner.thy ===== *)
theory Planner
  imports Metadata Skills MemoryService
begin

text \<open>
  \<open>totalrecall/context/planner.py\<close>: the context plan of a generation request, assembled from the skill
  registry and a memory search within a token budget. The plan's id is an argument.
\<close>

section \<open>Token costs\<close>

definition TOKENS_PER_RULE :: int where "TOKENS_PER_RULE = 20"
definition TOKENS_PER_MEMORY :: int where "TOKENS_PER_MEMORY = 60"
definition SYSTEM_OVERHEAD_TOKENS :: int where "SYSTEM_OVERHEAD_TOKENS = 300"

lemmas token_costs = TOKENS_PER_RULE_def TOKENS_PER_MEMORY_def SYSTEM_OVERHEAD_TOKENS_def

record plan_inputs =
  pi_jira_story :: "jira_story option"
  pi_rag_chunks :: "rag_chunk list"

section \<open>Skill and memory selection\<close>

definition select_skills ::
  "skill_registry \<Rightarrow> generation_request \<Rightarrow> selected_skill list \<times> context_exclusion list \<times> int" where
  "select_skills reg q =
     (let lang = gt_language (gr_target q); fw = gt_framework (gr_target q)
      in (case select lang fw reg of
            None \<Rightarrow>
              ([], [\<lparr>ce_entity_id = framework_value fw @ '':'' @ language_value lang, ce_reason = FRAMEWORK_MISMATCH,
                     ce_details = [(''language'', JStr (language_value lang)), (''framework'', JStr (framework_value fw))]\<rparr>], 0)
          | Some s \<Rightarrow>
              ([\<lparr>ss_skill_id = sk_skill_id s, ss_version = sk_version s,
                 ss_reason = Some (''Matched '' @ framework_value (sk_framework s) @ ''/'' @ language_value (sk_language s))\<rparr>],
               [], int (length (sk_generation_rules s)) * TOKENS_PER_RULE)))"

text \<open>The loop over the found entries: an entry is taken while the budget allows its cost.\<close>

fun take_entries ::
  "int \<Rightarrow> memory_entry list \<Rightarrow> selected_memory list \<Rightarrow> context_exclusion list \<Rightarrow> int
   \<Rightarrow> selected_memory list \<times> context_exclusion list \<times> int" where
  "take_entries budget [] sel excl used = (sel, excl, used)"
| "take_entries budget (m # ms) sel excl used =
     (if budget < used + TOKENS_PER_MEMORY
      then take_entries budget ms sel
             (excl @ [\<lparr>ce_entity_id = me_entity_id m, ce_reason = TOKEN_BUDGET,
                ce_details = [(''tokens_used'', JInt used), (''cost'', JInt TOKENS_PER_MEMORY), (''budget'', JInt budget)]\<rparr>]) used
      else take_entries budget ms
             (sel @ [\<lparr>sm_memory_id = me_entity_id m, sm_confidence = 1, sm_reason = Some ''domain/route match''\<rparr>])
             excl (used + TOKENS_PER_MEMORY))"

definition plan_query :: "generation_request \<Rightarrow> request_metadata \<Rightarrow> memory_search_request" where
  "plan_query q m =
     \<lparr>mq_tenant_id = gr_tenant_id q, mq_application_id = gr_application_id q,
      mq_query = trim (join '' '' (gr_prompt q # rm_test_intent m)),
      mq_filters = (''domain'', JStr (rm_domain m)) #
        (case rm_route m of None \<Rightarrow> [] | Some x \<Rightarrow> if x = [] then [] else [(''route'', JStr x)]),
      mq_limit = 10\<rparr>"

definition select_memories ::
  "'r ext \<Rightarrow> fs \<Rightarrow> reading \<Rightarrow> generation_request \<Rightarrow> request_metadata \<Rightarrow> int \<Rightarrow> memory_wrapper \<Rightarrow> 'r
   \<Rightarrow> (selected_memory list \<times> context_exclusion list \<times> int) \<times> memory_wrapper \<times> 'r" where
  "select_memories X fs t q m budget w r =
     (case wrapper_search X fs t (plan_query q m) w r of
        (Inl _, w1, r1) \<Rightarrow> (([], [], 0), w1, r1)
      | (Inr res, w1, r1) \<Rightarrow> (take_entries budget (mr_items res) [] [] 0, w1, r1))"

section \<open>The plan\<close>

definition plan_of ::
  "string \<Rightarrow> generation_request \<Rightarrow> string \<Rightarrow> plan_inputs option
   \<Rightarrow> selected_skill list \<times> context_exclusion list \<times> int \<Rightarrow> selected_memory list \<times> context_exclusion list \<times> int
   \<Rightarrow> context_plan" where
  "plan_of uuid q request_id inputs sk me =
     (case sk of (skills, skill_exclusions, skill_tokens) \<Rightarrow>
      case me of (memories, memory_exclusions, memory_tokens) \<Rightarrow>
        (let prompt_tokens = int (length (split_ws (gr_prompt q)));
             optimized = SYSTEM_OVERHEAD_TOKENS + prompt_tokens + skill_tokens + memory_tokens;
             candidate = memory_tokens + int (length memory_exclusions) * TOKENS_PER_MEMORY;
             baseline = SYSTEM_OVERHEAD_TOKENS + prompt_tokens + skill_tokens + candidate;
             saved = max 0 (baseline - optimized)
         in \<lparr>cp_context_plan_id = uuid, cp_tenant_id = gr_tenant_id q, cp_application_id = gr_application_id q,
             cp_request_id = request_id, cp_selected_skills = skills, cp_selected_memories = memories,
             cp_skill_ids = map ss_skill_id skills, cp_memory_ids = map sm_memory_id memories,
             cp_excluded = skill_exclusions @ memory_exclusions,
             cp_token_budget = \<lparr>tb_max_input_tokens = go_max_input_tokens (gr_options q),
               tb_estimated_input_tokens = optimized, tb_baseline_estimate = baseline,
               tb_estimated_tokens_saved = saved\<rparr>,
             cp_jira_story = (case inputs of None \<Rightarrow> None | Some i \<Rightarrow> pi_jira_story i),
             cp_rag_chunks = (case inputs of None \<Rightarrow> [] | Some i \<Rightarrow> pi_rag_chunks i)\<rparr>))"

definition memory_budget :: "skill_registry \<Rightarrow> generation_request \<Rightarrow> int" where
  "memory_budget reg q =
     go_max_input_tokens (gr_options q) - SYSTEM_OVERHEAD_TOKENS - snd (snd (select_skills reg q))"

definition plan ::
  "'r ext \<Rightarrow> fs \<Rightarrow> reading \<Rightarrow> string \<Rightarrow> skill_registry \<Rightarrow> generation_request \<Rightarrow> string \<Rightarrow> plan_inputs option
   \<Rightarrow> memory_wrapper \<Rightarrow> 'r \<Rightarrow> context_plan result \<times> memory_wrapper \<times> 'r" where
  "plan X fs t uuid reg q request_id inputs w r =
     (case extract_metadata q of
        Inl e \<Rightarrow> (Inl e, w, r)
      | Inr m \<Rightarrow>
          (case select_memories X fs t q m (memory_budget reg q) w r of
             (me, w1, r1) \<Rightarrow> (Inr (plan_of uuid q request_id inputs (select_skills reg q) me), w1, r1)))"

section \<open>The selection loop takes a prefix\<close>

definition as_selected :: "memory_entry \<Rightarrow> selected_memory" where
  "as_selected m = \<lparr>sm_memory_id = me_entity_id m, sm_confidence = 1, sm_reason = Some ''domain/route match''\<rparr>"

definition as_excluded :: "int \<Rightarrow> int \<Rightarrow> memory_entry \<Rightarrow> context_exclusion" where
  "as_excluded budget used m = \<lparr>ce_entity_id = me_entity_id m, ce_reason = TOKEN_BUDGET,
     ce_details = [(''tokens_used'', JInt used), (''cost'', JInt TOKENS_PER_MEMORY), (''budget'', JInt budget)]\<rparr>"

lemma take_entries_full:
  "budget < used + TOKENS_PER_MEMORY \<Longrightarrow>
   take_entries budget ms sel excl used = (sel, excl @ map (as_excluded budget used) ms, used)"
  by (induction ms arbitrary: excl) (simp_all add: as_excluded_def)

lemma take_entries_prefix:
  assumes "k = min (length ms) (nat ((budget - used) div TOKENS_PER_MEMORY))"
  shows "take_entries budget ms sel excl used =
    (sel @ map as_selected (take k ms),
     excl @ map (as_excluded budget (used + int k * TOKENS_PER_MEMORY)) (drop k ms),
     used + int k * TOKENS_PER_MEMORY)"
  using assms
proof (induction ms arbitrary: sel used k)
  case Nil
  then show ?case by simp
next
  case (Cons m ms)
  show ?case
  proof (cases "budget < used + TOKENS_PER_MEMORY")
    case True
    then have "(budget - used) div TOKENS_PER_MEMORY \<le> 0"
      by (simp add: TOKENS_PER_MEMORY_def)
    with Cons.prems have "k = 0" by simp
    with True show ?thesis by (simp only: take_entries_full) simp
  next
    case False
    define d where "d = (budget - (used + TOKENS_PER_MEMORY)) div TOKENS_PER_MEMORY"
    have d: "(budget - used) div TOKENS_PER_MEMORY = d + 1" "0 \<le> d"
      using False by (simp_all add: d_def TOKENS_PER_MEMORY_def)
    obtain k' where k': "k = Suc k'" "k' = min (length ms) (nat d)"
      using Cons.prems d by (cases k) (auto simp: nat_add_distrib)
    have "take_entries budget ms (sel @ [as_selected m]) excl (used + TOKENS_PER_MEMORY) =
        ((sel @ [as_selected m]) @ map as_selected (take k' ms),
         excl @ map (as_excluded budget (used + TOKENS_PER_MEMORY + int k' * TOKENS_PER_MEMORY)) (drop k' ms),
         used + TOKENS_PER_MEMORY + int k' * TOKENS_PER_MEMORY)"
      by (rule Cons.IH) (simp only: k'(2) d_def)
    with False show ?thesis
      by (simp add: k'(1) as_selected_def algebra_simps)
  qed
qed

section \<open>Properties\<close>

text \<open>C35: a plan takes memories in the order the search returned them, as many whole memory costs as the
  budget left by the overhead and the skill rules allows, and excludes exactly the rest.\<close>

theorem plan_takes_prefix:
  assumes "extract_metadata q = Inr m" and "wrapper_search X fs t (plan_query q m) w r = (Inr res, w', r')"
    and "k = nat (memory_budget reg q div TOKENS_PER_MEMORY)"
  shows "\<exists>p. plan X fs t uuid reg q rid inputs w r = (Inr p, w', r') \<and>
    cp_memory_ids p = map me_entity_id (take k (mr_items res)) \<and>
    map ce_entity_id (filter (\<lambda>x. ce_reason x = TOKEN_BUDGET) (cp_excluded p)) = map me_entity_id (drop k (mr_items res))"
proof -
  have rest: "drop (min (length ms) k) ms = drop k ms" "take (min (length ms) k) ms = take k ms" for ms :: "memory_entry list"
    by (simp_all add: min_def)
  have none: "filter (\<lambda>x. ce_reason x = TOKEN_BUDGET) (fst (snd (select_skills reg q))) = []"
    by (simp add: select_skills_def Let_def split: option.split)
  have all: "filter (\<lambda>x. ce_reason x = TOKEN_BUDGET) (map (as_excluded b u) ms) = map (as_excluded b u) ms" for b u ms
    by (induction ms) (simp_all add: as_excluded_def)
  have ids: "map ce_entity_id (map (as_excluded b u) ms) = map me_entity_id ms"
    "map sm_memory_id (map as_selected ms) = map me_entity_id ms" for b u ms
    by (simp_all add: as_excluded_def as_selected_def)
  let ?k = "min (length (mr_items res)) k"
  have kk: "?k = min (length (mr_items res)) (nat ((memory_budget reg q - 0) div TOKENS_PER_MEMORY))"
    by (simp add: assms(3))
  have tk: "take_entries (memory_budget reg q) (mr_items res) [] [] 0 =
      (map as_selected (take k (mr_items res)),
       map (as_excluded (memory_budget reg q) (int ?k * TOKENS_PER_MEMORY)) (drop k (mr_items res)),
       int ?k * TOKENS_PER_MEMORY)"
    using take_entries_prefix [OF kk, of "[]" "[]"] by (simp only: rest append_Nil add_0)
  show ?thesis
    unfolding plan_def select_memories_def assms(1,2) sum.case prod.case tk plan_of_def
    by (cases "select_skills reg q") (use none in \<open>simp add: Let_def all ids del: map_map filter_map\<close>)
qed

text \<open>The token accounting of a plan: the estimate without the budget exceeds the estimate by exactly the
  cost of the excluded memories, and a plan that selected a memory stays within the maximum plus the
  words of the prompt, which the memory budget leaves out.\<close>

theorem plan_budget:
  assumes "plan X fs t uuid reg q rid inputs w r = (Inr p, w', r')"
  shows "tb_estimated_tokens_saved (cp_token_budget p) =
      tb_baseline_estimate (cp_token_budget p) - tb_estimated_input_tokens (cp_token_budget p) \<and>
    tb_estimated_tokens_saved (cp_token_budget p) =
      TOKENS_PER_MEMORY * int (length (filter (\<lambda>x. ce_reason x = TOKEN_BUDGET) (cp_excluded p))) \<and>
    (cp_selected_memories p \<noteq> [] \<longrightarrow>
      tb_estimated_input_tokens (cp_token_budget p)
        \<le> go_max_input_tokens (gr_options q) + int (length (split_ws (gr_prompt q))))"
proof -
  obtain m where m: "extract_metadata q = Inr m"
    using assms by (cases "extract_metadata q") (auto simp: plan_def)
  obtain sk se st where sk: "select_skills reg q = (sk, se, st)" by (cases "select_skills reg q")
  have none: "filter (\<lambda>x. ce_reason x = TOKEN_BUDGET) se = []"
    using sk by (auto simp: select_skills_def Let_def split: option.splits)
  obtain ms me mt w1 r1 where mm: "select_memories X fs t q m (memory_budget reg q) w r = ((ms, me, mt), w1, r1)"
    by (cases "select_memories X fs t q m (memory_budget reg q) w r") auto
  have all: "filter (\<lambda>x. ce_reason x = TOKEN_BUDGET) (map (as_excluded b u) xs) = map (as_excluded b u) xs" for b u xs
    by (induction xs) (simp_all add: as_excluded_def)
  have "mt \<le> max 0 (memory_budget reg q) \<and> filter (\<lambda>x. ce_reason x = TOKEN_BUDGET) me = me \<and> (ms \<noteq> [] \<longrightarrow> 0 < mt)"
  proof (cases "wrapper_search X fs t (plan_query q m) w r")
    case (fields res w2 r2)
    show ?thesis
    proof (cases res)
      case (Inl e)
      then show ?thesis using mm fields by (auto simp: select_memories_def)
    next
      case (Inr x)
      define k where "k = min (length (mr_items x)) (nat (memory_budget reg q div TOKENS_PER_MEMORY))"
      have kk: "k = min (length (mr_items x)) (nat ((memory_budget reg q - 0) div TOKENS_PER_MEMORY))"
        by (simp add: k_def)
      have te: "take_entries (memory_budget reg q) (mr_items x) [] [] 0 = (ms, me, mt)"
        using mm fields Inr by (simp add: select_memories_def)
      have "(ms, me, mt) = (map as_selected (take k (mr_items x)),
          map (as_excluded (memory_budget reg q) (int k * TOKENS_PER_MEMORY)) (drop k (mr_items x)),
          int k * TOKENS_PER_MEMORY)"
        using take_entries_prefix [OF kk, of "[]" "[]"] by (simp only: te append_Nil add_0)
      moreover have "int k * TOKENS_PER_MEMORY \<le> max 0 (memory_budget reg q)"
        unfolding k_def TOKENS_PER_MEMORY_def by linarith
      moreover have "take k (mr_items x) \<noteq> [] \<Longrightarrow> 0 < int k * TOKENS_PER_MEMORY"
        by (simp add: TOKENS_PER_MEMORY_def)
      ultimately show ?thesis by (auto simp: all)
    qed
  qed
  moreover have "p = plan_of uuid q rid inputs (sk, se, st) (ms, me, mt)"
    using assms by (simp add: plan_def m mm sk)
  ultimately show ?thesis
    using none sk by (auto simp: plan_of_def Let_def token_costs memory_budget_def)
qed

section \<open>Concrete runs\<close>

definition demo_request :: "string \<Rightarrow> int \<Rightarrow> generation_request" where
  "demo_request prompt max_tokens =
     \<lparr>gr_tenant_id = ''acme'', gr_application_id = ''web'', gr_prompt = prompt,
      gr_target = \<lparr>gt_language = PYTHON, gt_framework = PYTEST, gt_pattern = POM, gt_locator_strategy = PAGE_FILE\<rparr>,
      gr_scope = \<lparr>gs_domain = ''auth'', gs_route = None, gs_tags = []\<rparr>,
      gr_provider = \<lparr>ps_provider_id = ''stub'', ps_model = ''test'', ps_fallback_provider_ids = []\<rparr>,
      gr_options = \<lparr>go_validation_enabled = True, go_allow_repair = False, go_max_input_tokens = max_tokens,
        go_max_output_tokens = None\<rparr>,
      gr_jira_key = None, gr_test_types = None\<rparr>"

lemma extract_faithful_witness:
  "''order'' \<in> set (rm_test_intent (projr (extract_metadata (demo_request ''buy'' 1000))))"
proof -
  have "ok (extract_metadata (demo_request ''buy'' 1000))" by code_simp
  then obtain m where m: "extract_metadata (demo_request ''buy'' 1000) = Inr m" by (auto simp: ok_iff)
  have b: "run ''buy'' (bounded [word ''order'', word ''purchase'', word ''buy'']) (0, None) = [(3, None)]"
    by code_simp
  have "matches ''buy'' (bounded [word ''order'', word ''purchase'', word ''buy'']) 0 3"
    using b by (intro run_sound [where d = None and c = None]) simp
  moreover have "lower (gr_prompt (demo_request ''buy'' 1000)) = ''buy''" by code_simp
  moreover have "(bounded [word ''order'', word ''purchase'', word ''buy''], ''order'') \<in> set INTENT_RULES"
    by (simp add: INTENT_RULES_def)
  ultimately have "''order'' \<in> set (rm_test_intent m)"
    using extract_faithful [OF m, of "''order''"] by (metis le0)
  with m show ?thesis by simp
qed

definition tagged_entry :: "string \<Rightarrow> memory_entry" where
  "tagged_entry eid = demo_entry\<lparr>me_entity_id := eid, me_tags := [(''domain'', JStr ''auth'')]\<rparr>"

definition demo_wrapper :: memory_wrapper where
  "demo_wrapper = put_adapter ''stub'' (StubMemoryAdapter (stub_init (map tagged_entry [''m1'', ''m2''])))
     (ms_wrapper demo_state)"

definition demo_plan :: "context_plan result \<times> memory_wrapper \<times> unit" where
  "demo_plan = plan demo_X [] (demo_reading 1) ''p1'' new_registry (demo_request ''buy'' 400) ''r1'' None demo_wrapper ()"

lemma demo_plan_ok: "ok (fst demo_plan)"
  by code_simp

theorem plan_budget_witness:
  "tb_estimated_tokens_saved (cp_token_budget (projr (fst demo_plan))) = 60 \<and>
   tb_baseline_estimate (cp_token_budget (projr (fst demo_plan))) = 421"
proof -
  obtain p where p: "fst demo_plan = Inr p" using demo_plan_ok by (auto simp: ok_iff)
  then have d: "plan demo_X [] (demo_reading 1) ''p1'' new_registry (demo_request ''buy'' 400) ''r1'' None demo_wrapper ()
      = (Inr p, fst (snd demo_plan), snd (snd demo_plan))"
    by (simp add: demo_plan_def prod_eq_iff)
  have "tb_estimated_input_tokens (cp_token_budget (projr (fst demo_plan))) = 361"
    "length (filter (\<lambda>x. ce_reason x = TOKEN_BUDGET) (cp_excluded (projr (fst demo_plan)))) = 1"
    by code_simp+
  with plan_budget [OF d] p show ?thesis by (simp add: TOKENS_PER_MEMORY_def)
qed

definition demo_found :: "memory_search_result result \<times> memory_wrapper \<times> unit" where
  "demo_found = wrapper_search demo_X [] (demo_reading 1)
     (plan_query (demo_request ''buy'' 400) (projr (extract_metadata (demo_request ''buy'' 400)))) demo_wrapper ()"

theorem plan_takes_prefix_witness:
  "cp_memory_ids (projr (fst demo_plan)) = [''m1''] \<and> map me_entity_id (mr_items (projr (fst demo_found))) = [''m1'', ''m2'']"
proof -
  have "ok (extract_metadata (demo_request ''buy'' 400))" "ok (fst demo_found)" by code_simp+
  then obtain m res where m: "extract_metadata (demo_request ''buy'' 400) = Inr m" and res: "fst demo_found = Inr res"
    by (auto simp: ok_iff)
  have s: "wrapper_search demo_X [] (demo_reading 1) (plan_query (demo_request ''buy'' 400) m) demo_wrapper ()
      = (Inr res, fst (snd demo_found), snd (snd demo_found))"
    using res m by (simp add: demo_found_def prod_eq_iff)
  have k: "1 = nat (memory_budget new_registry (demo_request ''buy'' 400) div TOKENS_PER_MEMORY)" by code_simp
  have ids: "map me_entity_id (mr_items (projr (fst demo_found))) = [''m1'', ''m2'']" by code_simp
  from plan_takes_prefix [OF m s k, of "''p1''" "''r1''" None] ids res show ?thesis
    by (auto simp: demo_plan_def take_map [symmetric])
qed

end
