(* ===== verification/Redaction.thy ===== *)
theory Redaction
  imports Contracts PyRegex
begin

text \<open>
  \<open>totalrecall/learning/redactor.py\<close> and \<open>totalrecall/prompts/redactor.py\<close>: secrets in a text are
  replaced pattern by pattern; of a conversation only the user messages are redacted.
\<close>

section \<open>learning/redactor.py\<close>

definition REPLACEMENT :: string where
  "REPLACEMENT = ''[REDACTED]''"

definition base64ish :: "char \<Rightarrow> bool" where
  "base64ish c = (is_ascii_alnum c \<or> c = CHR ''+'' \<or> c = CHR ''/'')"

definition backslash :: string where
  "backslash = [CHR 0x5C]"

text \<open>The patterns, each with the first 60 characters of its source.\<close>

definition REDACT_PATTERNS :: "(re \<times> string) list" where
  "REDACT_PATTERNS =
     [(cats [alts [cats [word_ci ''api'', opt (one_of ''_-''), word_ci ''key''], word_ci ''secret'', word_ci ''password'',
                   word_ci ''token'', word_ci ''credential'', word_ci ''auth''],
             star space, one_of ''=:'', star space, one_of [CHR 0x22, CHR 0x27],
             Grp (Rep 8 None (none_of [CHR 0x22, CHR 0x27])), one_of [CHR 0x22, CHR 0x27]],
        ''(?i)(?:api[_-]?key|secret|password|token|credential|auth)'' @ backslash @ ''s*''),
      (cats [Bound, word ''sk-'', Rep 20 None (Cls is_ascii_alnum)], backslash @ ''bsk-[A-Za-z0-9]{20,}''),
      (cats [Bound, word ''ghp_'', times 36 (Cls is_ascii_alnum), Bound],
        backslash @ ''bghp_[A-Za-z0-9]{36}'' @ backslash @ ''b''),
      (cats [NotBehind base64ish, Rep 60 None (Cls base64ish), Rep 0 (Some 2) (chr CHR ''=''),
             NotAhead (\<lambda>c. base64ish c \<or> c = CHR ''='')],
        ''(?<![A-Za-z0-9+/])[A-Za-z0-9+/]{60,}={0,2}(?![A-Za-z0-9+/=])'')]"

fun redact_with :: "(re \<times> string) list \<Rightarrow> string \<Rightarrow> string list \<Rightarrow> string \<times> string list" where
  "redact_with [] s ws = (s, ws)"
| "redact_with ((r, source) # rs) s ws =
     (if search s r
      then redact_with rs (sub r REPLACEMENT s) (ws @ [''Redacted content matching: '' @ source])
      else redact_with rs s ws)"

definition redact :: "string \<Rightarrow> string \<times> string list" where
  "redact s = redact_with REDACT_PATTERNS s []"

section \<open>prompts/redactor.py\<close>

fun redact_messages_from ::
  "provider_message list \<Rightarrow> provider_message list \<Rightarrow> string list \<Rightarrow> (provider_message list \<times> string list) result" where
  "redact_messages_from [] out ws = Inr (out, ws)"
| "redact_messages_from (m # ms) out ws =
     (if pm_role m = USER
      then (let (clean, w) = redact (pm_content m)
            in (case mk_message (pm_role m) clean of
                  Inl e \<Rightarrow> Inl e
                | Inr m' \<Rightarrow> redact_messages_from ms (out @ [m']) (ws @ w)))
      else redact_messages_from ms (out @ [m]) ws)"

definition redact_messages :: "provider_message list \<Rightarrow> (provider_message list \<times> string list) result" where
  "redact_messages ms = redact_messages_from ms [] []"

section \<open>What redaction keeps\<close>

text \<open>A message that passed its contract.\<close>

definition wf_message :: "provider_message \<Rightarrow> bool" where
  "wf_message m = contract_str1 (pm_content m)"

lemma mk_message_wf: "mk_message role c = Inr m \<Longrightarrow> wf_message m \<and> pm_role m = role"
  by (auto simp: mk_message_def wf_message_def split: sum.splits dest: validate_str1_contract)

lemma trim_Nil: "trim s = [] \<longleftrightarrow> (\<forall>c \<in> set s. is_white_space c)"
proof
  assume "trim s = []"
  then have "\<forall>c \<in> set (dropWhile is_white_space s). is_white_space c"
    by (simp add: trim_def strip_by_def rstrip_by_def)
  then show "\<forall>c \<in> set s. is_white_space c"
    by (metis dropWhile_eq_Nil_conv hd_dropWhile hd_in_set)
next
  assume "\<forall>c \<in> set s. is_white_space c"
  then have "dropWhile is_white_space s = []" by (simp only: dropWhile_eq_Nil_conv)
  then show "trim s = []" by (simp only: trim_def strip_by_def rstrip_by_def) simp
qed

lemma search_from_pos: "search_from s r p = Some (i, j, c) \<Longrightarrow> p \<le> i \<and> i \<le> length s"
  using search_in_Some [of s r "[p..<Suc (length s)]" i j c] by (auto simp: search_from_def)

lemma sub_visible:
  assumes "search s r"
  shows "CHR ''['' \<in> set (sub r REPLACEMENT s)"
proof -
  from assms obtain i j c where "search_from s r 0 = Some (i, j, c)" by (auto simp: search_def)
  then have "finditer s r = (i, j, c) # find_all (length s) s r (if i < j then j else Suc j)"
    by (simp add: finditer_def)
  then show ?thesis by (simp add: sub_def REPLACEMENT_def)
qed

lemma redact_with_visible:
  "(\<exists>c \<in> set s. \<not> is_white_space c) \<Longrightarrow> \<exists>c \<in> set (fst (redact_with rs s ws)). \<not> is_white_space c"
proof (induction rs arbitrary: s ws)
  case Nil
  then show ?case by simp
next
  case (Cons p rs)
  obtain r source where p: "p = (r, source)" by (cases p)
  have w: "\<not> is_white_space CHR ''[''" by (simp add: is_white_space_def)
  show ?case
    using Cons.IH [of "sub r REPLACEMENT s"] Cons.IH [OF Cons.prems] sub_visible [of s r] w
    by (cases "search s r") (auto simp: p)
qed

lemma redact_message_ok:
  assumes "wf_message m"
  shows "\<exists>m'. mk_message role (fst (redact (pm_content m))) = Inr m' \<and> wf_message m' \<and> pm_role m' = role"
proof -
  have "trim (pm_content m) \<noteq> []" using assms by (auto simp: wf_message_def contract_str1_def)
  then have "trim (fst (redact (pm_content m))) \<noteq> []"
    unfolding redact_def trim_Nil using redact_with_visible by blast
  then have "ok (mk_message role (fst (redact (pm_content m))))"
    by (simp add: mk_message_def validate_str1_def)
  then show ?thesis using mk_message_wf by (metis ok_iff)
qed

lemma redact_messages_from_ok:
  "list_all wf_message ms \<Longrightarrow> \<exists>ms' ws'. redact_messages_from ms out ws = Inr (out @ ms', ws') \<and>
     list_all wf_message ms' \<and> map pm_role ms' = map pm_role ms \<and>
     filter (\<lambda>m. pm_role m \<noteq> USER) ms' = filter (\<lambda>m. pm_role m \<noteq> USER) ms"
proof (induction ms arbitrary: out ws)
  case Nil
  then show ?case by simp
next
  case (Cons m ms)
  then have wf: "wf_message m" "list_all wf_message ms" by simp_all
  show ?case
  proof (cases "pm_role m = USER")
    case True
    obtain c w where cw: "redact (pm_content m) = (c, w)" by (cases "redact (pm_content m)")
    from redact_message_ok [OF wf(1), of USER] cw
    obtain m' where m': "mk_message USER c = Inr m'" "wf_message m'" "pm_role m' = USER" by auto
    from Cons.IH [OF wf(2), of "out @ [m']" "ws @ w"]
    obtain ms'' ws'' where "redact_messages_from ms (out @ [m']) (ws @ w) = Inr ((out @ [m']) @ ms'', ws'')"
      "list_all wf_message ms''" "map pm_role ms'' = map pm_role ms"
      "filter (\<lambda>m. pm_role m \<noteq> USER) ms'' = filter (\<lambda>m. pm_role m \<noteq> USER) ms" by blast
    then show ?thesis using True cw m' by (intro exI [of _ "m' # ms''"] exI [of _ ws'']) simp
  next
    case False
    from Cons.IH [OF wf(2), of "out @ [m]" ws]
    obtain ms'' ws'' where "redact_messages_from ms (out @ [m]) ws = Inr ((out @ [m]) @ ms'', ws'')"
      "list_all wf_message ms''" "map pm_role ms'' = map pm_role ms"
      "filter (\<lambda>m. pm_role m \<noteq> USER) ms'' = filter (\<lambda>m. pm_role m \<noteq> USER) ms" by blast
    then show ?thesis using False wf(1) by (intro exI [of _ "m # ms''"] exI [of _ ws'']) simp
  qed
qed

lemma redact_with_clean:
  "\<forall>(r, _) \<in> set rs. \<not> search s r \<Longrightarrow> redact_with rs s ws = (s, ws)"
  by (induction rs arbitrary: ws) auto

section \<open>Properties\<close>

text \<open>C34: redacting a conversation of valid messages always succeeds, keeps the number, order and roles of
  the messages, every message stays valid, and the system and assistant messages are untouched.\<close>

theorem redaction_total:
  assumes "list_all wf_message ms"
  shows "\<exists>ms' ws. redact_messages ms = Inr (ms', ws) \<and> map pm_role ms' = map pm_role ms \<and>
    list_all wf_message ms' \<and>
    filter (\<lambda>m. pm_role m \<noteq> USER) ms' = filter (\<lambda>m. pm_role m \<noteq> USER) ms"
  using redact_messages_from_ok [OF assms, of "[]" "[]"] by (auto simp: redact_messages_def)

lemma redaction_total_witness:
  "\<exists>ms' ws. redact_messages [\<lparr>pm_role = SYSTEM, pm_content = ''sys''\<rparr>, \<lparr>pm_role = USER, pm_content = ''hello''\<rparr>] = Inr (ms', ws) \<and>
    map pm_role ms' = [SYSTEM, USER]"
proof -
  have "list_all wf_message [\<lparr>pm_role = SYSTEM, pm_content = ''sys''\<rparr>, \<lparr>pm_role = USER, pm_content = ''hello''\<rparr>]"
    by code_simp
  from redaction_total [OF this] show ?thesis by auto
qed

text \<open>A warning is reported exactly when some pattern fires, and a text in which no pattern occurs is
  returned unchanged.\<close>

theorem redact_clean_text:
  "(snd (redact s) = [] \<longleftrightarrow> (\<forall>(r, _) \<in> set REDACT_PATTERNS. \<not> search s r)) \<and>
   (snd (redact s) = [] \<longrightarrow> fst (redact s) = s)"
proof -
  have grow: "\<exists>zs. snd (redact_with rs t ws) = ws @ zs" for rs t ws
    by (induction rs t ws rule: redact_with.induct) (auto split: if_splits)
  have "snd (redact_with rs t []) = [] \<Longrightarrow> \<forall>(r, _) \<in> set rs. \<not> search t r" for rs t
  proof (induction rs)
    case Nil
    then show ?case by simp
  next
    case (Cons p rs)
    obtain r source where p: "p = (r, source)" by (cases p)
    show ?case
      using Cons grow [of rs "sub r REPLACEMENT t" "[''Redacted content matching: '' @ source]"]
      by (cases "search t r") (auto simp: p)
  qed
  then show ?thesis unfolding redact_def using redact_with_clean by fastforce
qed

lemma redact_clean_text_witness:
  "redact ''hello'' = (''hello'', [])"
proof -
  have "snd (redact ''hello'') = []" by code_simp
  with redact_clean_text [of "''hello''"] show ?thesis by (simp add: prod_eq_iff)
qed

end
