(* ===== verification/Prompts.thy ===== *)
theory Prompts
  imports Planner Redaction
begin

text \<open>
  \<open>totalrecall/prompts/builder.py\<close> and \<open>totalrecall/prompts/repair.py\<close>: the two messages of a code
  generation request, and the conversation of its repair.
\<close>

section \<open>builder.py\<close>

definition ARTIFACT_SCHEMA :: json where
  "ARTIFACT_SCHEMA = JDict
     [(''type'', JStr ''object''),
      (''required'', JList [JStr ''artifacts'']),
      (''properties'', JDict
        [(''artifacts'', JDict
           [(''type'', JStr ''array''),
            (''items'', JDict
              [(''type'', JStr ''object''),
               (''required'', JList [JStr ''path'', JStr ''artifact_type'', JStr ''language'', JStr ''content'']),
               (''properties'', JDict
                 [(''path'', JDict [(''type'', JStr ''string'')]),
                  (''artifact_type'', JDict [(''type'', JStr ''string'')]),
                  (''language'', JDict [(''type'', JStr ''string'')]),
                  (''content'', JDict [(''type'', JStr ''string'')])])])])])]"

definition ROLE_INTRO :: string where
  "ROLE_INTRO =
     ''You are TotalRecall, an expert test automation code generator. '' @
     ''Your task is to generate clean, maintainable test automation artifacts '' @
     ''that follow the project's established patterns and conventions.''"

definition OUTPUT_INSTRUCTION :: string where
  "OUTPUT_INSTRUCTION =
     ''Respond ONLY with a valid JSON object matching this schema:'' @ nl @ dumps_indent 0 ARTIFACT_SCHEMA @ nl @ nl @
     ''Do not include explanations, markdown fences, or any text outside the JSON object.''"

fun skill_parts :: "skill_registry \<Rightarrow> selected_skill list \<Rightarrow> string list" where
  "skill_parts reg [] = []"
| "skill_parts reg (s # ss) =
     (case registry_get (ss_skill_id s) reg of
        Inl _ \<Rightarrow> []
      | Inr k \<Rightarrow>
          [''## Framework: '' @ framework_value (sk_framework k) @ '' / '' @ language_value (sk_language k),
           ''Pattern: '' @ pattern_value (sk_pattern k)]
          @ (if sk_generation_rules k = [] then []
             else ''### Generation Rules'' # map (\<lambda>rule. ''- '' @ rule) (sk_generation_rules k))
          @ [[]])
     @ skill_parts reg ss"

definition rag_parts :: "rag_chunk list \<Rightarrow> string list" where
  "rag_parts cs =
     (if cs = [] then []
      else ''## Testing Guidance from Knowledge Base'' # concat (map (\<lambda>c. [rc_chunk_text c, []]) (take 3 cs)))"

definition build_system :: "skill_registry \<Rightarrow> context_plan \<Rightarrow> string" where
  "build_system reg p =
     join nl ([ROLE_INTRO, []] @ skill_parts reg (cp_selected_skills p) @ rag_parts (cp_rag_chunks p)
              @ [''## Output Format'', OUTPUT_INSTRUCTION])"

definition story_parts :: "jira_story option \<Rightarrow> string list" where
  "story_parts st =
     (case st of
        None \<Rightarrow> []
      | Some j \<Rightarrow>
          [''## JIRA Story'', ''Key: '' @ js_jira_key j, ''Summary: '' @ js_summary j]
          @ (if js_description j = [] then [] else [''Description: '' @ js_description j])
          @ (if js_acceptance_criteria j = [] then []
             else ''### Acceptance Criteria'' # map (\<lambda>ac. ''- '' @ jc_text ac) (js_acceptance_criteria j))
          @ [[]])"

text \<open>The texts of the planned memories that can still be read; failures are skipped.\<close>

fun memory_texts ::
  "'r ext \<Rightarrow> fs \<Rightarrow> reading \<Rightarrow> generation_request \<Rightarrow> selected_memory list \<Rightarrow> memory_wrapper \<Rightarrow> 'r
   \<Rightarrow> string list \<times> memory_wrapper \<times> 'r" where
  "memory_texts X fs t q [] w r = ([], w, r)"
| "memory_texts X fs t q (m # ms) w r =
     (case wrapper_get X fs t \<lparr>mg_tenant_id = gr_tenant_id q, mg_application_id = gr_application_id q,
             mg_entity_id = sm_memory_id m\<rparr> w r of
        (res, w1, r1) \<Rightarrow>
          (case memory_texts X fs t q ms w1 r1 of
             (ts, w2, r2) \<Rightarrow>
               ((case res of
                   Inr (Some e) \<Rightarrow> (''- '' @ me_summary e @ '': '' @ me_knowledge e) # ts
                 | _ \<Rightarrow> ts), w2, r2)))"

definition scope_parts :: "generation_scope \<Rightarrow> string list" where
  "scope_parts sc =
     [''## Scope'', ''Domain: '' @ gs_domain sc]
     @ (case gs_route sc of None \<Rightarrow> [] | Some x \<Rightarrow> if x = [] then [] else [''Route: '' @ x])
     @ (if gs_tags sc = [] then [] else [''Tags: '' @ join '', '' (gs_tags sc)])
     @ [[]]"

definition user_parts :: "generation_request \<Rightarrow> context_plan \<Rightarrow> string list \<Rightarrow> string list" where
  "user_parts q p ts =
     story_parts (cp_jira_story p)
     @ (if ts = [] then [] else ''## Project Context'' # ts @ [[]])
     @ scope_parts (gr_scope q) @ [''## Request'', gr_prompt q]"

definition build_user ::
  "'r ext \<Rightarrow> fs \<Rightarrow> reading \<Rightarrow> generation_request \<Rightarrow> context_plan \<Rightarrow> memory_wrapper \<Rightarrow> 'r
   \<Rightarrow> string \<times> memory_wrapper \<times> 'r" where
  "build_user X fs t q p w r =
     (case memory_texts X fs t q (cp_selected_memories p) w r of
        (ts, w1, r1) \<Rightarrow> (join nl (user_parts q p ts), w1, r1))"

definition two_messages :: "string \<Rightarrow> string \<Rightarrow> provider_message list result" where
  "two_messages system user =
     rbind (mk_message SYSTEM system) (\<lambda>s. rbind (mk_message USER user) (\<lambda>u. Inr [s, u]))"

definition build_prompt ::
  "'r ext \<Rightarrow> fs \<Rightarrow> reading \<Rightarrow> skill_registry \<Rightarrow> generation_request \<Rightarrow> context_plan \<Rightarrow> memory_wrapper \<Rightarrow> 'r
   \<Rightarrow> provider_message list result \<times> memory_wrapper \<times> 'r" where
  "build_prompt X fs t reg q p w r =
     (case build_user X fs t q p w r of
        (user, w1, r1) \<Rightarrow> (two_messages (build_system reg p) user, w1, r1))"

section \<open>repair.py\<close>

definition build_repair_messages ::
  "provider_message list \<Rightarrow> string \<Rightarrow> validation_diagnostic list \<Rightarrow> provider_message list result" where
  "build_repair_messages original raw ds =
     (let diagnostic_lines = join nl (map (\<lambda>d. ''- ['' @ validation_status_value (vd_severity d) @ ''] ''
            @ vd_code d @ '': '' @ vd_message d) ds);
          repair_content = ''The following validation errors were found in your previous response:'' @ nl @ nl
            @ diagnostic_lines @ nl @ nl
            @ ''Please fix these issues and respond again with a corrected JSON artifact object. ''
            @ ''Do not include any text outside the JSON object.''
      in rbind (mk_message ASSISTANT (if raw = [] then ''{}'' else raw)) (\<lambda>a.
         rbind (mk_message USER repair_content) (\<lambda>u. Inr (original @ [a, u]))))"

section \<open>Contents of the messages\<close>

lemma join_Cons: "join sep (x # xs) = (if xs = [] then x else x @ sep @ join sep xs)"
  by (cases xs) simp_all

lemma join_append: "xs \<noteq> [] \<Longrightarrow> ys \<noteq> [] \<Longrightarrow> join sep (xs @ ys) = join sep xs @ sep @ join sep ys"
  by (induction xs) (auto simp: join_Cons)

lemma join_suffix: "suffix x (join sep (xs @ [x]))"
  by (cases "xs = []") (simp_all add: join_append suffix_def)

lemma join_prefix: "prefix x (join sep (x # xs))"
  by (simp add: join_Cons)

lemma join_sublist: "x \<in> set xs \<Longrightarrow> sublist x (join sep xs)"
proof (induction xs)
  case Nil
  then show ?case by simp
next
  case (Cons y ys)
  show ?case
  proof (cases "x = y")
    case True
    then show ?thesis using join_prefix by (metis prefix_imp_sublist)
  next
    case False
    with Cons have "sublist x (join sep ys)" "ys \<noteq> []" by auto
    then have "sublist x ((y @ sep) @ join sep ys)" unfolding sublist_def by (metis append.assoc)
    then show ?thesis using \<open>ys \<noteq> []\<close> by (simp add: join_Cons)
  qed
qed

lemma dropWhile_suffix_keep:
  assumes "suffix x s" and "x \<noteq> []" and "\<not> P (hd x)"
  shows "suffix x (dropWhile P s)"
  using assms
proof (induction s)
  case Nil
  then show ?case by simp
next
  case (Cons a s)
  show ?case
  proof (cases "x = a # s")
    case True
    with Cons.prems show ?thesis by simp
  next
    case False
    with Cons.prems(1) have "suffix x s" by (auto simp: suffix_Cons)
    with Cons show ?thesis by (auto simp: suffix_ConsI)
  qed
qed

lemma contract_str1_hd: "contract_str1 x \<Longrightarrow> \<not> is_white_space (hd x) \<and> \<not> is_white_space (last x)"
proof -
  assume c: "contract_str1 x"
  then have t: "trim x = x" "x \<noteq> []" by (auto simp: contract_str1_def)
  let ?d = "dropWhile is_white_space x"
  have e: "rstrip_by is_white_space ?d = x" using t by (simp add: trim_def strip_by_def)
  then have l: "\<not> is_white_space (last x)" using last_rstrip_by [of is_white_space ?d] t by simp
  have "?d \<noteq> []"
  proof
    assume "?d = []"
    with e have "rstrip_by is_white_space [] = x" by (simp only:)
    with t(2) show False by (simp add: rstrip_by_def)
  qed
  moreover have "hd x = hd ?d" using hd_rstrip_by [of is_white_space ?d] e t by simp
  ultimately show ?thesis using l hd_dropWhile [of is_white_space x] by simp
qed

lemma trim_suffix:
  assumes "suffix x s" and "contract_str1 x"
  shows "suffix x (trim s)"
proof -
  have ends: "\<not> is_white_space (hd x)" "\<not> is_white_space (last x)" "x \<noteq> []"
    using contract_str1_hd [OF assms(2)] assms(2) by (auto simp: contract_str1_def)
  have "suffix x (dropWhile is_white_space s)"
    using assms(1) ends by (intro dropWhile_suffix_keep)
  moreover from this have "rstrip_by is_white_space (dropWhile is_white_space s) = dropWhile is_white_space s"
    using ends by (auto simp: rstrip_by_fixed suffix_def)
  ultimately show ?thesis by (simp add: trim_def strip_by_def)
qed

lemma validate_suffix:
  assumes "suffix x s" and "contract_str1 x"
  shows "\<exists>c. mk_message role s = Inr \<lparr>pm_role = role, pm_content = c\<rparr> \<and> suffix x c \<and> contract_str1 c"
proof -
  have "suffix x (trim s)" "x \<noteq> []" using trim_suffix [OF assms] assms(2) by (auto simp: contract_str1_def)
  then show ?thesis by (auto simp: mk_message_def validate_str1_def contract_str1_def)
qed

lemma output_instruction_contract: "contract_str1 OUTPUT_INSTRUCTION"
  by code_simp

lemma role_intro_hd: "ROLE_INTRO \<noteq> [] \<and> \<not> is_white_space (hd ROLE_INTRO)"
  by code_simp

lemma build_system_message:
  "mk_message SYSTEM (build_system reg p) = Inr \<lparr>pm_role = SYSTEM, pm_content = build_system reg p\<rparr> \<and>
   suffix OUTPUT_INSTRUCTION (build_system reg p)"
proof -
  let ?s = "build_system reg p"
  have suf: "suffix OUTPUT_INSTRUCTION ?s"
    unfolding build_system_def append_assoc [symmetric] append_Cons [symmetric]
    using join_suffix [of OUTPUT_INSTRUCTION nl "[ROLE_INTRO, []] @ skill_parts reg (cp_selected_skills p)
       @ rag_parts (cp_rag_chunks p) @ [''## Output Format'']"] by simp
  have "prefix ROLE_INTRO ?s" unfolding build_system_def by (simp only: append_Cons join_prefix)
  then have "hd ?s = hd ROLE_INTRO" "?s \<noteq> []" using role_intro_hd by (auto simp: prefix_def)
  then have "dropWhile is_white_space ?s = ?s" using role_intro_hd by (cases ?s) auto
  moreover have "last ?s = last OUTPUT_INSTRUCTION" "OUTPUT_INSTRUCTION \<noteq> []"
    using suf output_instruction_contract by (auto simp: suffix_def contract_str1_def)
  ultimately have "trim ?s = ?s"
    using contract_str1_hd [OF output_instruction_contract] by (simp add: trim_def strip_by_def rstrip_by_fixed)
  with suf \<open>?s \<noteq> []\<close> show ?thesis by (simp add: mk_message_def validate_str1_def)
qed

lemma build_prompt_shape:
  assumes "contract_str1 (gr_prompt q)"
  shows "\<exists>u w' r'. build_prompt X fs t reg q p w r =
      (Inr [\<lparr>pm_role = SYSTEM, pm_content = build_system reg p\<rparr>, \<lparr>pm_role = USER, pm_content = u\<rparr>], w', r') \<and>
    suffix (gr_prompt q) u \<and> contract_str1 (build_system reg p) \<and> contract_str1 u"
proof -
  obtain ts w1 r1 where ts: "memory_texts X fs t q (cp_selected_memories p) w r = (ts, w1, r1)"
    by (cases "memory_texts X fs t q (cp_selected_memories p) w r") auto
  have "suffix (gr_prompt q) (join nl (user_parts q p ts))"
    unfolding user_parts_def append_assoc [symmetric]
    using join_suffix [of "gr_prompt q" nl "(story_parts (cp_jira_story p)
      @ (if ts = [] then [] else ''## Project Context'' # ts @ [[]])) @ scope_parts (gr_scope q) @ [''## Request'']"] by simp
  from validate_suffix [OF this assms, of USER] build_system_message [of reg p] ts show ?thesis
    using mk_message_wf [of SYSTEM "build_system reg p"]
    by (auto simp: build_prompt_def build_user_def two_messages_def wf_message_def)
qed

section \<open>Properties\<close>

text \<open>Building the prompt of a valid request never fails: a system message that ends with the output
  instruction, then a user message that ends with the request's own prompt; both are valid.\<close>

theorem prompt_carries_request:
  assumes "contract_str1 (gr_prompt q)"
  shows "\<exists>s u w' r'. build_prompt X fs t reg q p w r =
      (Inr [\<lparr>pm_role = SYSTEM, pm_content = s\<rparr>, \<lparr>pm_role = USER, pm_content = u\<rparr>], w', r') \<and>
    suffix OUTPUT_INSTRUCTION s \<and> suffix (gr_prompt q) u \<and> contract_str1 s \<and> contract_str1 u"
  using build_prompt_shape [OF assms, of X fs t reg p w r] build_system_message [of reg p] by blast

text \<open>The text of a retrieved knowledge-base chunk is part of the system message, and redaction leaves
  it there: a secret in a chunk reaches the provider.\<close>

theorem rag_text_not_redacted:
  assumes "contract_str1 (gr_prompt q)" and "c \<in> set (take 3 (cp_rag_chunks p))"
    and "build_prompt X fs t reg q p w r = (Inr ms, w', r')"
  shows "\<exists>ms' ws s. redact_messages ms = Inr (ms', ws) \<and> s \<in> set ms' \<and> pm_role s = SYSTEM \<and>
    sublist (rc_chunk_text c) (pm_content s)"
proof -
  from build_prompt_shape [OF assms(1), of X fs t reg p w r] assms(3)
  have wf: "list_all wf_message ms" by (auto simp: wf_message_def)
  have s: "\<lparr>pm_role = SYSTEM, pm_content = build_system reg p\<rparr> \<in> set (filter (\<lambda>m. pm_role m \<noteq> USER) ms)"
    using assms(3) build_system_message [of reg p]
    by (auto simp: build_prompt_def two_messages_def rbind_Inr_iff split: prod.splits)
  have "rc_chunk_text c \<in> set (rag_parts (cp_rag_chunks p))"
    using assms(2) by (auto simp: rag_parts_def)
  then have "sublist (rc_chunk_text c) (build_system reg p)"
    unfolding build_system_def by (intro join_sublist) simp
  moreover obtain ms' ws where red: "redact_messages ms = Inr (ms', ws)"
    and keep: "filter (\<lambda>m. pm_role m \<noteq> USER) ms' = filter (\<lambda>m. pm_role m \<noteq> USER) ms"
    using redact_messages_from_ok [OF wf, of "[]" "[]"] unfolding redact_messages_def by auto
  moreover have "\<lparr>pm_role = SYSTEM, pm_content = build_system reg p\<rparr> \<in> set ms'"
    using s unfolding keep [symmetric] by simp
  ultimately show ?thesis by force
qed

section \<open>Deleted memories stay out of the prompt\<close>

text \<open>Reading an entry does not depend on the metrics of the wrapper.\<close>

lemma active_adapter_metrics:
  "active_adapter X fs t (w\<lparr>mw_metrics := k\<rparr>) =
     (case active_adapter X fs t w of (a, w') \<Rightarrow> (a, w'\<lparr>mw_metrics := k\<rparr>))"
  "mw_metrics (snd (active_adapter X fs t w)) = mw_metrics w"
  "mw_tombstones (snd (active_adapter X fs t w)) = mw_tombstones w"
  by (auto simp: active_adapter_def active_adapter_name_def flag_string_def split: prod.splits option.splits)

lemma wrapper_get_metrics:
  "\<exists>k'. wrapper_get X fs t g (w\<lparr>mw_metrics := k\<rparr>) r =
     (case wrapper_get X fs t g w r of (res, w', r') \<Rightarrow> (res, w'\<lparr>mw_metrics := k'\<rparr>, r'))"
  unfolding wrapper_get_def active_adapter_metrics(1)
  by (cases "active_adapter X fs t w")
    (auto simp: note_success_def note_failure_def put_adapter_def split: sum.splits prod.splits)

lemma wrapper_get_tombstones:
  "mw_tombstones (fst (snd (wrapper_get X fs t g w r))) = mw_tombstones w"
  using active_adapter_metrics(3) [of X fs t w]
  by (auto simp: wrapper_get_def note_success_def note_failure_def put_adapter_def split: sum.splits prod.splits)

lemma memory_texts_metrics:
  "fst (memory_texts X fs t q ms (w\<lparr>mw_metrics := k\<rparr>) r) = fst (memory_texts X fs t q ms w r)"
proof (induction ms arbitrary: w k r)
  case Nil
  then show ?case by simp
next
  case (Cons m ms)
  let ?g = "\<lparr>mg_tenant_id = gr_tenant_id q, mg_application_id = gr_application_id q, mg_entity_id = sm_memory_id m\<rparr>"
  obtain res w1 r1 where g: "wrapper_get X fs t ?g w r = (res, w1, r1)"
    by (cases "wrapper_get X fs t ?g w r") auto
  obtain k' where k: "wrapper_get X fs t ?g (w\<lparr>mw_metrics := k\<rparr>) r = (res, w1\<lparr>mw_metrics := k'\<rparr>, r1)"
    using wrapper_get_metrics [where X = X and fs = fs and t = t and g = ?g and w = w and k = k and r = r] g by auto
  show ?case using Cons.IH [where w = w1 and k = k' and r = r1]
    by (simp add: g k case_prod_unfold split: sum.split option.split)
qed

lemma memory_texts_live:
  "fst (memory_texts X fs t q ms w r) =
   fst (memory_texts X fs t q
     (filter (\<lambda>m. \<not> is_tombstoned (gr_tenant_id q) (gr_application_id q) (sm_memory_id m) (mw_tombstones w)) ms) w r)"
proof (induction ms arbitrary: w r)
  case Nil
  then show ?case by simp
next
  case (Cons m ms)
  let ?g = "\<lparr>mg_tenant_id = gr_tenant_id q, mg_application_id = gr_application_id q, mg_entity_id = sm_memory_id m\<rparr>"
  obtain res w1 r1 where g: "wrapper_get X fs t ?g w r = (res, w1, r1)"
    by (cases "wrapper_get X fs t ?g w r") auto
  have tw: "mw_tombstones w1 = mw_tombstones w" using wrapper_get_tombstones [of X fs t ?g w r] g by simp
  show ?case
  proof (cases "is_tombstoned (gr_tenant_id q) (gr_application_id q) (sm_memory_id m) (mw_tombstones w)")
    case True
    with g have e: "res = Inr None" "r1 = r" "w1 = note_success ''get'' t False w"
      by (simp_all add: wrapper_get_def)
    show ?thesis
      using Cons.IH [where w = w and r = r] True
      by (simp add: g e note_success_def case_prod_unfold memory_texts_metrics)
  next
    case False
    with Cons.IH [where w = w1 and r = r1] show ?thesis by (simp add: g tw case_prod_unfold split: sum.split option.split)
  qed
qed

text \<open>C33: a memory that is tombstoned when the prompt is built does not influence it: the messages are those
  of the plan without the tombstoned memories, even if the plan was made before the deletion.\<close>

theorem tombstoned_not_prompted:
  "fst (build_prompt X fs t reg q p w r) =
   fst (build_prompt X fs t reg q
     (p\<lparr>cp_selected_memories := filter (\<lambda>m. \<not> is_tombstoned (gr_tenant_id q) (gr_application_id q) (sm_memory_id m)
        (mw_tombstones w)) (cp_selected_memories p)\<rparr>) w r)"
proof -
  have "fst (build_user X fs t q p w r) = join nl (user_parts q p (fst (memory_texts X fs t q (cp_selected_memories p) w r)))" for p
    by (simp add: build_user_def split: prod.splits)
  then have "fst (build_user X fs t q p w r) = fst (build_user X fs t q
     (p\<lparr>cp_selected_memories := filter (\<lambda>m. \<not> is_tombstoned (gr_tenant_id q) (gr_application_id q) (sm_memory_id m)
        (mw_tombstones w)) (cp_selected_memories p)\<rparr>) w r)"
    using memory_texts_live [of X fs t q "cp_selected_memories p" w r] by (simp add: user_parts_def)
  moreover have "fst (build_prompt X fs t reg q p w r) = two_messages (build_system reg p) (fst (build_user X fs t q p w r))" for p
    by (simp add: build_prompt_def split: prod.splits)
  ultimately show ?thesis by (simp add: build_system_def)
qed

section \<open>Concrete prompts\<close>

lemma demo_prompt_contract: "contract_str1 (gr_prompt (demo_request ''buy'' 400))"
  by code_simp

definition demo_chunk :: rag_chunk where
  "demo_chunk = \<lparr>rc_chunk_id = ''c1'', rc_source_ref = ''kb'', rc_chunk_text = ''key sk-abcdefghij0123456789'',
     rc_similarity = 1, rc_metadata = []\<rparr>"

definition demo_rag_plan :: context_plan where
  "demo_rag_plan = (projr (fst demo_plan))\<lparr>cp_rag_chunks := [demo_chunk]\<rparr>"

definition demo_build :: "provider_message list result \<times> memory_wrapper \<times> unit" where
  "demo_build = build_prompt demo_X [] (demo_reading 1) new_registry (demo_request ''buy'' 400) demo_rag_plan demo_wrapper ()"

lemma prompt_carries_request_witness:
  "ok (fst demo_build)"
  unfolding demo_build_def
  using prompt_carries_request [OF demo_prompt_contract, of demo_X "[]" "demo_reading 1" new_registry demo_rag_plan
     demo_wrapper "()"] by auto

lemma rag_text_not_redacted_witness:
  "\<exists>ms' ws s. redact_messages (projr (fst demo_build)) = Inr (ms', ws) \<and> s \<in> set ms' \<and> pm_role s = SYSTEM \<and>
     sublist ''key sk-abcdefghij0123456789'' (pm_content s)"
proof -
  obtain ms w' r' where b: "build_prompt demo_X [] (demo_reading 1) new_registry (demo_request ''buy'' 400) demo_rag_plan
      demo_wrapper () = (Inr ms, w', r')"
    using build_prompt_shape [OF demo_prompt_contract, of demo_X "[]" "demo_reading 1" new_registry demo_rag_plan
     demo_wrapper "()"] by auto
  have "demo_chunk \<in> set (take 3 (cp_rag_chunks demo_rag_plan))" by (simp add: demo_rag_plan_def)
  from rag_text_not_redacted [OF demo_prompt_contract this b] show ?thesis
    by (simp add: demo_build_def b demo_chunk_def)
qed

end
