(* ===== verification/Testgen.thy ===== *)
theory Testgen
  imports Providers Prompts
begin

text \<open>
  The adapters of \<open>totalrecall/testgen\<close> around a generation: the reformulators, the guardrails, the test
  type router and the tone checker, with the factories that choose them from the feature flags. Dashes
  of the messages that are U+2014 in the code are written as hyphens.
\<close>

section \<open>testgen/reformulator.py\<close>

definition JIRA_KEY_SEARCH :: re where
  "JIRA_KEY_SEARCH = cats [Bound,
     Grp (cats [Cls is_upper_az, plus (Cls (\<lambda>c. is_upper_az c \<or> is_dec c \<or> c = CHR ''_'')), chr CHR ''-'', plus (Cls is_dec)]),
     Bound]"

definition KEYWORD_MAP :: "(test_type \<times> string list) list" where
  "KEYWORD_MAP =
     [(FUNCTIONAL, [''functional'', ''happy path'', ''positive'', ''valid'']),
      (NEGATIVE, [''negative'', ''invalid'', ''error'', ''failure'', ''unhappy'']),
      (EDGE_CASE, [''edge'', ''boundary'', ''corner'', ''limit'']),
      (API, [''api'', ''endpoint'', ''rest'', ''request'', ''response'', ''http'']),
      (REGRESSION, [''regression'', ''smoke'', ''re-test'', ''existing''])]"

definition REFORMULATOR_SYSTEM_PROMPT :: string where
  "REFORMULATOR_SYSTEM_PROMPT =
     ''You are a QA test planning assistant. Extract structured information from the user's request '' @
     ''and return ONLY a JSON object with these fields:'' @ nl @
     ''  '' @ quote_str ''jira_key'' @ '': string or null (JIRA issue key like PROJECT-123),'' @ nl @
     ''  '' @ quote_str ''intent_summary'' @ '': string (one sentence describing what to test),'' @ nl @
     ''  '' @ quote_str ''test_types'' @ '': array of strings from [functional, negative, edge_case, api, regression],'' @ nl @
     ''  '' @ quote_str ''output_format'' @ '': '' @ quote_str ''test_case_pack'' @ '','' @ nl @
     ''  '' @ quote_str ''confidence'' @ '': float 0.0-1.0'' @ nl @
     ''Return ONLY the JSON object, no markdown.''"

definition extract_jira_key :: "string \<Rightarrow> string option" where
  "extract_jira_key s = map_option (group1 s) (search_from s JIRA_KEY_SEARCH 0)"

definition infer_types :: "string \<Rightarrow> test_type list" where
  "infer_types s =
     (let low = lower s;
          matched = map fst (filter (\<lambda>(t, kws). \<exists>kw \<in> set kws. contains kw low) KEYWORD_MAP)
      in if matched \<noteq> [] then matched else [FUNCTIONAL, NEGATIVE, EDGE_CASE])"

definition summarize :: "string \<Rightarrow> string result" where
  "summarize prompt =
     (case splitlines (strip prompt) of
        [] \<Rightarrow> Inl (IndexError ''list index out of range'')
      | first # _ \<Rightarrow> Inr (if 200 < length first then take 200 first else first))"

definition opt_or :: "'a option \<Rightarrow> 'a option \<Rightarrow> 'a option" where
  "opt_or a b = (case a of Some x \<Rightarrow> Some x | None \<Rightarrow> b)"

definition keyword_reformulate ::
  "string \<Rightarrow> string option \<Rightarrow> test_type list option \<Rightarrow> reformulated_intent result" where
  "keyword_reformulate prompt key types =
     rbind (summarize prompt) (\<lambda>summary.
       mk_intent (opt_or (given key) (extract_jira_key prompt)) summary
         (case given types of Some ts \<Rightarrow> ts | None \<Rightarrow> infer_types prompt)
         ''test_case_pack'' prompt (7 / 10))"

text \<open>\<open>float(value)\<close>; \<open>py_float\<close> is \<open>float\<close> of a string.\<close>

definition to_float :: "(string \<Rightarrow> rat option) \<Rightarrow> json \<Rightarrow> rat option" where
  "to_float py_float j =
     (case j of JFloat r \<Rightarrow> Some r | JInt i \<Rightarrow> Some (of_int i) | JBool b \<Rightarrow> Some (if b then 1 else 0)
      | JStr s \<Rightarrow> py_float s | _ \<Rightarrow> None)"

text \<open>\<open>value or default\<close> for a \<open>str | None\<close> field; a truthy value of another type fails the contract.\<close>

definition str_or :: "json \<Rightarrow> string option \<Rightarrow> string option option" where
  "str_or j dflt =
     (if \<not> truthy j then Some dflt else (case j of JStr s \<Rightarrow> Some (Some s) | _ \<Rightarrow> None))"

definition iterate :: "json \<Rightarrow> json list option" where
  "iterate j =
     (if \<not> truthy j then Some []
      else (case j of JList xs \<Rightarrow> Some xs | JStr s \<Rightarrow> Some (map (\<lambda>c. JStr [c]) s)
            | JDict d \<Rightarrow> Some (map JStr (dict_keys d)) | _ \<Rightarrow> None))"

definition known_types :: "json list \<Rightarrow> test_type list" where
  "known_types xs = List.map_filter (\<lambda>x. case x of JStr s \<Rightarrow> test_type_of s | _ \<Rightarrow> None) xs"

text \<open>The intent in an LLM's answer, \<open>None\<close> where the code falls back.\<close>

definition intent_of_answer ::
  "(string \<Rightarrow> rat option) \<Rightarrow> string \<Rightarrow> string option \<Rightarrow> test_type list option \<Rightarrow> string \<Rightarrow> reformulated_intent option" where
  "intent_of_answer py_float prompt key types raw =
     (case loads raw of
        Inr (JDict d) \<Rightarrow>
          (let field = (\<lambda>k dflt. dict_get_or d k dflt)
           in (case (iterate (field ''test_types'' JNull), str_or (field ''jira_key'' JNull) key,
                     str_or (field ''intent_summary'' JNull) (Some (take 200 prompt)),
                     field ''output_format'' (JStr ''test_case_pack''),
                     to_float py_float (field ''confidence'' (JFloat (9 / 10)))) of
                 (Some ts, Some k, Some (Some summary), JStr fmt, Some conf) \<Rightarrow>
                   (case mk_intent k summary
                           (if known_types ts \<noteq> [] then known_types ts
                            else (case given types of Some xs \<Rightarrow> xs | None \<Rightarrow> []))
                           fmt prompt conf of
                      Inl _ \<Rightarrow> None | Inr i \<Rightarrow> Some i)
               | _ \<Rightarrow> None))
      | _ \<Rightarrow> None)"

definition reformulation_content :: "string \<Rightarrow> string option \<Rightarrow> test_type list option \<Rightarrow> string" where
  "reformulation_content prompt key types =
     (case given key of None \<Rightarrow> prompt | Some k \<Rightarrow> ''JIRA key: '' @ k @ nl @ nl @ prompt)
     @ (case given types of None \<Rightarrow> []
        | Some ts \<Rightarrow> nl @ nl @ ''Requested test types: '' @ join '', '' (map test_type_value ts))"

record 'p gen_ext =
  gx_llm :: "'p llm_ext"
  gx_float :: "string \<Rightarrow> rat option"

definition llm_reformulate ::
  "'p gen_ext \<Rightarrow> fs \<Rightarrow> string \<Rightarrow> provider_config \<Rightarrow> string \<Rightarrow> string option \<Rightarrow> test_type list option \<Rightarrow> gateway \<Rightarrow> 'p
   \<Rightarrow> reformulated_intent result \<times> gateway \<times> 'p" where
  "llm_reformulate G fs uuid cfg prompt key types g r =
     (case two_messages REFORMULATOR_SYSTEM_PROMPT (reformulation_content prompt key types) of
        Inl e \<Rightarrow> (Inl e, g, r)
      | Inr ms \<Rightarrow>
          (case gateway_generate (gx_llm G) fs
                  \<lparr>pq_request_id = uuid, pq_tenant_id = ''__system__'', pq_messages = ms, pq_config = cfg\<rparr> [] g r of
             (x, g1, r1) \<Rightarrow>
               (case (case x of Inl _ \<Rightarrow> None
                      | Inr resp \<Rightarrow> intent_of_answer (gx_float G) prompt key types (pr_raw_text resp)) of
                  Some i \<Rightarrow> (Inr i, g1, r1)
                | None \<Rightarrow> (keyword_reformulate prompt key types, g1, r1))))"

datatype reformulator = KeywordReformulator | LLMReformulator provider_config | StubReformulator

definition stub_reformulate ::
  "string \<Rightarrow> string option \<Rightarrow> test_type list option \<Rightarrow> reformulated_intent result" where
  "stub_reformulate prompt key types =
     mk_intent key ''Stub intent summary'' (case given types of Some ts \<Rightarrow> ts | None \<Rightarrow> [FUNCTIONAL])
       ''test_case_pack'' prompt 1"

fun reformulate ::
  "'p gen_ext \<Rightarrow> fs \<Rightarrow> string \<Rightarrow> reformulator \<Rightarrow> string \<Rightarrow> string option \<Rightarrow> test_type list option \<Rightarrow> gateway \<Rightarrow> 'p
   \<Rightarrow> reformulated_intent result \<times> gateway \<times> 'p" where
  "reformulate G fs uuid KeywordReformulator prompt key types g r = (keyword_reformulate prompt key types, g, r)"
| "reformulate G fs uuid (LLMReformulator cfg) prompt key types g r = llm_reformulate G fs uuid cfg prompt key types g r"
| "reformulate G fs uuid StubReformulator prompt key types g r = (stub_reformulate prompt key types, g, r)"

text \<open>\<open>build_reformulator\<close>: the flags are read one after the other.\<close>

definition build_reformulator ::
  "http \<Rightarrow> fs \<Rightarrow> rat \<Rightarrow> bool \<Rightarrow> flag_provider \<Rightarrow> reformulator result \<times> flag_provider" where
  "build_reformulator http fs now has_gateway p =
     (case get_string http fs now ''reformulator.adapter'' ''keyword'' p of
        (name, p1) \<Rightarrow>
          if name = ''stub'' then (Inr StubReformulator, p1)
          else if name = ''llm'' \<and> has_gateway then
            (case get_string http fs now ''reformulator.provider_id'' ''stub'' p1 of
               (pid, p2) \<Rightarrow>
                 (case get_string http fs now ''reformulator.model'' ''test'' p2 of
                    (model, p3) \<Rightarrow>
                      (rbind (validate_str1 ''provider_id'' pid) (\<lambda>i.
                       rbind (validate_str1 ''model'' model) (\<lambda>m.
                         Inr (LLMReformulator (mk_config i m (Some 512))))), p3)))
          else (Inr KeywordReformulator, p1))"

section \<open>Guardrails\<close>

definition JIRA_KEY_FORMAT_RE :: re where
  "JIRA_KEY_FORMAT_RE = cats [Bos, Cls is_upper_az, plus (Cls (\<lambda>c. is_upper_az c \<or> is_dec c \<or> c = CHR ''_'')),
     chr CHR ''-'', plus (Cls is_dec), Eos]"

definition SSN_RE :: re where
  "SSN_RE = cats [Bound, times 3 (Cls is_dec), chr CHR ''-'', times 2 (Cls is_dec), chr CHR ''-'', times 4 (Cls is_dec), Bound]"

definition CARD_RE :: re where
  "CARD_RE = cats [Bound, chr CHR ''4'', times 12 (Cls is_dec), opt (times 3 (Cls is_dec)), Bound]"

definition EMAIL_RE :: re where
  "EMAIL_RE = cats [Bound, plus (Cls (\<lambda>c. is_ascii_alnum c \<or> c \<in> set ''._%+-'')), chr CHR ''@'',
     plus (Cls (\<lambda>c. is_ascii_alnum c \<or> c \<in> set ''.-'')), chr CHR ''.'',
     Rep 2 None (Cls (\<lambda>c. is_upper_az c \<or> is_lower_az c \<or> c = CHR ''|'')), Bound]"

definition PII_PATTERNS :: "re list" where
  "PII_PATTERNS = [SSN_RE, CARD_RE, EMAIL_RE]"

definition QA_KEYWORDS :: "string list" where
  "QA_KEYWORDS =
     [''test'', ''spec'', ''scenario'', ''case'', ''validate'', ''verify'', ''check'', ''assert'', ''jira'', ''story'',
      ''acceptance'', ''criteria'', ''functional'', ''negative'', ''edge'', ''api'', ''regression'', ''login'',
      ''logout'', ''user'', ''form'', ''page'', ''flow'', ''endpoint'']"

definition guard_result :: "guardrail_violation list \<Rightarrow> guardrail_result" where
  "guard_result vs = \<lparr>gd_passed = (vs = []), gd_violations = vs\<rparr>"

definition rule_based_input :: "generation_request \<Rightarrow> guardrail_result" where
  "rule_based_input q =
     guard_result
       ((case given (gr_jira_key q) of
           Some k \<Rightarrow>
             if match_at k JIRA_KEY_FORMAT_RE 0 = None
             then [\<lparr>gv_code = JIRA_KEY_FORMAT,
                    gv_message = ''JIRA key '' @ [CHR 0x27] @ k @ [CHR 0x27] @ '' does not match PROJECT-NNN format'',
                    gv_field = Some ''jira_key''\<rparr>]
             else []
         | None \<Rightarrow> [])
        @ (if \<exists>kw \<in> set QA_KEYWORDS. contains kw (lower (gr_prompt q)) then []
           else [\<lparr>gv_code = NOT_QA_DOMAIN, gv_message = ''Prompt does not appear to be a QA test generation request'',
                  gv_field = Some ''prompt''\<rparr>])
        @ (if \<exists>r \<in> set PII_PATTERNS. search (gr_prompt q) r
           then [\<lparr>gv_code = UNSAFE_CONTENT, gv_message = ''Prompt contains potential PII - remove before submitting'',
                  gv_field = Some ''prompt''\<rparr>]
           else []))"

definition null_guardrail :: guardrail_result where
  "null_guardrail = \<lparr>gd_passed = True, gd_violations = []\<rparr>"

datatype input_guardrail = RuleBasedInputGuardrail | NullInputGuardrail

fun check_input :: "input_guardrail \<Rightarrow> generation_request \<Rightarrow> guardrail_result" where
  "check_input RuleBasedInputGuardrail q = rule_based_input q"
| "check_input NullInputGuardrail q = null_guardrail"

definition SQL_INJECTION_RE :: re where
  "SQL_INJECTION_RE = alts
     [cats [word_ci ''DROP'', plus space, word_ci ''TABLE''], cats [word_ci ''DELETE'', plus space, word_ci ''FROM''],
      cats [word_ci ''INSERT'', plus space, word_ci ''INTO''],
      cats [word_ci ''UPDATE'', plus space, plus (Cls is_word), plus space, word_ci ''SET''],
      cats [word_ci ''TRUNCATE'', plus space, word_ci ''TABLE''], cats [word_ci ''ALTER'', plus space, word_ci ''TABLE'']]"

definition ALLOWED_TOP_KEYS :: "string list" where
  "ALLOWED_TOP_KEYS = [''story_summary'', ''assumptions'', ''test_cases'', ''traceability_matrix'',
     ''coverage_summary'', ''artifacts'']"

definition unsafe :: "string \<Rightarrow> guardrail_violation" where
  "unsafe msg = \<lparr>gv_code = UNSAFE_CONTENT, gv_message = msg, gv_field = None\<rparr>"

definition unknown_keys :: "json \<Rightarrow> string list" where
  "unknown_keys data =
     (case data of JDict d \<Rightarrow> filter (\<lambda>k. k \<notin> set ALLOWED_TOP_KEYS) (dict_keys d) | _ \<Rightarrow> [])"

definition rule_based_output :: "string \<Rightarrow> guardrail_result" where
  "rule_based_output raw =
     (case loads raw of
        Inl _ \<Rightarrow> \<lparr>gd_passed = False, gd_violations = [unsafe ''LLM response is not valid JSON'']\<rparr>
      | Inr data \<Rightarrow>
          (let t = dumps data
           in guard_result
                ((if unknown_keys data \<noteq> []
                  then [unsafe (''Response contains unexpected top-level keys: '' @ repr_str_list (sorted_set (unknown_keys data)))]
                  else [])
                 @ (if search t SQL_INJECTION_RE then [unsafe ''Response contains SQL injection patterns''] else [])
                 @ (if search t (alts PII_PATTERNS) then [unsafe ''Response contains potential PII''] else []))))"

datatype output_guardrail = RuleBasedOutputGuardrail | NullOutputGuardrail

fun check_output :: "output_guardrail \<Rightarrow> string \<Rightarrow> guardrail_result" where
  "check_output RuleBasedOutputGuardrail raw = rule_based_output raw"
| "check_output NullOutputGuardrail raw = null_guardrail"

section \<open>testgen/routing/router.py\<close>

definition DEFAULT_TEST_TYPES :: "test_type list" where
  "DEFAULT_TEST_TYPES = [FUNCTIONAL, NEGATIVE, EDGE_CASE]"

definition route_types :: "reformulated_intent option \<Rightarrow> generation_request \<Rightarrow> test_type list" where
  "route_types intent q =
     (case given (gr_test_types q) of
        Some ts \<Rightarrow> ts
      | None \<Rightarrow> (case given (map_option ri_test_types intent) of Some ts \<Rightarrow> ts | None \<Rightarrow> DEFAULT_TEST_TYPES))"

section \<open>testgen/tone\<close>

definition TONE_SYSTEM_PROMPT :: string where
  "TONE_SYSTEM_PROMPT =
     ''You are a QA writing coach. You will be given generated test case output. '' @
     ''Rewrite it using professional, concise QA language: '' @
     ''active voice, present tense, no filler phrases, no marketing language. '' @
     ''Preserve all JSON structure and field values exactly - only improve wording inside '' @
     ''string fields (title, steps, expected_result). '' @
     ''Return only the revised JSON with no additional commentary.''"

datatype tone_checker = LLMToneChecker | NullToneChecker

definition tone_request :: "string \<Rightarrow> string \<Rightarrow> provider_request result" where
  "tone_request raw rid =
     rbind (two_messages TONE_SYSTEM_PROMPT raw) (\<lambda>ms. Inr
       \<lparr>pq_request_id = rid @ ''-tone'', pq_tenant_id = ''system'', pq_messages = ms,
        pq_config = mk_config ''default'' ''default'' (Some 4096)\<rparr>)"

fun refine ::
  "'p gen_ext \<Rightarrow> fs \<Rightarrow> tone_checker \<Rightarrow> string \<Rightarrow> string \<Rightarrow> gateway \<Rightarrow> 'p \<Rightarrow> (string \<times> bool) result \<times> gateway \<times> 'p" where
  "refine G fs NullToneChecker raw rid g r = (Inr (raw, False), g, r)"
| "refine G fs LLMToneChecker raw rid g r =
     (case tone_request raw rid of
        Inl e \<Rightarrow> (Inl e, g, r)
      | Inr q \<Rightarrow>
          (case gateway_generate (gx_llm G) fs q [] g r of
             (Inl _, g1, r1) \<Rightarrow> (Inr (raw, False), g1, r1)
           | (Inr resp, g1, r1) \<Rightarrow>
               (let refined = strip (pr_raw_text resp) in (Inr (refined, refined \<noteq> strip raw), g1, r1))))"

definition build_tone_checker :: "http \<Rightarrow> fs \<Rightarrow> rat \<Rightarrow> bool \<Rightarrow> flag_provider \<Rightarrow> tone_checker \<times> flag_provider" where
  "build_tone_checker http fs now has_gateway p =
     (case get_bool http fs now ''tone_check.enabled'' False p of
        (enabled, p1) \<Rightarrow> (if \<not> enabled then NullToneChecker else if \<not> has_gateway then NullToneChecker else LLMToneChecker, p1))"

definition build_input_guardrail :: "http \<Rightarrow> fs \<Rightarrow> rat \<Rightarrow> flag_provider \<Rightarrow> input_guardrail \<times> flag_provider" where
  "build_input_guardrail http fs now p =
     (case get_bool http fs now ''guardrails.input_enabled'' False p of
        (enabled, p1) \<Rightarrow> (if enabled then RuleBasedInputGuardrail else NullInputGuardrail, p1))"

definition build_output_guardrail :: "http \<Rightarrow> fs \<Rightarrow> rat \<Rightarrow> flag_provider \<Rightarrow> output_guardrail \<times> flag_provider" where
  "build_output_guardrail http fs now p =
     (case get_bool http fs now ''guardrails.output_enabled'' False p of
        (enabled, p1) \<Rightarrow> (if enabled then RuleBasedOutputGuardrail else NullOutputGuardrail, p1))"

section \<open>Repetitions of a character class\<close>

lemma rep_cls_sound:
  "matches s r i j \<Longrightarrow> r = Rep n None (Cls p) \<Longrightarrow>
     i + n \<le> j \<and> (i < j \<longrightarrow> j \<le> length s) \<and> (\<forall>k. i \<le> k \<and> k < j \<longrightarrow> p (s ! k))"
proof (induction arbitrary: n rule: matches.induct)
  case (m_rep a i j hi lo k)
  then have c: "j = Suc i" "i < length s" "p (s ! i)" by (auto simp: matches_simps)
  from m_rep have "j + (lo - 1) \<le> k \<and> (j < k \<longrightarrow> k \<le> length s) \<and> (\<forall>x. j \<le> x \<and> x < k \<longrightarrow> p (s ! x))"
    by auto
  with c m_rep.prems show ?case by (auto simp: Suc_le_eq, (metis le_neq_implies_less)+)
qed auto

lemma rep_cls_complete:
  "i + n \<le> j \<Longrightarrow> (i < j \<longrightarrow> j \<le> length s) \<Longrightarrow> (\<forall>k. i \<le> k \<and> k < j \<longrightarrow> p (s ! k)) \<Longrightarrow>
     matches s (Rep n None (Cls p)) i j"
proof (induction "j - i" arbitrary: i n)
  case 0
  then show ?case by (cases n) (auto intro: m_rep0)
next
  case (Suc d)
  then have ij: "i < j" "j \<le> length s" by auto
  have "matches s (Rep (n - 1) None (Cls p)) (Suc i) j"
    using Suc ij by (intro Suc.hyps(1)) auto
  moreover have "matches s (Cls p) i (Suc i)" using Suc ij by (intro m_cls) auto
  ultimately show ?case by (intro m_rep [of s "Cls p" i "Suc i" None n j]) auto
qed

lemma rep_cls_iff:
  "matches s (Rep n None (Cls p)) i j \<longleftrightarrow>
     i + n \<le> j \<and> (i < j \<longrightarrow> j \<le> length s) \<and> (\<forall>k. i \<le> k \<and> k < j \<longrightarrow> p (s ! k))"
  using rep_cls_sound [OF _ refl] rep_cls_complete by blast

section \<open>Properties of the guardrails\<close>

text \<open>The result of a guardrail: it passes exactly when it has nothing to say.\<close>

locale guardrail =
  fixes check :: "'x \<Rightarrow> guardrail_result"
  assumes passed_iff: "gd_passed (check x) \<longleftrightarrow> gd_violations (check x) = []"
begin

definition blocked_errors :: "'x \<Rightarrow> service_error list" where
  "blocked_errors x = map (\<lambda>v. mk_error GUARDRAIL_BLOCKED (gv_message v)) (gd_violations (check x))"

lemma blocked_nonempty: "\<not> gd_passed (check x) \<longleftrightarrow> blocked_errors x \<noteq> []"
  by (simp add: passed_iff blocked_errors_def)

end

interpretation input_guard: guardrail "check_input g" for g
  by unfold_locales (cases g; simp add: rule_based_input_def guard_result_def null_guardrail_def)

interpretation output_guard: guardrail "check_output g" for g
  by unfold_locales
    (cases g; simp add: rule_based_output_def guard_result_def null_guardrail_def Let_def split: sum.splits)

definition jira_key_shape :: "string \<Rightarrow> bool" where
  "jira_key_shape k = (\<exists>p n. k = p @ CHR ''-'' # n \<and> 2 \<le> length p \<and> is_upper_az (hd p) \<and>
     (\<forall>c \<in> set p. is_upper_az c \<or> is_dec c \<or> c = CHR ''_'') \<and> n \<noteq> [] \<and> (\<forall>c \<in> set n. is_dec c))"

lemma jira_key_spans:
  assumes "k \<noteq> []"
  shows "match_at k JIRA_KEY_FORMAT_RE 0 \<noteq> None \<longleftrightarrow>
    (is_upper_az (k ! 0) \<and>
     (\<exists>b a. Suc (Suc 0) \<le> a \<and> (Suc 0 < a \<longrightarrow> a \<le> length k) \<and>
        (\<forall>x. Suc 0 \<le> x \<and> x < a \<longrightarrow> is_upper_az (k ! x) \<or> is_dec (k ! x) \<or> k ! x = CHR ''_'') \<and>
        a < length k \<and> k ! a = CHR ''-'' \<and> Suc (Suc a) \<le> b \<and> (Suc a < b \<longrightarrow> b \<le> length k) \<and>
        (\<forall>x. Suc a \<le> x \<and> x < b \<longrightarrow> is_dec (k ! x)) \<and> (b = length k \<or> Suc b = length k \<and> k ! b = CHR 0x0A)))"
proof -
  have "match_at k JIRA_KEY_FORMAT_RE 0 \<noteq> None \<longleftrightarrow> (\<exists>j. matches k JIRA_KEY_FORMAT_RE 0 j)"
    unfolding match_at_None by blast
  then show ?thesis
    unfolding JIRA_KEY_FORMAT_RE_def cats_def plus_def chr_def using assms
    by (simp add: matches_simps rep_cls_iff)
qed

lemma jira_key_matches:
  assumes "k \<noteq> []" and "last k \<noteq> CHR 0x0A"
  shows "match_at k JIRA_KEY_FORMAT_RE 0 \<noteq> None \<longleftrightarrow> jira_key_shape k"
proof
  assume "match_at k JIRA_KEY_FORMAT_RE 0 \<noteq> None"
  then obtain a b where k: "is_upper_az (k ! 0)" "Suc (Suc 0) \<le> a"
      "\<And>x. Suc 0 \<le> x \<Longrightarrow> x < a \<Longrightarrow> is_upper_az (k ! x) \<or> is_dec (k ! x) \<or> k ! x = CHR ''_''"
      "a < length k" "k ! a = CHR ''-''" "Suc (Suc a) \<le> b" "Suc a < b \<longrightarrow> b \<le> length k"
      "\<And>x. Suc a \<le> x \<Longrightarrow> x < b \<Longrightarrow> is_dec (k ! x)" "b = length k \<or> Suc b = length k \<and> k ! b = CHR 0x0A"
    unfolding jira_key_spans [OF assms(1)] by blast
  have b: "b = length k"
  proof (rule ccontr)
    assume "b \<noteq> length k"
    with k(9) have "b = length k - 1" "k ! b = CHR 0x0A" by auto
    with assms show False by (simp add: last_conv_nth)
  qed
  have "is_upper_az (k ! x) \<or> is_dec (k ! x) \<or> k ! x = CHR ''_''" if "x < a" for x
    using k(1) k(3) [of x] that by (cases x) auto
  then have p: "\<forall>c \<in> set (take a k). is_upper_az c \<or> is_dec c \<or> c = CHR ''_''"
    using k(4) by (metis in_set_conv_nth length_take min_less_iff_conj nth_take)
  have n: "\<forall>c \<in> set (drop (Suc a) k). is_dec c" using k(8) b by (auto simp: in_set_conv_nth)
  have e: "k = take a k @ CHR ''-'' # drop (Suc a) k" using k(4,5) by (metis id_take_nth_drop)
  have h: "hd (take a k) = k ! 0" using k(2) assms(1) by (simp add: hd_conv_nth)
  have l: "2 \<le> length (take a k)" "drop (Suc a) k \<noteq> []" using k(2,4,6) b by simp_all
  show "jira_key_shape k"
    unfolding jira_key_shape_def
    using e l h k(1) p n by (intro exI [of _ "take a k"] exI [of _ "drop (Suc a) k"]) simp
next
  assume "jira_key_shape k"
  then obtain p n where k: "k = p @ CHR ''-'' # n" "2 \<le> length p" "is_upper_az (hd p)"
      "\<forall>c \<in> set p. is_upper_az c \<or> is_dec c \<or> c = CHR ''_''" "n \<noteq> []" "\<forall>c \<in> set n. is_dec c"
    by (auto simp: jira_key_shape_def)
  have W: "is_upper_az (k ! x) \<or> is_dec (k ! x) \<or> k ! x = CHR ''_''" if "x < length p" for x
    using k(1,4) that by (simp add: nth_append)
  have D: "is_dec (k ! x)" if "Suc (length p) \<le> x" "x < length k" for x
    using k(1,6) that by (auto simp: nth_append nth_Cons split: nat.splits)
  have "k ! 0 = hd p" "k ! length p = CHR ''-''" using k(1,2) by (cases p; simp)+
  then show "match_at k JIRA_KEY_FORMAT_RE 0 \<noteq> None"
    unfolding jira_key_spans [OF assms(1)] using k(1,2,3,5) W D
    by (intro conjI exI [of _ "length k"] exI [of _ "length p"]) (auto simp: Suc_le_eq)
qed

definition demo_qa :: "string \<Rightarrow> string option \<Rightarrow> generation_request" where
  "demo_qa prompt key =
     \<lparr>gr_tenant_id = ''t'', gr_application_id = ''a'', gr_prompt = prompt,
      gr_target = \<lparr>gt_language = PYTHON, gt_framework = PYTEST, gt_pattern = POM, gt_locator_strategy = PAGE_FILE\<rparr>,
      gr_scope = \<lparr>gs_domain = ''d'', gs_route = None, gs_tags = []\<rparr>,
      gr_provider = \<lparr>ps_provider_id = ''stub'', ps_model = ''m'', ps_fallback_provider_ids = []\<rparr>,
      gr_options = \<lparr>go_validation_enabled = True, go_allow_repair = True, go_max_input_tokens = 1000, go_max_output_tokens = None\<rparr>,
      gr_jira_key = key, gr_test_types = None\<rparr>"

text \<open>The input guardrail lets a request through exactly when its JIRA key, if it has one, has the form
  of a project key, a hyphen and digits, its prompt mentions a QA keyword and no personal data
  pattern occurs in it.\<close>

theorem input_guardrail_exact:
  assumes "\<forall>k. gr_jira_key q = Some k \<longrightarrow> contract_str k"
  shows "gd_passed (check_input RuleBasedInputGuardrail q) \<longleftrightarrow>
    (\<forall>k. gr_jira_key q = Some k \<and> k \<noteq> [] \<longrightarrow> jira_key_shape k) \<and>
    (\<exists>kw \<in> set QA_KEYWORDS. contains kw (lower (gr_prompt q))) \<and>
    \<not> (\<exists>r \<in> set PII_PATTERNS. search (gr_prompt q) r)"
proof -
  have "last k \<noteq> CHR 0x0A" if "gr_jira_key q = Some k" "k \<noteq> []" for k
  proof -
    have "contract_str1 k" using assms that by (simp add: contract_str_def contract_str1_def)
    then show ?thesis using contract_str1_hd [of k] by (auto simp: is_white_space_def)
  qed
  then have "(case given (gr_jira_key q) of Some k \<Rightarrow> match_at k JIRA_KEY_FORMAT_RE 0 \<noteq> None | None \<Rightarrow> True) \<longleftrightarrow>
      (\<forall>k. gr_jira_key q = Some k \<and> k \<noteq> [] \<longrightarrow> jira_key_shape k)"
    using jira_key_matches by (auto simp: given_def split: option.splits list.splits)
  moreover have "gd_passed (check_input RuleBasedInputGuardrail q) \<longleftrightarrow>
      (case given (gr_jira_key q) of Some k \<Rightarrow> match_at k JIRA_KEY_FORMAT_RE 0 \<noteq> None | None \<Rightarrow> True) \<and>
      (\<exists>kw \<in> set QA_KEYWORDS. contains kw (lower (gr_prompt q))) \<and>
      \<not> (\<exists>r \<in> set PII_PATTERNS. search (gr_prompt q) r)"
    by (cases "given (gr_jira_key q)") (simp_all add: rule_based_input_def guard_result_def)
  ultimately show ?thesis by blast
qed

lemma esc_char_cases:
  "(\<exists>y \<in> set [CHR 0x22, CHR 0x5C, CHR ''n'', CHR ''r'', CHR ''t'', CHR ''b'', CHR ''f'']. esc_char x = [CHR 0x5C, y]) \<or>
   (32 \<le> (of_char x :: nat) \<and> (of_char x :: nat) < 127 \<and> esc_char x = [x]) \<or>
   esc_char x = [CHR 0x5C, CHR ''u'', CHR ''0'', CHR ''0'', hex_digit (of_char x div 16), hex_digit (of_char x mod 16)]"
proof -
  have if_cases: "Q (if b then u else v)" if "b \<Longrightarrow> Q u" "\<not> b \<Longrightarrow> Q v" for Q b and u v :: string
    using that by simp
  show ?thesis
    unfolding esc_char_def Let_def
    by (rule if_cases, simp, rule if_cases, simp, rule if_cases, simp, rule if_cases, simp, rule if_cases, simp,
        rule if_cases, simp, rule if_cases, simp, rule if_cases, simp, simp)
qed

lemma esc_char_no_space:
  assumes "x \<noteq> CHR '' ''" and "c \<in> set (esc_char x)"
  shows "\<not> is_space c"
proof -
  have hex: "\<not> is_space (hex_digit n)" if "n < 16" for n
    using that by (simp add: hex_digit_def is_space_def Let_def)
  have lit: "\<forall>y \<in> set [CHR 0x22, CHR 0x5C, CHR ''n'', CHR ''r'', CHR ''t'', CHR ''b'', CHR ''f'', CHR ''u'', CHR ''0'']. \<not> is_space y"
    by code_simp
  have x32: "(of_char x :: nat) \<noteq> 32"
  proof
    assume "(of_char x :: nat) = 32"
    then have "x = char_of (32 :: nat)" by (metis char_of_char)
    also have "\<dots> = CHR '' ''" by code_simp
    finally show False using assms(1) by simp
  qed
  have "(of_char x :: nat) < 256" by simp
  then have "(of_char x :: nat) div 16 < 16" by (simp add: less_mult_imp_div_less)
  then have hx: "\<not> is_space (hex_digit (of_char x div 16))" "\<not> is_space (hex_digit (of_char x mod 16))"
    by (simp_all add: hex)
  from esc_char_cases [of x] show ?thesis
  proof (elim disjE bexE conjE)
    fix y
    assume "y \<in> set [CHR 0x22, CHR 0x5C, CHR ''n'', CHR ''r'', CHR ''t'', CHR ''b'', CHR ''f'']" "esc_char x = [CHR 0x5C, y]"
    then show ?thesis using assms(2) lit by auto
  next
    assume "32 \<le> (of_char x :: nat)" "(of_char x :: nat) < 127" "esc_char x = [x]"
    then show ?thesis using assms(2) x32 by (simp add: is_space_def)
  next
    assume "esc_char x = [CHR 0x5C, CHR ''u'', CHR ''0'', CHR ''0'', hex_digit (of_char x div 16), hex_digit (of_char x mod 16)]"
    then have "c \<in> set [CHR 0x5C, CHR ''u'', CHR ''0''] \<or> c = hex_digit (of_char x div 16) \<or> c = hex_digit (of_char x mod 16)"
      using assms(2) by auto
    then show ?thesis using lit hx by fastforce
  qed
qed

lemma escaped_no_space:
  assumes "CHR '' '' \<notin> set t" and "c \<in> set (quote_str t)"
  shows "\<not> is_space c"
proof -
  have "\<not> is_space CHR 0x22" by code_simp
  moreover have "c = CHR 0x22 \<or> (\<exists>x \<in> set t. c \<in> set (esc_char x))" using assms(2) by (auto simp: quote_str_def)
  ultimately show ?thesis using assms(1) esc_char_no_space by metis
qed

lemma plus_space_needs: "matches s (plus space) i j \<Longrightarrow> \<exists>c \<in> set s. is_space c"
  unfolding plus_def space_def rep_cls_iff by (metis Suc_eq_plus1 Suc_le_eq less_le_trans nth_mem order_refl)

lemma sql_needs_space: "search s SQL_INJECTION_RE \<Longrightarrow> \<exists>c \<in> set s. is_space c"
  unfolding search_iff SQL_INJECTION_RE_def cats_def
  by (auto simp: matches_simps dest!: plus_space_needs)

text \<open>The output guardrail looks for SQL in the re-encoded JSON, where a line break or a tab inside a string
  is an escape and not white space: a string whose white space is only of that kind never counts as SQL,
  while the same statement with a blank does.\<close>

theorem sql_line_break_bypass:
  "(CHR '' '' \<notin> set t \<longrightarrow> \<not> search (dumps (JStr t)) SQL_INJECTION_RE) \<and>
   search (dumps (JStr ''DROP TABLE'')) SQL_INJECTION_RE"
proof
  show "CHR '' '' \<notin> set t \<longrightarrow> \<not> search (dumps (JStr t)) SQL_INJECTION_RE"
    using escaped_no_space [of t] sql_needs_space [of "quote_str t"] by auto
  show "search (dumps (JStr ''DROP TABLE'')) SQL_INJECTION_RE" by code_simp
qed

lemma sql_line_break_bypass_witness:
  "\<not> search (dumps (JStr (''DROP'' @ nl @ ''TABLE''))) SQL_INJECTION_RE"
  by (rule sql_line_break_bypass [THEN conjunct1, rule_format]) (simp add: nl_def)

text \<open>The stub provider's own test case pack has a key the output guardrail does not know.\<close>

lemma stub_pack_blocked:
  "unknown_keys DEFAULT_TEST_CASE_PACK = [''test_types_covered'']"
  "\<not> gd_passed (check_output RuleBasedOutputGuardrail (dumps DEFAULT_TEST_CASE_PACK))"
proof -
  show k: "unknown_keys DEFAULT_TEST_CASE_PACK = [''test_types_covered'']" by code_simp
  have "plain DEFAULT_TEST_CASE_PACK"
    by (simp add: DEFAULT_TEST_CASE_PACK_def dict_ok_def)
  then have "loads (dumps DEFAULT_TEST_CASE_PACK) = Inr DEFAULT_TEST_CASE_PACK"
    by (rule json_roundtrip [THEN conjunct1])
  with k show "\<not> gd_passed (check_output RuleBasedOutputGuardrail (dumps DEFAULT_TEST_CASE_PACK))"
    by (simp add: rule_based_output_def guard_result_def Let_def)
qed

section \<open>Properties of the tone checker\<close>

lemma tone_system: "\<exists>m. mk_message SYSTEM TONE_SYSTEM_PROMPT = Inr m"
proof -
  have "ok (mk_message SYSTEM TONE_SYSTEM_PROMPT)" by code_simp
  then show ?thesis by (simp add: ok_iff)
qed

lemma tone_request_id: "tone_request raw rid = Inr q \<Longrightarrow> pc_provider_id (pq_config q) = ''default''"
  by (auto simp: tone_request_def mk_config_def rbind_Inr_iff)

lemma tone_messages: "trim raw \<noteq> [] \<Longrightarrow> \<exists>q. tone_request raw rid = Inr q"
proof -
  assume "trim raw \<noteq> []"
  then have "mk_message USER raw = Inr \<lparr>pm_role = USER, pm_content = trim raw\<rparr>"
    by (simp add: mk_message_def validate_str1_def)
  moreover obtain m where "mk_message SYSTEM TONE_SYSTEM_PROMPT = Inr m" using tone_system by blast
  ultimately show ?thesis by (simp add: tone_request_def two_messages_def)
qed

text \<open>The tone checker asks for a provider named \<open>default\<close>. With a gateway that has none, such as the one
  the application builds, it never changes a text; and it raises on an empty text.\<close>

theorem tone_checker_inert:
  assumes "dict_get g ''default'' = None"
  shows "refine G fs tc raw rid g r =
    (case tc of
       NullToneChecker \<Rightarrow> (Inr (raw, False), g, r)
     | LLMToneChecker \<Rightarrow> if trim raw = [] then (Inl (ValidationError ''content''), g, r) else (Inr (raw, False), g, r))"
proof (cases tc)
  case NullToneChecker
  then show ?thesis by simp
next
  case LLMToneChecker
  show ?thesis
  proof (cases "trim raw = []")
    case True
    then have "mk_message USER raw = Inl (ValidationError ''content'')"
      by (simp add: mk_message_def validate_str1_def)
    moreover obtain m where "mk_message SYSTEM TONE_SYSTEM_PROMPT = Inr m" using tone_system by blast
    ultimately show ?thesis using True LLMToneChecker
      by (simp add: tone_request_def two_messages_def)
  next
    case False
    then obtain q where q: "tone_request raw rid = Inr q" using tone_messages by blast
    have "gateway_generate L fs q [] g r = (Inl (not_registered g ''default''), g, r)" for L
      using assms tone_request_id [OF q] by (simp add: gateway_generate_def)
    with False q LLMToneChecker show ?thesis by simp
  qed
qed

lemma tone_checker_inert_witness:
  "refine \<lparr>gx_llm = demo_llm, gx_float = (\<lambda>_. None)\<rparr> [] LLMToneChecker ''text'' ''r1''
     (build_gateway (CredentialProviderChain [])) () = (Inr (''text'', False), build_gateway (CredentialProviderChain []), ())"
proof -
  have g: "dict_get (build_gateway (CredentialProviderChain [])) ''default'' = None" by code_simp
  have "trim ''text'' \<noteq> []" by code_simp
  then show ?thesis by (simp only: tone_checker_inert [OF g] tone_checker.case if_False)
qed

section \<open>Properties of the reformulators and the router\<close>

definition wf_intent :: "reformulated_intent \<Rightarrow> bool" where
  "wf_intent i = (contract_str1 (ri_intent_summary i) \<and> contract_str1 (ri_raw_prompt i) \<and>
     0 \<le> ri_confidence i \<and> ri_confidence i \<le> 1)"

lemma trim_fixed: "s \<noteq> [] \<Longrightarrow> \<not> is_white_space (hd s) \<Longrightarrow> \<not> is_white_space (last s) \<Longrightarrow> trim s = s"
  by (cases s) (simp_all add: trim_def strip_by_def rstrip_by_fixed)

lemma mk_intent_Inr:
  "mk_intent k s ts f raw c = Inr i \<Longrightarrow> wf_intent i \<and> ri_raw_prompt i = trim raw \<and> ri_test_types i = ts"
  by (auto simp: mk_intent_def wf_intent_def rbind_Inr_iff split: if_splits
      dest: validate_str1_contract) (simp_all add: validate_str1_Inr)

lemma mk_intent_ok:
  assumes "trim s \<noteq> []" "trim raw \<noteq> []" "0 \<le> c" "c \<le> 1"
  shows "\<exists>i. mk_intent k s ts f raw c = Inr i"
  using assms by (simp add: mk_intent_def validate_str1_def)

lemma lines_from_hd: "acc \<noteq> [] \<Longrightarrow> \<exists>l ls. lines_from acc s = l # ls \<and> l \<noteq> [] \<and> hd l = hd acc"
  by (induction acc s rule: lines_from.induct) auto

lemma splitlines_hd:
  assumes "s \<noteq> []" "\<not> is_line_break (hd s)"
  shows "\<exists>l ls. splitlines s = l # ls \<and> l \<noteq> [] \<and> hd l = hd s"
proof (cases s)
  case (Cons c cs)
  have nb: "\<not> is_line_break c" using assms Cons by simp
  have nr: "c \<noteq> CHR 0x0D" using nb by (auto simp: is_line_break_def)
  show ?thesis
  proof (cases cs)
    case Nil
    then show ?thesis using Cons nb by (simp add: splitlines_def)
  next
    case (Cons d ds)
    then show ?thesis
      using \<open>s = c # cs\<close> nb nr lines_from_hd [of "[c]" "d # ds"] by (simp add: splitlines_def)
  qed
qed (use assms in simp)

lemma white_space_space: "is_white_space c \<Longrightarrow> is_space c"
  by (auto simp: is_white_space_def is_space_def Let_def)

lemma line_break_space: "is_line_break c \<Longrightarrow> is_space c"
  by (auto simp: is_line_break_def is_space_def Let_def)

lemma hd_strip: "strip s \<noteq> [] \<Longrightarrow> \<not> is_space (hd (strip s))"
  unfolding strip_def strip_by_def
  by (metis hd_dropWhile hd_rstrip_by dropWhile.simps(1) rstrip_by_fixed)

lemma summarize_ok:
  assumes "strip p \<noteq> []"
  shows "\<exists>s. summarize p = Inr s \<and> trim s \<noteq> []"
proof -
  have h: "\<not> is_space (hd (strip p))" using assms by (rule hd_strip)
  then obtain l ls where l: "splitlines (strip p) = l # ls" "l \<noteq> []" "hd l = hd (strip p)"
    using splitlines_hd [OF assms] line_break_space by blast
  have t: "trim s \<noteq> []" if "s \<noteq> []" "hd s = hd l" for s
    using that h l(3) white_space_space by (metis trim_Nil hd_in_set)
  have "take 200 l \<noteq> []" "hd (take 200 l) = hd l" using l(2) by (cases l; simp)+
  then show ?thesis using l(1,2) t by (simp add: summarize_def)
qed

lemma keyword_ok:
  assumes "contract_str1 p" "strip p \<noteq> []"
  shows "\<exists>i. keyword_reformulate p k ts = Inr i \<and> wf_intent i \<and> ri_raw_prompt i = p"
proof -
  obtain s where s: "summarize p = Inr s" "trim s \<noteq> []" using summarize_ok [OF assms(2)] by blast
  have p: "trim p = p" "p \<noteq> []" using assms(1) by (simp_all add: contract_str1_def)
  then show ?thesis
    using s mk_intent_ok [OF s(2), of p "7/10"] mk_intent_Inr by (fastforce simp: keyword_reformulate_def)
qed

lemma stub_ok:
  assumes "contract_str1 p"
  shows "\<exists>i. stub_reformulate p k ts = Inr i \<and> wf_intent i \<and> ri_raw_prompt i = p"
proof -
  have p: "trim p = p" "p \<noteq> []" using assms by (simp_all add: contract_str1_def)
  have "trim ''Stub intent summary'' \<noteq> []" by code_simp
  from mk_intent_ok [OF this, of p 1] show ?thesis
    using p mk_intent_Inr by (fastforce simp: stub_reformulate_def)
qed

lemma answer_ok: "intent_of_answer f p k ts raw = Some i \<Longrightarrow> contract_str1 p \<Longrightarrow> wf_intent i \<and> ri_raw_prompt i = p"
  using mk_intent_Inr [of _ _ _ _ p]
  by (auto simp: intent_of_answer_def Let_def contract_str1_def
      split: sum.splits json.splits option.splits prod.splits if_splits)

lemma reformulator_messages:
  assumes "contract_str1 p"
  shows "\<exists>ms. two_messages REFORMULATOR_SYSTEM_PROMPT (reformulation_content p k ts) = Inr ms"
proof -
  have "hd p \<in> set p" "\<not> is_white_space (hd p)"
    using assms contract_str1_hd by (auto simp: contract_str1_def)
  then have "trim (reformulation_content p k ts) \<noteq> []"
    unfolding trim_Nil reformulation_content_def by (auto split: option.splits)
  moreover have "trim REFORMULATOR_SYSTEM_PROMPT \<noteq> []" by code_simp
  ultimately show ?thesis by (simp add: two_messages_def mk_message_def validate_str1_def)
qed

lemma llm_ok:
  assumes "contract_str1 p" "strip p \<noteq> []"
  shows "\<exists>i g' r'. llm_reformulate G fs uuid cfg p k ts g r = (Inr i, g', r') \<and> wf_intent i \<and> ri_raw_prompt i = p"
proof -
  obtain ms where ms: "two_messages REFORMULATOR_SYSTEM_PROMPT (reformulation_content p k ts) = Inr ms"
    using reformulator_messages [OF assms(1)] by blast
  obtain i where i: "keyword_reformulate p k ts = Inr i" "wf_intent i" "ri_raw_prompt i = p"
    using keyword_ok [OF assms] by blast
  show ?thesis
    using ms i assms(1) unfolding llm_reformulate_def
    by (auto split: prod.splits option.splits sum.splits dest: answer_ok)
qed

text \<open>What the orchestrator asks of a reformulator: it answers every prompt with a letter in it, with a valid
  intent about that prompt.\<close>

locale reformulation =
  fixes run :: "string \<Rightarrow> string option \<Rightarrow> test_type list option \<Rightarrow> 's \<Rightarrow> reformulated_intent result \<times> 's"
  assumes answers: "contract_str1 p \<Longrightarrow> strip p \<noteq> [] \<Longrightarrow>
    \<exists>i s'. run p k ts s = (Inr i, s') \<and> wf_intent i \<and> ri_raw_prompt i = p"
begin

lemma never_raises: "contract_str1 p \<Longrightarrow> strip p \<noteq> [] \<Longrightarrow> fst (run p k ts s) \<noteq> Inl e"
  using answers [of p k ts s] by auto

lemma intent_valid: "contract_str1 p \<Longrightarrow> strip p \<noteq> [] \<Longrightarrow> fst (run p k ts s) = Inr i \<Longrightarrow> wf_intent i \<and> ri_raw_prompt i = p"
  using answers [of p k ts s] by auto

end

interpretation reform: reformulation "\<lambda>p k ts s. reformulate G fs uuid R p k ts (fst s) (snd s)" for G fs uuid R
proof (unfold_locales, goal_cases)
  case (1 p k ts s)
  then show ?case
    using keyword_ok [OF 1, of k ts] stub_ok [OF 1(1), of k ts] llm_ok [OF 1, of G fs uuid _ k ts "fst s" "snd s"]
    by (cases R) auto
qed

text \<open>Whichever reformulator the flags choose, and whatever its LLM answers or however it fails, every
  validated prompt with a character in it that is not white space gets a valid intent about that very prompt.\<close>

theorem reformulation_total:
  assumes "contract_str1 p" and "strip p \<noteq> []"
  shows "\<exists>i g' r'. reformulate G fs uuid R p k ts g r = (Inr i, g', r') \<and>
    ri_raw_prompt i = p \<and> contract_str1 (ri_intent_summary i) \<and> 0 \<le> ri_confidence i \<and> ri_confidence i \<le> 1"
  using reform.answers [OF assms, of G fs uuid R k ts "(g, r)"] by (auto simp: wf_intent_def)

lemma reformulation_total_witness:
  "\<exists>i g' r'. reformulate \<lparr>gx_llm = demo_llm, gx_float = (\<lambda>_. None)\<rparr> [] ''u'' KeywordReformulator ''login'' None None [] () =
     (Inr i, g', r') \<and> ri_raw_prompt i = ''login'' \<and> contract_str1 (ri_intent_summary i) \<and>
     0 \<le> ri_confidence i \<and> ri_confidence i \<le> 1"
proof -
  have "contract_str1 ''login''" "strip ''login'' \<noteq> []" by code_simp+
  then show ?thesis by (rule reformulation_total)
qed

lemma route_types_nonempty: "route_types i q \<noteq> []"
  by (auto simp: route_types_def given_def DEFAULT_TEST_TYPES_def split: option.splits list.splits)

lemma route_types_explicit: "gr_test_types q = Some ts \<Longrightarrow> ts \<noteq> [] \<Longrightarrow> route_types i q = ts"
  by (cases ts) (simp_all add: route_types_def given_def)

lemma input_guardrail_exact_witness:
  "gd_passed (check_input RuleBasedInputGuardrail (demo_qa ''test'' (Some ''AB-1''))) \<longleftrightarrow>
    (\<forall>k. gr_jira_key (demo_qa ''test'' (Some ''AB-1'')) = Some k \<and> k \<noteq> [] \<longrightarrow> jira_key_shape k) \<and>
    (\<exists>kw \<in> set QA_KEYWORDS. contains kw (lower (gr_prompt (demo_qa ''test'' (Some ''AB-1''))))) \<and>
    \<not> (\<exists>r \<in> set PII_PATTERNS. search (gr_prompt (demo_qa ''test'' (Some ''AB-1''))) r)"
proof (rule input_guardrail_exact)
  have "contract_str ''AB-1''" by code_simp
  then show "\<forall>k. gr_jira_key (demo_qa ''test'' (Some ''AB-1'')) = Some k \<longrightarrow> contract_str k"
    by (simp add: demo_qa_def)
qed

end
