(* ===== verification/Pack.thy ===== *)
theory Pack
  imports Testgen
begin

text \<open>
  The test case path: \<open>testgen/prompts\<close> (the messages for a test case pack) and
  \<open>testgen/pack/normalizer.py\<close> (a provider's answer becomes a pack or a list of errors).
  \<open>py_datetime\<close> is pydantic's reading of a \<open>datetime\<close>; the set of required fields is iterated in the
  order written.
\<close>

section \<open>testgen/prompts/templates.py\<close>

definition string_type :: json where
  "string_type = JDict [(''type'', JStr ''string'')]"

definition string_array :: json where
  "string_array = JDict [(''type'', JStr ''array''), (''items'', string_type)]"

definition TEST_CASE_PACK_SCHEMA :: json where
  "TEST_CASE_PACK_SCHEMA = JDict
     [(''type'', JStr ''object''),
      (''required'', JList [JStr ''story_summary'', JStr ''test_cases'']),
      (''properties'', JDict
        [(''story_summary'', string_type),
         (''assumptions'', string_array),
         (''test_cases'', JDict
           [(''type'', JStr ''array''),
            (''items'', JDict
              [(''type'', JStr ''object''),
               (''required'', JList [JStr ''id'', JStr ''type'', JStr ''title'', JStr ''steps'', JStr ''expected_result'']),
               (''properties'', JDict
                 [(''id'', string_type), (''type'', string_type), (''title'', string_type),
                  (''preconditions'', string_array), (''steps'', string_array),
                  (''expected_result'', string_type), (''acceptance_criterion_ref'', string_type),
                  (''tags'', string_array)])])]),
         (''traceability_matrix'', JDict
           [(''type'', JStr ''array''),
            (''items'', JDict
              [(''type'', JStr ''object''),
               (''required'', JList [JStr ''acceptance_criterion'', JStr ''test_case_ids'']),
               (''properties'', JDict
                 [(''acceptance_criterion'', string_type), (''test_case_ids'', string_array)])])]),
         (''coverage_summary'', string_type),
         (''source_jira_key'', string_type),
         (''test_types_covered'', string_array)])]"

definition build_functional_section :: string where
  "build_functional_section = join nl
     [''### Functional Tests'',
      ''Generate positive-path test cases that verify the feature works as specified.'',
      ''Each test case should map to one acceptance criterion.'']"

definition build_negative_section :: string where
  "build_negative_section = join nl
     [''### Negative Tests'',
      ''Generate test cases for invalid inputs, boundary violations, and error paths.'',
      ''Include expected error messages or HTTP status codes where applicable.'']"

definition build_edge_case_section :: string where
  "build_edge_case_section = join nl
     [''### Edge Case Tests'',
      ''Generate test cases for boundary values, empty inputs, maximum lengths, and race conditions.'']"

definition build_api_section :: string where
  "build_api_section = join nl
     [''### API Tests'',
      ''Generate contract-level test cases verifying request/response schema, status codes, and headers.'',
      ''Include authentication, pagination, and error response tests.'']"

definition build_regression_section :: string where
  "build_regression_section = join nl
     [''### Regression Tests'',
      ''Generate test cases that guard against regressions in existing behavior.'',
      ''Focus on previously reported bugs and critical user journeys.'']"

fun SECTION_BUILDERS :: "test_type \<Rightarrow> string" where
  "SECTION_BUILDERS FUNCTIONAL = build_functional_section"
| "SECTION_BUILDERS NEGATIVE = build_negative_section"
| "SECTION_BUILDERS EDGE_CASE = build_edge_case_section"
| "SECTION_BUILDERS API = build_api_section"
| "SECTION_BUILDERS REGRESSION = build_regression_section"

section \<open>testgen/prompts/testgen_builder.py\<close>

definition TESTGEN_ROLE_INTRO :: string where
  "TESTGEN_ROLE_INTRO =
     ''You are TotalRecall, an expert QA engineer specializing in test case design. '' @
     ''Your task is to produce comprehensive, structured test cases from the provided story and requirements.''"

definition TESTGEN_OUTPUT_INSTRUCTION :: string where
  "TESTGEN_OUTPUT_INSTRUCTION =
     ''Respond ONLY with a valid JSON object matching this schema:'' @ nl @ dumps_indent 0 TEST_CASE_PACK_SCHEMA @ nl @ nl @
     ''Do not include explanations, markdown fences, or any text outside the JSON object.''"

definition testgen_system :: "test_type list \<Rightarrow> string" where
  "testgen_system ts = join nl
     [TESTGEN_ROLE_INTRO, [], ''## Requested Test Types: '' @ join '', '' (map test_type_value ts), [],
      ''## Output Format'', TESTGEN_OUTPUT_INSTRUCTION]"

definition testgen_story_parts :: "jira_story option \<Rightarrow> string list" where
  "testgen_story_parts st =
     (case st of
        None \<Rightarrow> []
      | Some j \<Rightarrow>
          [''## JIRA Story'', ''Key: '' @ js_jira_key j, ''Summary: '' @ js_summary j]
          @ (if js_description j = [] then [] else [''Description: '' @ js_description j])
          @ (if js_acceptance_criteria j = [] then []
             else ''### Acceptance Criteria'' #
               map (\<lambda>ac. ''- ['' @ nat_str (jc_index ac) @ ''] '' @ jc_text ac) (js_acceptance_criteria j))
          @ [[]])"

definition intent_parts :: "reformulated_intent option \<Rightarrow> string list" where
  "intent_parts intent =
     (case intent of
        None \<Rightarrow> []
      | Some i \<Rightarrow> if ri_intent_summary i = [] then [] else [''## Test Intent'', ri_intent_summary i, []])"

definition testgen_user :: "generation_request \<Rightarrow> context_plan \<Rightarrow> reformulated_intent option \<Rightarrow> test_type list \<Rightarrow> string" where
  "testgen_user q p intent ts = join nl
     (testgen_story_parts (cp_jira_story p) @ rag_parts (cp_rag_chunks p) @ intent_parts intent
      @ concat (map (\<lambda>t. [SECTION_BUILDERS t, []]) ts)
      @ [''## Additional Requirements'', gr_prompt q])"

definition testgen_build ::
  "generation_request \<Rightarrow> context_plan \<Rightarrow> reformulated_intent option \<Rightarrow> test_type list \<Rightarrow> provider_message list result" where
  "testgen_build q p intent ts = two_messages (testgen_system ts) (testgen_user q p intent ts)"

section \<open>testgen/pack/models.py\<close>

definition test_case_of_json :: "json \<Rightarrow> test_case result" where
  "test_case_of_json j =
     (case j of
        JDict d \<Rightarrow>
          rbind (no_extra [''id'', ''type'', ''title'', ''preconditions'', ''steps'', ''expected_result'',
            ''acceptance_criterion_ref'', ''tags''] d) (\<lambda>_.
          rbind (required d ''id'' (as_str1 ''id'')) (\<lambda>i.
          rbind (required d ''type'' (as_enum ''type'' test_type_of)) (\<lambda>ty.
          rbind (required d ''title'' (as_str1 ''title'')) (\<lambda>title.
          rbind (optional d ''preconditions'' [] (as_list ''preconditions'' (as_str ''preconditions''))) (\<lambda>pre.
          rbind (required d ''steps'' (as_list ''steps'' (as_str ''steps''))) (\<lambda>steps.
          rbind (if steps = [] then invalid ''steps'' else Inr ()) (\<lambda>_.
          rbind (required d ''expected_result'' (as_str1 ''expected_result'')) (\<lambda>expected.
          rbind (optional d ''acceptance_criterion_ref'' None (as_opt (as_str ''acceptance_criterion_ref''))) (\<lambda>ref.
          rbind (optional d ''tags'' [] (as_list ''tags'' (as_str ''tags''))) (\<lambda>tags.
            Inr \<lparr>tc_id = i, tc_type = ty, tc_title = title, tc_preconditions = pre, tc_steps = steps,
              tc_expected_result = expected, tc_acceptance_criterion_ref = ref, tc_tags = tags\<rparr>))))))))))
      | _ \<Rightarrow> invalid ''test_cases'')"

definition entry_of_json :: "json \<Rightarrow> traceability_entry result" where
  "entry_of_json j =
     (case j of
        JDict d \<Rightarrow>
          rbind (no_extra [''acceptance_criterion'', ''test_case_ids''] d) (\<lambda>_.
          rbind (required d ''acceptance_criterion'' (as_str1 ''acceptance_criterion'')) (\<lambda>ac.
          rbind (optional d ''test_case_ids'' [] (as_list ''test_case_ids'' (as_str ''test_case_ids''))) (\<lambda>ids.
            Inr \<lparr>te_acceptance_criterion = ac, te_test_case_ids = ids\<rparr>)))
      | _ \<Rightarrow> invalid ''traceability_matrix'')"

definition PACK_FIELDS :: "string list" where
  "PACK_FIELDS = [''story_summary'', ''assumptions'', ''test_cases'', ''traceability_matrix'', ''coverage_summary'',
     ''generated_at'', ''source_jira_key'', ''test_types_covered'']"

definition pack_of_dict :: "(json \<Rightarrow> rat result) \<Rightarrow> rat \<Rightarrow> (string, json) dict \<Rightarrow> test_case_pack result" where
  "pack_of_dict py_datetime now d =
     rbind (no_extra PACK_FIELDS d) (\<lambda>_.
     rbind (required d ''story_summary'' (as_str1 ''story_summary'')) (\<lambda>summary.
     rbind (optional d ''assumptions'' [] (as_list ''assumptions'' (as_str ''assumptions''))) (\<lambda>assumptions.
     rbind (optional d ''test_cases'' [] (as_list ''test_cases'' test_case_of_json)) (\<lambda>cases.
     rbind (optional d ''traceability_matrix'' [] (as_list ''traceability_matrix'' entry_of_json)) (\<lambda>matrix.
     rbind (optional d ''coverage_summary'' [] (as_str ''coverage_summary'')) (\<lambda>coverage.
     rbind (optional d ''generated_at'' now py_datetime) (\<lambda>stamp.
     rbind (optional d ''source_jira_key'' None (as_opt (as_str ''source_jira_key''))) (\<lambda>key.
     rbind (optional d ''test_types_covered'' [] (as_list ''test_types_covered'' (as_enum ''test_types_covered'' test_type_of))) (\<lambda>types.
       Inr \<lparr>tp_story_summary = summary, tp_assumptions = assumptions, tp_test_cases = cases,
         tp_traceability_matrix = matrix, tp_coverage_summary = coverage, tp_generated_at = stamp,
         tp_source_jira_key = key, tp_test_types_covered = types\<rparr>)))))))))"

section \<open>testgen/pack/normalizer.py\<close>

definition FENCE :: string where
  "FENCE = ''```''"

text \<open>The index of the last line after the first that is a closing fence, \<open>dflt\<close> if there is none.\<close>

fun fence_end :: "string list \<Rightarrow> nat \<Rightarrow> nat \<Rightarrow> nat" where
  "fence_end lines dflt 0 = dflt"
| "fence_end lines dflt (Suc i) = (if strip (lines ! Suc i) = FENCE then Suc i else fence_end lines dflt i)"

definition unfence :: "string \<Rightarrow> string" where
  "unfence raw =
     (let t = strip raw
      in if prefix FENCE t
         then (let lines = splitlines t
               in join nl (drop 1 (take (fence_end lines (length lines) (length lines - 1)) lines)))
         else t)"

definition REQUIRED_TOP_LEVEL :: "string list" where
  "REQUIRED_TOP_LEVEL = [''story_summary'', ''test_cases'']"

definition pack_error :: "string \<Rightarrow> service_error" where
  "pack_error msg = mk_error NORMALIZATION_FAILED msg"

definition with_source :: "string option \<Rightarrow> (string, json) dict \<Rightarrow> (string, json) dict" where
  "with_source key d =
     (case given key of
        Some k \<Rightarrow> if dict_get d ''source_jira_key'' = None then dict_set ''source_jira_key'' (JStr k) d else d
      | None \<Rightarrow> d)"

definition normalize_pack ::
  "(json \<Rightarrow> rat result) \<Rightarrow> rat \<Rightarrow> string \<Rightarrow> string option \<Rightarrow> test_case_pack option \<times> service_error list" where
  "normalize_pack py_datetime now raw key =
     (let t = unfence raw
      in (case loads t of
            Inl e \<Rightarrow> (None, [pack_error (''Invalid JSON in test case pack response: '' @ json_error_str t e)])
          | Inr (JDict d) \<Rightarrow>
              (let errors = map (\<lambda>f. pack_error (''Missing required field: '' @ f))
                     (filter (\<lambda>f. dict_get d f = None) REQUIRED_TOP_LEVEL)
               in if errors \<noteq> [] then (None, errors)
                  else (case pack_of_dict py_datetime now (with_source key d) of
                          Inl e \<Rightarrow> (None, [pack_error (''Test case pack validation failed: '' @ exn_str e)])
                        | Inr p \<Rightarrow> (Some p, [])))
          | Inr _ \<Rightarrow> (None, [pack_error ''Test case pack response must be a JSON object''])))"

section \<open>Reading a pack back\<close>

definition wf_test_case :: "test_case \<Rightarrow> bool" where
  "wf_test_case c = (contract_str1 (tc_id c) \<and> contract_str1 (tc_title c) \<and> list_all contract_str (tc_preconditions c) \<and>
     tc_steps c \<noteq> [] \<and> list_all contract_str (tc_steps c) \<and> contract_str1 (tc_expected_result c) \<and>
     contract_opt (tc_acceptance_criterion_ref c) \<and> list_all contract_str (tc_tags c))"

definition wf_entry :: "traceability_entry \<Rightarrow> bool" where
  "wf_entry e = (contract_str1 (te_acceptance_criterion e) \<and> list_all contract_str (te_test_case_ids e))"

definition wf_pack :: "test_case_pack \<Rightarrow> bool" where
  "wf_pack p = (contract_str1 (tp_story_summary p) \<and> list_all contract_str (tp_assumptions p) \<and>
     list_all wf_test_case (tp_test_cases p) \<and> list_all wf_entry (tp_traceability_matrix p) \<and>
     contract_str (tp_coverage_summary p) \<and> contract_opt (tp_source_jira_key p))"

definition strs :: "string list \<Rightarrow> json" where
  "strs xs = JList (map JStr xs)"

definition opt_str :: "string option \<Rightarrow> json" where
  "opt_str x = (case x of None \<Rightarrow> JNull | Some s \<Rightarrow> JStr s)"

definition test_case_json :: "test_case \<Rightarrow> json" where
  "test_case_json c = JDict
     [(''id'', JStr (tc_id c)), (''type'', JStr (test_type_value (tc_type c))), (''title'', JStr (tc_title c)),
      (''preconditions'', strs (tc_preconditions c)), (''steps'', strs (tc_steps c)),
      (''expected_result'', JStr (tc_expected_result c)),
      (''acceptance_criterion_ref'', opt_str (tc_acceptance_criterion_ref c)), (''tags'', strs (tc_tags c))]"

definition entry_json :: "traceability_entry \<Rightarrow> json" where
  "entry_json e = JDict [(''acceptance_criterion'', JStr (te_acceptance_criterion e)), (''test_case_ids'', strs (te_test_case_ids e))]"

text \<open>A pack as a provider writes it, without the time stamp; the key field only if there is a key.\<close>

definition pack_json :: "test_case_pack \<Rightarrow> json" where
  "pack_json p = JDict
     ([(''story_summary'', JStr (tp_story_summary p)), (''assumptions'', strs (tp_assumptions p)),
       (''test_cases'', JList (map test_case_json (tp_test_cases p))),
       (''traceability_matrix'', JList (map entry_json (tp_traceability_matrix p))),
       (''coverage_summary'', JStr (tp_coverage_summary p)),
       (''test_types_covered'', JList (map (\<lambda>ty. JStr (test_type_value ty)) (tp_test_types_covered p)))]
      @ (case tp_source_jira_key p of None \<Rightarrow> [] | Some k \<Rightarrow> [(''source_jira_key'', JStr k)]))"

lemma rmap_map_Inr: "(\<And>x. x \<in> set xs \<Longrightarrow> f (g x) = Inr x) \<Longrightarrow> rmap f (map g xs) = Inr xs"
  by (induction xs) simp_all

lemma as_list_strs: "list_all contract_str xs \<Longrightarrow> as_list k (as_str k) (strs xs) = Inr xs"
  unfolding as_list_def strs_def
  by (auto intro!: rmap_map_Inr simp: as_str_def contract_str_def list_all_iff)

lemma as_str1_JStr: "contract_str1 s \<Longrightarrow> as_str1 k (JStr s) = Inr s"
  by (simp add: as_str1_def validate_str1_id)

lemma as_opt_str: "contract_opt x \<Longrightarrow> as_opt (as_str k) (opt_str x) = Inr x"
  by (cases x) (simp_all add: as_opt_def opt_str_def as_str_def contract_opt_def contract_str_def)

lemma as_str_JStr: "contract_str s \<Longrightarrow> as_str k (JStr s) = Inr s"
  by (simp add: as_str_def contract_str_def)

lemma as_enum_test_type: "as_enum k test_type_of (JStr (test_type_value ty)) = Inr ty"
  by (simp add: as_enum_def)

lemmas field_readers = required_def optional_def no_extra_def dict_keys_def as_list_strs as_str1_JStr as_opt_str
  as_str_JStr as_enum_test_type

lemma test_case_back: "wf_test_case c \<Longrightarrow> test_case_of_json (test_case_json c) = Inr c"
  by (simp add: wf_test_case_def test_case_of_json_def test_case_json_def field_readers)

lemma entry_back: "wf_entry e \<Longrightarrow> entry_of_json (entry_json e) = Inr e"
  by (simp add: wf_entry_def entry_of_json_def entry_json_def field_readers)

lemma as_list_map: "(\<And>x. x \<in> set xs \<Longrightarrow> f (g x) = Inr x) \<Longrightarrow> as_list k f (JList (map g xs)) = Inr xs"
  by (simp add: as_list_def rmap_map_Inr)

lemma pack_lists_back:
  assumes "wf_pack p"
  shows "as_list ''test_cases'' test_case_of_json (JList (map test_case_json (tp_test_cases p))) = Inr (tp_test_cases p)"
    "as_list ''traceability_matrix'' entry_of_json (JList (map entry_json (tp_traceability_matrix p))) = Inr (tp_traceability_matrix p)"
    "as_list ''test_types_covered'' (as_enum ''test_types_covered'' test_type_of)
       (JList (map (\<lambda>ty. JStr (test_type_value ty)) (tp_test_types_covered p))) = Inr (tp_test_types_covered p)"
  using assms by (auto intro!: as_list_map simp: wf_pack_def list_all_iff test_case_back entry_back as_enum_test_type)

lemma pack_back:
  assumes "wf_pack p" and "pack_json p = JDict d" and "\<forall>k. key = Some k \<longrightarrow> contract_str k"
  shows "pack_of_dict dt now (with_source key d) =
    Inr (p\<lparr>tp_generated_at := now, tp_source_jira_key := (case tp_source_jira_key p of None \<Rightarrow> given key | Some k \<Rightarrow> Some k)\<rparr>)"
proof -
  note w = assms(1) [unfolded wf_pack_def]
  show ?thesis
  proof (cases "tp_source_jira_key p")
    case None
    with assms(2) have d: "d = [(''story_summary'', JStr (tp_story_summary p)), (''assumptions'', strs (tp_assumptions p)),
       (''test_cases'', JList (map test_case_json (tp_test_cases p))),
       (''traceability_matrix'', JList (map entry_json (tp_traceability_matrix p))),
       (''coverage_summary'', JStr (tp_coverage_summary p)),
       (''test_types_covered'', JList (map (\<lambda>ty. JStr (test_type_value ty)) (tp_test_types_covered p)))]"
      by (simp add: pack_json_def)
    show ?thesis
    proof (cases "given key")
      case None
      then show ?thesis using w \<open>tp_source_jira_key p = None\<close>
        by (simp add: d with_source_def pack_of_dict_def PACK_FIELDS_def field_readers pack_lists_back [OF assms(1)])
    next
      case (Some k)
      then have "contract_str k" using assms(3) by (auto simp: given_def split: option.splits list.splits)
      then show ?thesis using w Some \<open>tp_source_jira_key p = None\<close>
        by (simp add: d with_source_def pack_of_dict_def PACK_FIELDS_def field_readers pack_lists_back [OF assms(1)] as_opt_def)
    qed
  next
    case (Some k)
    then have "contract_str k" using w by (simp add: contract_opt_def)
    moreover have d: "d = [(''story_summary'', JStr (tp_story_summary p)), (''assumptions'', strs (tp_assumptions p)),
       (''test_cases'', JList (map test_case_json (tp_test_cases p))),
       (''traceability_matrix'', JList (map entry_json (tp_traceability_matrix p))),
       (''coverage_summary'', JStr (tp_coverage_summary p)),
       (''test_types_covered'', JList (map (\<lambda>ty. JStr (test_type_value ty)) (tp_test_types_covered p))),
       (''source_jira_key'', JStr k)]"
      using assms(2) Some by (simp add: pack_json_def)
    moreover have "with_source key d = d" by (simp add: d with_source_def split: option.split)
    ultimately show ?thesis using w Some
      by (simp only:) (simp add: pack_of_dict_def PACK_FIELDS_def field_readers pack_lists_back [OF assms(1)] as_opt_def)
  qed
qed

section \<open>Code fences\<close>

definition printable :: "char \<Rightarrow> bool" where
  "printable c = (32 \<le> (of_char c :: nat) \<and> (of_char c :: nat) < 127)"

lemma printable_no_break: "printable c \<Longrightarrow> \<not> is_line_break c"
  by (auto simp: printable_def is_line_break_def)

lemma printable_literals:
  "list_all printable ''null''" "list_all printable ''true''" "list_all printable ''false''" "list_all printable ''NaN''"
  "list_all printable ''Infinity''" "list_all printable ''-Infinity''" "list_all printable ''[]{},: -u0nrtbf''"
  "printable CHR 0x22" "printable CHR 0x5C"
  by code_simp+

lemma printable_hex: "n < 16 \<Longrightarrow> printable (hex_digit n)"
  by (simp add: printable_def hex_digit_def)

lemma printable_esc: "list_all printable (esc_char c)"
proof -
  have "(of_char c :: nat) < 256" by simp
  then have "(of_char c :: nat) div 16 < 16" by (simp add: less_mult_imp_div_less)
  then have h: "printable (hex_digit (of_char c div 16))" "printable (hex_digit (of_char c mod 16))"
    by (simp_all add: printable_hex)
  show ?thesis
    using esc_char_cases [of c]
  proof (elim disjE bexE conjE)
    fix y
    assume "y \<in> set [CHR 0x22, CHR 0x5C, CHR ''n'', CHR ''r'', CHR ''t'', CHR ''b'', CHR ''f'']" "esc_char c = [CHR 0x5C, y]"
    then show ?thesis using printable_literals by auto
  next
    assume "32 \<le> (of_char c :: nat)" "(of_char c :: nat) < 127" "esc_char c = [c]"
    then show ?thesis by (simp add: printable_def)
  next
    assume "esc_char c = [CHR 0x5C, CHR ''u'', CHR ''0'', CHR ''0'', hex_digit (of_char c div 16), hex_digit (of_char c mod 16)]"
    then show ?thesis using printable_literals h by simp
  qed
qed

lemma printable_quote: "list_all printable (quote_str s)"
  using printable_literals printable_esc by (auto simp: quote_str_def list_all_iff)

lemma printable_int: "list_all printable (int_str i)"
proof -
  have "list_all printable (nat_str n)" for n
    using nat_str_digits [of n] by (auto simp: list_all_iff is_digit_def printable_def Let_def)
  then show ?thesis using printable_literals by (simp add: int_str_def)
qed

lemma set_join: "set (join sep xs) \<subseteq> set sep \<union> (\<Union>x \<in> set xs. set x)"
  by (induction sep xs rule: join.induct) auto

lemma printable_join: "list_all printable sep \<Longrightarrow> list_all (list_all printable) xs \<Longrightarrow> list_all printable (join sep xs)"
  using set_join [of sep xs] by (auto simp: list_all_iff)

lemma printable_dumps: "plain j \<Longrightarrow> list_all printable (dumps j)"
proof (induction j)
  case (JList xs)
  then have "list_all (list_all printable) (map dumps xs)" by (auto simp: list_all_iff)
  then show ?case using printable_join [of "'', ''" "map dumps xs"] printable_literals by simp
next
  case (JDict d)
  then have "list_all (list_all printable) (map (\<lambda>(k, v). quote_str k @ '': '' @ dumps v) d)"
    using printable_quote printable_literals by (fastforce simp: list_all_iff)
  then show ?case using printable_join [of "'', ''" "map (\<lambda>(k, v). quote_str k @ '': '' @ dumps v) d"] printable_literals
    by simp
qed (use printable_literals printable_quote printable_int in simp_all)

definition one_line :: "string \<Rightarrow> bool" where
  "one_line l = list_all (\<lambda>c. \<not> is_line_break c) l"

lemma lines_from_line: "one_line l \<Longrightarrow> lines_from acc (l @ nl @ rest) = (acc @ l) # lines_from [] rest"
proof (induction l arbitrary: acc)
  case Nil
  have "is_line_break CHR 0x0A" by code_simp
  then show ?case by (cases rest) (simp_all add: nl_def)
next
  case (Cons c l)
  have "\<not> is_line_break c" "c \<noteq> CHR 0x0D" using Cons.prems by (auto simp: one_line_def is_line_break_def)
  moreover obtain d ds where "l @ nl @ rest = d # ds" by (cases "l @ nl @ rest") (auto simp: nl_def)
  ultimately show ?case using Cons by (simp add: one_line_def)
qed

lemma lines_from_last: "one_line l \<Longrightarrow> acc @ l \<noteq> [] \<Longrightarrow> lines_from acc l = [acc @ l]"
proof (induction l arbitrary: acc)
  case (Cons c l)
  have "\<not> is_line_break c" "c \<noteq> CHR 0x0D" using Cons.prems by (auto simp: one_line_def is_line_break_def)
  then show ?case using Cons by (cases l) (simp_all add: one_line_def)
qed simp

lemma splitlines_join:
  "list_all one_line ls \<Longrightarrow> ls \<noteq> [] \<Longrightarrow> last ls \<noteq> [] \<Longrightarrow> splitlines (join nl ls) = ls"
proof (induction ls)
  case (Cons l ls)
  show ?case
  proof (cases "ls = []")
    case True
    then show ?thesis using Cons.prems lines_from_last [of l "[]"] by (simp add: splitlines_def)
  next
    case False
    then show ?thesis using Cons lines_from_line [of l "[]" "join nl ls"] by (simp add: splitlines_def join_Cons)
  qed
qed simp

lemma strip_fixed: "s \<noteq> [] \<Longrightarrow> \<not> is_space (hd s) \<Longrightarrow> \<not> is_space (last s) \<Longrightarrow> strip s = s"
  by (cases s) (simp_all add: strip_def strip_by_def rstrip_by_fixed)

definition fenced :: "string \<Rightarrow> string list \<Rightarrow> string" where
  "fenced lang ls = join nl ((FENCE @ lang) # ls @ [FENCE])"

lemma unfence_fenced:
  assumes "one_line lang" and "list_all one_line ls"
  shows "unfence (fenced lang ls) = join nl ls"
proof -
  have F: "one_line FENCE" "FENCE \<noteq> []" "strip FENCE = FENCE" "\<not> is_space (hd FENCE)" "\<not> is_space (last FENCE)"
    by code_simp+
  let ?ls = "(FENCE @ lang) # ls @ [FENCE]"
  have pre: "prefix FENCE (fenced lang ls)"
    unfolding fenced_def using join_prefix [of "FENCE @ lang"] by (auto simp: prefix_def)
  have suf: "suffix FENCE (fenced lang ls)"
    unfolding fenced_def using join_suffix [of FENCE nl "(FENCE @ lang) # ls"] by simp
  have "hd (fenced lang ls) = hd FENCE" "fenced lang ls \<noteq> []" using pre F(2) by (auto simp: prefix_def)
  moreover have "last (fenced lang ls) = last FENCE" using suf F(2) by (auto simp: suffix_def)
  ultimately have s: "strip (fenced lang ls) = fenced lang ls" using F by (simp add: strip_fixed)
  have l: "splitlines (fenced lang ls) = ?ls"
    unfolding fenced_def using assms F by (intro splitlines_join) (auto simp: one_line_def)
  have "fence_end ?ls (length ?ls) (length ?ls - 1) = Suc (length ls)"
    using F(3) by (simp add: nth_append)
  with pre s l show ?thesis by (simp add: unfence_def)
qed

text \<open>A pack inside a code fence, with any language tag, is read exactly as the same pack without it.\<close>

theorem fenced_pack:
  assumes "one_line lang" and "list_all one_line ls"
    and "strip (join nl ls) = join nl ls" and "\<not> prefix FENCE (join nl ls)"
  shows "normalize_pack dt now (fenced lang ls) key = normalize_pack dt now (join nl ls) key"
  using assms by (simp add: normalize_pack_def unfence_fenced) (simp add: unfence_def)

lemma fenced_pack_witness:
  "normalize_pack (\<lambda>_. Inl (ValidationError [])) 0 (fenced ''json'' [''{'', ''}'']) None =
   normalize_pack (\<lambda>_. Inl (ValidationError [])) 0 (join nl [''{'', ''}'']) None"
proof (rule fenced_pack)
  show "one_line ''json''" "list_all one_line [''{'', ''}'']" "strip (join nl [''{'', ''}'']) = join nl [''{'', ''}'']"
    "\<not> prefix FENCE (join nl [''{'', ''}''])" by code_simp+
qed

lemma plain_strs: "plain (strs xs)"
  by (simp add: strs_def list_all_iff)

lemma plain_opt: "plain (opt_str x)"
  by (cases x) (simp_all add: opt_str_def)

lemma plain_pack: "plain (pack_json p)"
proof -
  have "plain (test_case_json c)" for c
    by (simp add: test_case_json_def plain_strs plain_opt dict_ok_def)
  moreover have "plain (entry_json e)" for e
    by (simp add: entry_json_def plain_strs dict_ok_def)
  ultimately show ?thesis
    by (cases "tp_source_jira_key p") (simp_all add: pack_json_def plain_strs dict_ok_def list_all_iff)
qed

lemma unfence_dumps_dict: "unfence (dumps (JDict d)) = dumps (JDict d)"
proof -
  have b: "\<not> is_space CHR ''{''" "\<not> is_space CHR ''}''" by code_simp+
  have e: "dumps (JDict d) = CHR ''{'' # (join '', '' (map (\<lambda>(k, v). quote_str k @ '': '' @ dumps v) d) @ ''}'')" by simp
  have "strip (dumps (JDict d)) = dumps (JDict d)"
    unfolding e by (rule strip_fixed) (use b in simp_all)
  moreover have "\<not> prefix FENCE (dumps (JDict d))" unfolding e by (simp add: FENCE_def)
  ultimately show ?thesis by (simp add: unfence_def)
qed

lemma normalize_pack_dumps:
  assumes "wf_pack p" and "\<forall>k. key = Some k \<longrightarrow> contract_str k"
  shows "normalize_pack dt now (dumps (pack_json p)) key =
    (Some (p\<lparr>tp_generated_at := now,
        tp_source_jira_key := (case tp_source_jira_key p of None \<Rightarrow> given key | Some k \<Rightarrow> Some k)\<rparr>), [])"
proof -
  obtain d where d: "pack_json p = JDict d" "dict_get d ''story_summary'' \<noteq> None" "dict_get d ''test_cases'' \<noteq> None"
    by (simp add: pack_json_def)
  have "loads (dumps (JDict d)) = Inr (JDict d)"
    using json_roundtrip [THEN conjunct1, OF plain_pack [of p]] d(1) by simp
  then show ?thesis
    using pack_back [OF assms(1) d(1) assms(2)] d unfence_dumps_dict [of d]
    by (simp add: normalize_pack_def REQUIRED_TOP_LEVEL_def Let_def)
qed

section \<open>Properties of the pack normaliser\<close>

text \<open>C12: what a provider writes for a valid pack, bare or in a code fence, becomes that pack with the current
  time; the request's JIRA key is added where the pack names none.\<close>

theorem pack_roundtrip:
  assumes "wf_pack p" and "\<forall>k. key = Some k \<longrightarrow> contract_str k"
    and "raw = dumps (pack_json p) \<or> raw = fenced lang [dumps (pack_json p)] \<and> one_line lang"
  shows "normalize_pack dt now raw key =
    (Some (p\<lparr>tp_generated_at := now,
        tp_source_jira_key := (case tp_source_jira_key p of None \<Rightarrow> given key | Some k \<Rightarrow> Some k)\<rparr>), [])"
proof -
  have one: "one_line (dumps (pack_json p))"
    using printable_dumps [OF plain_pack] printable_no_break by (fastforce simp: one_line_def list_all_iff)
  obtain d where d: "pack_json p = JDict d" by (simp add: pack_json_def)
  have "normalize_pack dt now raw key = normalize_pack dt now (dumps (pack_json p)) key"
    using assms(3) unfence_fenced [of lang "[dumps (pack_json p)]"] one unfence_dumps_dict [of d] d
    by (auto simp: normalize_pack_def)
  with normalize_pack_dumps [OF assms(1,2)] show ?thesis by simp
qed

definition stub_pack :: test_case_pack where
  "stub_pack =
     \<lparr>tp_story_summary = ''Stub story summary'',
      tp_assumptions = [''Stub provider returns deterministic local test cases.''],
      tp_test_cases =
        [\<lparr>tc_id = ''TC-001'', tc_type = NEGATIVE, tc_title = ''Reject invalid login credentials'',
          tc_preconditions = [''User is on the login page''],
          tc_steps = [''Enter an invalid username or password'', ''Submit the login form''],
          tc_expected_result = ''The user remains on the login page and sees a validation error.'',
          tc_acceptance_criterion_ref = Some ''AC-001'', tc_tags = [''login'', ''negative'']\<rparr>],
      tp_traceability_matrix =
        [\<lparr>te_acceptance_criterion = ''Invalid credentials are rejected'', te_test_case_ids = [''TC-001'']\<rparr>],
      tp_coverage_summary = ''Covers one deterministic negative-path login scenario.'',
      tp_generated_at = 0, tp_source_jira_key = None, tp_test_types_covered = [NEGATIVE]\<rparr>"

lemma stub_pack_json: "pack_json stub_pack = DEFAULT_TEST_CASE_PACK"
  by (simp add: stub_pack_def pack_json_def test_case_json_def entry_json_def strs_def opt_str_def DEFAULT_TEST_CASE_PACK_def)

lemma wf_stub_pack: "wf_pack stub_pack"
  by code_simp

lemma pack_roundtrip_witness:
  "fst (normalize_pack (\<lambda>_. Inl (ValidationError [])) 5 (fenced ''json'' [dumps (pack_json stub_pack)]) (Some ''AB-1'')) =
     Some (stub_pack\<lparr>tp_generated_at := 5, tp_source_jira_key := Some ''AB-1''\<rparr>)"
proof -
  have k: "\<forall>k. Some ''AB-1'' = Some k \<longrightarrow> contract_str k" by (simp, code_simp)
  have "one_line ''json''" by code_simp
  then have "fenced ''json'' [dumps (pack_json stub_pack)] = dumps (pack_json stub_pack) \<or>
    fenced ''json'' [dumps (pack_json stub_pack)] = fenced ''json'' [dumps (pack_json stub_pack)] \<and> one_line ''json''"
    by simp
  from pack_roundtrip [OF wf_stub_pack k this, of "\<lambda>_. Inl (ValidationError [])" 5] show ?thesis
    by (simp add: stub_pack_def given_def)
qed

text \<open>A response with a key the pack model does not have is refused as a whole, although the normaliser only
  logs unknown keys; nothing of it is kept.\<close>

theorem unknown_key_fatal:
  assumes "loads (unfence raw) = Inr (JDict d)" and "k \<in> set (dict_keys d)" and "k \<notin> set PACK_FIELDS"
  shows "fst (normalize_pack dt now raw key) = None \<and> snd (normalize_pack dt now raw key) \<noteq> []"
proof -
  have "k \<in> set (dict_keys (with_source key d))"
    using assms(2) by (simp add: with_source_def dict_keys_def dom_update split: option.splits)
  then have "pack_of_dict dt now (with_source key d) = invalid ''extra''"
    using assms(3) by (auto simp: pack_of_dict_def no_extra_def invalid_def)
  then show ?thesis using assms(1) by (auto simp: normalize_pack_def Let_def invalid_def)
qed

lemma unknown_key_fatal_witness:
  "fst (normalize_pack (\<lambda>_. Inl (ValidationError [])) 0
     (dumps (JDict [(''story_summary'', JStr ''s''), (''test_cases'', JList []), (''notes'', JStr ''n'')])) None) = None"
proof -
  let ?d = "[(''story_summary'', JStr ''s''), (''test_cases'', JList []), (''notes'', JStr ''n'')]"
  have "loads (dumps (JDict ?d)) = Inr (JDict ?d)"
    by (rule json_roundtrip [THEN conjunct1]) (simp add: dict_ok_def)
  then have "loads (unfence (dumps (JDict ?d))) = Inr (JDict ?d)" by (simp only: unfence_dumps_dict)
  from unknown_key_fatal [OF this, of "''notes''"] show ?thesis by (simp add: dict_keys_def PACK_FIELDS_def)
qed

text \<open>The stub provider's test case pack is a valid pack for the normaliser, and the output guardrail of the
  same pipeline refuses it, because of its key \<open>test_types_covered\<close>.\<close>

theorem guardrail_blocks_valid_pack:
  "normalize_pack dt now (dumps DEFAULT_TEST_CASE_PACK) None = (Some (stub_pack\<lparr>tp_generated_at := now\<rparr>), []) \<and>
   \<not> gd_passed (check_output RuleBasedOutputGuardrail (dumps DEFAULT_TEST_CASE_PACK)) \<and>
   unknown_keys DEFAULT_TEST_CASE_PACK = [''test_types_covered'']"
proof -
  have "(stub_pack\<lparr>tp_generated_at := now,
        tp_source_jira_key := (case tp_source_jira_key stub_pack of None \<Rightarrow> given None | Some k \<Rightarrow> Some k)\<rparr>)
      = stub_pack\<lparr>tp_generated_at := now\<rparr>" by (simp add: stub_pack_def given_def)
  then show ?thesis
    using normalize_pack_dumps [OF wf_stub_pack, of None dt now] stub_pack_blocked by (simp add: stub_pack_json)
qed

lemma pack_xor_errors: "fst (normalize_pack dt now raw key) = None \<longleftrightarrow> snd (normalize_pack dt now raw key) \<noteq> []"
  by (auto simp: normalize_pack_def Let_def split: sum.splits json.splits)

section \<open>Properties of the prompt\<close>

lemma testgen_output_contract: "contract_str1 TESTGEN_OUTPUT_INSTRUCTION"
  by code_simp

lemma testgen_role_hd: "TESTGEN_ROLE_INTRO \<noteq> [] \<and> \<not> is_white_space (hd TESTGEN_ROLE_INTRO)"
  by code_simp

lemma testgen_system_text:
  "suffix TESTGEN_OUTPUT_INSTRUCTION (testgen_system ts) \<and> contract_str1 (testgen_system ts)"
proof -
  have pre: "prefix TESTGEN_ROLE_INTRO (testgen_system ts)" unfolding testgen_system_def by (rule join_prefix)
  have suf: "suffix TESTGEN_OUTPUT_INSTRUCTION (testgen_system ts)"
    unfolding testgen_system_def
    using join_suffix [of TESTGEN_OUTPUT_INSTRUCTION nl "[TESTGEN_ROLE_INTRO, [],
       ''## Requested Test Types: '' @ join '', '' (map test_type_value ts), [], ''## Output Format'']"] by simp
  have "hd (testgen_system ts) = hd TESTGEN_ROLE_INTRO" "testgen_system ts \<noteq> []"
    using pre testgen_role_hd by (auto simp: prefix_def)
  moreover have "last (testgen_system ts) = last TESTGEN_OUTPUT_INSTRUCTION"
    using suf testgen_output_contract by (auto simp: suffix_def contract_str1_def)
  ultimately have "trim (testgen_system ts) = testgen_system ts"
    using testgen_role_hd contract_str1_hd [OF testgen_output_contract] by (intro trim_fixed) simp_all
  with suf \<open>testgen_system ts \<noteq> []\<close> show ?thesis by (simp add: contract_str1_def)
qed

lemma testgen_build_ok:
  assumes "contract_str1 (gr_prompt q)"
  shows "testgen_build q p intent ts =
    Inr [\<lparr>pm_role = SYSTEM, pm_content = testgen_system ts\<rparr>, \<lparr>pm_role = USER, pm_content = trim (testgen_user q p intent ts)\<rparr>]"
    and "suffix (gr_prompt q) (trim (testgen_user q p intent ts))"
proof -
  have suf: "suffix (gr_prompt q) (testgen_user q p intent ts)"
    unfolding testgen_user_def
    using join_suffix [of "gr_prompt q" nl "testgen_story_parts (cp_jira_story p) @ rag_parts (cp_rag_chunks p) @ intent_parts intent
      @ concat (map (\<lambda>t. [SECTION_BUILDERS t, []]) ts) @ [''## Additional Requirements'']"] by simp
  show s: "suffix (gr_prompt q) (trim (testgen_user q p intent ts))" by (rule trim_suffix [OF suf assms])
  then have "trim (testgen_user q p intent ts) \<noteq> []" using assms by (auto simp: contract_str1_def)
  then show "testgen_build q p intent ts =
    Inr [\<lparr>pm_role = SYSTEM, pm_content = testgen_system ts\<rparr>, \<lparr>pm_role = USER, pm_content = trim (testgen_user q p intent ts)\<rparr>]"
    using testgen_system_text [of ts]
    by (simp add: testgen_build_def two_messages_def mk_message_def validate_str1_def contract_str1_def)
qed

lemma dropWhile_middle: "x \<noteq> [] \<Longrightarrow> \<not> P (hd x) \<Longrightarrow> dropWhile P (a @ x @ b) = dropWhile P a @ x @ b"
  by (induction a) (cases x, auto)

lemma sublist_trim:
  assumes "sublist x s" and "contract_str1 x"
  shows "sublist x (trim s)"
proof -
  obtain a b where s: "s = a @ x @ b" using assms(1) by (auto simp: sublist_def)
  have x: "x \<noteq> []" "\<not> is_white_space (hd x)" "\<not> is_white_space (last x)"
    using contract_str1_hd [OF assms(2)] assms(2) by (auto simp: contract_str1_def)
  let ?W = is_white_space and ?c = "rev (dropWhile is_white_space a)"
  have "dropWhile ?W s = dropWhile ?W a @ x @ b" unfolding s using x(1,2) by (rule dropWhile_middle)
  then have "trim s = rev (dropWhile ?W (rev b @ rev x @ ?c))" by (simp add: trim_def strip_by_def rstrip_by_def)
  also have "\<dots> = rev (dropWhile ?W (rev b) @ rev x @ ?c)"
    using x by (subst dropWhile_middle) (simp_all add: hd_rev)
  finally show ?thesis by (simp add: sublist_def) blast
qed

lemma section_contract: "contract_str1 (SECTION_BUILDERS t)"
proof -
  have "contract_str1 (SECTION_BUILDERS FUNCTIONAL)" "contract_str1 (SECTION_BUILDERS NEGATIVE)"
    "contract_str1 (SECTION_BUILDERS EDGE_CASE)" "contract_str1 (SECTION_BUILDERS API)"
    "contract_str1 (SECTION_BUILDERS REGRESSION)"
    by code_simp+
  then show ?thesis by (cases t) simp_all
qed

text \<open>C38: the test case prompt of a valid request is two valid messages; the first ends with the output schema,
  the second ends with the request's own prompt and has the instructions of every routed test type and
  every acceptance criterion of the story.\<close>

theorem testgen_prompt_complete:
  assumes "contract_str1 (gr_prompt q)"
    and "\<forall>st ac. cp_jira_story p = Some st \<and> ac \<in> set (js_acceptance_criteria st) \<longrightarrow> contract_str1 (jc_text ac)"
  shows "\<exists>s u. testgen_build q p intent ts =
      Inr [\<lparr>pm_role = SYSTEM, pm_content = s\<rparr>, \<lparr>pm_role = USER, pm_content = u\<rparr>] \<and>
    suffix TESTGEN_OUTPUT_INSTRUCTION s \<and> suffix (gr_prompt q) u \<and>
    (\<forall>t \<in> set ts. sublist (SECTION_BUILDERS t) u) \<and>
    (\<forall>st ac. cp_jira_story p = Some st \<and> ac \<in> set (js_acceptance_criteria st) \<longrightarrow> sublist (jc_text ac) u)"
proof -
  let ?u = "trim (testgen_user q p intent ts)"
  have "sublist (SECTION_BUILDERS t) (testgen_user q p intent ts)" if "t \<in> set ts" for t
    unfolding testgen_user_def using that by (intro join_sublist) auto
  then have secs: "\<forall>t \<in> set ts. sublist (SECTION_BUILDERS t) ?u" using sublist_trim section_contract by blast
  have "sublist (jc_text ac) ?u" if st: "cp_jira_story p = Some st" "ac \<in> set (js_acceptance_criteria st)" for st ac
  proof -
    have "''- ['' @ nat_str (jc_index ac) @ ''] '' @ jc_text ac \<in> set (testgen_story_parts (cp_jira_story p))"
      using st by (auto simp: testgen_story_parts_def)
    then have "sublist (''- ['' @ nat_str (jc_index ac) @ ''] '' @ jc_text ac) (testgen_user q p intent ts)"
      unfolding testgen_user_def by (intro join_sublist) simp
    then have "sublist (jc_text ac) (testgen_user q p intent ts)"
      by (metis append_assoc sublist_append_leftI sublist_order.order.trans sublist_order.order_refl)
    then show ?thesis using sublist_trim assms(2) st by blast
  qed
  with secs testgen_build_ok [OF assms(1)] testgen_system_text show ?thesis by blast
qed

definition demo_empty_plan :: context_plan where
  "demo_empty_plan =
     \<lparr>cp_context_plan_id = ''p'', cp_tenant_id = ''t'', cp_application_id = ''a'', cp_request_id = ''r'',
      cp_selected_skills = [], cp_selected_memories = [], cp_skill_ids = [], cp_memory_ids = [], cp_excluded = [],
      cp_token_budget = \<lparr>tb_max_input_tokens = 0, tb_estimated_input_tokens = 0, tb_baseline_estimate = 0, tb_estimated_tokens_saved = 0\<rparr>,
      cp_jira_story = None, cp_rag_chunks = []\<rparr>"

lemma testgen_prompt_complete_witness:
  "\<exists>u. suffix ''test login'' u \<and> sublist (SECTION_BUILDERS API) u"
proof -
  have "contract_str1 (gr_prompt (demo_qa ''test login'' None))" by code_simp
  from testgen_prompt_complete [OF this, of demo_empty_plan None "[API]"] show ?thesis
    by (auto simp: demo_empty_plan_def demo_qa_def)
qed

end
