(* ===== verification/Tables.thy ===== *)
theory Tables
  imports Prelude
begin

text \<open>
  What the Postgres repositories use of SQL, over tables as lists of rows: an
  \<open>insert ... on conflict\<close>, an \<open>update ... where\<close> with the number of rows it changed, a lookup by
  key, and an \<open>order by ... desc limit ... offset\<close>. The interface \<open>upsert_table\<close> states what a
  repository relies on when it writes a row back over an older one; every repository interprets it
  on its own key and its own set of overwritten columns.
\<close>

section \<open>Statements\<close>

text \<open>\<open>insert into t values (row) on conflict (key) do update set ...\<close>; \<open>merge old new\<close> is the row
  the update leaves, \<open>old\<close> itself for \<open>do nothing\<close>.\<close>

definition put_row :: "('r \<Rightarrow> 'k) \<Rightarrow> ('r \<Rightarrow> 'r \<Rightarrow> 'r) \<Rightarrow> 'r \<Rightarrow> 'r list \<Rightarrow> 'r list" where
  "put_row key merge row rows =
     (if \<exists>x \<in> set rows. key x = key row
      then map (\<lambda>x. if key x = key row then merge x row else x) rows
      else rows @ [row])"

text \<open>\<open>update t set ... where P\<close>: the number of rows and the table.\<close>

definition update_where :: "('r \<Rightarrow> bool) \<Rightarrow> ('r \<Rightarrow> 'r) \<Rightarrow> 'r list \<Rightarrow> nat \<times> 'r list" where
  "update_where P f rows = (length (filter P rows), map (\<lambda>x. if P x then f x else x) rows)"

text \<open>\<open>select * from t where P order by time desc limit n offset k\<close>. Rows of equal time keep the order
  of the table here; SQL leaves their order open.\<close>

definition newest_first :: "('r \<Rightarrow> rat) \<Rightarrow> ('r \<Rightarrow> bool) \<Rightarrow> 'r list \<Rightarrow> 'r list" where
  "newest_first time P rows = sort_key (\<lambda>x. - time x) (filter P rows)"

definition page :: "nat \<Rightarrow> nat \<Rightarrow> 'a list \<Rightarrow> 'a list" where
  "page n k xs = take n (drop k xs)"

section \<open>Lemmas\<close>

lemma list_all2_left: "list_all2 P xs ys \<Longrightarrow> x \<in> set xs \<Longrightarrow> \<exists>y \<in> set ys. P x y"
  by (induction rule: list_all2_induct) auto

lemma list_all2_right: "list_all2 P xs ys \<Longrightarrow> y \<in> set ys \<Longrightarrow> \<exists>x \<in> set xs. P x y"
  by (induction rule: list_all2_induct) auto

lemma newest_first_set [simp]: "set (newest_first time P rows) = {x \<in> set rows. P x}"
  by (auto simp: newest_first_def)

lemma newest_first_length: "length (newest_first time P rows) = length (filter P rows)"
  by (simp add: newest_first_def)

lemma newest_first_sorted: "sorted_wrt (\<ge>) (map time (newest_first time P rows))"
proof -
  have "sorted (map (\<lambda>x. - time x) (newest_first time P rows))"
    by (simp add: newest_first_def)
  then show ?thesis
    by (simp add: sorted_map sorted_wrt_map)
qed

lemma page_set: "set (page n k xs) \<subseteq> set xs"
  unfolding page_def by (meson in_set_dropD in_set_takeD subsetI)

lemma page_length: "length (page n k xs) = min n (length xs - k)"
  by (simp add: page_def min.commute)

text \<open>Reading a list page by page, each page starting where the last one ended, reads all of it.\<close>

lemma pages_concat: "concat (map (\<lambda>i. page n (i * n) xs) [0..<m]) = take (m * n) xs"
proof (induction m)
  case (Suc m)
  then show ?case by (simp add: page_def take_add [symmetric] add.commute)
qed simp

lemma update_where_map:
  "(\<And>x. g (f x) = g x) \<Longrightarrow> map g (snd (update_where P f rows)) = map g rows"
  by (simp add: update_where_def)

lemma update_where_none: "fst (update_where P f rows) = 0 \<Longrightarrow> snd (update_where P f rows) = rows"
  by (auto simp: update_where_def filter_empty_conv intro: map_idI)

lemma distinct_key_inj: "distinct (map key rows) \<Longrightarrow> x \<in> set rows \<Longrightarrow> y \<in> set rows \<Longrightarrow> key x = key y \<Longrightarrow> x = y"
  by (simp add: distinct_map inj_on_def)

lemma find_iff_distinct:
  assumes "distinct (map key rows)"
  shows "find (\<lambda>x. key x = k \<and> P x) rows = Some r \<longleftrightarrow> r \<in> set rows \<and> key r = k \<and> P r"
  using assms by (induction rows) (auto simp: image_iff)

lemma find_append: "find P (xs @ ys) = (case find P xs of None \<Rightarrow> find P ys | Some x \<Rightarrow> Some x)"
  by (induction xs) auto

section \<open>Tables with a key\<close>

locale upsert_table =
  fixes key :: "'r \<Rightarrow> 'k" and merge :: "'r \<Rightarrow> 'r \<Rightarrow> 'r"
  assumes merge_key: "key old = key new \<Longrightarrow> key (merge old new) = key new"
begin

lemma put_keys:
  "map key (put_row key merge r rows) =
     (if key r \<in> set (map key rows) then map key rows else map key rows @ [key r])"
proof (cases "key r \<in> set (map key rows)")
  case True
  then have "\<exists>x \<in> set rows. key x = key r" by auto
  then show ?thesis using True merge_key by (auto simp: put_row_def)
next
  case False
  then show ?thesis by (auto simp: put_row_def image_iff)
qed

lemma put_distinct: "distinct (map key rows) \<Longrightarrow> distinct (map key (put_row key merge r rows))"
  unfolding put_keys by auto

lemma puts_distinct:
  "distinct (map key rows) \<Longrightarrow> distinct (map key (fold (put_row key merge) rs rows))"
  by (induction rs arbitrary: rows) (auto simp: put_distinct)

lemma put_other:
  "key x \<noteq> key r \<Longrightarrow> x \<in> set (put_row key merge r rows) \<longleftrightarrow> x \<in> set rows"
  using merge_key by (auto simp: put_row_def image_iff)

lemma puts_other:
  "(\<forall>r \<in> set rs. key r \<noteq> key x) \<Longrightarrow> x \<in> set (fold (put_row key merge) rs rows) \<longleftrightarrow> x \<in> set rows"
proof (induction rs arbitrary: rows)
  case (Cons r rs)
  then have "key x \<noteq> key r" by auto
  with Cons show ?case by (simp add: put_other)
qed simp

text \<open>Rows with fresh, distinct keys are appended as they are.\<close>

lemma puts_fresh:
  "distinct (map key rs) \<Longrightarrow> (\<forall>r \<in> set rs. key r \<notin> key ` set rows) \<Longrightarrow>
   fold (put_row key merge) rs rows = rows @ rs"
proof (induction rs arbitrary: rows)
  case (Cons r rs)
  then have "\<not> (\<exists>x \<in> set rows. key x = key r)" by (auto simp: image_iff)
  then have "put_row key merge r rows = rows @ [r]" by (simp add: put_row_def)
  moreover have "\<forall>x \<in> set rs. key x \<notin> key ` set (rows @ [r])" using Cons.prems by (auto simp: image_iff)
  ultimately show ?case using Cons.IH [of "rows @ [r]"] Cons.prems(1) by simp
qed simp

text \<open>What a lookup finds after a write.\<close>

lemma put_lookup:
  assumes "distinct (map key rows)"
  shows "find (\<lambda>x. key x = k) (put_row key merge r rows) =
    (if k = key r
     then Some (case find (\<lambda>x. key x = k) rows of None \<Rightarrow> r | Some old \<Rightarrow> merge old r)
     else find (\<lambda>x. key x = k) rows)"
proof -
  have f: "find (\<lambda>x. key x = k) (map (\<lambda>x. if key x = key r then merge x r else x) rows) =
    (if k = key r then map_option (\<lambda>old. merge old r) (find (\<lambda>x. key x = k) rows) else find (\<lambda>x. key x = k) rows)"
    for rows
    using merge_key by (induction rows) auto
  show ?thesis
  proof (cases "\<exists>x \<in> set rows. key x = key r")
    case True
    then have "find (\<lambda>x. key x = key r) rows \<noteq> None" by (auto simp: find_None_iff)
    with True show ?thesis by (auto simp: put_row_def f)
  next
    case False
    then have "find (\<lambda>x. key x = key r) rows = None" by (auto simp: find_None_iff)
    then show ?thesis using False by (auto simp: put_row_def find_append split: option.splits)
  qed
qed

end

end
