(* ===== verification/Rag.thy ===== *)
theory Rag
  imports Testgen Tables
begin

text \<open>
  \<open>totalrecall/testgen/rag\<close>: splitting documents into overlapping chunks and ingesting them, the embedders,
  the stores and their factory. The table \<open>rag_chunks\<close> is a list of rows; the SQL of the store is written
  out on it. Parameters: the embeddings service (\<open>rx_post\<close>: \<open>httpx.post\<close>, \<open>raise_for_status\<close> and \<open>json\<close>),
  pgvector's distance \<open><=>\<close> (\<open>rx_dist\<close>) and whether the database answers (\<open>rx_db\<close>). Rows at the same
  distance come back in table order.
\<close>

section \<open>ingest.py\<close>

definition CHUNK_SIZE :: int where
  "CHUNK_SIZE = 512"

definition OVERLAP :: int where
  "OVERLAP = 64"

text \<open>The \<open>while\<close> loop; \<open>None\<close> when it does not end.\<close>

partial_function (option) chunk_loop ::
  "string list \<Rightarrow> int \<Rightarrow> int \<Rightarrow> int \<Rightarrow> string list \<Rightarrow> string list option" where
  "chunk_loop ws width overlap start chunks =
     (if start < int (length ws)
      then (let end1 = min (start + width) (int (length ws));
                chunks1 = chunks @ [join '' '' (py_slice ws start end1)]
            in if end1 = int (length ws) then Some chunks1
               else chunk_loop ws width overlap (start + (width - overlap)) chunks1)
      else Some chunks)"

definition chunk_text :: "string \<Rightarrow> int \<Rightarrow> int \<Rightarrow> string list option" where
  "chunk_text t width overlap =
     (let ws = split_ws t in if ws = [] then Some [] else chunk_loop ws width overlap 0 [])"

section \<open>Embedders\<close>

record 'p rag_ext =
  rx_post :: "string \<Rightarrow> string \<Rightarrow> json \<Rightarrow> 'p \<Rightarrow> json result \<times> 'p"
  rx_dist :: "string \<Rightarrow> string \<Rightarrow> rat"
  rx_db :: "string \<Rightarrow> unit result"

datatype embedder = OpenAIEmbedder string string | StubEmbedder

definition EMBEDDING_DIMS :: nat where
  "EMBEDDING_DIMS = 1536"

definition EMBEDDING_MODEL :: string where
  "EMBEDDING_MODEL = ''text-embedding-3-small''"

definition mk_openai_embedder :: "string \<Rightarrow> string \<Rightarrow> embedder" where
  "mk_openai_embedder key url = OpenAIEmbedder key (rstrip_chr ''/'' url)"

definition subscript :: "json \<Rightarrow> string \<Rightarrow> json result" where
  "subscript j k =
     (case j of JDict d \<Rightarrow> (case dict_get d k of None \<Rightarrow> Inl (KeyError k) | Some x \<Rightarrow> Inr x)
      | _ \<Rightarrow> Inl (TypeError ''indices''))"

definition number_of :: "json \<Rightarrow> rat result" where
  "number_of j =
     (case j of JInt i \<Rightarrow> Inr (of_int i) | JFloat r \<Rightarrow> Inr r | JBool b \<Rightarrow> Inr (if b then 1 else 0)
      | _ \<Rightarrow> Inl (TypeError ''unorderable''))"

definition embeddings_of :: "json \<Rightarrow> json list result" where
  "embeddings_of body =
     rbind (subscript body ''data'') (\<lambda>data.
       (case data of
          JList items \<Rightarrow>
            rbind (rmap (\<lambda>d. rbind (subscript d ''index'') (\<lambda>i. rbind (number_of i) (\<lambda>n. Inr (n, d)))) items) (\<lambda>keyed.
              rmap (\<lambda>(n, d). subscript d ''embedding'') (sort_key fst keyed))
        | _ \<Rightarrow> Inl (OtherError ''AttributeError'' ''sort'')))"

fun embed_batch :: "'p rag_ext \<Rightarrow> embedder \<Rightarrow> string list \<Rightarrow> 'p \<Rightarrow> json list result \<times> 'p" where
  "embed_batch X StubEmbedder texts r = (Inr (map (\<lambda>_. JList (replicate EMBEDDING_DIMS (JFloat 0))) texts), r)"
| "embed_batch X (OpenAIEmbedder key url) texts r =
     (case rx_post X (url @ ''/v1/embeddings'') (''Bearer '' @ key)
             (JDict [(''model'', JStr EMBEDDING_MODEL), (''input'', JList (map JStr texts))]) r of
        (Inl e, r1) \<Rightarrow> (Inl e, r1)
      | (Inr body, r1) \<Rightarrow> (embeddings_of body, r1))"

definition embed :: "'p rag_ext \<Rightarrow> embedder \<Rightarrow> string \<Rightarrow> 'p \<Rightarrow> json result \<times> 'p" where
  "embed X e t r =
     (case embed_batch X e [t] r of
        (Inl x, r1) \<Rightarrow> (Inl x, r1)
      | (Inr [], r1) \<Rightarrow> (Inl (IndexError ''list index out of range''), r1)
      | (Inr (v # _), r1) \<Rightarrow> (Inr v, r1))"

definition vec_str :: "json \<Rightarrow> string result" where
  "vec_str j =
     (case j of
        JList xs \<Rightarrow> Inr (''['' @ join '','' (map py_str xs) @ '']'')
      | JStr s \<Rightarrow> Inr (''['' @ join '','' (map (\<lambda>c. [c]) s) @ '']'')
      | JDict d \<Rightarrow> Inr (''['' @ join '','' (dict_keys d) @ '']'')
      | _ \<Rightarrow> Inl (TypeError ''not iterable''))"

section \<open>Stores\<close>

record rag_row =
  rw_id :: string
  rw_tenant_id :: string
  rw_source_ref :: string
  rw_chunk_index :: nat
  rw_chunk_text :: string
  rw_metadata :: "(string, json) dict"
  rw_embedding :: string

datatype rag_store = PgvectorRagStore string embedder | StubRagStore "rag_chunk list" | NullRagStore

definition mk_chunk :: "string \<Rightarrow> string \<Rightarrow> string \<Rightarrow> rat \<Rightarrow> (string, json) dict \<Rightarrow> rag_chunk result" where
  "mk_chunk cid ref txt sim meta =
     rbind (validate_str1 ''chunk_id'' cid) (\<lambda>c.
     rbind (validate_str1 ''source_ref'' ref) (\<lambda>s.
     rbind (validate_str1 ''chunk_text'' txt) (\<lambda>x.
       if sim < 0 \<or> 1 < sim then Inl (ValidationError ''similarity'')
       else Inr \<lparr>rc_chunk_id = c, rc_source_ref = s, rc_chunk_text = x, rc_similarity = sim, rc_metadata = meta\<rparr>)))"

text \<open>\<open>SELECT ... WHERE tenant_id = .. ORDER BY embedding <=> .. LIMIT ..\<close>.\<close>

definition nearest_rows :: "'p rag_ext \<Rightarrow> rag_row list \<Rightarrow> string \<Rightarrow> string \<Rightarrow> nat \<Rightarrow> rag_row list" where
  "nearest_rows X db vec tenant limit =
     take limit (sort_key (\<lambda>row. rx_dist X (rw_embedding row) vec) (filter (\<lambda>row. rw_tenant_id row = tenant) db))"

definition row_chunk :: "'p rag_ext \<Rightarrow> string \<Rightarrow> rag_row \<Rightarrow> rag_chunk result" where
  "row_chunk X vec row =
     mk_chunk (rw_id row) (rw_source_ref row) (rw_chunk_text row) (1 - rx_dist X (rw_embedding row) vec) (rw_metadata row)"

definition pg_retrieve ::
  "'p rag_ext \<Rightarrow> rag_row list \<Rightarrow> string \<Rightarrow> embedder \<Rightarrow> string \<Rightarrow> string \<Rightarrow> nat \<Rightarrow> 'p \<Rightarrow> rag_chunk list result \<times> 'p" where
  "pg_retrieve X db dsn e query tenant limit r =
     (case embed X e query r of
        (Inl x, r1) \<Rightarrow> (Inl x, r1)
      | (Inr v, r1) \<Rightarrow>
          (rbind (vec_str v) (\<lambda>vec. rbind (rx_db X dsn) (\<lambda>_.
             rmap (row_chunk X vec) (nearest_rows X db vec tenant limit))), r1))"

fun rag_retrieve ::
  "'p rag_ext \<Rightarrow> rag_row list \<Rightarrow> rag_store \<Rightarrow> string \<Rightarrow> string \<Rightarrow> nat \<Rightarrow> 'p \<Rightarrow> rag_chunk list result \<times> 'p" where
  "rag_retrieve X db (PgvectorRagStore dsn e) query tenant limit r = pg_retrieve X db dsn e query tenant limit r"
| "rag_retrieve X db (StubRagStore chunks) query tenant limit r = (Inr (take limit chunks), r)"
| "rag_retrieve X db NullRagStore query tenant limit r = (Inr [], r)"

text \<open>\<open>INSERT ... ON CONFLICT (tenant_id, source_ref, chunk_index) DO UPDATE\<close>.\<close>

definition row_key :: "rag_row \<Rightarrow> string \<times> string \<times> nat" where
  "row_key row = (rw_tenant_id row, rw_source_ref row, rw_chunk_index row)"

definition upsert_row :: "rag_row list \<Rightarrow> rag_row \<Rightarrow> rag_row list" where
  "upsert_row db new =
     (if row_key new \<in> set (map row_key db)
      then map (\<lambda>row. if row_key row = row_key new
                      then row\<lparr>rw_chunk_text := rw_chunk_text new, rw_metadata := rw_metadata new, rw_embedding := rw_embedding new\<rparr>
                      else row) db
      else db @ [new])"

definition new_rows :: "(nat \<Rightarrow> string) \<Rightarrow> (rag_ingest_request \<times> json) list \<Rightarrow> rag_row list result" where
  "new_rows uuid pairs =
     rmap (\<lambda>(i, c, v). rbind (vec_str v) (\<lambda>vec. Inr
        \<lparr>rw_id = uuid i, rw_tenant_id = rq_tenant_id c, rw_source_ref = rq_source_ref c, rw_chunk_index = rq_chunk_index c,
         rw_chunk_text = rq_chunk_text c, rw_metadata = rq_metadata c, rw_embedding = vec\<rparr>)) (enumerate 0 pairs)"

definition pg_ingest ::
  "'p rag_ext \<Rightarrow> (nat \<Rightarrow> string) \<Rightarrow> string \<Rightarrow> embedder \<Rightarrow> rag_ingest_request list \<Rightarrow> rag_row list \<Rightarrow> 'p
   \<Rightarrow> nat result \<times> rag_row list \<times> 'p" where
  "pg_ingest X uuid dsn e chunks db r =
     (if chunks = [] then (Inr 0, db, r)
      else (case embed_batch X e (map rq_chunk_text chunks) r of
              (Inl x, r1) \<Rightarrow> (Inl x, db, r1)
            | (Inr vs, r1) \<Rightarrow>
                (case rbind (new_rows uuid (zip chunks vs)) (\<lambda>rows. rbind (rx_db X dsn) (\<lambda>_. Inr rows)) of
                   Inl x \<Rightarrow> (Inl x, db, r1)
                 | Inr rows \<Rightarrow> (Inr (length rows), foldl upsert_row db rows, r1))))"

fun rag_ingest ::
  "'p rag_ext \<Rightarrow> (nat \<Rightarrow> string) \<Rightarrow> rag_store \<Rightarrow> rag_ingest_request list \<Rightarrow> rag_row list \<Rightarrow> 'p
   \<Rightarrow> nat result \<times> rag_row list \<times> 'p" where
  "rag_ingest X uuid (PgvectorRagStore dsn e) chunks db r = pg_ingest X uuid dsn e chunks db r"
| "rag_ingest X uuid (StubRagStore _) chunks db r = (Inr (length chunks), db, r)"
| "rag_ingest X uuid NullRagStore chunks db r = (Inr 0, db, r)"

fun rag_health :: "'p rag_ext \<Rightarrow> rag_store \<Rightarrow> (string, string) dict" where
  "rag_health X (PgvectorRagStore dsn e) =
     (case rx_db X dsn of Inr _ \<Rightarrow> [(''status'', ''ok'')] | Inl x \<Rightarrow> [(''status'', ''error''), (''detail'', exn_str x)])"
| "rag_health X (StubRagStore _) = [(''status'', ''ok''), (''adapter'', ''stub'')]"
| "rag_health X NullRagStore = [(''status'', ''disabled'')]"

section \<open>The ingest runner and the factory\<close>

definition path_name :: "string \<Rightarrow> string" where
  "path_name p = (let parts = filter (\<lambda>x. x \<noteq> [] \<and> x \<noteq> ''.'') (split_chr CHR ''/'' p) in if parts = [] then [] else last parts)"

definition mk_ingest_request :: "string \<Rightarrow> string \<Rightarrow> nat \<Rightarrow> string \<Rightarrow> rag_ingest_request result" where
  "mk_ingest_request tenant ref i txt =
     rbind (validate_str1 ''source_ref'' ref) (\<lambda>s.
     rbind (validate_str1 ''chunk_text'' txt) (\<lambda>x. Inr
       \<lparr>rq_tenant_id = trim tenant, rq_source_ref = s, rq_chunk_index = i, rq_chunk_text = x, rq_metadata = []\<rparr>))"

definition ingest_requests :: "string \<Rightarrow> string \<Rightarrow> string list \<Rightarrow> rag_ingest_request list result" where
  "ingest_requests tenant ref chunks = rmap (\<lambda>(i, c). mk_ingest_request tenant ref i c) (enumerate 0 chunks)"

text \<open>\<open>RagIngestRunner.ingest_file\<close>; \<open>None\<close> if the chunking does not end.\<close>

definition ingest_file ::
  "'p rag_ext \<Rightarrow> (nat \<Rightarrow> string) \<Rightarrow> fs \<Rightarrow> rag_store \<Rightarrow> string \<Rightarrow> string \<Rightarrow> rag_row list \<Rightarrow> 'p
   \<Rightarrow> (nat result \<times> rag_row list \<times> 'p) option" where
  "ingest_file X uuid fs st tenant path db r =
     (case dict_get fs path of
        None \<Rightarrow> Some (Inl (OtherError ''FileNotFoundError'' path), db, r)
      | Some t \<Rightarrow>
          (case chunk_text t CHUNK_SIZE OVERLAP of
             None \<Rightarrow> None
           | Some chunks \<Rightarrow>
               Some (case ingest_requests tenant (path_name path) chunks of
                       Inl x \<Rightarrow> (Inl x, db, r)
                     | Inr reqs \<Rightarrow> rag_ingest X uuid st reqs db r)))"

definition build_rag_store ::
  "env \<Rightarrow> http \<Rightarrow> fs \<Rightarrow> rat \<Rightarrow> credential_provider option \<Rightarrow> flag_provider \<Rightarrow> rag_store \<times> flag_provider" where
  "build_rag_store env http fs now cp p =
     (case get_bool http fs now ''rag.enabled'' False p of
        (enabled, p1) \<Rightarrow>
          if \<not> enabled then (NullRagStore, p1)
          else
            (case get_string http fs now ''rag.adapter'' ''null'' p1 of
               (adapter, p2) \<Rightarrow>
                 if adapter = ''stub'' then (StubRagStore [], p2)
                 else if adapter = ''pgvector'' then
                   (case get_string http fs now ''rag.dsn'' [] p2 of
                      (dsn, p3) \<Rightarrow>
                        (let key = (case cp of None \<Rightarrow> []
                               | Some c \<Rightarrow> (case credential_get env http fs c ''openai_api_key'' of Inl _ \<Rightarrow> [] | Inr k \<Rightarrow> k))
                         in (PgvectorRagStore dsn (mk_openai_embedder key ''https://api.openai.com''), p3)))
                 else (NullRagStore, p2)))"

section \<open>Chunking\<close>

text \<open>The windows of the loop: none is longer than the width, and dropping the overlap from all but the first
  gives the words back.\<close>

lemma chunk_loop_windows:
  assumes "0 \<le> overlap" "overlap < width"
  shows "0 \<le> start \<Longrightarrow> start < int (length ws) \<Longrightarrow>
    \<exists>wins. chunk_loop ws width overlap start acc = Some (acc @ map (join '' '') wins) \<and> wins \<noteq> [] \<and>
      length (hd wins) = min (nat width) (length ws - nat start) \<and>
      (\<forall>x \<in> set wins. x \<noteq> [] \<and> length x \<le> nat width \<and> set x \<subseteq> set ws) \<and>
      hd wins @ concat (map (drop (nat overlap)) (tl wins)) = drop (nat start) ws"
proof (induction "length ws - nat start" arbitrary: start acc rule: less_induct)
  case less
  let ?e = "min (start + width) (int (length ws))"
  have sl: "py_slice ws start ?e = take (nat ?e - nat start) (drop (nat start) ws)"
    using less.prems assms by (intro py_slice_nat) auto
  have len: "nat ?e - nat start = min (nat width) (length ws - nat start)" using less.prems assms by auto
  let ?w = "take (min (nat width) (length ws - nat start)) (drop (nat start) ws)"
  have w: "?w \<noteq> []" "length ?w = min (nat width) (length ws - nat start)" "set ?w \<subseteq> set ws"
    using less.prems assms by (auto dest: in_set_takeD in_set_dropD)
  show ?case
  proof (cases "?e = int (length ws)")
    case True
    then have "chunk_loop ws width overlap start acc = Some (acc @ map (join '' '') [?w])"
      using less.prems sl len by (subst chunk_loop.simps) simp
    moreover have "?w = drop (nat start) ws" using True less.prems by auto
    ultimately show ?thesis using w by (intro exI [of _ "[?w]"]) simp
  next
    case False
    let ?s = "start + (width - overlap)"
    have s: "0 \<le> ?s" "?s < int (length ws)" "length ws - nat ?s < length ws - nat start"
      using False less.prems assms by auto
    obtain wins where wins: "chunk_loop ws width overlap ?s (acc @ [join '' '' ?w]) = Some ((acc @ [join '' '' ?w]) @ map (join '' '') wins)"
        "wins \<noteq> []" "length (hd wins) = min (nat width) (length ws - nat ?s)"
        "\<forall>x \<in> set wins. x \<noteq> [] \<and> length x \<le> nat width \<and> set x \<subseteq> set ws"
        "hd wins @ concat (map (drop (nat overlap)) (tl wins)) = drop (nat ?s) ws"
      using less.hyps [OF s(3,1,2), of "acc @ [join '' '' ?w]"] by blast
    have "chunk_loop ws width overlap start acc = chunk_loop ws width overlap ?s (acc @ [join '' '' ?w])"
      unfolding len [symmetric] sl [symmetric] using less.prems False by (subst chunk_loop.simps) (simp only: Let_def if_True if_False)
    with wins(1) have run: "chunk_loop ws width overlap start acc = Some (acc @ map (join '' '') (?w # wins))" by simp
    have "overlap \<le> int (length ws) - ?s" "overlap \<le> width" using False less.prems assms by simp_all
    then have "nat overlap \<le> nat width" "nat overlap \<le> length ws - nat ?s" using s by linarith+
    then have ov: "nat overlap \<le> length (hd wins)" using wins(3) by simp
    obtain h hs where hs: "wins = h # hs" using wins(2) by (cases wins) auto
    have "concat (map (drop (nat overlap)) wins) = drop (nat overlap) (h @ concat (map (drop (nat overlap)) hs))"
      using ov hs by simp
    also have "\<dots> = drop (nat overlap) (drop (nat ?s) ws)" using wins(5) hs by simp
    also have "\<dots> = drop (nat (start + width)) ws"
      using assms less.prems by (simp add: nat_add_distrib [symmetric])
    also have "\<dots> = drop (nat width) (drop (nat start) ws)" using assms less.prems by (simp add: nat_add_distrib add.commute)
    finally have tail: "concat (map (drop (nat overlap)) wins) = drop (nat width) (drop (nat start) ws)" .
    have "?w = take (nat width) (drop (nat start) ws)" using False less.prems assms by (simp add: min_def)
    then have "?w @ concat (map (drop (nat overlap)) wins) = drop (nat start) ws"
      unfolding tail by (simp only: append_take_drop_id)
    with run w wins(4) show ?thesis by (intro exI [of _ "?w # wins"]) simp
  qed
qed

lemma chunk_loop_diverges:
  assumes "chunk_loop ws width overlap start acc = Some cs"
  shows "width \<le> overlap \<longrightarrow> int (length ws) \<le> start + width \<or> int (length ws) \<le> start"
proof (rule chunk_loop.raw_induct [OF _ assms,
    where P = "\<lambda>ws width overlap start acc cs. width \<le> overlap \<longrightarrow> int (length ws) \<le> start + width \<or> int (length ws) \<le> start"])
  fix loop ws width overlap start acc cs
  assume IH: "\<And>ws width overlap start acc cs. loop ws width overlap start acc = Some cs \<Longrightarrow>
      width \<le> overlap \<longrightarrow> int (length ws) \<le> start + width \<or> int (length ws) \<le> start"
    and run: "(if start < int (length ws)
      then (let end1 = min (start + width) (int (length ws)); chunks1 = acc @ [join '' '' (py_slice ws start end1)]
            in if end1 = int (length ws) then Some chunks1 else loop ws width overlap (start + (width - overlap)) chunks1)
      else Some acc) = Some (cs :: string list)"
  show "width \<le> overlap \<longrightarrow> int (length ws) \<le> start + width \<or> int (length ws) \<le> start"
  proof (intro impI, rule ccontr)
    assume w: "width \<le> overlap" and n: "\<not> (int (length ws) \<le> start + width \<or> int (length ws) \<le> start)"
    then have "loop ws width overlap (start + (width - overlap)) (acc @ [join '' '' (py_slice ws start (start + width))]) = Some cs"
      using run by (simp add: Let_def)
    from IH [OF this] n w show False by linarith
  qed
qed

definition spaceless :: "string \<Rightarrow> bool" where
  "spaceless w = (w \<noteq> [] \<and> list_all (\<lambda>c. \<not> is_space c) w)"

lemma words_from_words: "list_all (\<lambda>c. \<not> is_space c) acc \<Longrightarrow> list_all spaceless (words_from acc s)"
  by (induction acc s rule: words_from.induct) (auto simp: spaceless_def)

lemma split_ws_words: "list_all spaceless (split_ws s)"
  by (simp add: split_ws_def words_from_words)

lemma words_from_word: "list_all (\<lambda>c. \<not> is_space c) w \<Longrightarrow> words_from acc (w @ s) = words_from (acc @ w) s"
  by (induction w arbitrary: acc) simp_all

lemma split_ws_join: "list_all spaceless ws \<Longrightarrow> split_ws (join '' '' ws) = ws"
proof (induction ws)
  case (Cons w ws)
  have w: "w \<noteq> []" "list_all (\<lambda>c. \<not> is_space c) w" using Cons.prems by (simp_all add: spaceless_def)
  have "is_space CHR '' ''" by code_simp
  then have "words_from [] (w @ '' '' @ join '' '' ws) = w # words_from [] (join '' '' ws)"
    using w by (simp add: words_from_word)
  moreover have "words_from [] w = [w]" using w words_from_word [of w "[]" "[]"] by simp
  ultimately show ?case using Cons by (simp add: split_ws_def join_Cons)
qed (simp add: split_ws_def)

text \<open>C15: chunking ends exactly when the overlap is smaller than the chunk width or the text fits into one
  chunk; otherwise the loop runs forever.\<close>

theorem chunking_terminates_iff:
  assumes "0 \<le> width" and "0 \<le> overlap"
  shows "chunk_text t width overlap \<noteq> None \<longleftrightarrow> overlap < width \<or> int (count_words t) \<le> width"
proof (cases "split_ws t = []")
  case True
  then show ?thesis using assms(1) by (simp add: chunk_text_def count_words_def)
next
  case False
  let ?ws = "split_ws t"
  have "chunk_loop ?ws width overlap 0 [] \<noteq> None" if "overlap < width"
    using chunk_loop_windows [OF assms(2) that, of 0 ?ws "[]"] False by auto
  moreover have "chunk_loop ?ws width overlap 0 [] \<noteq> None" if "int (length ?ws) \<le> width"
    using False that by (subst chunk_loop.simps) simp
  moreover have "int (length ?ws) \<le> width" if "chunk_loop ?ws width overlap 0 [] = Some cs" "\<not> overlap < width" for cs
    using chunk_loop_diverges [OF that(1)] that(2) False by simp
  ultimately show ?thesis using False by (auto simp: chunk_text_def count_words_def)
qed

lemma chunking_terminates_iff_witness:
  "chunk_text ''a b c'' 2 1 \<noteq> None \<and> chunk_text ''a b c'' 1 1 = None"
proof -
  have "count_words ''a b c'' = 3" by code_simp
  then show ?thesis using chunking_terminates_iff [of 2 1 "''a b c''"] chunking_terminates_iff [of 1 1 "''a b c''"] by simp
qed

lemma chunk_text_windows:
  assumes "0 \<le> overlap" "overlap < width" "chunk_text t width overlap = Some cs"
  shows "(\<forall>c \<in> set cs. split_ws c \<noteq> [] \<and> length (split_ws c) \<le> nat width) \<and>
    concat (map split_ws (take 1 cs)) @ concat (map (\<lambda>c. drop (nat overlap) (split_ws c)) (drop 1 cs)) = split_ws t"
proof (cases "split_ws t = []")
  case True
  then show ?thesis using assms(3) by (simp add: chunk_text_def)
next
  case False
  let ?ws = "split_ws t"
  obtain wins where wins: "chunk_loop ?ws width overlap 0 [] = Some (map (join '' '') wins)" "wins \<noteq> []"
      "\<forall>x \<in> set wins. x \<noteq> [] \<and> length x \<le> nat width \<and> set x \<subseteq> set ?ws"
      "hd wins @ concat (map (drop (nat overlap)) (tl wins)) = ?ws"
    using chunk_loop_windows [OF assms(1,2), of 0 ?ws "[]"] False by auto
  have cs: "cs = map (join '' '') wins" using assms(3) wins(1) False by (simp add: chunk_text_def)
  have rt: "split_ws (join '' '' x) = x" if "x \<in> set wins" for x
    using that wins(3) split_ws_words [of t] by (intro split_ws_join) (auto simp: list_all_iff)
  obtain h hs where hs: "wins = h # hs" using wins(2) by (cases wins) auto
  have m: "map (\<lambda>x. drop (nat overlap) (split_ws (join '' '' x))) hs = map (drop (nat overlap)) hs"
    using rt hs by (intro map_cong) auto
  then show ?thesis using wins(3,4) rt hs by (simp add: cs o_def m)
qed

text \<open>C14: chunking loses nothing: every chunk has at least one and at most \<open>width\<close> words, and the first
  chunk followed by the later ones without their overlap is the word sequence of the document.\<close>

theorem chunking_lossless:
  assumes "chunk_text t CHUNK_SIZE OVERLAP = Some cs"
  shows "(\<forall>c \<in> set cs. 1 \<le> count_words c \<and> count_words c \<le> 512) \<and>
    concat (map split_ws (take 1 cs)) @ concat (map (\<lambda>c. drop 64 (split_ws c)) (drop 1 cs)) = split_ws t"
  using chunk_text_windows [OF _ _ assms] by (auto simp: CHUNK_SIZE_def OVERLAP_def count_words_def Suc_le_eq)

lemma chunking_lossless_witness: "\<exists>cs. chunk_text ''a b'' CHUNK_SIZE OVERLAP = Some cs \<and> concat (map split_ws (take 1 cs)) @
    concat (map (\<lambda>c. drop 64 (split_ws c)) (drop 1 cs)) = split_ws ''a b''"
proof -
  have "chunk_text ''a b'' CHUNK_SIZE OVERLAP \<noteq> None"
    using chunk_loop_windows [of OVERLAP CHUNK_SIZE 0 "split_ws ''a b''" "[]"]
    by (auto simp: chunk_text_def CHUNK_SIZE_def OVERLAP_def split_ws_def)
  then obtain cs where "chunk_text ''a b'' CHUNK_SIZE OVERLAP = Some cs" by blast
  with chunking_lossless [OF this] show ?thesis by blast
qed

section \<open>Retrieval\<close>

text \<open>What the orchestrator asks of a store: at most as many chunks as it asked for.\<close>

locale chunk_source =
  fixes retrieve :: "string \<Rightarrow> string \<Rightarrow> nat \<Rightarrow> 's \<Rightarrow> rag_chunk list result \<times> 's"
  assumes limited: "retrieve q tenant n s = (Inr cs, s') \<Longrightarrow> length cs \<le> n"
begin

lemma none_asked: "retrieve q tenant 0 s = (Inr cs, s') \<Longrightarrow> cs = []"
  using limited by fastforce

end

interpretation rag: chunk_source "rag_retrieve X db st" for X db st
proof
  fix q tenant n s cs s'
  assume "rag_retrieve X db st q tenant n s = (Inr cs, s')"
  then show "length cs \<le> n"
    by (cases st)
      (auto simp: pg_retrieve_def rbind_Inr_iff nearest_rows_def dest!: rmap_length split: prod.splits sum.splits)
qed

lemma sorted_take_drop:
  assumes "sorted (map f xs)" "x \<in> set (take n xs)" "y \<in> set (drop n xs)"
  shows "f x \<le> f y"
proof -
  have "sorted (map f (take n xs) @ map f (drop n xs))" using assms(1) by (simp flip: map_append)
  then show ?thesis unfolding sorted_append using assms(2,3) by simp
qed

lemma row_chunk_Inr:
  "row_chunk X vec row = Inr c \<Longrightarrow> rc_similarity c = 1 - rx_dist X (rw_embedding row) vec \<and>
     rc_chunk_text c = trim (rw_chunk_text row) \<and> 0 \<le> rc_similarity c \<and> rc_similarity c \<le> 1"
  by (auto simp: row_chunk_def mk_chunk_def rbind_Inr_iff validate_str1_Inr split: if_splits)

lemma nearest_sorted: "sorted (map (\<lambda>row. rx_dist X (rw_embedding row) vec) (nearest_rows X db vec tenant n))"
  unfolding nearest_rows_def take_map [symmetric] by (intro sorted_wrt_take) simp


definition demo_row :: "string \<Rightarrow> nat \<Rightarrow> rag_row" where
  "demo_row tenant i = \<lparr>rw_id = ''r'', rw_tenant_id = tenant, rw_source_ref = ''a.md'', rw_chunk_index = i,
     rw_chunk_text = ''text'', rw_metadata = [], rw_embedding = ''[1]''\<rparr>"

definition demo_rag :: "unit rag_ext" where
  "demo_rag = \<lparr>rx_post = (\<lambda>_ _ _ r. (Inr (JDict [(''data'', JList [JDict [(''index'', JInt 0),
       (''embedding'', JList [JInt 1])]])]), r)),
     rx_dist = (\<lambda>a b. if a = b then 0 else 3 / 2), rx_db = (\<lambda>_. Inr ())\<rparr>"


text \<open>Cosine distances go up to 2, and similarities below 0 are not valid in a chunk: one row that points
  away from the query among the nearest makes the whole retrieval fail.\<close>

theorem rag_opposite_row_fails:
  assumes "embed X e q r = (Inr v, r1)" and "vec_str v = Inr vec"
    and "row \<in> set (nearest_rows X db vec tenant n)" and "1 < rx_dist X (rw_embedding row) vec"
  shows "\<exists>x. rag_retrieve X db (PgvectorRagStore dsn e) q tenant n r = (Inl x, r1)"
proof -
  have bad: "row_chunk X vec row \<noteq> Inr c" for c using row_chunk_Inr [of X vec row c] assms(4) by auto
  have "rmap (row_chunk X vec) (nearest_rows X db vec tenant n) \<noteq> Inr cs" for cs
    using list_all2_left [OF _ assms(3)] bad unfolding rmap_Inr_iff by blast
  then obtain x where "rmap (row_chunk X vec) (nearest_rows X db vec tenant n) = Inl x"
    by (cases "rmap (row_chunk X vec) (nearest_rows X db vec tenant n)") auto
  then show ?thesis using assms(1,2) by (cases "rx_db X dsn") (auto simp: pg_retrieve_def)
qed

lemma rag_opposite_row_fails_witness:
  "\<exists>x. rag_retrieve demo_rag [(demo_row ''t'' 0)\<lparr>rw_embedding := ''[-1]''\<rparr>] (PgvectorRagStore [] (OpenAIEmbedder [] [])) ''q'' ''t'' 5 () = (Inl x, ())"
proof (rule rag_opposite_row_fails)
  show "embed demo_rag (OpenAIEmbedder [] []) ''q'' () = (Inr (JList [JInt 1]), ())" by code_simp
  show "vec_str (JList [JInt 1]) = Inr ''[1]''" by code_simp
  show "(demo_row ''t'' 0)\<lparr>rw_embedding := ''[-1]''\<rparr> \<in> set (nearest_rows demo_rag [(demo_row ''t'' 0)\<lparr>rw_embedding := ''[-1]''\<rparr>] ''[1]'' ''t'' 5)"
    by (simp add: nearest_rows_def demo_row_def)
  show "1 < rx_dist demo_rag (rw_embedding ((demo_row ''t'' 0)\<lparr>rw_embedding := ''[-1]''\<rparr>)) ''[1]''"
    by (simp add: demo_rag_def demo_row_def)
qed

section \<open>Ingestion\<close>

lemma upsert_keys: "distinct (map row_key db) \<Longrightarrow> distinct (map row_key (upsert_row db new))"
proof -
  have "map row_key (map (\<lambda>row. if row_key row = row_key new
      then row\<lparr>rw_chunk_text := rw_chunk_text new, rw_metadata := rw_metadata new, rw_embedding := rw_embedding new\<rparr> else row) db)
    = map row_key db" by (induction db) (simp_all add: row_key_def)
  then show "distinct (map row_key db) \<Longrightarrow> distinct (map row_key (upsert_row db new))"
    unfolding upsert_row_def by (simp only: split: if_split) auto
qed

lemma upserts_keys: "distinct (map row_key db) \<Longrightarrow> distinct (map row_key (foldl upsert_row db rows))"
  by (induction rows arbitrary: db) (simp_all add: upsert_keys)

lemma upserts_keep:
  "row \<in> set db \<Longrightarrow> row_key row \<notin> set (map row_key rows) \<Longrightarrow> row \<in> set (foldl upsert_row db rows)"
proof (induction rows arbitrary: db)
  case (Cons new rows)
  then have "row \<in> set (upsert_row db new)" by (auto simp: upsert_row_def intro!: image_eqI [of _ _ row])
  with Cons show ?case by simp
qed simp

lemma map_enumerate_snd: "map (\<lambda>(i, c, v). g c) (enumerate n xs) = map (\<lambda>(c, _). g c) xs"
  by (induction xs arbitrary: n) auto

lemma new_rows_keys:
  assumes "new_rows uuid pairs = Inr rows"
  shows "map row_key rows = map (\<lambda>(c, _). (rq_tenant_id c, rq_source_ref c, rq_chunk_index c)) pairs"
proof -
  have "list_all2 (\<lambda>(i, c, v) row. row_key row = (rq_tenant_id c, rq_source_ref c, rq_chunk_index c)) (enumerate 0 pairs) rows"
    using assms unfolding new_rows_def rmap_Inr_iff
    by (rule list_all2_mono) (auto simp: rbind_Inr_iff row_key_def)
  then have "map row_key rows = map (\<lambda>(i, c, v). (rq_tenant_id c, rq_source_ref c, rq_chunk_index c)) (enumerate 0 pairs)"
    by (induction rule: list_all2_induct) auto
  also have "\<dots> = map (\<lambda>(c, _). (rq_tenant_id c, rq_source_ref c, rq_chunk_index c)) pairs"
    by (rule map_enumerate_snd)
  finally show ?thesis .
qed

lemma rag_ingest_keys:
  assumes "distinct (map row_key db)"
  shows "distinct (map row_key (fst (snd (rag_ingest X uuid st reqs db r))))"
  using assms
  by (cases st)
    (auto simp: pg_ingest_def rbind_Inr_iff upserts_keys split: prod.splits sum.splits)

lemma rag_ingest_keeps:
  assumes "row \<in> set db"
    and "row_key row \<notin> set (map (\<lambda>c. (rq_tenant_id c, rq_source_ref c, rq_chunk_index c)) reqs)"
  shows "row \<in> set (fst (snd (rag_ingest X uuid st reqs db r)))"
proof (cases st)
  case (PgvectorRagStore dsn e)
  have keep: "row \<in> set (foldl upsert_row db rows)" if "new_rows uuid (zip reqs vs) = Inr rows" for vs rows
  proof (rule upserts_keep [OF assms(1)])
    have "set (map row_key rows) \<subseteq> set (map (\<lambda>c. (rq_tenant_id c, rq_source_ref c, rq_chunk_index c)) reqs)"
      unfolding new_rows_keys [OF that] by (auto dest: set_zip_leftD)
    with assms(2) show "row_key row \<notin> set (map row_key rows)" by blast
  qed
  then show ?thesis using PgvectorRagStore assms(1)
    by (auto simp: pg_ingest_def rbind_Inr_iff split: prod.splits sum.splits)
qed (use assms in simp_all)

lemma ingest_requests_fields:
  "rmap (\<lambda>(i, c). mk_ingest_request tenant ref i c) (enumerate k chunks) = Inr reqs \<Longrightarrow>
     length reqs = length chunks \<and> (\<forall>q \<in> set reqs. rq_chunk_index q < k + length chunks)"
proof (induction chunks arbitrary: k reqs)
  case (Cons c chunks)
  then obtain q qs where q: "mk_ingest_request tenant ref k c = Inr q"
      "rmap (\<lambda>(i, c). mk_ingest_request tenant ref i c) (enumerate (Suc k) chunks) = Inr qs" "reqs = q # qs"
    by (auto split: sum.splits)
  then have "rq_chunk_index q = k" by (auto simp: mk_ingest_request_def rbind_Inr_iff)
  with Cons.IH [OF q(2)] q(3) show ?case by auto
qed simp

text \<open>Ingesting a document again never removes rows: after a version with fewer chunks, the rows of the
  longer version with the higher indices are still in the table, and are still retrieved.\<close>

theorem reingest_keeps_stale:
  assumes "ingest_file X uuid fs st tenant path db r = Some (Inr n, db', r')"
    and "dict_get fs path = Some t" and "chunk_text t CHUNK_SIZE OVERLAP = Some chunks"
    and "row \<in> set db" and "length chunks \<le> rw_chunk_index row"
  shows "row \<in> set db'"
proof -
  obtain reqs where reqs: "ingest_requests tenant (path_name path) chunks = Inr reqs"
      "rag_ingest X uuid st reqs db r = (Inr n, db', r')"
    using assms(1,2,3) by (auto simp: ingest_file_def split: sum.splits)
  have "row_key row \<notin> set (map (\<lambda>c. (rq_tenant_id c, rq_source_ref c, rq_chunk_index c)) reqs)"
    using ingest_requests_fields [OF reqs(1) [unfolded ingest_requests_def]] assms(5) by (auto simp: row_key_def)
  from rag_ingest_keeps [OF assms(4) this, of X uuid st r] reqs(2) show ?thesis by simp
qed

lemma reingest_keeps_stale_witness:
  "demo_row ''t'' 1 \<in> set (fst (snd (the (ingest_file demo_rag (\<lambda>_. ''u'') [(''d/a.md'', ''short'')]
     (PgvectorRagStore [] (OpenAIEmbedder [] [])) ''t'' ''d/a.md'' [demo_row ''t'' 0, demo_row ''t'' 1] ()))))"
proof -
  let ?run = "ingest_file demo_rag (\<lambda>_. ''u'') [(''d/a.md'', ''short'')] (PgvectorRagStore [] (OpenAIEmbedder [] [])) ''t'' ''d/a.md''
     [demo_row ''t'' 0, demo_row ''t'' 1] ()"
  have w: "split_ws ''short'' = [''short'']" by code_simp
  have c: "chunk_text ''short'' CHUNK_SIZE OVERLAP = Some [''short'']"
    unfolding chunk_text_def w CHUNK_SIZE_def OVERLAP_def
    by (subst chunk_loop.simps) (simp add: py_slice_def slice_index_def)
  have q: "ingest_requests ''t'' (path_name ''d/a.md'') [''short''] =
      Inr [\<lparr>rq_tenant_id = ''t'', rq_source_ref = ''a.md'', rq_chunk_index = 0, rq_chunk_text = ''short'', rq_metadata = []\<rparr>]"
    by code_simp
  have s: "rag_ingest demo_rag (\<lambda>_. ''u'') (PgvectorRagStore [] (OpenAIEmbedder [] []))
      [\<lparr>rq_tenant_id = ''t'', rq_source_ref = ''a.md'', rq_chunk_index = 0, rq_chunk_text = ''short'', rq_metadata = []\<rparr>]
      [demo_row ''t'' 0, demo_row ''t'' 1] () =
      (Inr 1, [(demo_row ''t'' 0)\<lparr>rw_chunk_text := ''short''\<rparr>, demo_row ''t'' 1], ())"
    by code_simp
  have f: "dict_get [(''d/a.md'', ''short'')] ''d/a.md'' = Some ''short''" by simp
  have run: "?run = Some (Inr 1, [(demo_row ''t'' 0)\<lparr>rw_chunk_text := ''short''\<rparr>, demo_row ''t'' 1], ())"
    by (simp only: ingest_file_def f c q s option.case sum.case)
  have "demo_row ''t'' 1 \<in> set [(demo_row ''t'' 0)\<lparr>rw_chunk_text := ''short''\<rparr>, demo_row ''t'' 1]"
    by (rule reingest_keeps_stale [OF run f c]) (simp_all add: demo_row_def)
  then show ?thesis unfolding run by simp
qed

end
