(* ===== verification/Jira.thy ===== *)
theory Jira
  imports Testgen
begin

text \<open>
  \<open>totalrecall/testgen/jira\<close>: fetching a story and its acceptance criteria. \<open>jx_get\<close> is \<open>httpx.get\<close>: a URL,
  the headers and the timeout give an exception, or the status and the decoded body (or the exception of
  \<open>response.json()\<close>). The stub adapter is the one the factory builds, without a fixed story.
\<close>

section \<open>Acceptance criteria\<close>

definition AC_LINE_RE :: re where
  "AC_LINE_RE = cats [Bol, star space, one_of ''-*'', plus space, Grp (plus (none_of nl)), Eol]"

definition AC_HEADER_RE :: re where
  "AC_HEADER_RE = cats
     [alts [cats [word_ci ''acceptance'', plus space, word_ci ''criteri'', opt (chr_ci CHR ''a'')],
            word_ci ''given'', word_ci ''when'', word_ci ''then''],
      Cls (\<lambda>c. c = CHR '':'' \<or> is_space c)]"

definition mk_criterion :: "nat \<Rightarrow> string \<Rightarrow> jira_acceptance_criterion result" where
  "mk_criterion i t = rbind (validate_str1 ''text'' t) (\<lambda>x. Inr \<lparr>jc_index = i, jc_text = x\<rparr>)"

definition parse_acceptance_criteria :: "string \<Rightarrow> jira_acceptance_criterion list result" where
  "parse_acceptance_criteria t =
     rmap (\<lambda>(i, line). mk_criterion i (strip line))
       (filter (\<lambda>(i, line). strip line \<noteq> []) (enumerate 0 (findall1 t AC_LINE_RE)))"

lemma size_dict_value: "dict_get d k = Some v \<Longrightarrow> size v < size (JDict d)"
proof (induction d)
  case (Cons kv d)
  then show ?case by (cases kv) (fastforce split: if_splits)
qed simp

lemma size_dict_list:
  assumes "dict_get d k = Some (JList xs)" and "x \<in> set xs"
  shows "size x < size (JDict d)"
proof -
  have "size x < size (JList xs)" using assms(2) by (induction xs) auto
  with size_dict_value [OF assms(1)] show ?thesis by simp
qed

declare rmap_cong [fundef_cong]

text \<open>Text of a document node. A text node gives its \<open>text\<close> whatever that is; \<open>"\n".join\<close> takes strings only.\<close>

definition join_parts :: "json list \<Rightarrow> json result" where
  "join_parts ps =
     rbind (rmap (\<lambda>p. case p of JStr s \<Rightarrow> Inr s | _ \<Rightarrow> Inl (TypeError ''sequence item: expected str instance''))
              (filter truthy ps))
       (\<lambda>ss. Inr (JStr (join nl ss)))"

function adf_to_text :: "json \<Rightarrow> json result" where
  "adf_to_text node =
     (case node of
        JDict d \<Rightarrow>
          (if dict_get d ''type'' = Some (JStr ''text'') then Inr (dict_get_or d ''text'' (JStr []))
           else
             (case dict_get d ''content'' of
                None \<Rightarrow> join_parts []
              | Some (JList xs) \<Rightarrow> rbind (rmap adf_to_text xs) join_parts
              | Some (JStr s) \<Rightarrow> if s = [] then join_parts [] else Inl (OtherError ''AttributeError'' ''get'')
              | Some (JDict e) \<Rightarrow> if e = [] then join_parts [] else Inl (OtherError ''AttributeError'' ''get'')
              | Some _ \<Rightarrow> Inl (TypeError ''object is not iterable'')))
      | _ \<Rightarrow> Inl (OtherError ''AttributeError'' ''get''))"
  by pat_completeness auto

termination
  by (relation "measure size") (auto simp del: json.size dest: size_dict_list)

declare adf_to_text.simps [simp del]

definition or_empty :: "json option \<Rightarrow> json" where
  "or_empty x = (case x of Some j \<Rightarrow> if truthy j then j else JStr [] | None \<Rightarrow> JStr [])"

definition description_text :: "(string, json) dict \<Rightarrow> json result" where
  "description_text flds =
     (let raw = or_empty (dict_get flds ''description'')
      in case raw of JDict _ \<Rightarrow> adf_to_text raw | _ \<Rightarrow> Inr raw)"

fun first_text :: "(string, json) dict \<Rightarrow> string list \<Rightarrow> string option" where
  "first_text flds [] = None"
| "first_text flds (k # ks) =
     (case dict_get flds k of Some (JStr s) \<Rightarrow> if s \<noteq> [] then Some s else first_text flds ks
      | _ \<Rightarrow> first_text flds ks)"

definition extract_acceptance_criteria :: "(string, json) dict \<Rightarrow> jira_acceptance_criterion list result" where
  "extract_acceptance_criteria flds =
     (case first_text flds [''customfield_acceptance_criteria'', ''customfield_10016''] of
        Some s \<Rightarrow> parse_acceptance_criteria s
      | None \<Rightarrow>
          rbind (description_text flds) (\<lambda>d.
            (case d of
               JStr s \<Rightarrow> if search s AC_HEADER_RE then parse_acceptance_criteria s else Inr []
             | _ \<Rightarrow> Inl (TypeError ''expected string or bytes-like object''))))"

section \<open>The adapters\<close>

text \<open>\<open>base64.b64encode(s.encode()).decode()\<close>.\<close>

definition b64_char :: "nat \<Rightarrow> char" where
  "b64_char n = ''ABCDEFGHIJKLMNOPQRSTUVWXYZabcdefghijklmnopqrstuvwxyz0123456789+/'' ! n"

fun b64 :: "nat list \<Rightarrow> string" where
  "b64 [] = []"
| "b64 [a] = [b64_char (a div 4), b64_char (a mod 4 * 16), CHR ''='', CHR ''='']"
| "b64 [a, b] = [b64_char (a div 4), b64_char (a mod 4 * 16 + b div 16), b64_char (b mod 16 * 4), CHR ''='']"
| "b64 (a # b # c # bs) =
     [b64_char (a div 4), b64_char (a mod 4 * 16 + b div 16), b64_char (b mod 16 * 4 + c div 64), b64_char (c mod 64)] @ b64 bs"

definition utf8 :: "string \<Rightarrow> nat list" where
  "utf8 s = concat (map (\<lambda>c. let n = (of_char c :: nat) in if n < 128 then [n] else [192 + n div 64, 128 + n mod 64]) s)"

record jira_cloud =
  jl_base_url :: string
  jl_timeout :: int
  jl_auth_header :: string

definition mk_jira_cloud :: "string \<Rightarrow> string \<Rightarrow> string \<Rightarrow> int \<Rightarrow> jira_cloud" where
  "mk_jira_cloud url email token timeout =
     \<lparr>jl_base_url = rstrip_chr ''/'' url, jl_timeout = timeout,
      jl_auth_header = ''Basic '' @ b64 (utf8 (email @ '':'' @ token))\<rparr>"

datatype jira_adapter = JiraCloudAdapter jira_cloud | StubJiraAdapter | NullJiraAdapter

record 'p jira_ext =
  jx_get :: "string \<Rightarrow> (string, string) dict \<Rightarrow> int \<Rightarrow> 'p \<Rightarrow> (nat \<times> json result) result \<times> 'p"

definition JIRA_FIELDS :: string where
  "JIRA_FIELDS = ''summary,description,issuetype,status,labels''"

definition is_success :: "nat \<Rightarrow> bool" where
  "is_success code = (200 \<le> code \<and> code < 300)"

definition jira_headers :: "jira_cloud \<Rightarrow> (string, string) dict" where
  "jira_headers a = [(''Authorization'', jl_auth_header a), (''Accept'', ''application/json'')]"

text \<open>\<open>(fields.get(k) or {}).get("name", "")\<close>.\<close>

definition name_of :: "(string, json) dict \<Rightarrow> string \<Rightarrow> json result" where
  "name_of flds k =
     (case dict_get flds k of
        None \<Rightarrow> Inr (JStr [])
      | Some j \<Rightarrow>
          if \<not> truthy j then Inr (JStr [])
          else (case j of JDict d \<Rightarrow> Inr (dict_get_or d ''name'' (JStr [])) | _ \<Rightarrow> Inl (OtherError ''AttributeError'' ''get'')))"

definition or_empty_list :: "json option \<Rightarrow> json" where
  "or_empty_list x = (case x of Some j \<Rightarrow> if truthy j then j else JList [] | None \<Rightarrow> JList [])"

definition story_of_json :: "rat \<Rightarrow> string \<Rightarrow> json \<Rightarrow> jira_story result" where
  "story_of_json now key j =
     (case j of
        JDict d \<Rightarrow>
          (case dict_get_or d ''fields'' (JDict []) of
             JDict flds \<Rightarrow>
               rbind (description_text flds) (\<lambda>descr.
               rbind (extract_acceptance_criteria flds) (\<lambda>acs.
               rbind (name_of flds ''issuetype'') (\<lambda>ty.
               rbind (name_of flds ''status'') (\<lambda>st.
               rbind (as_str1 ''jira_key'' (dict_get_or d ''key'' (JStr key))) (\<lambda>k.
               rbind (as_str1 ''summary'' (or_empty (dict_get flds ''summary''))) (\<lambda>summary.
               rbind (as_str ''description'' descr) (\<lambda>text.
               rbind (as_str ''story_type'' ty) (\<lambda>story_type.
               rbind (as_str ''status'' st) (\<lambda>status.
               rbind (as_list ''labels'' (as_str ''labels'') (or_empty_list (dict_get flds ''labels''))) (\<lambda>labels.
                 Inr \<lparr>js_jira_key = k, js_summary = summary, js_description = text, js_acceptance_criteria = acs,
                   js_story_type = story_type, js_status = status, js_labels = labels, js_fetched_at = now\<rparr>))))))))))
           | _ \<Rightarrow> Inl (OtherError ''AttributeError'' ''get''))
      | _ \<Rightarrow> Inl (OtherError ''AttributeError'' ''get''))"

definition stub_story :: "string \<Rightarrow> jira_story result" where
  "stub_story key =
     rbind (validate_str1 ''jira_key'' key) (\<lambda>k. Inr
       \<lparr>js_jira_key = k, js_summary = trim (''Stub story for '' @ key), js_description = ''This is a stub description.'',
        js_acceptance_criteria =
          [\<lparr>jc_index = 0, jc_text = ''User can log in with valid credentials''\<rparr>,
           \<lparr>jc_index = 1, jc_text = ''User sees error on invalid credentials''\<rparr>],
        js_story_type = ''Story'', js_status = ''In Progress'', js_labels = [''stub''], js_fetched_at = 1767225600\<rparr>)"

fun fetch_story :: "'p jira_ext \<Rightarrow> rat \<Rightarrow> jira_adapter \<Rightarrow> string \<Rightarrow> 'p \<Rightarrow> jira_story option result \<times> 'p" where
  "fetch_story X now (JiraCloudAdapter a) key r =
     (case jx_get X (jl_base_url a @ ''/rest/api/3/issue/'' @ key @ ''?fields='' @ JIRA_FIELDS) (jira_headers a) (jl_timeout a) r of
        (Inl _, r1) \<Rightarrow> (Inr None, r1)
      | (Inr (code, body), r1) \<Rightarrow>
          (if code = 404 then Inr None
           else if \<not> is_success code then Inr None
           else rbind body (\<lambda>j. rbind (story_of_json now key j) (\<lambda>s. Inr (Some s))), r1))"
| "fetch_story X now StubJiraAdapter key r = (rbind (stub_story key) (\<lambda>s. Inr (Some s)), r)"
| "fetch_story X now NullJiraAdapter key r = (Inr None, r)"

fun jira_health :: "'p jira_ext \<Rightarrow> jira_adapter \<Rightarrow> 'p \<Rightarrow> (string, string) dict \<times> 'p" where
  "jira_health X (JiraCloudAdapter a) r =
     (case jx_get X (jl_base_url a @ ''/rest/api/3/myself'') (jira_headers a) 5 r of
        (Inr (code, _), r1) \<Rightarrow> ([(''status'', if is_success code then ''ok'' else ''degraded'')], r1)
      | (Inl e, r1) \<Rightarrow> ([(''status'', ''unavailable''), (''error'', exn_str e)], r1))"
| "jira_health X StubJiraAdapter r = ([(''status'', ''ok'')], r)"
| "jira_health X NullJiraAdapter r = ([(''status'', ''disabled'')], r)"

section \<open>factory.py\<close>

text \<open>\<open>int(s)\<close> of a string: white space around, a sign, digits with single underscores between them.\<close>

definition py_int :: "string \<Rightarrow> int result" where
  "py_int s =
     (let t = strip s;
          neg = (case t of c # _ \<Rightarrow> c = CHR ''-'' | [] \<Rightarrow> False);
          body = (case t of c # cs \<Rightarrow> if c = CHR ''-'' \<or> c = CHR ''+'' then cs else t | [] \<Rightarrow> []);
          groups = split_chr CHR ''_'' body
      in if list_all (\<lambda>g. g \<noteq> [] \<and> list_all is_digit g) groups
         then Inr (if neg then - int (digits_val (concat groups)) else int (digits_val (concat groups)))
         else Inl (ValueError (''invalid literal for int() with base 10: '' @ repr_str s)))"

definition build_jira_adapter ::
  "env \<Rightarrow> http \<Rightarrow> fs \<Rightarrow> rat \<Rightarrow> credential_provider \<Rightarrow> flag_provider \<Rightarrow> jira_adapter result \<times> flag_provider" where
  "build_jira_adapter env http fs now cp p =
     (case get_bool http fs now ''jira.enabled'' False p of
        (enabled, p1) \<Rightarrow>
          if \<not> enabled then (Inr NullJiraAdapter, p1)
          else
            (case get_string http fs now ''jira.adapter'' ''cloud'' p1 of
               (adapter, p2) \<Rightarrow>
                 if adapter = ''stub'' then (Inr StubJiraAdapter, p2)
                 else
                   (case get_string http fs now ''jira.base_url'' [] p2 of
                      (url, p3) \<Rightarrow>
                        (case get_string http fs now ''jira.email'' [] p3 of
                           (email, p4) \<Rightarrow>
                             if url = [] \<or> email = [] then (Inr NullJiraAdapter, p4)
                             else
                               (case credential_get env http fs cp ''jira_api_token'' of
                                  Inl (CredentialNotFoundError _) \<Rightarrow> (Inr NullJiraAdapter, p4)
                                | Inl e \<Rightarrow> (Inl e, p4)
                                | Inr token \<Rightarrow>
                                    (case get_string http fs now ''jira.timeout_seconds'' ''10'' p4 of
                                       (t, p5) \<Rightarrow>
                                         (rbind (py_int t) (\<lambda>n. Inr (JiraCloudAdapter (mk_jira_cloud url email token n))), p5)))))))"

section \<open>Properties\<close>

lemma sublist_slice: "sublist (slice s i j) s"
  unfolding slice_def using sublist_order.order.trans [OF sublist_take sublist_drop] by blast

lemma sublist_group1: "sublist (group1 s m) s"
  by (auto simp: group1_def sublist_slice split: prod.splits option.splits)

lemma sublist_strip_by: "sublist (strip_by P s) s"
proof -
  have "prefix (strip_by P s) (dropWhile P s)"
    unfolding strip_by_def rstrip_by_def by (metis rev_rev_ident suffix_dropWhile suffix_to_prefix)
  moreover have "suffix (dropWhile P s) s" by (rule suffix_dropWhile)
  ultimately show ?thesis
    by (meson prefix_imp_sublist suffix_imp_sublist sublist_order.order.trans)
qed

lemma sublist_strip: "sublist (strip s) s" and sublist_of_trim: "sublist (trim s) s"
  by (simp_all add: strip_def trim_def sublist_strip_by)

lemma trim_of_strip: "strip s \<noteq> [] \<Longrightarrow> trim (strip s) = strip s"
proof -
  assume ne: "strip s \<noteq> []"
  have "\<not> is_space (last (strip s))"
    using last_rstrip_by [of is_space "dropWhile is_space s"] ne by (simp add: strip_def strip_by_def)
  then show ?thesis using ne hd_strip [OF ne] white_space_space by (intro trim_fixed) auto
qed

lemma mk_criterion_ok: "strip l \<noteq> [] \<Longrightarrow> mk_criterion i (strip l) = Inr \<lparr>jc_index = i, jc_text = strip l\<rparr>"
  by (simp add: mk_criterion_def validate_str1_def trim_of_strip)

lemma sorted_filter_enumerate: "sorted_wrt (<) (map fst (filter P (enumerate k xs)))"
proof -
  have "sorted_wrt (\<lambda>a b. fst a < fst b) (enumerate k xs)"
    by (induction xs arbitrary: k) (auto simp: in_set_enumerate_eq)
  then have "sorted_wrt (\<lambda>a b. fst a < fst b) (filter P (enumerate k xs))" by (rule sorted_wrt_filter)
  then show ?thesis by (simp add: sorted_wrt_map)
qed

lemma criteria_eq:
  "parse_acceptance_criteria t =
     Inr (map (\<lambda>(i, l). \<lparr>jc_index = i, jc_text = strip l\<rparr>)
            (filter (\<lambda>(i, l). strip l \<noteq> []) (enumerate 0 (findall1 t AC_LINE_RE))))"
proof -
  have "rmap (\<lambda>(i, l). mk_criterion i (strip l)) xs = Inr (map (\<lambda>(i, l). \<lparr>jc_index = i, jc_text = strip l\<rparr>) xs)"
    if "list_all (\<lambda>(i, l). strip l \<noteq> []) xs" for xs
    using that by (induction xs) (auto simp: mk_criterion_ok)
  then show ?thesis unfolding parse_acceptance_criteria_def by (simp add: list_all_iff)
qed

definition wf_criteria :: "jira_acceptance_criterion list \<Rightarrow> bool" where
  "wf_criteria acs = (list_all (\<lambda>ac. contract_str1 (jc_text ac)) acs \<and> sorted_wrt (<) (map jc_index acs))"

lemma criteria_wf: "parse_acceptance_criteria t = Inr acs \<Longrightarrow> wf_criteria acs"
proof -
  assume "parse_acceptance_criteria t = Inr acs"
  then have acs: "acs = map (\<lambda>(i, l). \<lparr>jc_index = i, jc_text = strip l\<rparr>)
      (filter (\<lambda>(i, l). strip l \<noteq> []) (enumerate 0 (findall1 t AC_LINE_RE)))"
    by (simp add: criteria_eq)
  then have "map jc_index acs = map fst (filter (\<lambda>(i, l). strip l \<noteq> []) (enumerate 0 (findall1 t AC_LINE_RE)))"
    by (simp add: split_beta o_def)
  moreover have "list_all (\<lambda>ac. contract_str1 (jc_text ac)) acs"
    unfolding acs by (auto simp: list_all_iff contract_str1_def trim_of_strip)
  ultimately show ?thesis using sorted_filter_enumerate by (simp add: wf_criteria_def)
qed

text \<open>Reading acceptance criteria never fails; every criterion is a non-blank piece of the text, its index is
  its bullet's position, and the criteria are in the order of the text.\<close>

theorem criteria_extracted:
  "\<exists>acs. parse_acceptance_criteria t = Inr acs \<and> sorted_wrt (<) (map jc_index acs) \<and>
     list_all (\<lambda>ac. contract_str1 (jc_text ac) \<and> sublist (jc_text ac) t \<and>
        jc_index ac < length (findall1 t AC_LINE_RE) \<and>
        jc_text ac = strip (findall1 t AC_LINE_RE ! jc_index ac)) acs"
proof -
  let ?ls = "findall1 t AC_LINE_RE"
  let ?acs = "map (\<lambda>(i, l). \<lparr>jc_index = i, jc_text = strip l\<rparr>) (filter (\<lambda>(i, l). strip l \<noteq> []) (enumerate 0 ?ls))"
  have p: "parse_acceptance_criteria t = Inr ?acs" by (rule criteria_eq)
  have "sublist (jc_text ac) t \<and> jc_index ac < length ?ls \<and> jc_text ac = strip (?ls ! jc_index ac)"
    if m: "ac \<in> set ?acs" for ac
  proof -
    obtain i l where il: "(i, l) \<in> set (enumerate 0 ?ls)" "ac = \<lparr>jc_index = i, jc_text = strip l\<rparr>" using m by auto
    then have i: "i < length ?ls" "l = ?ls ! i" by (auto simp: in_set_enumerate_eq)
    then have "l \<in> set ?ls" by simp
    then have "sublist l t" by (auto simp: findall1_def sublist_group1)
    then have "sublist (strip l) t" using sublist_strip sublist_order.order.trans by blast
    with i il(2) show ?thesis by simp
  qed
  moreover have "wf_criteria ?acs" using p by (rule criteria_wf)
  ultimately show ?thesis unfolding wf_criteria_def list_all_iff
    by (intro exI [of _ ?acs] conjI ballI p) blast+
qed

definition wf_story :: "jira_story \<Rightarrow> bool" where
  "wf_story st = (contract_str1 (js_jira_key st) \<and> contract_str1 (js_summary st) \<and> contract_str (js_description st) \<and>
     wf_criteria (js_acceptance_criteria st))"

lemma extract_wf: "extract_acceptance_criteria flds = Inr acs \<Longrightarrow> wf_criteria acs"
  by (auto simp: extract_acceptance_criteria_def rbind_Inr_iff wf_criteria_def
      split: option.splits json.splits if_splits dest: criteria_wf [unfolded wf_criteria_def])

lemma as_str1_wf: "as_str1 f j = Inr s \<Longrightarrow> contract_str1 s"
  by (cases j) (auto simp: as_str1_def invalid_def dest: validate_str1_contract)

lemma as_str_wf: "as_str f j = Inr s \<Longrightarrow> contract_str s"
  by (cases j) (auto simp: as_str_def invalid_def contract_str_def)

lemma story_of_json_wf:
  assumes "story_of_json now key j = Inr st"
  shows "wf_story st"
proof (cases j)
  case (JDict d)
  show ?thesis
  proof (cases "dict_get_or d ''fields'' (JDict [])")
    case (JDict flds)
    then show ?thesis using assms \<open>j = JDict d\<close> unfolding story_of_json_def wf_story_def
      by (clarsimp simp: rbind_Inr_iff) (blast intro: as_str1_wf as_str_wf extract_wf)
  qed (use assms JDict in \<open>simp_all add: story_of_json_def\<close>)
qed (use assms in \<open>simp_all add: story_of_json_def\<close>)

lemma stub_story_wf: "stub_story key = Inr st \<Longrightarrow> wf_story st"
proof -
  assume st: "stub_story key = Inr st"
  have w: "\<not> is_white_space CHR ''S''" by code_simp
  have "wf_criteria
      [\<lparr>jc_index = 0, jc_text = ''User can log in with valid credentials''\<rparr>,
       \<lparr>jc_index = 1, jc_text = ''User sees error on invalid credentials''\<rparr>]" by code_simp
  moreover have "contract_str ''This is a stub description.''" by code_simp
  moreover have "trim (''Stub story for '' @ key) \<noteq> []" using w unfolding trim_Nil by simp
  ultimately show ?thesis using st
    by (auto simp: stub_story_def rbind_Inr_iff wf_story_def contract_str1_def validate_str1_Inr)
qed

text \<open>What the orchestrator asks of a JIRA adapter: a story that comes back is valid.\<close>

locale story_source =
  fixes fetch :: "string \<Rightarrow> 's \<Rightarrow> jira_story option result \<times> 's"
  assumes valid: "fetch key s = (Inr (Some st), s') \<Longrightarrow> wf_story st"
begin

lemma criteria_valid:
  "fetch key s = (Inr (Some st), s') \<Longrightarrow> ac \<in> set (js_acceptance_criteria st) \<Longrightarrow> contract_str1 (jc_text ac)"
  using valid by (auto simp: wf_story_def wf_criteria_def list_all_iff)

end

interpretation jira: story_source "fetch_story X now A" for X now A
proof
  fix key s st s'
  assume "fetch_story X now A key s = (Inr (Some st), s')"
  then show "wf_story st"
    by (cases A)
      (auto simp: rbind_Inr_iff stub_story_wf split: prod.splits sum.splits if_splits dest: story_of_json_wf)
qed

text \<open>Fetching a story is fail-open for the transport: an unreachable server, a missing issue or any other
  unsuccessful status is no story and never an exception; and every story that any adapter returns is valid.\<close>

theorem jira_fetch_sound:
  "(case fst (fetch_story X now A key r) of Inr (Some st) \<Rightarrow> wf_story st | _ \<Rightarrow> True) \<and>
    (case A of
       JiraCloudAdapter a \<Rightarrow>
         (case jx_get X (jl_base_url a @ ''/rest/api/3/issue/'' @ key @ ''?fields='' @ JIRA_FIELDS) (jira_headers a) (jl_timeout a) r of
            (Inl _, r1) \<Rightarrow> fetch_story X now A key r = (Inr None, r1)
          | (Inr (code, _), r1) \<Rightarrow> is_success code \<or> fetch_story X now A key r = (Inr None, r1))
     | StubJiraAdapter \<Rightarrow> True
     | NullJiraAdapter \<Rightarrow> fetch_story X now A key r = (Inr None, r))"
proof
  show "case fst (fetch_story X now A key r) of Inr (Some st) \<Rightarrow> wf_story st | _ \<Rightarrow> True"
    using jira.valid [of X now A key r]
    by (cases "fetch_story X now A key r") (auto split: sum.splits option.splits)
qed (cases A; auto split: prod.splits sum.splits)

end
