(* ===== verification/Orchestrator.thy ===== *)
theory Orchestrator
  imports Validation Pack Rag Jira
begin

text \<open>
  \<open>totalrecall/generation/orchestrator.py\<close>: the pipeline of one generation request over the components it is
  built from. A step takes the state (gateway, memory wrapper and the outside worlds of the memory service and of
  the providers) and returns a result or an exception, with the new state. The two fetches run one after the
  other; \<open>ox_jira_late\<close> and \<open>ox_rag_late\<close> say whether their futures miss the deadline. Fresh identifiers and
  clock readings of one run are in \<open>run_ids\<close>.
\<close>

section \<open>State and steps\<close>

record ('r, 'p) orch_state =
  os_gateway :: gateway
  os_wrapper :: memory_wrapper
  os_mem :: 'r
  os_world :: 'p

type_synonym ('r, 'p, 'a) step = "('r, 'p) orch_state \<Rightarrow> 'a result \<times> ('r, 'p) orch_state"

definition sret :: "'a \<Rightarrow> ('r, 'p, 'a) step" where
  "sret x s = (Inr x, s)"

definition slift :: "'a result \<Rightarrow> ('r, 'p, 'a) step" where
  "slift x s = (x, s)"

definition sbind :: "('r, 'p, 'a) step \<Rightarrow> ('a \<Rightarrow> ('r, 'p, 'b) step) \<Rightarrow> ('r, 'p, 'b) step" where
  "sbind m f s = (case m s of (Inl e, s1) \<Rightarrow> (Inl e, s1) | (Inr x, s1) \<Rightarrow> f x s1)"

definition on_gateway :: "(gateway \<Rightarrow> 'p \<Rightarrow> 'a result \<times> gateway \<times> 'p) \<Rightarrow> ('r, 'p, 'a) step" where
  "on_gateway f s = (case f (os_gateway s) (os_world s) of (x, g, p) \<Rightarrow> (x, s\<lparr>os_gateway := g, os_world := p\<rparr>))"

definition on_memory :: "(memory_wrapper \<Rightarrow> 'r \<Rightarrow> 'a result \<times> memory_wrapper \<times> 'r) \<Rightarrow> ('r, 'p, 'a) step" where
  "on_memory f s = (case f (os_wrapper s) (os_mem s) of (x, w, r) \<Rightarrow> (x, s\<lparr>os_wrapper := w, os_mem := r\<rparr>))"

definition on_world :: "('p \<Rightarrow> 'a result \<times> 'p) \<Rightarrow> ('r, 'p, 'a) step" where
  "on_world f s = (case f (os_world s) of (x, p) \<Rightarrow> (x, s\<lparr>os_world := p\<rparr>))"

named_theorems step_simps \<open>evaluation of steps\<close>

lemma sbind_simps [step_simps]:
  "sbind (sret x) f s = f x s" "sbind (slift (Inr x)) f s = f x s" "sbind (slift (Inl e)) f s = (Inl e, s)"
  "m s = (Inr x, s1) \<Longrightarrow> sbind m f s = f x s1" "m s = (Inl e, s1) \<Longrightarrow> sbind m f s = (Inl e, s1)"
  by (simp_all add: sbind_def sret_def slift_def)

lemma sbind_Inr: "sbind m f s = (Inr y, s2) \<longleftrightarrow> (\<exists>x s1. m s = (Inr x, s1) \<and> f x s1 = (Inr y, s2))"
  by (auto simp: sbind_def split: prod.splits sum.splits)

lemma sret_iff: "sret x s = (y, s1) \<longleftrightarrow> y = Inr x \<and> s1 = s"
  by (auto simp: sret_def)

lemma slift_iff: "slift x s = (y, s1) \<longleftrightarrow> y = x \<and> s1 = s"
  by (auto simp: slift_def)

section \<open>The orchestrator\<close>

record orchestrator =
  or_skills :: skill_registry
  or_worker :: "worker_client option"
  or_reformulator :: "reformulator option"
  or_input_guardrail :: "input_guardrail option"
  or_output_guardrail :: "output_guardrail option"
  or_jira :: "jira_adapter option"
  or_rag :: "rag_store option"
  or_router :: bool
  or_testgen_builder :: bool
  or_tone :: "tone_checker option"
  or_testgen_normalizer :: bool

record ('r, 'p) orch_ext =
  ox_mem :: "'r ext"
  ox_gen :: "'p gen_ext"
  ox_val :: "'p val_ext"
  ox_jira :: "'p jira_ext"
  ox_rag :: "'p rag_ext"
  ox_rag_db :: "rag_row list"
  ox_datetime :: "json \<Rightarrow> rat result"
  ox_jira_late :: bool
  ox_rag_late :: bool

record run_ids =
  ru_request_id :: string
  ru_plan_id :: string
  ru_reform_id :: string
  ru_worker_id :: string
  ru_repair_id :: string
  ru_plan_time :: reading
  ru_prompt_time :: reading
  ru_now :: rat

definition wants_intent :: "generation_request \<Rightarrow> bool" where
  "wants_intent q = (given (gr_jira_key q) \<noteq> None \<or> given (gr_test_types q) \<noteq> None)"

definition get_intent ::
  "('r, 'p) orch_ext \<Rightarrow> fs \<Rightarrow> orchestrator \<Rightarrow> run_ids \<Rightarrow> generation_request \<Rightarrow> ('r, 'p, reformulated_intent option) step" where
  "get_intent X fs o' ids q =
     (case or_reformulator o' of
        Some R \<Rightarrow>
          if wants_intent q
          then sbind (on_gateway (reformulate (ox_gen X) fs (ru_reform_id ids) R (gr_prompt q) (gr_jira_key q) (gr_test_types q)))
                 (\<lambda>i. sret (Some i))
          else sret None
      | None \<Rightarrow> sret None)"

definition failed_result :: "string \<Rightarrow> service_error list \<Rightarrow> generation_result" where
  "failed_result rid errs =
     \<lparr>gn_request_id = rid, gn_status = G_FAILED, gn_artifacts = [], gn_validation = empty_validation,
      gn_context = empty_context, gn_errors = errs, gn_test_case_pack = None\<rparr>"

definition blocked_result :: "string \<Rightarrow> guardrail_result \<Rightarrow> generation_result" where
  "blocked_result rid g = failed_result rid (map (\<lambda>v. mk_error GUARDRAIL_BLOCKED (gv_message v)) (gd_violations g))"

definition input_verdict :: "orchestrator \<Rightarrow> generation_request \<Rightarrow> guardrail_result option" where
  "input_verdict o' q =
     (case or_input_guardrail o' of
        None \<Rightarrow> None
      | Some g \<Rightarrow> if gd_passed (check_input g q) then None else Some (check_input g q))"

definition output_verdict :: "orchestrator \<Rightarrow> string \<Rightarrow> guardrail_result option" where
  "output_verdict o' raw =
     (case or_output_guardrail o' of
        None \<Rightarrow> None
      | Some g \<Rightarrow> if gd_passed (check_output g raw) then None else Some (check_output g raw))"

text \<open>A future whose exception or deadline is logged and dropped.\<close>

definition fail_open :: "bool \<Rightarrow> 'a \<Rightarrow> ('p \<Rightarrow> 'a result \<times> 'p) \<Rightarrow> 'p \<Rightarrow> 'a result \<times> 'p" where
  "fail_open late dflt f p =
     (case f p of (Inr x, p1) \<Rightarrow> (Inr (if late then dflt else x), p1) | (Inl _, p1) \<Rightarrow> (Inr dflt, p1))"

definition fetch_jira ::
  "('r, 'p) orch_ext \<Rightarrow> orchestrator \<Rightarrow> run_ids \<Rightarrow> generation_request \<Rightarrow> ('r, 'p, jira_story option) step" where
  "fetch_jira X o' ids q =
     (case (or_jira o', given (gr_jira_key q)) of
        (Some A, Some key) \<Rightarrow> on_world (fail_open (ox_jira_late X) None (fetch_story (ox_jira X) (ru_now ids) A key))
      | _ \<Rightarrow> sret None)"

definition fetch_rag ::
  "('r, 'p) orch_ext \<Rightarrow> orchestrator \<Rightarrow> generation_request \<Rightarrow> ('r, 'p, rag_chunk list) step" where
  "fetch_rag X o' q =
     (case or_rag o' of
        Some st \<Rightarrow> on_world (fail_open (ox_rag_late X) []
          (rag_retrieve (ox_rag X) (ox_rag_db X) st (gr_prompt q) (gr_tenant_id q) 5))
      | None \<Rightarrow> sret [])"

definition fetch_inputs ::
  "('r, 'p) orch_ext \<Rightarrow> orchestrator \<Rightarrow> run_ids \<Rightarrow> generation_request \<Rightarrow> ('r, 'p, plan_inputs) step" where
  "fetch_inputs X o' ids q =
     sbind (fetch_jira X o' ids q) (\<lambda>story. sbind (fetch_rag X o' q) (\<lambda>chunks.
       sret \<lparr>pi_jira_story = story, pi_rag_chunks = chunks\<rparr>))"

definition make_plan ::
  "('r, 'p) orch_ext \<Rightarrow> fs \<Rightarrow> orchestrator \<Rightarrow> run_ids \<Rightarrow> generation_request \<Rightarrow> plan_inputs \<Rightarrow> ('r, 'p, context_plan) step" where
  "make_plan X fs o' ids q inputs =
     on_memory (plan (ox_mem X) fs (ru_plan_time ids) (ru_plan_id ids) (or_skills o') q (ru_request_id ids) (Some inputs))"

definition build_messages ::
  "('r, 'p) orch_ext \<Rightarrow> fs \<Rightarrow> orchestrator \<Rightarrow> run_ids \<Rightarrow> generation_request \<Rightarrow> context_plan \<Rightarrow> reformulated_intent option
   \<Rightarrow> ('r, 'p, provider_message list) step" where
  "build_messages X fs o' ids q p intent =
     (if intent \<noteq> None \<and> or_router o' \<and> or_testgen_builder o'
      then slift (testgen_build q p intent (route_types intent q))
      else on_memory (build_prompt (ox_mem X) fs (ru_prompt_time ids) (or_skills o') q p))"

definition provider_request_of :: "run_ids \<Rightarrow> generation_request \<Rightarrow> provider_message list \<Rightarrow> provider_request" where
  "provider_request_of ids q ms =
     \<lparr>pq_request_id = ru_request_id ids, pq_tenant_id = gr_tenant_id q, pq_messages = ms,
      pq_config = mk_config (ps_provider_id (gr_provider q)) (ps_model (gr_provider q)) (go_max_output_tokens (gr_options q))\<rparr>"

text \<open>The call of the gateway; a \<open>ProviderNotFoundError\<close> is caught.\<close>

definition call_provider ::
  "('r, 'p) orch_ext \<Rightarrow> fs \<Rightarrow> run_ids \<Rightarrow> generation_request \<Rightarrow> provider_message list \<Rightarrow> ('r, 'p, string + provider_response) step" where
  "call_provider X fs ids q ms s =
     (case on_gateway (gateway_generate (gx_llm (ox_gen X)) fs (provider_request_of ids q ms)
             (ps_fallback_provider_ids (gr_provider q))) s of
        (Inl (ProviderNotFoundError m), s1) \<Rightarrow> (Inr (Inl m), s1)
      | (Inl e, s1) \<Rightarrow> (Inl e, s1)
      | (Inr resp, s1) \<Rightarrow> (Inr (Inr resp), s1))"

definition tone_step ::
  "('r, 'p) orch_ext \<Rightarrow> fs \<Rightarrow> orchestrator \<Rightarrow> run_ids \<Rightarrow> string \<Rightarrow> ('r, 'p, string) step" where
  "tone_step X fs o' ids raw =
     (case or_tone o' of
        None \<Rightarrow> sret raw
      | Some tc \<Rightarrow> sbind (on_gateway (refine (ox_gen X) fs tc raw (ru_request_id ids))) (\<lambda>(t, _). sret t))"

definition is_testgen :: "orchestrator \<Rightarrow> reformulated_intent option \<Rightarrow> bool" where
  "is_testgen o' intent = (intent \<noteq> None \<and> or_testgen_normalizer o')"

definition validate_step ::
  "('r, 'p) orch_ext \<Rightarrow> orchestrator \<Rightarrow> string \<Rightarrow> generation_request \<Rightarrow> generated_artifact list \<Rightarrow> ('r, 'p, validation_summary) step" where
  "validate_step X o' rid q arts =
     (if go_validation_enabled (gr_options q)
      then on_world (validate (ox_val X) (or_worker o') rid arts
             (select (gt_language (gr_target q)) (gt_framework (gr_target q)) (or_skills o')))
      else sret empty_validation)"

text \<open>The single repair pass; it keeps the first outcome if no provider of the chain is registered.\<close>

definition repair_step ::
  "('r, 'p) orch_ext \<Rightarrow> fs \<Rightarrow> orchestrator \<Rightarrow> run_ids \<Rightarrow> generation_request \<Rightarrow> provider_message list \<Rightarrow> string
   \<Rightarrow> generated_artifact list \<times> service_error list \<times> validation_summary
   \<Rightarrow> ('r, 'p, generated_artifact list \<times> service_error list \<times> validation_summary) step" where
  "repair_step X fs o' ids q ms raw first =
     (case first of (arts, errs, v) \<Rightarrow>
       (if go_allow_repair (gr_options q) \<and> vs_status v = V_FAILED \<and> vs_diagnostics v \<noteq> []
        then
          sbind (slift (build_repair_messages ms raw (vs_diagnostics v))) (\<lambda>rms.
          sbind (call_provider X fs ids q rms) (\<lambda>ans.
            (case ans of
               Inl _ \<Rightarrow> sret first
             | Inr resp \<Rightarrow>
                 sbind (slift (normalize (pr_raw_text resp))) (\<lambda>(arts2, errs2).
                 sbind (validate_step X o' (ru_repair_id ids) q arts2) (\<lambda>v2.
                   sret (arts2, errs2, v2))))))
        else sret first))"

definition context_of :: "context_plan \<Rightarrow> generation_context_metadata" where
  "context_of p =
     (let b = cp_token_budget p
      in \<lparr>gc_context_plan_id = Some (cp_context_plan_id p), gc_skill_ids = cp_skill_ids p, gc_memory_ids = cp_memory_ids p,
          gc_estimated_input_tokens = tb_estimated_input_tokens b, gc_baseline_input_tokens = tb_baseline_estimate b,
          gc_estimated_tokens_saved = tb_estimated_tokens_saved b,
          gc_token_savings_percent =
            (if tb_baseline_estimate b \<noteq> 0
             then round2 (of_int (tb_estimated_tokens_saved b) / of_int (tb_baseline_estimate b) * 100) else 0),
          gc_excluded_memory_count = length (filter (\<lambda>x. ce_reason x = TOKEN_BUDGET) (cp_excluded p)),
          gc_max_input_tokens = tb_max_input_tokens b\<rparr>)"

definition codegen_result ::
  "string \<Rightarrow> context_plan \<Rightarrow> generated_artifact list \<times> service_error list \<times> validation_summary \<Rightarrow> generation_result" where
  "codegen_result rid p out =
     (case out of (arts, errs, v) \<Rightarrow>
       \<lparr>gn_request_id = rid,
        gn_status = (if (errs \<noteq> [] \<or> vs_status v = V_FAILED) \<and> arts = [] then G_FAILED else G_COMPLETED),
        gn_artifacts = arts, gn_validation = v, gn_context = context_of p, gn_errors = errs, gn_test_case_pack = None\<rparr>)"

definition testgen_result ::
  "string \<Rightarrow> context_plan \<Rightarrow> test_case_pack option \<times> service_error list \<Rightarrow> generation_result" where
  "testgen_result rid p out =
     (case out of (pack, errs) \<Rightarrow>
       \<lparr>gn_request_id = rid, gn_status = (if errs = [] then G_COMPLETED else G_FAILED), gn_artifacts = [],
        gn_validation = empty_validation, gn_context = context_of p, gn_errors = errs, gn_test_case_pack = pack\<rparr>)"

text \<open>What follows a provider's response.\<close>

definition respond ::
  "('r, 'p) orch_ext \<Rightarrow> fs \<Rightarrow> orchestrator \<Rightarrow> run_ids \<Rightarrow> generation_request \<Rightarrow> context_plan \<Rightarrow> reformulated_intent option
   \<Rightarrow> provider_message list \<Rightarrow> provider_response \<Rightarrow> ('r, 'p, generation_result) step" where
  "respond X fs o' ids q p intent ms resp =
     (case output_verdict o' (pr_raw_text resp) of
        Some g \<Rightarrow> sret (blocked_result (ru_request_id ids) g)
      | None \<Rightarrow>
          sbind (tone_step X fs o' ids (pr_raw_text resp)) (\<lambda>raw.
            if is_testgen o' intent
            then sret (testgen_result (ru_request_id ids) p (normalize_pack (ox_datetime X) (ru_now ids) raw (gr_jira_key q)))
            else
              sbind (slift (normalize raw)) (\<lambda>(arts, errs).
              sbind (validate_step X o' (ru_worker_id ids) q arts) (\<lambda>v.
              sbind (repair_step X fs o' ids q ms raw (arts, errs, v)) (\<lambda>out.
                sret (codegen_result (ru_request_id ids) p out))))))"

definition dispatch ::
  "('r, 'p) orch_ext \<Rightarrow> fs \<Rightarrow> orchestrator \<Rightarrow> run_ids \<Rightarrow> generation_request \<Rightarrow> reformulated_intent option
   \<Rightarrow> ('r, 'p, generation_result) step" where
  "dispatch X fs o' ids q intent =
     sbind (fetch_inputs X o' ids q) (\<lambda>inputs.
     sbind (make_plan X fs o' ids q inputs) (\<lambda>p.
     sbind (build_messages X fs o' ids q p intent) (\<lambda>ms0.
     sbind (slift (redact_messages ms0)) (\<lambda>(ms, _).
     sbind (call_provider X fs ids q ms) (\<lambda>ans.
       (case ans of
          Inl m \<Rightarrow> sret (failed_result (ru_request_id ids) [mk_error PROVIDER_UNAVAILABLE m])
        | Inr resp \<Rightarrow> respond X fs o' ids q p intent ms resp))))))"

definition generate ::
  "('r, 'p) orch_ext \<Rightarrow> fs \<Rightarrow> orchestrator \<Rightarrow> run_ids \<Rightarrow> generation_request \<Rightarrow> ('r, 'p, generation_result) step" where
  "generate X fs o' ids q =
     sbind (get_intent X fs o' ids q) (\<lambda>intent.
       (case input_verdict o' q of
          Some g \<Rightarrow> sret (blocked_result (ru_request_id ids) g)
        | None \<Rightarrow> dispatch X fs o' ids q intent))"

text \<open>\<open>create_app\<close>: the orchestrator the application builds; the flags are read one adapter after the other.\<close>

definition create_orchestrator ::
  "env \<Rightarrow> http \<Rightarrow> fs \<Rightarrow> rat \<Rightarrow> credential_provider \<Rightarrow> skill_registry \<Rightarrow> worker_client option \<Rightarrow> flag_provider
   \<Rightarrow> orchestrator result \<times> flag_provider" where
  "create_orchestrator env http fs now cp reg worker p =
     (case build_reformulator http fs now True p of
        (Inl e, p1) \<Rightarrow> (Inl e, p1)
      | (Inr R, p1) \<Rightarrow>
          (case build_jira_adapter env http fs now cp p1 of
             (Inl e, p2) \<Rightarrow> (Inl e, p2)
           | (Inr A, p2) \<Rightarrow>
               (case build_rag_store env http fs now (Some cp) p2 of
                  (st, p3) \<Rightarrow>
                    (case build_input_guardrail http fs now p3 of
                       (ig, p4) \<Rightarrow>
                         (case build_output_guardrail http fs now p4 of
                            (og, p5) \<Rightarrow>
                              (case build_tone_checker http fs now True p5 of
                                 (tc, p6) \<Rightarrow>
                                   (Inr \<lparr>or_skills = reg, or_worker = worker, or_reformulator = Some R,
                                      or_input_guardrail = Some ig, or_output_guardrail = Some og, or_jira = Some A,
                                      or_rag = Some st, or_router = True, or_testgen_builder = True, or_tone = Some tc,
                                      or_testgen_normalizer = True\<rparr>, p6)))))))"

section \<open>Results\<close>

text \<open>How the parts of a result fit together.\<close>

definition consistent_result :: "generation_result \<Rightarrow> bool" where
  "consistent_result gn =
     ((gn_status gn = G_FAILED \<and> gn_artifacts gn = [] \<and> gn_test_case_pack gn = None \<and>
         (gn_errors gn \<noteq> [] \<or> vs_status (gn_validation gn) = V_FAILED)) \<or>
      (gn_status gn = G_COMPLETED \<and> (gn_test_case_pack gn \<noteq> None \<longrightarrow> gn_errors gn = [] \<and> gn_artifacts gn = [])))"

lemma consistent_blocked: "\<not> gd_passed (check_input g q) \<Longrightarrow> consistent_result (blocked_result rid (check_input g q))"
  using input_guard.blocked_nonempty [of g q]
  by (simp add: consistent_result_def blocked_result_def failed_result_def input_guard.blocked_errors_def)

lemma consistent_output_blocked: "\<not> gd_passed (check_output g raw) \<Longrightarrow> consistent_result (blocked_result rid (check_output g raw))"
  using output_guard.blocked_nonempty [of g raw]
  by (simp add: consistent_result_def blocked_result_def failed_result_def output_guard.blocked_errors_def)

lemma consistent_codegen: "consistent_result (codegen_result rid p out)"
  by (cases out) (auto simp: consistent_result_def codegen_result_def)

lemma consistent_testgen: "consistent_result (testgen_result rid p (normalize_pack dt now raw key))"
  using pack_xor_errors [of dt now raw key]
  by (cases "normalize_pack dt now raw key") (auto simp: consistent_result_def testgen_result_def)

lemma consistent_failed: "errs \<noteq> [] \<Longrightarrow> consistent_result (failed_result rid errs)"
  by (simp add: consistent_result_def failed_result_def)

lemmas consistent_results = consistent_blocked consistent_output_blocked consistent_codegen consistent_testgen consistent_failed

lemma respond_consistent: "respond X fs o' ids q p intent ms resp s = (Inr gn, s') \<Longrightarrow> consistent_result gn"
  by (auto simp: respond_def sbind_Inr sret_iff slift_iff output_verdict_def consistent_results
      split: option.splits if_splits)

lemma generate_cases:
  assumes "generate X fs o' ids q s = (Inr gn, s')"
  shows "(\<exists>g. input_verdict o' q = Some g \<and> gn = blocked_result (ru_request_id ids) g) \<or>
    (\<exists>m. gn = failed_result (ru_request_id ids) [mk_error PROVIDER_UNAVAILABLE m]) \<or>
    (\<exists>p intent ms resp s1. respond X fs o' ids q p intent ms resp s1 = (Inr gn, s'))"
  using assms unfolding generate_def dispatch_def
  by (auto simp: sbind_Inr sret_iff slift_iff split: option.splits sum.splits) (metis sum.exhaust)

text \<open>C3: every answer of the pipeline is consistent: a failed one has no artifacts and no pack and names a
  reason, an error or a failed validation; one with a pack is completed, without errors or artifacts.\<close>

theorem result_consistent:
  assumes "generate X fs o' ids q s = (Inr gn, s')"
  shows "(gn_status gn = G_FAILED \<longrightarrow> gn_artifacts gn = [] \<and> gn_test_case_pack gn = None \<and>
           (gn_errors gn \<noteq> [] \<or> vs_status (gn_validation gn) = V_FAILED)) \<and>
    (gn_test_case_pack gn \<noteq> None \<longrightarrow> gn_status gn = G_COMPLETED \<and> gn_errors gn = [] \<and> gn_artifacts gn = []) \<and>
    (gn_status gn = G_FAILED \<or> gn_status gn = G_COMPLETED)"
proof -
  have "consistent_result gn"
    using generate_cases [OF assms]
  proof (elim disjE exE conjE)
    fix g
    assume "input_verdict o' q = Some g" "gn = blocked_result (ru_request_id ids) g"
    then show ?thesis by (auto simp: input_verdict_def consistent_blocked split: option.splits if_splits)
  next
    fix m
    assume "gn = failed_result (ru_request_id ids) [mk_error PROVIDER_UNAVAILABLE m]"
    then show ?thesis by (simp add: consistent_failed)
  next
    fix p intent ms resp s1
    assume "respond X fs o' ids q p intent ms resp s1 = (Inr gn, s')"
    then show ?thesis by (rule respond_consistent)
  qed
  then show ?thesis by (auto simp: consistent_result_def)
qed

text \<open>Every answer carries the request id of its run, and the plan of the run or none.\<close>

lemma respond_identity:
  "respond X fs o' ids q p intent ms resp s = (Inr gn, s') \<Longrightarrow>
   gn_request_id gn = ru_request_id ids \<and> gn_context gn \<in> {empty_context, context_of p}"
  by (auto simp: respond_def sbind_Inr sret_iff slift_iff blocked_result_def failed_result_def codegen_result_def
      testgen_result_def split: option.splits if_splits prod.splits)

lemma generate_request_id: "generate X fs o' ids q s = (Inr gn, s') \<Longrightarrow> gn_request_id gn = ru_request_id ids"
  by (drule generate_cases) (auto simp: blocked_result_def failed_result_def dest: respond_identity)

section \<open>Guardrails and the reformulator\<close>

lemma get_intent_offline:
  assumes "contract_str1 (gr_prompt q)" "strip (gr_prompt q) \<noteq> []"
    and "\<forall>cfg. or_reformulator o' \<noteq> Some (LLMReformulator cfg)"
  shows "\<exists>intent. get_intent X fs o' ids q s = (Inr intent, s) \<and> (intent \<noteq> None \<longleftrightarrow> or_reformulator o' \<noteq> None \<and> wants_intent q)"
proof (cases "or_reformulator o'")
  case None
  then show ?thesis by (simp add: get_intent_def sret_def)
next
  case (Some R)
  obtain i where i: "fst (reformulate (ox_gen X) fs (ru_reform_id ids) R (gr_prompt q) (gr_jira_key q) (gr_test_types q)
      (os_gateway s) (os_world s)) = Inr i"
    using reform.answers [OF assms(1,2), of "ox_gen X" fs "ru_reform_id ids" R "gr_jira_key q" "gr_test_types q"
        "(os_gateway s, os_world s)"] by auto
  show ?thesis
  proof (cases R)
    case (LLMReformulator cfg)
    then show ?thesis using Some assms(3) by simp
  qed (use Some i in \<open>auto simp: get_intent_def sret_def sbind_def on_gateway_def\<close>)
qed

text \<open>C9: without an LLM reformulator the input guardrail stops a request before anything happens: the answer is
  failed, all its errors are guardrail errors and there is at least one, and no component's state has changed.\<close>

theorem input_guardrail_stops:
  assumes "contract_str1 (gr_prompt q)" and "strip (gr_prompt q) \<noteq> []"
    and "\<forall>cfg. or_reformulator o' \<noteq> Some (LLMReformulator cfg)"
    and "or_input_guardrail o' = Some g" and "\<not> gd_passed (check_input g q)"
  shows "\<exists>gn. generate X fs o' ids q s = (Inr gn, s) \<and> gn_status gn = G_FAILED \<and> gn_errors gn \<noteq> [] \<and>
    (\<forall>e \<in> set (gn_errors gn). se_code e = GUARDRAIL_BLOCKED) \<and> gn_context gn = empty_context"
proof -
  obtain intent where "get_intent X fs o' ids q s = (Inr intent, s)" using get_intent_offline [OF assms(1-3)] by blast
  then have "generate X fs o' ids q s = (Inr (blocked_result (ru_request_id ids) (check_input g q)), s)"
    using assms(4,5) by (simp add: generate_def step_simps input_verdict_def sret_def)
  then show ?thesis
    using input_guard.blocked_nonempty [of g q] assms(5)
    by (auto simp: blocked_result_def failed_result_def input_guard.blocked_errors_def mk_error_def)
qed

text \<open>With an LLM reformulator the prompt reaches a provider before the input guardrail looks at it, and
  unredacted: for a request the guardrail refuses, the providers' state is the one after a call with the whole prompt.\<close>

theorem refused_prompt_reaches_llm:
  assumes "contract_str1 (gr_prompt q)" and "strip (gr_prompt q) \<noteq> []" and "wants_intent q"
    and "or_reformulator o' = Some (LLMReformulator cfg)"
    and "or_input_guardrail o' = Some g" and "\<not> gd_passed (check_input g q)"
  shows "\<exists>pq m gn s' x. generate X fs o' ids q s = (Inr gn, s') \<and> gn_status gn = G_FAILED \<and>
    gateway_generate (gx_llm (ox_gen X)) fs pq [] (os_gateway s) (os_world s) = (x, os_gateway s', os_world s') \<and>
    m \<in> set (pq_messages pq) \<and> sublist (gr_prompt q) (pm_content m)"
proof -
  obtain ms where ms: "two_messages REFORMULATOR_SYSTEM_PROMPT
      (reformulation_content (gr_prompt q) (gr_jira_key q) (gr_test_types q)) = Inr ms"
    using reformulator_messages [OF assms(1)] by blast
  let ?pq = "\<lparr>pq_request_id = ru_reform_id ids, pq_tenant_id = ''__system__'', pq_messages = ms, pq_config = cfg\<rparr>"
  obtain x g1 p1 where run: "gateway_generate (gx_llm (ox_gen X)) fs ?pq [] (os_gateway s) (os_world s) = (x, g1, p1)"
    by (cases "gateway_generate (gx_llm (ox_gen X)) fs ?pq [] (os_gateway s) (os_world s)")
  obtain i g' r' where i: "llm_reformulate (ox_gen X) fs (ru_reform_id ids) cfg (gr_prompt q) (gr_jira_key q) (gr_test_types q)
      (os_gateway s) (os_world s) = (Inr i, g', r')"
    using llm_ok [OF assms(1,2), of "ox_gen X" fs "ru_reform_id ids" cfg "gr_jira_key q" "gr_test_types q"] by blast
  then have gr: "g' = g1 \<and> r' = p1"
    using ms run by (auto simp: llm_reformulate_def split: option.splits sum.splits)
  let ?s = "s\<lparr>os_gateway := g1, os_world := p1\<rparr>"
  have "get_intent X fs o' ids q s = (Inr (Some i), ?s)"
    using assms(3,4) i gr by (simp add: get_intent_def sbind_def on_gateway_def sret_def)
  then have gen: "generate X fs o' ids q s = (Inr (blocked_result (ru_request_id ids) (check_input g q)), ?s)"
    using assms(5,6) by (simp add: generate_def step_simps input_verdict_def sret_def)
  let ?c = "reformulation_content (gr_prompt q) (gr_jira_key q) (gr_test_types q)"
  have "\<lparr>pm_role = USER, pm_content = trim ?c\<rparr> \<in> set ms"
    using ms by (auto simp: two_messages_def rbind_Inr_iff mk_message_def validate_str1_def split: if_splits sum.splits)
  moreover have "?c = (case given (gr_jira_key q) of None \<Rightarrow> [] | Some k \<Rightarrow> ''JIRA key: '' @ k @ nl @ nl) @ gr_prompt q
      @ (case given (gr_test_types q) of None \<Rightarrow> []
         | Some ts \<Rightarrow> nl @ nl @ ''Requested test types: '' @ join '', '' (map test_type_value ts))"
    by (simp add: reformulation_content_def split: option.splits)
  then have "sublist (gr_prompt q) ?c" unfolding sublist_def by blast
  ultimately show ?thesis
    using gen run sublist_trim [OF _ assms(1), of ?c]
    by (intro exI [of _ ?pq] exI [of _ "\<lparr>pm_role = USER, pm_content = trim ?c\<rparr>"])
      (auto simp: blocked_result_def failed_result_def)
qed

section \<open>Fetching is fail-open\<close>

lemma fail_open_Inr: "\<exists>x p1. fail_open late dflt f p = (Inr x, p1)"
  by (auto simp: fail_open_def split: prod.splits sum.splits)

lemma on_fail_open: "\<exists>x p1. on_world (fail_open late dflt f) s = (Inr x, s\<lparr>os_world := p1\<rparr>)"
  using fail_open_Inr [of late dflt f "os_world s"] by (auto simp: on_world_def)

lemma orch_state_same [simp]: "(s::('r, 'p) orch_state)\<lparr>os_world := os_world s\<rparr> = s"
  by simp

lemma on_sret: "\<exists>x p1. sret y s = (Inr x, s\<lparr>os_world := p1\<rparr>)"
  by (intro exI [of _ y] exI [of _ "os_world s"]) (simp add: sret_def)

lemma fetch_jira_ok: "\<exists>x p1. fetch_jira X o' ids q s = (Inr x, s\<lparr>os_world := p1\<rparr>)"
  unfolding fetch_jira_def by (auto intro: on_fail_open on_sret split: option.splits)

lemma fetch_rag_ok: "\<exists>x p1. fetch_rag X o' q s = (Inr x, s\<lparr>os_world := p1\<rparr>)"
  unfolding fetch_rag_def by (auto intro: on_fail_open on_sret split: option.splits)

lemma fetch_inputs_ok: "\<exists>inputs p1. fetch_inputs X o' ids q s = (Inr inputs, s\<lparr>os_world := p1\<rparr>)"
proof -
  obtain x p1 where a: "fetch_jira X o' ids q s = (Inr x, s\<lparr>os_world := p1\<rparr>)" using fetch_jira_ok [of X o' ids q s] by blast
  obtain y p2 where b: "fetch_rag X o' q (s\<lparr>os_world := p1\<rparr>) = (Inr y, s\<lparr>os_world := p1\<rparr>\<lparr>os_world := p2\<rparr>)"
    using fetch_rag_ok [of X o' q "s\<lparr>os_world := p1\<rparr>"] by blast
  show ?thesis
    by (intro exI [of _ "\<lparr>pi_jira_story = x, pi_rag_chunks = y\<rparr>"] exI [of _ p2])
      (use a b in \<open>simp add: fetch_inputs_def sbind_def sret_def\<close>)
qed

section \<open>The stub pipeline\<close>

lemma contains_sublist: "contains t s \<longleftrightarrow> sublist t s"
proof (induction s)
  case (Cons c s)
  have "take (length t) (c # s) = t \<longleftrightarrow> prefix t (c # s)"
    by (metis append_eq_conv_conj prefix_def)
  then show ?case using Cons.IH by (simp only: contains.simps sublist_Cons_right)
qed (simp add: sublist_Nil_right)

lemma printed_entry:
  assumes "(k, v) \<in> set d"
  shows "sublist (quote_str k) (dumps_indent lvl (JDict d))"
    and "sublist (dumps_indent (Suc lvl) v) (dumps_indent lvl (JDict d))"
proof -
  let ?e = "quote_str k @ '': '' @ dumps_indent (Suc lvl) v"
  let ?j = "join ('','' @ newline_indent (Suc lvl)) (map (\<lambda>(k, v). quote_str k @ '': '' @ dumps_indent (Suc lvl) v) d)"
  have "sublist ?e ?j" using assms by (intro join_sublist) force
  moreover have "sublist ?j (dumps_indent lvl (JDict d))"
  proof -
    have "dumps_indent lvl (JDict d) = (''{'' @ newline_indent (Suc lvl)) @ ?j @ (newline_indent lvl @ ''}'')"
      using assms by auto
    then show ?thesis unfolding sublist_def by blast
  qed
  ultimately have e: "sublist ?e (dumps_indent lvl (JDict d))" using sublist_order.order.trans by blast
  have k: "sublist (quote_str k) ?e" unfolding sublist_def
    by (rule exI [of _ "[]"], rule exI [of _ "'': '' @ dumps_indent (Suc lvl) v"]) simp
  have v: "sublist (dumps_indent (Suc lvl) v) ?e" unfolding sublist_def
    by (rule exI [of _ "quote_str k @ '': ''"], rule exI [of _ "[]"]) simp
  from k v e show "sublist (quote_str k) (dumps_indent lvl (JDict d))" "sublist (dumps_indent (Suc lvl) v) (dumps_indent lvl (JDict d))"
    using sublist_order.order.trans by blast+
qed

lemma schema_names:
  "sublist (quote_str ''test_cases'') TESTGEN_OUTPUT_INSTRUCTION"
  "sublist (quote_str ''story_summary'') TESTGEN_OUTPUT_INSTRUCTION"
proof -
  obtain d props where d: "TEST_CASE_PACK_SCHEMA = JDict d" "(''properties'', JDict props) \<in> set d"
      "\<exists>v. (''test_cases'', v) \<in> set props" "\<exists>v. (''story_summary'', v) \<in> set props"
    by (simp add: TEST_CASE_PACK_SCHEMA_def)
  have "sublist (dumps_indent 0 TEST_CASE_PACK_SCHEMA) TESTGEN_OUTPUT_INSTRUCTION"
    unfolding TESTGEN_OUTPUT_INSTRUCTION_def sublist_def by (metis append_assoc)
  moreover have "sublist (quote_str k) (dumps_indent 0 TEST_CASE_PACK_SCHEMA)" if "\<exists>v. (k, v) \<in> set props" for k
    using that printed_entry(1) [of k _ props "Suc 0"] printed_entry(2) [OF d(2), of 0] sublist_order.order.trans
    unfolding d(1) by blast
  ultimately show "sublist (quote_str ''test_cases'') TESTGEN_OUTPUT_INSTRUCTION"
    "sublist (quote_str ''story_summary'') TESTGEN_OUTPUT_INSTRUCTION"
    using d(3,4) sublist_order.order.trans by blast+
qed

lemma stub_recognises_testgen:
  assumes "m \<in> set (pq_messages pq)" and "suffix TESTGEN_OUTPUT_INSTRUCTION (pm_content m)"
  shows "default_response_for pq = DEFAULT_TEST_CASE_PACK"
proof -
  have "sublist (pm_content m) (join nl (map pm_content (pq_messages pq)))"
    using assms(1) by (intro join_sublist) simp
  then have "sublist TESTGEN_OUTPUT_INSTRUCTION (join nl (map pm_content (pq_messages pq)))"
    using assms(2) suffix_imp_sublist sublist_order.order.trans by blast
  then have "sublist t (join nl (map pm_content (pq_messages pq)))" if "sublist t TESTGEN_OUTPUT_INSTRUCTION" for t
    using that sublist_order.order.trans by blast
  then show ?thesis using schema_names by (simp add: default_response_for_def Let_def contains_sublist)
qed

lemma dumps_dict_trim: "trim (dumps (JDict d)) = dumps (JDict d)"
proof -
  have b: "\<not> is_white_space CHR ''{''" "\<not> is_white_space CHR ''}''" by code_simp+
  have e: "dumps (JDict d) = CHR ''{'' # (join '', '' (map (\<lambda>(k, v). quote_str k @ '': '' @ dumps v) d) @ ''}'')" by simp
  show ?thesis unfolding e by (rule trim_fixed) (use b in simp_all)
qed

lemma stub_gateway_testgen:
  assumes "dict_get g ''stub'' = Some (StubProvider None)" and "pc_provider_id (pq_config pq) = ''stub''"
    and "contract_str1 (pq_request_id pq)" and "contract_str1 (pc_model (pq_config pq))"
    and "default_response_for pq = DEFAULT_TEST_CASE_PACK"
  shows "\<exists>resp g1. gateway_generate L fs pq fb g r = (Inr resp, g1, r) \<and> pr_raw_text resp = dumps DEFAULT_TEST_CASE_PACK"
proof -
  have "trim (dumps DEFAULT_TEST_CASE_PACK) = dumps DEFAULT_TEST_CASE_PACK"
    unfolding DEFAULT_TEST_CASE_PACK_def by (rule dumps_dict_trim)
  moreover have "contract_str1 ''stub''" by code_simp
  ultimately show ?thesis using assms
    by (simp add: gateway_generate_def stub_generate_def mk_response_def Let_def validate_str1_id)
qed

lemma make_plan_ok:
  "extract_metadata q = Inr m \<Longrightarrow> \<exists>p s1. make_plan X fs o' ids q inputs s = (Inr p, s1) \<and>
     os_gateway s1 = os_gateway s \<and> os_world s1 = os_world s \<and> cp_context_plan_id p = ru_plan_id ids"
  by (auto simp: make_plan_def on_memory_def plan_def plan_of_def Let_def split: prod.splits)

text \<open>What the test case path needs from the orchestrator: its own parts in place, no LLM reformulator, and
  guardrails and tone checker that let everything through.\<close>

definition plain_testgen :: "orchestrator \<Rightarrow> bool" where
  "plain_testgen o' = (or_router o' \<and> or_testgen_builder o' \<and> or_testgen_normalizer o' \<and>
     or_reformulator o' \<in> {Some KeywordReformulator, Some StubReformulator} \<and>
     or_input_guardrail o' \<in> {None, Some NullInputGuardrail} \<and>
     or_output_guardrail o' \<in> {None, Some NullOutputGuardrail} \<and> or_tone o' \<in> {None, Some NullToneChecker})"

lemma stub_testgen_run:
  assumes q: "contract_str1 (gr_prompt q)" "strip (gr_prompt q) \<noteq> []" "wants_intent q" "extract_metadata q = Inr m"
      "\<forall>k. gr_jira_key q = Some k \<longrightarrow> contract_str k"
    and sel: "ps_provider_id (gr_provider q) = ''stub''" "contract_str1 (ps_model (gr_provider q))"
    and ids: "contract_str1 (ru_request_id ids)"
    and o': "plain_testgen o'" and g: "dict_get (os_gateway s) ''stub'' = Some (StubProvider None)"
  shows "\<exists>gn s'. generate X fs o' ids q s = (Inr gn, s') \<and> gn_status gn = G_COMPLETED \<and> gn_errors gn = [] \<and>
    gn_test_case_pack gn = Some (stub_pack\<lparr>tp_generated_at := ru_now ids, tp_source_jira_key := given (gr_jira_key q)\<rparr>) \<and>
    gc_context_plan_id (gn_context gn) = Some (ru_plan_id ids)"
proof -
  have refm: "\<forall>cfg. or_reformulator o' \<noteq> Some (LLMReformulator cfg)" "or_reformulator o' \<noteq> None"
    using o' by (auto simp: plain_testgen_def)
  obtain i where i: "get_intent X fs o' ids q s = (Inr (Some i), s)"
    using get_intent_offline [OF q(1,2) refm(1), of X fs ids s] refm(2) q(3) by auto
  have iv: "input_verdict o' q = None" and ov: "output_verdict o' raw = None" for raw
    using o' by (auto simp: plain_testgen_def input_verdict_def output_verdict_def null_guardrail_def)
  have tone: "tone_step X fs o' ids raw u = (Inr raw, u)" for raw and u :: "('a, 'b) orch_state"
    using o' by (auto simp: plain_testgen_def tone_step_def sret_def sbind_def on_gateway_def)
  obtain inputs p1 where f: "fetch_inputs X o' ids q s = (Inr inputs, s\<lparr>os_world := p1\<rparr>)" using fetch_inputs_ok [of X o' ids q s] by blast
  obtain p s1 where pl: "make_plan X fs o' ids q inputs (s\<lparr>os_world := p1\<rparr>) = (Inr p, s1)" "os_gateway s1 = os_gateway s"
      "cp_context_plan_id p = ru_plan_id ids"
    using make_plan_ok [OF q(4), of X fs o' ids inputs "s\<lparr>os_world := p1\<rparr>"] by auto
  let ?ts = "route_types (Some i) q"
  let ?ms = "[\<lparr>pm_role = SYSTEM, pm_content = testgen_system ?ts\<rparr>,
    \<lparr>pm_role = USER, pm_content = trim (testgen_user q p (Some i) ?ts)\<rparr>]"
  have bm: "build_messages X fs o' ids q p (Some i) s1 = (Inr ?ms, s1)"
    using o' testgen_build_ok(1) [OF q(1)] by (simp add: build_messages_def plain_testgen_def slift_def)
  have "contract_str1 (trim (testgen_user q p (Some i) ?ts))"
    using testgen_build_ok(2) [OF q(1), of p "Some i" ?ts] q(1) by (auto simp: contract_str1_def)
  then have "list_all wf_message ?ms" using testgen_system_text by (simp add: wf_message_def)
  then obtain ms' ws where red: "redact_messages ?ms = Inr (ms', ws)"
      "filter (\<lambda>m. pm_role m \<noteq> USER) ms' = filter (\<lambda>m. pm_role m \<noteq> USER) ?ms"
    using redact_messages_from_ok [of ?ms "[]" "[]"] unfolding redact_messages_def by auto
  have "\<lparr>pm_role = SYSTEM, pm_content = testgen_system ?ts\<rparr> \<in> set (filter (\<lambda>m. pm_role m \<noteq> USER) ms')"
    unfolding red(2) by simp
  then have sys: "\<lparr>pm_role = SYSTEM, pm_content = testgen_system ?ts\<rparr> \<in> set ms'" by simp
  let ?pq = "provider_request_of ids q ms'"
  have dflt: "default_response_for ?pq = DEFAULT_TEST_CASE_PACK"
    using stub_recognises_testgen [of _ ?pq] sys testgen_system_text [of ?ts] by (fastforce simp: provider_request_of_def)
  have g1: "dict_get (os_gateway s1) ''stub'' = Some (StubProvider None)" using g pl(2) by simp
  have pqf: "pc_provider_id (pq_config ?pq) = ''stub''" "contract_str1 (pq_request_id ?pq)" "contract_str1 (pc_model (pq_config ?pq))"
    using sel ids by (simp_all add: provider_request_of_def mk_config_def)
  obtain resp g1 where gg: "gateway_generate (gx_llm (ox_gen X)) fs ?pq (ps_fallback_provider_ids (gr_provider q))
      (os_gateway s1) (os_world s1) = (Inr resp, g1, os_world s1)" "pr_raw_text resp = dumps DEFAULT_TEST_CASE_PACK"
    using stub_gateway_testgen [OF g1 pqf dflt, of "gx_llm (ox_gen X)" fs "ps_fallback_provider_ids (gr_provider q)" "os_world s1"] by blast
  let ?s2 = "s1\<lparr>os_gateway := g1, os_world := os_world s1\<rparr>"
  have call: "call_provider X fs ids q ms' s1 = (Inr (Inr resp), ?s2)"
    using gg(1) by (simp add: call_provider_def on_gateway_def)
  let ?pack = "stub_pack\<lparr>tp_generated_at := ru_now ids, tp_source_jira_key := given (gr_jira_key q)\<rparr>"
  have "(case tp_source_jira_key stub_pack of None \<Rightarrow> given (gr_jira_key q) | Some k \<Rightarrow> Some k) = given (gr_jira_key q)"
    by (simp add: stub_pack_def)
  then have norm: "normalize_pack (ox_datetime X) (ru_now ids) (dumps DEFAULT_TEST_CASE_PACK) (gr_jira_key q) = (Some ?pack, [])"
    using normalize_pack_dumps [OF wf_stub_pack q(5), of "ox_datetime X" "ru_now ids"] by (simp add: stub_pack_json)
  have tg: "is_testgen o' (Some i)" using o' by (simp add: is_testgen_def plain_testgen_def)
  have "respond X fs o' ids q p (Some i) ms' resp ?s2 = (Inr (testgen_result (ru_request_id ids) p (Some ?pack, [])), ?s2)"
    using norm tg by (simp add: respond_def ov gg(2) sbind_def tone sret_def)
  then have "generate X fs o' ids q s = (Inr (testgen_result (ru_request_id ids) p (Some ?pack, [])), ?s2)"
    by (simp add: generate_def dispatch_def iv step_simps i f pl(1) bm red(1) call)
  then show ?thesis by (simp add: testgen_result_def context_of_def Let_def pl(3))
qed

lemma default_orchestrator:
  "create_orchestrator env http fs now cp reg worker (ConfigFeatureFlagProvider []) =
     (Inr \<lparr>or_skills = reg, or_worker = worker, or_reformulator = Some KeywordReformulator,
        or_input_guardrail = Some NullInputGuardrail, or_output_guardrail = Some NullOutputGuardrail,
        or_jira = Some NullJiraAdapter, or_rag = Some NullRagStore, or_router = True, or_testgen_builder = True,
        or_tone = Some NullToneChecker, or_testgen_normalizer = True\<rparr>, ConfigFeatureFlagProvider [])"
proof -
  have b: "get_bool http fs now k False (ConfigFeatureFlagProvider []) = (False, ConfigFeatureFlagProvider [])" for k
    by (simp add: get_bool_def flag_bool_def dict_get_or_def)
  have k: "get_string http fs now ''reformulator.adapter'' ''keyword'' (ConfigFeatureFlagProvider []) = (''keyword'', ConfigFeatureFlagProvider [])"
    by (simp add: get_string_def dict_get_or_def py_str_def)
  show ?thesis
    by (simp add: create_orchestrator_def build_reformulator_def build_jira_adapter_def build_rag_store_def
        build_input_guardrail_def build_output_guardrail_def build_tone_checker_def b k)
qed

text \<open>With no feature flag set, the application answers every valid test case request to the stub provider,
  whatever the memory service does: the result is completed, without errors, and its pack is the stub's pack with
  the request's JIRA key.\<close>

theorem default_app_completes:
  assumes "create_orchestrator env http fs now cp reg worker (ConfigFeatureFlagProvider []) = (Inr o', p)"
    and "os_gateway s = build_gateway cp"
    and "contract_str1 (gr_prompt q)" and "strip (gr_prompt q) \<noteq> []" and "wants_intent q"
    and "\<forall>k. gr_jira_key q = Some k \<longrightarrow> contract_str k" and "extract_metadata q = Inr m"
    and "ps_provider_id (gr_provider q) = ''stub''" and "contract_str1 (ps_model (gr_provider q))"
    and "contract_str1 (ru_request_id ids)"
  shows "\<exists>gn s'. generate X fs o' ids q s = (Inr gn, s') \<and> gn_status gn = G_COMPLETED \<and> gn_errors gn = [] \<and>
    gn_test_case_pack gn = Some (stub_pack\<lparr>tp_generated_at := ru_now ids, tp_source_jira_key := given (gr_jira_key q)\<rparr>)"
proof -
  have "plain_testgen o'" using assms(1) unfolding default_orchestrator by (auto simp: plain_testgen_def)
  moreover have "dict_get (os_gateway s) ''stub'' = Some (StubProvider None)" by (simp add: assms(2) build_gateway_def)
  ultimately obtain gn s' where "generate X fs o' ids q s = (Inr gn, s')" "gn_status gn = G_COMPLETED" "gn_errors gn = []"
    "gn_test_case_pack gn = Some (stub_pack\<lparr>tp_generated_at := ru_now ids, tp_source_jira_key := given (gr_jira_key q)\<rparr>)"
    using stub_testgen_run [OF assms(3-5) assms(7) assms(6) assms(8-10)] by blast
  then show ?thesis by blast
qed

text \<open>The external sources are fail-open: fetching never raises and touches nothing but the outside world; a
  story that arrives is valid and at most five chunks do.\<close>

theorem sources_fail_open:
  "\<exists>inputs p1. fetch_inputs X o' ids q s = (Inr inputs, s\<lparr>os_world := p1\<rparr>) \<and>
     (case pi_jira_story inputs of None \<Rightarrow> True | Some st \<Rightarrow> wf_story st) \<and> length (pi_rag_chunks inputs) \<le> 5"
proof -
  obtain x p1 where a: "fetch_jira X o' ids q s = (Inr x, s\<lparr>os_world := p1\<rparr>)" using fetch_jira_ok [of X o' ids q s] by blast
  obtain y p2 where b: "fetch_rag X o' q (s\<lparr>os_world := p1\<rparr>) = (Inr y, s\<lparr>os_world := p1\<rparr>\<lparr>os_world := p2\<rparr>)"
    using fetch_rag_ok [of X o' q "s\<lparr>os_world := p1\<rparr>"] by blast
  have "case x of None \<Rightarrow> True | Some st \<Rightarrow> wf_story st"
    using a jira.valid [of "ox_jira X" "ru_now ids" _ _ "os_world s"]
    by (auto simp: fetch_jira_def on_world_def fail_open_def sret_def split: option.splits prod.splits sum.splits if_splits)
  moreover have "length y \<le> 5"
    using b rag.limited [of "ox_rag X" "ox_rag_db X" _ "gr_prompt q" "gr_tenant_id q" 5 p1]
    by (auto simp: fetch_rag_def on_world_def fail_open_def sret_def split: option.splits prod.splits sum.splits if_splits)
  moreover have "fetch_inputs X o' ids q s = (Inr \<lparr>pi_jira_story = x, pi_rag_chunks = y\<rparr>, s\<lparr>os_world := p2\<rparr>)"
    using a b by (simp add: fetch_inputs_def sbind_def sret_def)
  ultimately show ?thesis by fastforce
qed

section \<open>Provider failures\<close>

definition empty_answer_error :: service_error where
  "empty_answer_error = norm_error ''Provider response is not valid JSON: Expecting value: line 1 column 1 (char 0)''
     [(''raw_text_preview'', JStr [])]"

lemma normalize_empty: "normalize [] = Inr ([], [empty_answer_error])"
  by code_simp

text \<open>A provider's own errors are lost. A failed call is a response with errors and no text; the pipeline
  reads the text only, and reports that it is not JSON, whatever the provider reported.\<close>

theorem provider_errors_lost:
  assumes "error_response pq pid model e ms = Inr resp"
    and "or_output_guardrail o' \<in> {None, Some NullOutputGuardrail}" and "or_tone o' \<in> {None, Some NullToneChecker}"
    and "\<not> is_testgen o' intent" and "\<not> go_allow_repair (gr_options q)"
  shows "pr_errors resp \<noteq> [] \<and> (\<exists>gn. respond X fs o' ids q p intent msgs resp s = (Inr gn, s) \<and>
    gn_status gn = G_FAILED \<and> gn_errors gn = [empty_answer_error] \<and> empty_answer_error \<notin> set (pr_errors resp))"
proof -
  obtain m where r: "pr_raw_text resp = []" "pr_errors resp = [(mk_error PROVIDER_UNAVAILABLE m)\<lparr>se_retryable := True\<rparr>]"
    using assms(1) by (auto simp: error_response_def unavailable_def mk_response_def rbind_Inr_iff trim_def)
  have ov: "output_verdict o' raw = None" for raw
    using assms(2) by (auto simp: output_verdict_def null_guardrail_def)
  have tone: "tone_step X fs o' ids raw s = (Inr raw, s)" for raw
    using assms(3) by (auto simp: tone_step_def sret_def sbind_def on_gateway_def)
  have "\<exists>v. validate_step X o' (ru_worker_id ids) q [] s = (Inr v, s)"
    by (cases "go_validation_enabled (gr_options q)") (simp_all add: validate_step_def on_world_def validate_def sret_def)
  then obtain v where v: "validate_step X o' (ru_worker_id ids) q [] s = (Inr v, s)" by blast
  have rep: "repair_step X fs o' ids q msgs [] first s = (Inr first, s)" for first
    using assms(5) by (cases first) (simp add: repair_step_def sret_def)
  have "respond X fs o' ids q p intent msgs resp s = (Inr (codegen_result (ru_request_id ids) p ([], [empty_answer_error], v)), s)"
    using assms(4) by (simp add: respond_def ov r tone normalize_empty step_simps v rep sret_def)
  then show ?thesis
    using r(2) by (simp add: codegen_result_def empty_answer_error_def norm_error_def mk_error_def)
qed

section \<open>Witnesses\<close>

definition demo_orch :: "(unit, unit) orch_ext" where
  "demo_orch =
     \<lparr>ox_mem = demo_X, ox_gen = \<lparr>gx_llm = demo_llm, gx_float = (\<lambda>_. None)\<rparr>, ox_val = demo_val TimedOut,
      ox_jira = \<lparr>jx_get = (\<lambda>_ _ _ r. (Inl (RuntimeError ''down''), r))\<rparr>, ox_rag = demo_rag, ox_rag_db = [],
      ox_datetime = (\<lambda>_. Inl (ValidationError [])), ox_jira_late = False, ox_rag_late = False\<rparr>"

definition demo_ids :: run_ids where
  "demo_ids = \<lparr>ru_request_id = ''r1'', ru_plan_id = ''p1'', ru_reform_id = ''f1'', ru_worker_id = ''w1'', ru_repair_id = ''w2'',
     ru_plan_time = demo_reading 0, ru_prompt_time = demo_reading 0, ru_now = 7\<rparr>"

definition demo_orch_state :: "(unit, unit) orch_state" where
  "demo_orch_state = \<lparr>os_gateway = build_gateway (CredentialProviderChain []), os_wrapper = ms_wrapper demo_state,
     os_mem = (), os_world = ()\<rparr>"

definition demo_orchestrator :: "reformulator \<Rightarrow> input_guardrail \<Rightarrow> orchestrator" where
  "demo_orchestrator R g = \<lparr>or_skills = new_registry, or_worker = None, or_reformulator = Some R,
     or_input_guardrail = Some g, or_output_guardrail = None, or_jira = None, or_rag = None, or_router = True,
     or_testgen_builder = True, or_tone = None, or_testgen_normalizer = True\<rparr>"

lemma demo_fields [simp]:
  "or_reformulator (demo_orchestrator R g) = Some R" "or_input_guardrail (demo_orchestrator R g) = Some g"
  "or_output_guardrail (demo_orchestrator R g) = None" "or_tone (demo_orchestrator R g) = None"
  "gr_prompt (demo_qa prompt key) = prompt" "gr_jira_key (demo_qa prompt key) = key"
  "ps_provider_id (gr_provider (demo_qa prompt key)) = ''stub''" "ps_model (gr_provider (demo_qa prompt key)) = ''m''"
  "ru_request_id demo_ids = ''r1''" "os_gateway demo_orch_state = build_gateway (CredentialProviderChain [])"
  by (simp_all add: demo_orchestrator_def demo_qa_def demo_ids_def demo_orch_state_def)

lemma demo_blocked: "\<not> gd_passed (check_input RuleBasedInputGuardrail (demo_qa ''buy milk'' (Some ''AB-1'')))"
proof -
  have "\<not> (\<exists>kw \<in> set QA_KEYWORDS. contains kw (lower ''buy milk''))" by code_simp
  then show ?thesis by (simp add: rule_based_input_def guard_result_def demo_qa_def)
qed

lemma demo_prompt_ok: "contract_str1 ''buy milk''" "strip ''buy milk'' \<noteq> []" "wants_intent (demo_qa ''buy milk'' (Some ''AB-1''))"
  by code_simp+

lemma input_guardrail_stops_witness:
  "snd (generate demo_orch [] (demo_orchestrator KeywordReformulator RuleBasedInputGuardrail) demo_ids
     (demo_qa ''buy milk'' (Some ''AB-1'')) demo_orch_state) = demo_orch_state"
proof -
  let ?q = "demo_qa ''buy milk'' (Some ''AB-1'')" and ?o = "demo_orchestrator KeywordReformulator RuleBasedInputGuardrail"
  have "contract_str1 (gr_prompt ?q)" "strip (gr_prompt ?q) \<noteq> []" using demo_prompt_ok by simp_all
  from input_guardrail_stops [OF this _ _ demo_blocked, of ?o demo_orch "[]" demo_ids demo_orch_state]
  show ?thesis by auto
qed

lemma refused_prompt_reaches_llm_witness:
  "\<exists>pq m gn s' x. generate demo_orch [] (demo_orchestrator (LLMReformulator (mk_config ''stub'' ''m'' None)) RuleBasedInputGuardrail)
      demo_ids (demo_qa ''buy milk'' (Some ''AB-1'')) demo_orch_state = (Inr gn, s') \<and> gn_status gn = G_FAILED \<and>
    gateway_generate (gx_llm (ox_gen demo_orch)) [] pq [] (os_gateway demo_orch_state) (os_world demo_orch_state) =
      (x, os_gateway s', os_world s') \<and>
    m \<in> set (pq_messages pq) \<and> sublist ''buy milk'' (pm_content m)"
proof -
  let ?q = "demo_qa ''buy milk'' (Some ''AB-1'')"
    and ?o = "demo_orchestrator (LLMReformulator (mk_config ''stub'' ''m'' None)) RuleBasedInputGuardrail"
  have "contract_str1 (gr_prompt ?q)" "strip (gr_prompt ?q) \<noteq> []" using demo_prompt_ok by (simp_all add: demo_qa_def)
  from refused_prompt_reaches_llm [OF this demo_prompt_ok(3) _ _ demo_blocked, of ?o "mk_config ''stub'' ''m'' None"
      demo_orch "[]" demo_ids demo_orch_state]
  show ?thesis by (simp only: demo_fields simp_thms)
qed

lemma default_app_completes_witness:
  "\<exists>gn s'. generate demo_orch [] (projr (fst (create_orchestrator (\<lambda>_. None) (\<lambda>_ _. None) [] 0 (CredentialProviderChain []) new_registry None
       (ConfigFeatureFlagProvider [])))) demo_ids (demo_qa ''buy milk'' (Some ''AB-1'')) demo_orch_state = (Inr gn, s') \<and>
     gn_status gn = G_COMPLETED"
proof -
  let ?q = "demo_qa ''buy milk'' (Some ''AB-1'')"
  let ?c = "create_orchestrator (\<lambda>_. None) (\<lambda>_ _. None) [] 0 (CredentialProviderChain []) new_registry None (ConfigFeatureFlagProvider [])"
  obtain o' p where c: "?c = (Inr o', p)" unfolding default_orchestrator by blast
  have q: "contract_str1 (gr_prompt ?q)" "strip (gr_prompt ?q) \<noteq> []" using demo_prompt_ok by (simp_all add: demo_qa_def)
  have k: "contract_str ''AB-1''" and d: "trim (lower (strip ''d'')) \<noteq> []" and s: "contract_str1 ''m''" "contract_str1 ''r1''"
    by code_simp+
  have "\<exists>m. extract_metadata ?q = Inr m"
    using d by (simp add: extract_metadata_def demo_qa_def validate_str1_def split: prod.splits)
  then obtain m where "extract_metadata ?q = Inr m" by blast
  from default_app_completes [OF c _ q demo_prompt_ok(3) _ this, of demo_orch_state demo_ids demo_orch]
  show ?thesis using k s by (auto simp: c)
qed

lemma provider_errors_lost_witness:
  "\<exists>gn. respond demo_orch [] (demo_orchestrator KeywordReformulator NullInputGuardrail) demo_ids
     ((demo_qa ''buy milk'' None)\<lparr>gr_options := \<lparr>go_validation_enabled = True, go_allow_repair = False, go_max_input_tokens = 1, go_max_output_tokens = None\<rparr>\<rparr>)
     demo_empty_plan None [] (projr (error_response (demo_provider_request ''openai'' ''hi'') ''openai'' ''m'' (RuntimeError ''no quota'') 1))
     demo_orch_state = (Inr gn, demo_orch_state) \<and> gn_errors gn = [empty_answer_error]"
proof -
  have "ok (error_response (demo_provider_request ''openai'' ''hi'') ''openai'' ''m'' (RuntimeError ''no quota'') 1)" by code_simp
  then obtain resp where r: "error_response (demo_provider_request ''openai'' ''hi'') ''openai'' ''m'' (RuntimeError ''no quota'') 1 = Inr resp"
    by (auto simp: ok_iff)
  from provider_errors_lost [OF r, of "demo_orchestrator KeywordReformulator NullInputGuardrail" None
      "(demo_qa ''buy milk'' None)\<lparr>gr_options := \<lparr>go_validation_enabled = True, go_allow_repair = False, go_max_input_tokens = 1, go_max_output_tokens = None\<rparr>\<rparr>"
      demo_orch "[]" demo_ids demo_empty_plan "[]" demo_orch_state]
  show ?thesis unfolding r sum.sel by (auto simp: is_testgen_def)
qed

lemma result_consistent_witness:
  "\<exists>gn. fst (generate demo_orch [] (demo_orchestrator KeywordReformulator RuleBasedInputGuardrail) demo_ids
     (demo_qa ''buy milk'' (Some ''AB-1'')) demo_orch_state) = Inr gn \<and> (gn_status gn = G_FAILED \<longrightarrow> gn_artifacts gn = [])"
proof -
  let ?q = "demo_qa ''buy milk'' (Some ''AB-1'')" and ?o = "demo_orchestrator KeywordReformulator RuleBasedInputGuardrail"
  have q: "contract_str1 (gr_prompt ?q)" "strip (gr_prompt ?q) \<noteq> []" using demo_prompt_ok by (simp_all add: demo_qa_def)
  obtain intent where "get_intent demo_orch [] ?o demo_ids ?q demo_orch_state = (Inr intent, demo_orch_state)"
    using get_intent_offline [OF q, of ?o demo_orch "[]" demo_ids demo_orch_state] by auto
  then have "generate demo_orch [] ?o demo_ids ?q demo_orch_state =
      (Inr (blocked_result (ru_request_id demo_ids) (check_input RuleBasedInputGuardrail ?q)), demo_orch_state)"
    using demo_blocked by (simp add: generate_def step_simps input_verdict_def sret_def)
  from result_consistent [OF this] this show ?thesis by auto
qed

end
