(* ===== verification/RateLimit.thy ===== *)
theory RateLimit
  imports Contracts
begin

text \<open>
  \<open>totalrecall/ratelimit/provider.py\<close>: one sliding-window bucket per tenant. The clock reading
  \<open>time.monotonic()\<close> is the argument \<open>now\<close>; the per-bucket lock makes a check one step, and
  \<open>bucket_run\<close> and \<open>provider_run\<close> are sequences of such steps.
\<close>

section \<open>_TenantBucket\<close>

record tenant_bucket =
  bk_policy :: rate_limit_policy
  bk_timestamps :: "rat list"

definition new_bucket :: "rate_limit_policy \<Rightarrow> tenant_bucket" where
  "new_bucket p = \<lparr>bk_policy = p, bk_timestamps = []\<rparr>"

definition check_and_record :: "rat \<Rightarrow> tenant_bucket \<Rightarrow> rate_limit_result \<times> tenant_bucket" where
  "check_and_record now b =
     (let window_start = now - of_nat (rp_window_seconds (bk_policy b));
          ts = dropWhile (\<lambda>t. t < window_start) (bk_timestamps b);
          count = length ts
      in if count \<ge> rp_max_requests (bk_policy b) then
           (case ts of
              oldest # _ \<Rightarrow>
                (\<lparr>rr_allowed = False, rr_remaining = 0,
                  rr_retry_after_seconds = max 1 (\<lfloor>oldest - window_start\<rfloor> + 1)\<rparr>,
                 b\<lparr>bk_timestamps := ts\<rparr>)
            | [] \<Rightarrow> \<comment> \<open>only for \<open>max_requests = 0\<close>, which no policy has\<close>
                (\<lparr>rr_allowed = False, rr_remaining = 0, rr_retry_after_seconds = 1\<rparr>,
                 b\<lparr>bk_timestamps := ts\<rparr>))
         else
           (\<lparr>rr_allowed = True, rr_remaining = rp_max_requests (bk_policy b) - count - 1,
             rr_retry_after_seconds = 0\<rparr>,
            b\<lparr>bk_timestamps := ts @ [now]\<rparr>))"

section \<open>RateLimitProvider\<close>

definition default_policy :: rate_limit_policy where
  "default_policy = \<lparr>rp_max_requests = 60, rp_window_seconds = 60\<rparr>"

record rate_limit_provider =
  rl_default :: rate_limit_policy
  rl_policies :: "(string, rate_limit_policy) dict"
  rl_buckets :: "(string, tenant_bucket) dict"

definition policy_for :: "rate_limit_provider \<Rightarrow> string \<Rightarrow> rate_limit_policy" where
  "policy_for p tenant = dict_get_or (rl_policies p) tenant (rl_default p)"

definition get_or_create_bucket ::
  "string \<Rightarrow> rate_limit_provider \<Rightarrow> tenant_bucket \<times> rate_limit_provider" where
  "get_or_create_bucket tenant p =
     (case dict_get (rl_buckets p) tenant of
        Some b \<Rightarrow> (b, p)
      | None \<Rightarrow> (let b = new_bucket (policy_for p tenant)
                 in (b, p\<lparr>rl_buckets := dict_set tenant b (rl_buckets p)\<rparr>)))"

definition rate_check :: "rat \<Rightarrow> string \<Rightarrow> rate_limit_provider \<Rightarrow> rate_limit_result \<times> rate_limit_provider" where
  "rate_check now tenant p =
     (let (b, p1) = get_or_create_bucket tenant p;
          (r, b1) = check_and_record now b
      in (r, p1\<lparr>rl_buckets := dict_set tenant b1 (rl_buckets p1)\<rparr>))"

text \<open>
  \<open>RateLimitPolicy(**cfg)\<close>: both fields are required, at least 1, and no other key is allowed.
\<close>

definition mk_policy :: "(string, int) dict \<Rightarrow> rate_limit_policy result" where
  "mk_policy cfg =
     (case (dict_get cfg ''max_requests'', dict_get cfg ''window_seconds'') of
        (Some m, Some w) \<Rightarrow>
          if m < 1 then Inl (ValidationError ''max_requests'')
          else if w < 1 then Inl (ValidationError ''window_seconds'')
          else if \<exists>k \<in> set (dict_keys cfg). k \<notin> {''max_requests'', ''window_seconds''}
            then Inl (ValidationError ''extra'')
          else Inr \<lparr>rp_max_requests = nat m, rp_window_seconds = nat w\<rparr>
      | _ \<Rightarrow> Inl (ValidationError ''missing''))"

definition rate_from_config :: "(string, (string, int) dict) dict \<Rightarrow> rate_limit_provider result" where
  "rate_from_config config =
     (let default_cfg = dict_get_or config ''default'' []
      in rbind (if default_cfg \<noteq> [] then mk_policy default_cfg else Inr default_policy) (\<lambda>dp.
         rbind (rmap (\<lambda>(k, v). rbind (mk_policy v) (\<lambda>pol. Inr (k, pol)))
                  (filter (\<lambda>kv. fst kv \<noteq> ''default'') config)) (\<lambda>per_tenant.
           Inr \<lparr>rl_default = dp, rl_policies = per_tenant, rl_buckets = []\<rparr>)))"

section \<open>Sequences of checks\<close>

text \<open>The requests a bucket allows, in order, and the bucket afterwards.\<close>

fun bucket_run :: "rat list \<Rightarrow> tenant_bucket \<Rightarrow> rat list \<times> tenant_bucket" where
  "bucket_run [] b = ([], b)"
| "bucket_run (now # nows) b =
     (let (r, b1) = check_and_record now b;
          (allowed, b2) = bucket_run nows b1
      in (if rr_allowed r then now # allowed else allowed, b2))"

text \<open>The answers of the provider to a sequence of requests of several tenants.\<close>

fun provider_run ::
  "(string \<times> rat) list \<Rightarrow> rate_limit_provider \<Rightarrow> (string \<times> rate_limit_result) list \<times> rate_limit_provider" where
  "provider_run [] p = ([], p)"
| "provider_run ((tenant, now) # es) p =
     (let (r, p1) = rate_check now tenant p; (rs, p2) = provider_run es p1
      in ((tenant, r) # rs, p2))"

fun bucket_answers :: "rat list \<Rightarrow> tenant_bucket \<Rightarrow> rate_limit_result list" where
  "bucket_answers [] b = []"
| "bucket_answers (now # nows) b =
     (let (r, b1) = check_and_record now b in r # bucket_answers nows b1)"

section \<open>The bucket invariant\<close>

definition bucket_ok :: "tenant_bucket \<Rightarrow> bool" where
  "bucket_ok b = (wf_policy (bk_policy b) \<and> length (bk_timestamps b) \<le> rp_max_requests (bk_policy b))"

definition window_start :: "rat \<Rightarrow> tenant_bucket \<Rightarrow> rat" where
  "window_start now b = now - of_nat (rp_window_seconds (bk_policy b))"

definition live :: "rat \<Rightarrow> tenant_bucket \<Rightarrow> rat list" where
  "live now b = dropWhile (\<lambda>t. t < window_start now b) (bk_timestamps b)"

lemma check_denied_iff:
  "rr_allowed (fst (check_and_record now b)) \<longleftrightarrow> length (live now b) < rp_max_requests (bk_policy b)"
  by (auto simp: check_and_record_def Let_def live_def window_start_def split: list.splits)

lemma check_timestamps:
  "bk_timestamps (snd (check_and_record now b)) =
     (if rr_allowed (fst (check_and_record now b)) then live now b @ [now] else live now b)"
  by (auto simp: check_and_record_def Let_def live_def window_start_def split: list.splits)

lemma check_policy [simp]: "bk_policy (snd (check_and_record now b)) = bk_policy b"
  by (auto simp: check_and_record_def Let_def split: list.splits)

lemma live_length: "length (live now b) \<le> length (bk_timestamps b)"
  by (simp add: live_def length_dropWhile_le)

lemma check_bucket_ok: "bucket_ok b \<Longrightarrow> bucket_ok (snd (check_and_record now b))"
  using live_length [of now b]
  by (auto simp: bucket_ok_def check_timestamps check_denied_iff)

lemma bucket_ok_new [simp, intro]: "wf_policy p \<Longrightarrow> bucket_ok (new_bucket p)"
  by (simp add: bucket_ok_def new_bucket_def)

lemma denied_full:
  assumes "bucket_ok b" and "\<not> rr_allowed (fst (check_and_record now b))"
  shows "live now b \<noteq> [] \<and> length (live now b) = rp_max_requests (bk_policy b)"
  using assms live_length [of now b] by (auto simp: check_denied_iff bucket_ok_def wf_policy_def)

lemma retry_after_value:
  assumes "bucket_ok b" and "\<not> rr_allowed (fst (check_and_record now b))"
  shows "rr_retry_after_seconds (fst (check_and_record now b)) = \<lfloor>hd (live now b) - window_start now b\<rfloor> + 1"
proof -
  from denied_full [OF assms] obtain t ts where l: "live now b = t # ts"
    by (cases "live now b") auto
  then have "\<not> t < window_start now b"
    unfolding live_def by (metis hd_dropWhile list.distinct(1) list.sel(1))
  then have "0 \<le> \<lfloor>t - window_start now b\<rfloor>" by simp
  with denied_full [OF assms] l show ?thesis
    by (simp add: check_and_record_def Let_def live_def window_start_def max_def)
qed

section \<open>The sliding window\<close>

lemma dropWhile_sorted_filter:
  "sorted (xs :: rat list) \<Longrightarrow> dropWhile (\<lambda>t. t < a) xs = filter (\<lambda>t. a \<le> t) xs"
proof (induction xs)
  case Nil
  then show ?case by simp
next
  case (Cons x xs)
  then have "a \<le> x \<Longrightarrow> filter (\<lambda>t. a \<le> t) xs = xs"
    by (auto simp: filter_id_conv)
  with Cons show ?case by auto
qed

lemma length_filter_mono:
  "(\<And>x. x \<in> set xs \<Longrightarrow> P x \<Longrightarrow> Q x) \<Longrightarrow> length (filter P xs) \<le> length (filter Q xs)"
  by (induction xs) (auto simp: le_SucI)

definition in_window :: "nat \<Rightarrow> rat \<Rightarrow> rat \<Rightarrow> bool" where
  "in_window w x t = (x \<le> t \<and> t \<le> x + of_nat w)"

definition window_bound :: "rate_limit_policy \<Rightarrow> rat list \<Rightarrow> bool" where
  "window_bound p ts =
     (\<forall>x. length (filter (in_window (rp_window_seconds p) x) ts) \<le> rp_max_requests p)"

text \<open>
  The bucket after a monotone history \<open>h\<close> of allowed requests: it keeps those that are not older
  than some \<open>a\<close>, and no later window reaches below \<open>a\<close>.
\<close>

definition bucket_hist :: "tenant_bucket \<Rightarrow> rat list \<Rightarrow> rat \<Rightarrow> bool" where
  "bucket_hist b h last_now =
     (sorted h \<and> (\<forall>t \<in> set h. t \<le> last_now) \<and> window_bound (bk_policy b) h \<and>
      (\<exists>a \<le> window_start last_now b. bk_timestamps b = filter (\<lambda>t. a \<le> t) h))"

lemma in_window_eq: "in_window w x = (\<lambda>t. x \<le> t \<and> t \<le> x + of_nat w)"
  by (simp add: fun_eq_iff in_window_def)

lemma hist_live:
  assumes "bucket_hist b h last_now" and "last_now \<le> now"
  shows "live now b = filter (\<lambda>t. window_start now b \<le> t) h"
proof -
  from assms(1) obtain a where a0: "a \<le> window_start last_now b"
    and ts: "bk_timestamps b = filter (\<lambda>t. a \<le> t) h"
    by (auto simp: bucket_hist_def)
  have a: "a \<le> window_start now b"
    using a0 assms(2) by (simp add: window_start_def)
  have "sorted (filter (\<lambda>t. a \<le> t) h)"
    using assms(1) by (simp add: bucket_hist_def sorted_wrt_filter)
  then have "live now b = filter (\<lambda>t. window_start now b \<le> t) (filter (\<lambda>t. a \<le> t) h)"
    by (simp add: live_def ts dropWhile_sorted_filter)
  also have "\<dots> = filter (\<lambda>t. window_start now b \<le> t) h"
    using a by (auto intro: filter_cong)
  finally show ?thesis .
qed

lemma hist_allowed_bound:
  assumes h: "bucket_hist b h last_now" and mono: "last_now \<le> now"
    and al: "length (live now b) < rp_max_requests (bk_policy b)"
  shows "window_bound (bk_policy b) (h @ [now])"
  unfolding window_bound_def
proof
  fix x
  let ?w = "rp_window_seconds (bk_policy b)"
  show "length (filter (in_window ?w x) (h @ [now])) \<le> rp_max_requests (bk_policy b)"
  proof (cases "in_window ?w x now")
    case True
    have "length (filter (in_window ?w x) h) \<le> length (filter (\<lambda>t. window_start now b \<le> t) h)"
      using True by (intro length_filter_mono) (auto simp: in_window_def window_start_def)
    with al hist_live [OF h mono] True show ?thesis by simp
  next
    case False
    with h show ?thesis by (simp add: bucket_hist_def window_bound_def)
  qed
qed

lemma hist_step:
  assumes h: "bucket_hist b h last_now" and mono: "last_now \<le> now"
  shows "bucket_hist (snd (check_and_record now b))
    (if rr_allowed (fst (check_and_record now b)) then h @ [now] else h) now"
proof -
  have ws: "window_start now (snd (check_and_record now b)) = window_start now b"
    by (simp add: window_start_def)
  have le: "window_start now b \<le> now" by (simp add: window_start_def)
  have sorted: "sorted (h @ [now])" "\<forall>t \<in> set h. t \<le> now"
    using h mono by (fastforce simp: bucket_hist_def sorted_append)+
  show ?thesis
  proof (cases "rr_allowed (fst (check_and_record now b))")
    case True
    then have "window_bound (bk_policy b) (h @ [now])"
      using hist_allowed_bound [OF h mono] by (simp add: check_denied_iff)
    with True sorted le show ?thesis
      by (auto simp: bucket_hist_def ws check_timestamps hist_live [OF h mono]
          intro!: exI [of _ "window_start now b"])
  next
    case False
    with h sorted show ?thesis
      by (auto simp: bucket_hist_def ws check_timestamps hist_live [OF h mono] sorted_append
          intro!: exI [of _ "window_start now b"])
  qed
qed

lemma hist_run:
  "bucket_hist b h t \<Longrightarrow> sorted (t # nows) \<Longrightarrow>
   window_bound (bk_policy b) (h @ fst (bucket_run nows b))"
proof (induction nows arbitrary: b h t)
  case Nil
  then show ?case by (simp add: bucket_hist_def)
next
  case (Cons now nows)
  let ?c = "check_and_record now b"
  from Cons.prems have "bucket_hist (snd ?c) (if rr_allowed (fst ?c) then h @ [now] else h) now"
    by (intro hist_step) auto
  from Cons.IH [OF this] Cons.prems(2) show ?case
    by (auto simp: split: prod.splits if_splits)
qed

text \<open>C5: the sliding window is enforced: however a tenant's requests are spread over time, at most
  \<open>max_requests\<close> of them are allowed within any interval of \<open>window_seconds\<close>.\<close>

theorem sliding_window_enforced:
  assumes "sorted nows" and "wf_policy p"
  shows "length (filter (\<lambda>t. x \<le> t \<and> t \<le> x + of_nat (rp_window_seconds p))
            (fst (bucket_run nows (new_bucket p)))) \<le> rp_max_requests p"
proof (cases nows)
  case Nil
  then show ?thesis by simp
next
  case (Cons n ns)
  have "bucket_hist (new_bucket p) [] n"
    by (auto simp: bucket_hist_def new_bucket_def window_bound_def)
  from hist_run [OF this, of nows] assms Cons show ?thesis
    by (simp add: window_bound_def in_window_eq new_bucket_def del: bucket_run.simps)
qed

text \<open>The retry hint is sufficient: a tenant that was refused and waits at least
  \<open>retry_after_seconds\<close> is allowed on its next request.\<close>

theorem retry_after_suffices:
  assumes ok: "bucket_ok b"
    and denied: "\<not> rr_allowed (fst (check_and_record now b))"
    and later: "now + of_int (rr_retry_after_seconds (fst (check_and_record now b))) \<le> now'"
  shows "rr_allowed (fst (check_and_record now' (snd (check_and_record now b))))"
proof -
  let ?b1 = "snd (check_and_record now b)"
  from denied_full [OF ok denied] obtain t ts
    where l: "live now b = t # ts" and full: "length (live now b) = rp_max_requests (bk_policy b)"
    by (cases "live now b") auto
  have "t < window_start now b + of_int (\<lfloor>t - window_start now b\<rfloor> + 1)"
    using floor_correct [of "t - window_start now b"] by linarith
  also have "\<dots> \<le> window_start now' ?b1"
    using later retry_after_value [OF ok denied] l by (simp add: window_start_def)
  finally have "live now' ?b1 = dropWhile (\<lambda>t. t < window_start now' ?b1) ts"
    using denied l by (simp add: live_def [of now'] check_timestamps)
  then have "length (live now' ?b1) < rp_max_requests (bk_policy b)"
    using length_dropWhile_le [of "\<lambda>t. t < window_start now' ?b1" ts] full l by simp
  then show ?thesis by (simp add: check_denied_iff)
qed

text \<open>The \<open>remaining\<close> count of an allowed request is exact: it is what the policy leaves after
  the requests recorded in the window.\<close>

theorem remaining_exact:
  "rr_allowed (fst (check_and_record now b)) \<Longrightarrow>
   rr_remaining (fst (check_and_record now b)) + length (bk_timestamps (snd (check_and_record now b)))
     = rp_max_requests (bk_policy b)"
  by (auto simp: check_and_record_def Let_def split: list.splits if_splits)

theorem sliding_window_enforced_witness:
  "length (filter (\<lambda>t. 0 \<le> t \<and> t \<le> 0 + of_nat (rp_window_seconds \<lparr>rp_max_requests = 2, rp_window_seconds = 60\<rparr>))
     (fst (bucket_run [0, 1, 2, 61] (new_bucket \<lparr>rp_max_requests = 2, rp_window_seconds = 60\<rparr>)))) \<le> 2"
  using sliding_window_enforced [of "[0, 1, 2, 61]" "\<lparr>rp_max_requests = 2, rp_window_seconds = 60\<rparr>" 0]
  by (simp add: wf_policy_def del: bucket_run.simps)

definition full_bucket :: tenant_bucket where
  "full_bucket = \<lparr>bk_policy = \<lparr>rp_max_requests = 2, rp_window_seconds = 60\<rparr>, bk_timestamps = [0, 10]\<rparr>"

theorem retry_after_suffices_witness:
  "rr_allowed (fst (check_and_record 61 (snd (check_and_record 20 full_bucket))))"
  by (rule retry_after_suffices [of full_bucket 20 61])
    (simp_all add: full_bucket_def bucket_ok_def wf_policy_def check_and_record_def)

theorem remaining_exact_witness:
  "rr_remaining (fst (check_and_record 0 (new_bucket default_policy))) + 1 = 60"
  using remaining_exact [of 0 "new_bucket default_policy"]
  by (simp add: check_and_record_def new_bucket_def default_policy_def)

text \<open>The bucket a request of a tenant meets.\<close>

definition bucket_of :: "rate_limit_provider \<Rightarrow> string \<Rightarrow> tenant_bucket" where
  "bucket_of p tenant = fst (get_or_create_bucket tenant p)"

lemma rate_check_bucket:
  "fst (rate_check now t p) = fst (check_and_record now (bucket_of p t))"
  "bucket_of (snd (rate_check now t p)) t' =
     (if t' = t then snd (check_and_record now (bucket_of p t)) else bucket_of p t')"
  by (auto simp: rate_check_def bucket_of_def get_or_create_bucket_def policy_for_def Let_def
      case_prod_beta dict_get_set split: option.splits)

text \<open>C17: tenants do not affect each other: in any interleaving of requests, the answers of one tenant
  are those of a bucket that sees only that tenant's own requests.\<close>

theorem tenant_isolation:
  "map snd (filter (\<lambda>a. fst a = t) (fst (provider_run es p))) =
     bucket_answers (map snd (filter (\<lambda>e. fst e = t) es)) (fst (get_or_create_bucket t p))"
  unfolding bucket_of_def [symmetric]
proof (induction es arbitrary: p)
  case Nil
  then show ?case by simp
next
  case (Cons e es)
  obtain u now where e: "e = (u, now)" by (cases e)
  show ?case
    using Cons.IH [of "snd (rate_check now u p)"]
    by (cases "t = u") (simp_all add: e case_prod_beta rate_check_bucket)
qed

lemma mk_policy_wf:
  assumes "mk_policy cfg = Inr pol"
  shows "wf_policy pol"
proof (cases "dict_get cfg ''max_requests''")
  case None
  with assms show ?thesis by (simp add: mk_policy_def)
next
  case m: (Some m)
  show ?thesis
  proof (cases "dict_get cfg ''window_seconds''")
    case None
    with assms m show ?thesis by (simp add: mk_policy_def)
  next
    case (Some w)
    with assms m have "\<not> m < 1" "\<not> w < 1" "pol = \<lparr>rp_max_requests = nat m, rp_window_seconds = nat w\<rparr>"
      unfolding mk_policy_def by (simp_all only: option.case prod.case split: if_splits) simp_all
    then show ?thesis by (simp add: wf_policy_def le_nat_iff)
  qed
qed

definition provider_ok :: "rate_limit_provider \<Rightarrow> bool" where
  "provider_ok p = ((\<forall>t. wf_policy (policy_for p t)) \<and>
     (\<forall>t b. dict_get (rl_buckets p) t = Some b \<longrightarrow> bucket_ok b))"

lemma provider_ok_bucket: "provider_ok p \<Longrightarrow> bucket_ok (bucket_of p t)"
  by (auto simp: provider_ok_def bucket_of_def get_or_create_bucket_def Let_def split: option.splits)

lemma provider_ok_check: "provider_ok p \<Longrightarrow> provider_ok (snd (rate_check now t p))"
  using provider_ok_bucket [of p t, THEN check_bucket_ok]
  by (auto simp: provider_ok_def rate_check_def bucket_of_def get_or_create_bucket_def policy_for_def
      Let_def case_prod_beta dict_get_set split: option.splits if_splits)

lemma default_policy_wf: "wf_policy default_policy"
  by (simp add: default_policy_def wf_policy_def)

lemma rate_from_config_ok:
  assumes "rate_from_config config = Inr p"
  shows "provider_ok p"
proof -
  let ?f = "\<lambda>(k :: string, v). rbind (mk_policy v) (\<lambda>pol. Inr (k, pol))"
  from assms obtain dp pols where dp: "wf_policy dp"
    and pols: "rmap ?f (filter (\<lambda>kv. fst kv \<noteq> ''default'') config) = Inr pols"
    and p: "p = \<lparr>rl_default = dp, rl_policies = pols, rl_buckets = []\<rparr>"
    by (auto simp: rate_from_config_def rbind_Inr_iff Let_def default_policy_wf
        dest: mk_policy_wf split: if_splits)
  have "wf_policy pol" if "dict_get pols t = Some pol" for t pol
  proof -
    from that have "(t, pol) \<in> set pols" by (rule map_of_SomeD)
    with pols obtain x where "?f x = Inr (t, pol)"
      unfolding rmap_Inr_iff list_all2_conv_all_nth in_set_conv_nth by metis
    then show ?thesis by (cases x) (auto simp: rbind_Inr_iff dest: mk_policy_wf)
  qed
  with dp show ?thesis
    by (auto simp: provider_ok_def p policy_for_def dict_get_or_def split: option.splits)
qed

lemma provider_run_ok: "provider_ok p \<Longrightarrow> provider_ok (snd (provider_run es p))"
proof (induction es arbitrary: p)
  case Nil
  then show ?case by simp
next
  case (Cons e es)
  then show ?case
    by (cases e) (simp add: case_prod_beta provider_ok_check)
qed

text \<open>A provider built from a configuration never answers a refusal without a usable retry hint:
  after any sequence of requests, a refused tenant is told to wait at least one second, and at most
  one second more than its window.\<close>

theorem refusal_hint_bounds:
  assumes "rate_from_config config = Inr p0" and "p = snd (provider_run es p0)"
    and "\<not> rr_allowed (fst (rate_check now t p))"
    and "\<forall>s \<in> set (bk_timestamps (fst (get_or_create_bucket t p))). s \<le> now"
  shows "1 \<le> rr_retry_after_seconds (fst (rate_check now t p)) \<and>
    rr_retry_after_seconds (fst (rate_check now t p))
      \<le> int (rp_window_seconds (bk_policy (fst (get_or_create_bucket t p)))) + 1"
proof -
  let ?b = "bucket_of p t"
  have ok: "bucket_ok ?b"
    using assms(1,2) by (simp add: provider_ok_bucket provider_run_ok rate_from_config_ok)
  have denied: "\<not> rr_allowed (fst (check_and_record now ?b))"
    using assms(3) by (simp add: rate_check_bucket)
  from denied_full [OF ok denied] obtain o' ts where l: "live now ?b = o' # ts"
    by (cases "live now ?b") auto
  then have old: "window_start now ?b \<le> o'"
    unfolding live_def by (metis hd_dropWhile list.distinct(1) list.sel(1) not_less)
  have "o' \<in> set (bk_timestamps ?b)"
    using l set_dropWhileD unfolding live_def by (metis list.set_intros(1))
  then have "o' - window_start now ?b \<le> of_nat (rp_window_seconds (bk_policy ?b))"
    using assms(4) by (auto simp: bucket_of_def window_start_def)
  then have "\<lfloor>o' - window_start now ?b\<rfloor> \<le> int (rp_window_seconds (bk_policy ?b))"
    by (simp add: floor_le_iff)
  with old show ?thesis
    using retry_after_value [OF ok denied] l by (simp add: rate_check_bucket bucket_of_def)
qed

definition two_per_minute :: rate_limit_provider where
  "two_per_minute = \<lparr>rl_default = \<lparr>rp_max_requests = 2, rp_window_seconds = 60\<rparr>, rl_policies = [],
     rl_buckets = []\<rparr>"

lemma two_per_minute_config:
  "rate_from_config [(''default'', [(''max_requests'', 2), (''window_seconds'', 60)])] = Inr two_per_minute"
  by (simp add: rate_from_config_def mk_policy_def dict_get_or_def dict_keys_def two_per_minute_def)

theorem refusal_hint_bounds_witness:
  "1 \<le> rr_retry_after_seconds
     (fst (rate_check 20 ''a'' (snd (provider_run [(''a'', 0), (''a'', 10)] two_per_minute))))"
  by (rule refusal_hint_bounds [OF two_per_minute_config refl, THEN conjunct1]) code_simp+

end
