(* ===== verification/Metrics.thy ===== *)
theory Metrics
  imports Json Contracts Tables "HOL-Library.Product_Lexorder"
begin

text \<open>
  The records a generation leaves behind: the counters of \<open>totalrecall/observability/metrics.py\<close>, the context
  snapshots of \<open>totalrecall/storage/context_repo.py\<close> and the adapter mappings of
  \<open>totalrecall/storage/provider_mapping_repo.py\<close>. A method that runs under the lock of the counters is one
  step. A \<open>jsonb\<close> column holds the value that was dumped into it; \<open>now\<close> is the clock of the database.
\<close>

section \<open>GenerationMetrics\<close>

record generation_metrics =
  gm_generations_total :: int
  gm_generations_completed :: int
  gm_generations_failed :: int
  gm_generations_repaired :: int
  gm_validation_passed :: int
  gm_validation_failed :: int
  gm_validation_not_run :: int
  gm_input_tokens_total :: int
  gm_output_tokens_total :: int
  gm_estimated_tokens_saved_total :: int
  gm_last_context_plan_id :: "string option"
  gm_last_estimated_input_tokens :: int
  gm_last_baseline_input_tokens :: int
  gm_last_estimated_tokens_saved :: int
  gm_last_token_savings_percent :: rat
  gm_last_selected_skill_count :: int
  gm_last_selected_memory_count :: int
  gm_last_excluded_memory_count :: int
  gm_last_max_input_tokens :: int

definition new_generation_metrics :: generation_metrics where
  "new_generation_metrics =
     \<lparr>gm_generations_total = 0, gm_generations_completed = 0, gm_generations_failed = 0, gm_generations_repaired = 0,
      gm_validation_passed = 0, gm_validation_failed = 0, gm_validation_not_run = 0, gm_input_tokens_total = 0,
      gm_output_tokens_total = 0, gm_estimated_tokens_saved_total = 0, gm_last_context_plan_id = None,
      gm_last_estimated_input_tokens = 0, gm_last_baseline_input_tokens = 0, gm_last_estimated_tokens_saved = 0,
      gm_last_token_savings_percent = 0, gm_last_selected_skill_count = 0, gm_last_selected_memory_count = 0,
      gm_last_excluded_memory_count = 0, gm_last_max_input_tokens = 0\<rparr>"

text \<open>The keyword arguments of \<open>record_generation\<close>.\<close>

record generation_numbers =
  ng_completed :: bool
  ng_repaired :: bool
  ng_input_tokens :: int
  ng_output_tokens :: int
  ng_tokens_saved :: int
  ng_plan_id :: "string option"
  ng_baseline :: int
  ng_skill_count :: int
  ng_memory_count :: int
  ng_excluded_count :: int
  ng_max_tokens :: int

definition savings_percent :: "int \<Rightarrow> int \<Rightarrow> rat" where
  "savings_percent saved baseline =
     (if baseline \<noteq> 0 then round2 (of_int saved / of_int baseline * 100) else 0)"

definition record_generation :: "generation_numbers \<Rightarrow> generation_metrics \<Rightarrow> generation_metrics" where
  "record_generation a m =
     m\<lparr>gm_generations_total := gm_generations_total m + 1,
       gm_generations_completed := (if ng_completed a then gm_generations_completed m + 1 else gm_generations_completed m),
       gm_generations_failed := (if ng_completed a then gm_generations_failed m else gm_generations_failed m + 1),
       gm_generations_repaired := (if ng_repaired a then gm_generations_repaired m + 1 else gm_generations_repaired m),
       gm_input_tokens_total := gm_input_tokens_total m + ng_input_tokens a,
       gm_output_tokens_total := gm_output_tokens_total m + ng_output_tokens a,
       gm_estimated_tokens_saved_total := gm_estimated_tokens_saved_total m + ng_tokens_saved a,
       gm_last_context_plan_id := ng_plan_id a,
       gm_last_estimated_input_tokens := ng_input_tokens a,
       gm_last_baseline_input_tokens := ng_baseline a,
       gm_last_estimated_tokens_saved := ng_tokens_saved a,
       gm_last_token_savings_percent := savings_percent (ng_tokens_saved a) (ng_baseline a),
       gm_last_selected_skill_count := ng_skill_count a,
       gm_last_selected_memory_count := ng_memory_count a,
       gm_last_excluded_memory_count := ng_excluded_count a,
       gm_last_max_input_tokens := ng_max_tokens a\<rparr>"

definition record_validation :: "string \<Rightarrow> generation_metrics \<Rightarrow> generation_metrics" where
  "record_validation status m =
     (if status = ''passed'' then m\<lparr>gm_validation_passed := gm_validation_passed m + 1\<rparr>
      else if status = ''failed'' then m\<lparr>gm_validation_failed := gm_validation_failed m + 1\<rparr>
      else m\<lparr>gm_validation_not_run := gm_validation_not_run m + 1\<rparr>)"

definition metrics_snapshot :: "generation_metrics \<Rightarrow> (string, json) dict" where
  "metrics_snapshot m =
     [(''generations_total'', JInt (gm_generations_total m)),
      (''generations_completed'', JInt (gm_generations_completed m)),
      (''generations_failed'', JInt (gm_generations_failed m)),
      (''generations_repaired'', JInt (gm_generations_repaired m)),
      (''validation_passed'', JInt (gm_validation_passed m)),
      (''validation_failed'', JInt (gm_validation_failed m)),
      (''validation_not_run'', JInt (gm_validation_not_run m)),
      (''input_tokens_total'', JInt (gm_input_tokens_total m)),
      (''output_tokens_total'', JInt (gm_output_tokens_total m)),
      (''estimated_tokens_saved_total'', JInt (gm_estimated_tokens_saved_total m)),
      (''last_context_plan_id'', opt_json (gm_last_context_plan_id m)),
      (''last_estimated_input_tokens'', JInt (gm_last_estimated_input_tokens m)),
      (''last_baseline_input_tokens'', JInt (gm_last_baseline_input_tokens m)),
      (''last_estimated_tokens_saved'', JInt (gm_last_estimated_tokens_saved m)),
      (''last_token_savings_percent'', JFloat (gm_last_token_savings_percent m)),
      (''last_selected_skill_count'', JInt (gm_last_selected_skill_count m)),
      (''last_selected_memory_count'', JInt (gm_last_selected_memory_count m)),
      (''last_excluded_memory_count'', JInt (gm_last_excluded_memory_count m)),
      (''last_max_input_tokens'', JInt (gm_last_max_input_tokens m))]"

text \<open>The counters fit together: each generation is counted once as completed or failed, and once by the
  status of its validation.\<close>

definition metrics_ok :: "generation_metrics \<Rightarrow> bool" where
  "metrics_ok m =
     (gm_generations_total m = gm_generations_completed m + gm_generations_failed m \<and>
      gm_generations_total m = gm_validation_passed m + gm_validation_failed m + gm_validation_not_run m \<and>
      gm_last_token_savings_percent m = savings_percent (gm_last_estimated_tokens_saved m) (gm_last_baseline_input_tokens m))"

lemma new_metrics_ok: "metrics_ok new_generation_metrics"
  by (simp add: metrics_ok_def new_generation_metrics_def savings_percent_def)

lemma record_both_ok: "metrics_ok m \<Longrightarrow> metrics_ok (record_validation status (record_generation a m))"
  by (simp add: metrics_ok_def record_generation_def record_validation_def)

lemma record_both_counts:
  "gm_generations_total (record_validation status (record_generation a m)) = gm_generations_total m + 1"
  "gm_generations_completed (record_validation status (record_generation a m)) =
     gm_generations_completed m + (if ng_completed a then 1 else 0)"
  "gm_input_tokens_total (record_validation status (record_generation a m)) = gm_input_tokens_total m + ng_input_tokens a"
  by (simp_all add: record_generation_def record_validation_def)

section \<open>Context snapshots\<close>

record snapshot_row =
  sn_id :: string
  sn_tenant_id :: string
  sn_application_id :: string
  sn_request_id :: string
  sn_skill_ids :: json
  sn_memory_ids :: json
  sn_estimated_input_tokens :: int
  sn_created_at :: rat

definition keep_snapshot :: "snapshot_row \<Rightarrow> snapshot_row \<Rightarrow> snapshot_row" where
  "keep_snapshot old new = old"

definition snapshot_save ::
  "rat \<Rightarrow> string \<Rightarrow> string \<Rightarrow> string \<Rightarrow> string \<Rightarrow> string list \<Rightarrow> string list \<Rightarrow> int \<Rightarrow> snapshot_row list \<Rightarrow> snapshot_row list" where
  "snapshot_save now sid tenant app rid skills memories tokens rows =
     put_row sn_id keep_snapshot
       \<lparr>sn_id = sid, sn_tenant_id = tenant, sn_application_id = app, sn_request_id = rid,
        sn_skill_ids = JList (map JStr skills), sn_memory_ids = JList (map JStr memories),
        sn_estimated_input_tokens = tokens, sn_created_at = now\<rparr> rows"

text \<open>\<open>fetchrow\<close> returns one matching row, here the first. The driver has no codec for \<open>jsonb\<close> and hands the two
  id lists over as text; \<open>pg\<close> is the text of a \<open>jsonb\<close> value and \<open>stamp\<close> the format of a timestamp.\<close>

definition snapshot_dict :: "(json \<Rightarrow> string) \<Rightarrow> (rat \<Rightarrow> string) \<Rightarrow> snapshot_row \<Rightarrow> (string, json) dict" where
  "snapshot_dict pg stamp row =
     [(''snapshot_id'', JStr (sn_id row)), (''tenant_id'', JStr (sn_tenant_id row)),
      (''application_id'', JStr (sn_application_id row)), (''request_id'', JStr (sn_request_id row)),
      (''skill_ids'', JStr (pg (sn_skill_ids row))), (''memory_ids'', JStr (pg (sn_memory_ids row))),
      (''estimated_input_tokens'', JInt (sn_estimated_input_tokens row)),
      (''created_at'', JStr (stamp (sn_created_at row)))]"

definition get_by_request_id ::
  "(json \<Rightarrow> string) \<Rightarrow> (rat \<Rightarrow> string) \<Rightarrow> string \<Rightarrow> string \<Rightarrow> snapshot_row list \<Rightarrow> (string, json) dict option" where
  "get_by_request_id pg stamp tenant rid rows =
     map_option (snapshot_dict pg stamp) (find (\<lambda>x. sn_tenant_id x = tenant \<and> sn_request_id x = rid) rows)"

interpretation snapshots: upsert_table sn_id keep_snapshot
  by unfold_locales (simp add: keep_snapshot_def)

section \<open>Adapter mappings\<close>

record mapping_row =
  mp_id :: nat
  mp_tenant_id :: string
  mp_application_id :: string
  mp_adapter_version :: string
  mp_provider_id :: string
  mp_metadata :: json
  mp_created_at :: rat
  mp_updated_at :: rat

definition mapping_key :: "mapping_row \<Rightarrow> string \<times> string \<times> string" where
  "mapping_key x = (mp_tenant_id x, mp_application_id x, mp_adapter_version x)"

definition overwrite_mapping :: "mapping_row \<Rightarrow> mapping_row \<Rightarrow> mapping_row" where
  "overwrite_mapping old new =
     old\<lparr>mp_provider_id := mp_provider_id new, mp_metadata := mp_metadata new, mp_updated_at := mp_updated_at new\<rparr>"

definition mapping_get :: "string \<Rightarrow> string \<Rightarrow> string \<Rightarrow> mapping_row list \<Rightarrow> mapping_row option" where
  "mapping_get tenant app version rows = find (\<lambda>x. mapping_key x = (tenant, app, version)) rows"

text \<open>\<open>serial\<close> is the value the sequence of the table gives; \<open>returning *\<close> is the row the statement left.\<close>

definition mapping_upsert ::
  "nat \<Rightarrow> rat \<Rightarrow> string \<Rightarrow> string \<Rightarrow> string \<Rightarrow> string \<Rightarrow> (string, json) dict option \<Rightarrow> mapping_row list
   \<Rightarrow> mapping_row option \<times> mapping_row list" where
  "mapping_upsert serial now tenant app version provider metadata rows =
     (let rows1 = put_row mapping_key overwrite_mapping
        \<lparr>mp_id = serial, mp_tenant_id = tenant, mp_application_id = app, mp_adapter_version = version,
         mp_provider_id = provider, mp_metadata = JDict (case metadata of Some d \<Rightarrow> d | None \<Rightarrow> []),
         mp_created_at = now, mp_updated_at = now\<rparr> rows
      in (mapping_get tenant app version rows1, rows1))"

definition mapping_list :: "string \<Rightarrow> mapping_row list \<Rightarrow> mapping_row list" where
  "mapping_list tenant rows =
     sort_key (\<lambda>x. (mp_application_id x, mp_adapter_version x)) (filter (\<lambda>x. mp_tenant_id x = tenant) rows)"

interpretation mappings: upsert_table mapping_key overwrite_mapping
  by unfold_locales (simp add: mapping_key_def overwrite_mapping_def)

section \<open>What the two tables promise\<close>

definition new_mapping ::
  "nat \<Rightarrow> rat \<Rightarrow> string \<Rightarrow> string \<Rightarrow> string \<Rightarrow> string \<Rightarrow> (string, json) dict option \<Rightarrow> mapping_row" where
  "new_mapping serial now tenant app version provider metadata =
     \<lparr>mp_id = serial, mp_tenant_id = tenant, mp_application_id = app, mp_adapter_version = version,
      mp_provider_id = provider, mp_metadata = JDict (case metadata of Some d \<Rightarrow> d | None \<Rightarrow> []),
      mp_created_at = now, mp_updated_at = now\<rparr>"

lemma new_mapping_key: "mapping_key (new_mapping serial now tenant app version provider metadata) = (tenant, app, version)"
  by (simp add: mapping_key_def new_mapping_def)

lemma mapping_upsert_rows:
  "snd (mapping_upsert serial now tenant app version provider metadata rows) =
     put_row mapping_key overwrite_mapping (new_mapping serial now tenant app version provider metadata) rows"
  by (simp add: mapping_upsert_def new_mapping_def Let_def)

text \<open>A mapping written for a tenant, application and adapter is the one read back, with the new provider id
  and metadata and the identifier and creation time of the row it replaces; every other mapping stays as it was.
  A missing metadata is stored as the empty object.\<close>

theorem mapping_roundtrip:
  assumes "distinct (map mapping_key rows)"
    and "mapping_upsert serial now tenant app version provider metadata rows = (answer, rows1)"
  shows "\<exists>r. answer = Some r \<and> mp_provider_id r = provider \<and>
      mp_metadata r = JDict (case metadata of Some d \<Rightarrow> d | None \<Rightarrow> []) \<and> mp_updated_at r = now \<and>
      (mp_id r, mp_created_at r) =
        (case mapping_get tenant app version rows of None \<Rightarrow> (serial, now) | Some r0 \<Rightarrow> (mp_id r0, mp_created_at r0)) \<and>
      (\<forall>t a v. mapping_get t a v rows1 = (if (t, a, v) = (tenant, app, version) then Some r else mapping_get t a v rows))"
proof -
  let ?new = "new_mapping serial now tenant app version provider metadata"
  have rows1: "rows1 = put_row mapping_key overwrite_mapping ?new rows"
    using assms(2) mapping_upsert_rows by (metis snd_conv)
  have look: "mapping_get t a v rows1 =
      (if (t, a, v) = (tenant, app, version)
       then Some (case mapping_get tenant app version rows of None \<Rightarrow> ?new | Some r0 \<Rightarrow> overwrite_mapping r0 ?new)
       else mapping_get t a v rows)" for t a v
    using mappings.put_lookup [OF assms(1), of "(t, a, v)" ?new]
    by (simp add: rows1 mapping_get_def new_mapping_key)
  moreover have "answer = mapping_get tenant app version rows1"
    using assms(2) by (auto simp: mapping_upsert_def Let_def)
  ultimately show ?thesis
    by (auto simp: new_mapping_def overwrite_mapping_def split: option.splits)
qed

lemma mapping_roundtrip_witness:
  "\<exists>r. fst (mapping_upsert 2 9 ''t'' ''a'' ''v'' ''p2'' None (snd (mapping_upsert 3 5 ''t'' ''a'' ''v'' ''p1'' None []))) = Some r \<and>
     mp_provider_id r = ''p2'' \<and> mp_id r = 3"
proof -
  let ?rows = "snd (mapping_upsert 3 5 ''t'' ''a'' ''v'' ''p1'' None [])"
  have r: "?rows = [new_mapping 3 5 ''t'' ''a'' ''v'' ''p1'' None]"
    by (simp add: mapping_upsert_rows put_row_def)
  then have d: "distinct (map mapping_key ?rows)" by simp
  have g: "mapping_get ''t'' ''a'' ''v'' ?rows = Some (new_mapping 3 5 ''t'' ''a'' ''v'' ''p1'' None)"
    unfolding r by (simp add: mapping_get_def new_mapping_key)
  obtain answer rows1 where u: "mapping_upsert 2 9 ''t'' ''a'' ''v'' ''p2'' None ?rows = (answer, rows1)"
    by (cases "mapping_upsert 2 9 ''t'' ''a'' ''v'' ''p2'' None ?rows")
  from mapping_roundtrip [OF d u] obtain r where "answer = Some r" "mp_provider_id r = ''p2''" "mp_id r = 3"
    by (auto simp: g new_mapping_def)
  then show ?thesis by (simp add: u)
qed

text \<open>The list of a tenant holds its mappings once each, by application and adapter.\<close>

lemma mapping_list_exact:
  assumes "distinct (map mapping_key rows)"
  shows "set (mapping_list tenant rows) = {x \<in> set rows. mp_tenant_id x = tenant}"
    and "distinct (map mapping_key (mapping_list tenant rows))"
    and "sorted (map (\<lambda>x. (mp_application_id x, mp_adapter_version x)) (mapping_list tenant rows))"
proof -
  have "distinct (map mapping_key (filter (\<lambda>x. mp_tenant_id x = tenant) rows))"
    using assms by (rule distinct_map_filter)
  then show "distinct (map mapping_key (mapping_list tenant rows))"
    by (simp add: mapping_list_def distinct_map)
qed (auto simp: mapping_list_def)

text \<open>The first snapshot of an id is the one that stays.\<close>

lemma snapshot_kept:
  "distinct (map sn_id rows) \<Longrightarrow> find (\<lambda>x. sn_id x = sid) rows = Some x \<Longrightarrow>
   find (\<lambda>x. sn_id x = sid) (snapshot_save now sid' tenant app rid skills memories tokens rows) = Some x"
  by (auto simp: snapshot_save_def snapshots.put_lookup keep_snapshot_def)

text \<open>A snapshot under a fresh identifier and a fresh request is read back by its tenant, and by no other.\<close>

lemma snapshot_saved:
  assumes "sid \<notin> sn_id ` set rows" "rid \<notin> sn_request_id ` set rows"
  shows "get_by_request_id pg stamp t rid (snapshot_save now sid tenant app rid skills memories tokens rows) =
    (if t = tenant
     then Some [(''snapshot_id'', JStr sid), (''tenant_id'', JStr tenant), (''application_id'', JStr app),
                (''request_id'', JStr rid), (''skill_ids'', JStr (pg (JList (map JStr skills)))),
                (''memory_ids'', JStr (pg (JList (map JStr memories)))), (''estimated_input_tokens'', JInt tokens),
                (''created_at'', JStr (stamp now))]
     else None)"
proof -
  have "find (\<lambda>x. sn_tenant_id x = t \<and> sn_request_id x = rid) rows = None"
    using assms(2) by (auto simp: find_None_iff)
  moreover have "\<not> (\<exists>x \<in> set rows. sn_id x = sid)" using assms(1) by auto
  ultimately show ?thesis
    by (auto simp: get_by_request_id_def snapshot_save_def put_row_def find_append snapshot_dict_def)
qed

end
