(* ===== verification/Generations.thy ===== *)
theory Generations
  imports Orchestrator RateLimit Metrics
begin

text \<open>
  \<open>totalrecall/api/routes/generations.py\<close>: the route that puts the rate limiter in front of the orchestrator and
  keeps the books afterwards: an audit event, a context snapshot and the counters. The two background tasks run after
  the answer, in the order they were added, and before the next request in the sequences below.
\<close>

section \<open>The application state the route uses\<close>

record ('r, 'p) gen_app =
  ga_orch :: "('r, 'p) orch_state"
  ga_limits :: "rate_limit_provider option"
  ga_audit :: "audit_event list option"
  ga_snapshots :: "snapshot_row list option"
  ga_metrics :: "generation_metrics option"

text \<open>The clock of the limiter, the identifier of the audit event, and the clock of the database.\<close>

record gen_env =
  ge_monotonic :: rat
  ge_uuid :: string
  ge_db_now :: rat

section \<open>create_generation\<close>

definition check_rate_limit :: "rat \<Rightarrow> tenant_context \<Rightarrow> ('r, 'p) gen_app \<Rightarrow> unit result \<times> ('r, 'p) gen_app" where
  "check_rate_limit now cx s =
     (case ga_limits s of
        None \<Rightarrow> (Inr (), s)
      | Some p \<Rightarrow>
          (let (r, p1) = rate_check now (cx_tenant_id cx) p
           in (if rr_allowed r then Inr ()
               else Inl (HTTPException 429
                 (''Rate limit exceeded. Retry after '' @ int_str (rr_retry_after_seconds r) @ ''s.'')),
               s\<lparr>ga_limits := Some p1\<rparr>)))"

definition generation_event_type :: "generation_result \<Rightarrow> string" where
  "generation_event_type r =
     (if generation_status_value (gn_status r) = ''completed'' then ''generation.completed'' else ''generation.failed'')"

definition audit_generation ::
  "gen_env \<Rightarrow> tenant_context \<Rightarrow> generation_request \<Rightarrow> generation_result \<Rightarrow> audit_event list \<Rightarrow> audit_event list" where
  "audit_generation v cx q r =
     audit_record (ge_uuid v) (ge_db_now v) (cx_tenant_id cx) (cx_actor_id cx) (generation_event_type r)
       ''generation'' (Some (gr_application_id q))
       [(''application_id'', JStr (gr_application_id q)),
        (''status'', JStr (generation_status_value (gn_status r))),
        (''artifact_count'', JInt (int (length (gn_artifacts r))))]"

definition save_snapshot ::
  "gen_env \<Rightarrow> tenant_context \<Rightarrow> generation_request \<Rightarrow> generation_result \<Rightarrow> snapshot_row list \<Rightarrow> snapshot_row list" where
  "save_snapshot v cx q r rows =
     (case given (gc_context_plan_id (gn_context r)) of
        None \<Rightarrow> rows
      | Some sid \<Rightarrow>
          snapshot_save (ge_db_now v) sid (cx_tenant_id cx) (gr_application_id q) (gn_request_id r)
            (gc_skill_ids (gn_context r)) (gc_memory_ids (gn_context r))
            (gc_estimated_input_tokens (gn_context r)) rows)"

definition generation_numbers_of :: "generation_result \<Rightarrow> generation_numbers" where
  "generation_numbers_of r =
     (let c = gn_context r
      in \<lparr>ng_completed = (gn_status r = G_COMPLETED), ng_repaired = False,
          ng_input_tokens = gc_estimated_input_tokens c, ng_output_tokens = 0,
          ng_tokens_saved = gc_estimated_tokens_saved c, ng_plan_id = gc_context_plan_id c,
          ng_baseline = gc_baseline_input_tokens c, ng_skill_count = int (length (gc_skill_ids c)),
          ng_memory_count = int (length (gc_memory_ids c)), ng_excluded_count = int (gc_excluded_memory_count c),
          ng_max_tokens = gc_max_input_tokens c\<rparr>)"

definition count_generation :: "generation_result \<Rightarrow> generation_metrics \<Rightarrow> generation_metrics" where
  "count_generation r m =
     record_validation (validation_status_value (vs_status (gn_validation r)))
       (record_generation (generation_numbers_of r) m)"

definition create_generation ::
  "('r, 'p) orch_ext \<Rightarrow> fs \<Rightarrow> orchestrator \<Rightarrow> run_ids \<Rightarrow> gen_env \<Rightarrow> tenant_context \<Rightarrow> generation_request
   \<Rightarrow> ('r, 'p) gen_app \<Rightarrow> generation_result result \<times> ('r, 'p) gen_app" where
  "create_generation X fs o' ids v cx q s =
     (case check_rate_limit (ge_monotonic v) cx s of
        (Inl e, s1) \<Rightarrow> (Inl e, s1)
      | (Inr _, s1) \<Rightarrow>
          if gr_tenant_id q \<noteq> cx_tenant_id cx
          then (Inl (HTTPException 403 ''Request tenant_id does not match authenticated tenant.''), s1)
          else
            (case generate X fs o' ids q (ga_orch s1) of
               (Inl e, os) \<Rightarrow> (Inl e, s1\<lparr>ga_orch := os\<rparr>)
             | (Inr r, os) \<Rightarrow>
                 (Inr r,
                  s1\<lparr>ga_orch := os,
                    ga_audit := map_option (audit_generation v cx q r) (ga_audit s1),
                    ga_snapshots := map_option (save_snapshot v cx q r) (ga_snapshots s1),
                    ga_metrics := map_option (count_generation r) (ga_metrics s1)\<rparr>)))"

text \<open>\<open>GET /v1/metrics\<close>: no authentication is asked for.\<close>

definition get_metrics :: "('r, 'p) gen_app \<Rightarrow> (string, json) dict" where
  "get_metrics s = (case ga_metrics s of None \<Rightarrow> [] | Some m \<Rightarrow> metrics_snapshot m)"

section \<open>Sequences of requests\<close>

record ('r, 'p) gen_call =
  gl_ext :: "('r, 'p) orch_ext"
  gl_fs :: fs
  gl_ids :: run_ids
  gl_env :: gen_env
  gl_context :: tenant_context
  gl_body :: generation_request

fun gen_run ::
  "orchestrator \<Rightarrow> ('r, 'p) gen_call list \<Rightarrow> ('r, 'p) gen_app \<Rightarrow> generation_result result list \<times> ('r, 'p) gen_app" where
  "gen_run o' [] s = ([], s)"
| "gen_run o' (c # cs) s =
     (let (a, s1) = create_generation (gl_ext c) (gl_fs c) o' (gl_ids c) (gl_env c) (gl_context c) (gl_body c) s;
          (as, s2) = gen_run o' cs s1
      in (a # as, s2))"

section \<open>Guards\<close>

text \<open>The limiter refuses the caller, or the body names another tenant.\<close>

definition rate_refused :: "rat \<Rightarrow> tenant_context \<Rightarrow> ('r, 'p) gen_app \<Rightarrow> bool" where
  "rate_refused now cx s =
     (case ga_limits s of None \<Rightarrow> False | Some p \<Rightarrow> \<not> rr_allowed (fst (rate_check now (cx_tenant_id cx) p)))"

lemma check_rate_limit_eq:
  "snd (check_rate_limit now cx s) = s\<lparr>ga_limits := map_option (\<lambda>p. snd (rate_check now (cx_tenant_id cx) p)) (ga_limits s)\<rparr>"
  "ok (fst (check_rate_limit now cx s)) \<longleftrightarrow> \<not> rate_refused now cx s"
  "rate_refused now cx s \<Longrightarrow> \<exists>m. fst (check_rate_limit now cx s) = Inl (HTTPException 429 m)"
  by (auto simp: check_rate_limit_def rate_refused_def case_prod_beta split: option.splits)

lemma create_generation_limits:
  "ga_limits (snd (create_generation X fs o' ids v cx q s)) =
     map_option (\<lambda>p. snd (rate_check (ge_monotonic v) (cx_tenant_id cx) p)) (ga_limits s)"
proof -
  have "ga_limits (snd (create_generation X fs o' ids v cx q s)) = ga_limits (snd (check_rate_limit (ge_monotonic v) cx s))"
    by (auto simp: create_generation_def split: prod.splits sum.splits)
  then show ?thesis by (simp add: check_rate_limit_eq)
qed

text \<open>A request over the limit is answered 429 and one for another tenant 403, whatever it asks for; neither
  reaches the orchestrator, and neither is audited, snapshotted or counted. Both use up the caller's own limit only.\<close>

theorem generation_guarded:
  assumes "rate_refused (ge_monotonic v) cx s \<or> gr_tenant_id q \<noteq> cx_tenant_id cx"
  shows "\<exists>m. create_generation X fs o' ids v cx q s =
     (Inl (HTTPException (if rate_refused (ge_monotonic v) cx s then 429 else 403) m),
      s\<lparr>ga_limits := map_option (\<lambda>p. snd (rate_check (ge_monotonic v) (cx_tenant_id cx) p)) (ga_limits s)\<rparr>)"
proof -
  obtain c s1 where c: "check_rate_limit (ge_monotonic v) cx s = (c, s1)" by fastforce
  show ?thesis
    using assms check_rate_limit_eq [of "ge_monotonic v" cx s]
    by (cases c) (auto simp: create_generation_def c)
qed

section \<open>The books\<close>

definition answered :: "generation_result result list \<Rightarrow> generation_result list" where
  "answered as = map projr (filter ok as)"

lemma answered_Cons [simp]: "answered (a # as) = (case a of Inl _ \<Rightarrow> answered as | Inr r \<Rightarrow> r # answered as)"
  by (cases a) (simp_all add: answered_def)

lemma answered_Nil [simp]: "answered [] = []"
  by (simp add: answered_def)

definition count_if :: "('a \<Rightarrow> bool) \<Rightarrow> 'a list \<Rightarrow> int" where
  "count_if P xs = int (length (filter P xs))"

lemma create_generation_books:
  assumes "create_generation X fs o' ids v cx q s = (a, s1)"
  shows "ga_metrics s1 = (case a of Inl _ \<Rightarrow> ga_metrics s | Inr r \<Rightarrow> map_option (count_generation r) (ga_metrics s))"
    and "ga_audit s1 = (case a of Inl _ \<Rightarrow> ga_audit s | Inr r \<Rightarrow> map_option (audit_generation v cx q r) (ga_audit s))"
    and "ga_snapshots s1 = (case a of Inl _ \<Rightarrow> ga_snapshots s | Inr r \<Rightarrow> map_option (save_snapshot v cx q r) (ga_snapshots s))"
proof -
  have same: "ga_metrics (snd (check_rate_limit now cx s)) = ga_metrics s"
    "ga_audit (snd (check_rate_limit now cx s)) = ga_audit s"
    "ga_snapshots (snd (check_rate_limit now cx s)) = ga_snapshots s" for now
    by (simp_all add: check_rate_limit_eq)
  show "ga_metrics s1 = (case a of Inl _ \<Rightarrow> ga_metrics s | Inr r \<Rightarrow> map_option (count_generation r) (ga_metrics s))"
    "ga_audit s1 = (case a of Inl _ \<Rightarrow> ga_audit s | Inr r \<Rightarrow> map_option (audit_generation v cx q r) (ga_audit s))"
    "ga_snapshots s1 = (case a of Inl _ \<Rightarrow> ga_snapshots s | Inr r \<Rightarrow> map_option (save_snapshot v cx q r) (ga_snapshots s))"
    using assms same [of "ge_monotonic v"]
    by (auto simp: create_generation_def split: prod.splits sum.splits if_splits)
qed

lemma count_generation_ok: "metrics_ok m \<Longrightarrow> metrics_ok (count_generation r m)"
  by (simp add: count_generation_def record_both_ok)

lemma count_generation_counts:
  "gm_generations_total (count_generation r m) = gm_generations_total m + 1"
  "gm_generations_completed (count_generation r m) = gm_generations_completed m + (if gn_status r = G_COMPLETED then 1 else 0)"
  "gm_input_tokens_total (count_generation r m) = gm_input_tokens_total m + gc_estimated_input_tokens (gn_context r)"
  by (simp_all add: count_generation_def record_both_counts generation_numbers_of_def Let_def)

lemma metrics_run:
  assumes "gen_run o' cs s = (as, s1)" and "ga_metrics s = Some m" and "metrics_ok m"
  shows "\<exists>m1. ga_metrics s1 = Some m1 \<and> metrics_ok m1 \<and>
      gm_generations_total m1 = gm_generations_total m + int (length (answered as)) \<and>
      gm_generations_completed m1 = gm_generations_completed m + count_if (\<lambda>r. gn_status r = G_COMPLETED) (answered as) \<and>
      gm_input_tokens_total m1 =
        gm_input_tokens_total m + (\<Sum>r\<leftarrow>answered as. gc_estimated_input_tokens (gn_context r))"
  using assms
proof (induction cs arbitrary: as s m)
  case Nil
  then show ?case by (simp add: count_if_def)
next
  case (Cons c cs)
  let ?one = "create_generation (gl_ext c) (gl_fs c) o' (gl_ids c) (gl_env c) (gl_context c) (gl_body c) s"
  obtain a s2 where one: "?one = (a, s2)" by fastforce
  obtain as' where rest: "gen_run o' cs s2 = (as', s1)" "as = a # as'"
    using Cons.prems(1) by (auto simp: one split: prod.splits)
  show ?case
  proof (cases a)
    case (Inl e)
    with create_generation_books(1) [OF one] Cons.IH [OF rest(1), of m] Cons.prems rest(2)
    show ?thesis by simp
  next
    case (Inr r)
    with create_generation_books(1) [OF one] Cons.prems(2)
    have "ga_metrics s2 = Some (count_generation r m)" by simp
    from Cons.IH [OF rest(1) this count_generation_ok [OF Cons.prems(3)]] rest(2) Inr
    show ?thesis by (auto simp: count_generation_counts count_if_def)
  qed
qed

text \<open>C27: The counters are exact. After any sequence of requests to an application with fresh counters, the total is
  the number of answered requests, split into completed and failed ones and into the three validation counters, and
  the input tokens are those of the answers; the percentage shown is that of the last two numbers shown.\<close>

theorem generations_accounted:
  assumes "gen_run o' cs s = (as, s1)" and "ga_metrics s = Some new_generation_metrics"
  shows "\<exists>m. ga_metrics s1 = Some m \<and>
      gm_generations_total m = int (length (answered as)) \<and>
      gm_generations_completed m = count_if (\<lambda>r. gn_status r = G_COMPLETED) (answered as) \<and>
      gm_generations_failed m = count_if (\<lambda>r. gn_status r \<noteq> G_COMPLETED) (answered as) \<and>
      gm_validation_passed m + gm_validation_failed m + gm_validation_not_run m = gm_generations_total m \<and>
      gm_input_tokens_total m = (\<Sum>r\<leftarrow>answered as. gc_estimated_input_tokens (gn_context r)) \<and>
      gm_last_token_savings_percent m = savings_percent (gm_last_estimated_tokens_saved m) (gm_last_baseline_input_tokens m)"
proof -
  have c: "int (length (answered as)) =
      count_if (\<lambda>r. gn_status r = G_COMPLETED) (answered as) + count_if (\<lambda>r. gn_status r \<noteq> G_COMPLETED) (answered as)"
    unfolding count_if_def using sum_length_filter_compl [of "\<lambda>r. gn_status r = G_COMPLETED" "answered as"] by linarith
  from metrics_run [OF assms new_metrics_ok] show ?thesis
    by (auto simp: new_generation_metrics_def metrics_ok_def c)
qed

text \<open>The events a sequence of requests leaves, in order: one for each answer.\<close>

definition event_view :: "audit_event \<Rightarrow> string \<times> string \<times> string \<times> string option" where
  "event_view e = (ae_tenant_id e, ae_actor_id e, ae_event_type e, ae_subject_id e)"

fun expected_events :: "('r, 'p) gen_call list \<Rightarrow> generation_result result list \<Rightarrow> (string \<times> string \<times> string \<times> string option) list" where
  "expected_events (c # cs) (a # as) =
     (case a of
        Inl _ \<Rightarrow> []
      | Inr r \<Rightarrow> [(cx_tenant_id (gl_context c), cx_actor_id (gl_context c),
          (if gn_status r = G_COMPLETED then ''generation.completed'' else ''generation.failed''),
          Some (gr_application_id (gl_body c)))]) @ expected_events cs as"
| "expected_events _ _ = []"

text \<open>C28: Every answered generation leaves exactly one audit event, in the order of the requests, under the
  authenticated tenant and actor and with the outcome of the answer; a request that is refused or fails leaves none.\<close>

theorem generations_audited:
  assumes "gen_run o' cs s = (as, s1)" and "ga_audit s = Some rows"
  shows "\<exists>new. ga_audit s1 = Some (rows @ new) \<and> map event_view new = expected_events cs as"
  using assms
proof (induction cs arbitrary: as s rows)
  case Nil
  then show ?case by simp
next
  case (Cons c cs)
  let ?one = "create_generation (gl_ext c) (gl_fs c) o' (gl_ids c) (gl_env c) (gl_context c) (gl_body c) s"
  obtain a s2 where one: "?one = (a, s2)" by fastforce
  obtain as' where rest: "gen_run o' cs s2 = (as', s1)" "as = a # as'"
    using Cons.prems(1) by (auto simp: one split: prod.splits)
  show ?case
  proof (cases a)
    case (Inl e)
    with create_generation_books(2) [OF one] Cons.IH [OF rest(1), of rows] Cons.prems rest(2)
    show ?thesis by simp
  next
    case (Inr r)
    let ?rows = "audit_generation (gl_env c) (gl_context c) (gl_body c) r rows"
    from Inr create_generation_books(2) [OF one] Cons.prems(2) have "ga_audit s2 = Some ?rows" by simp
    from Cons.IH [OF rest(1) this] obtain new
      where new: "ga_audit s1 = Some (?rows @ new)" "map event_view new = expected_events cs as'" by auto
    obtain e where e: "?rows = rows @ [e]" "event_view e = (cx_tenant_id (gl_context c), cx_actor_id (gl_context c),
        (if gn_status r = G_COMPLETED then ''generation.completed'' else ''generation.failed''),
        Some (gr_application_id (gl_body c)))"
      by (cases "gn_status r") (auto simp: audit_generation_def audit_record_def event_view_def generation_event_type_def)
    show ?thesis
      by (rule exI [of _ "e # new"]) (use new e rest(2) Inr in simp)
  qed
qed

section \<open>The rate of the route\<close>

definition too_many :: "'a result \<Rightarrow> bool" where
  "too_many a = (case a of Inl (HTTPException n _) \<Rightarrow> n = 429 | _ \<Rightarrow> False)"

text \<open>The times of the requests of one tenant that were not answered 429.\<close>

definition let_through :: "string \<Rightarrow> ('r, 'p) gen_call list \<Rightarrow> generation_result result list \<Rightarrow> rat list" where
  "let_through tenant cs as =
     map (\<lambda>ca. ge_monotonic (gl_env (fst ca)))
       (filter (\<lambda>ca. cx_tenant_id (gl_context (fst ca)) = tenant \<and> \<not> too_many (snd ca)) (zip cs as))"

lemma let_through_simps [simp]:
  "let_through tenant [] as = []"
  "let_through tenant (c # cs) (a # as) =
     (if cx_tenant_id (gl_context c) = tenant \<and> \<not> too_many a then [ge_monotonic (gl_env c)] else []) @ let_through tenant cs as"
  by (simp_all add: let_through_def)

lemma refused_too_many:
  assumes "create_generation X fs o' ids v cx q s = (a, s1)" and "ga_limits s = Some p"
    and "\<not> rr_allowed (fst (rate_check (ge_monotonic v) (cx_tenant_id cx) p))"
  shows "too_many a"
proof -
  have "rate_refused (ge_monotonic v) cx s" using assms(2,3) by (simp add: rate_refused_def)
  from check_rate_limit_eq(3) [OF this] obtain m where "fst (check_rate_limit (ge_monotonic v) cx s) = Inl (HTTPException 429 m)" ..
  with assms(1) show ?thesis
    by (auto simp: create_generation_def too_many_def split: prod.splits sum.splits)
qed

lemma hist_later:
  assumes "bucket_hist b h now" and "now \<le> now'"
  shows "bucket_hist b h now'"
proof -
  from assms(1) obtain a where "a \<le> window_start now b" "bk_timestamps b = filter (\<lambda>t. a \<le> t) h"
    "sorted h" "\<forall>t \<in> set h. t \<le> now" "window_bound (bk_policy b) h"
    by (auto simp: bucket_hist_def)
  moreover have "window_start now b \<le> window_start now' b" using assms(2) by (simp add: window_start_def)
  ultimately show ?thesis
    unfolding bucket_hist_def using assms(2) by (meson order_trans)
qed

lemma let_through_hist:
  assumes "gen_run o' cs s = (as, s1)" and "ga_limits s = Some p"
    and "bucket_hist (bucket_of p tenant) h last_now"
    and "sorted (last_now # map (\<lambda>c. ge_monotonic (gl_env c)) cs)"
  shows "\<exists>ts. window_bound (bk_policy (bucket_of p tenant)) (h @ ts) \<and> subseq (let_through tenant cs as) ts"
  using assms
proof (induction cs arbitrary: as s p h last_now)
  case Nil
  then show ?case by (auto simp: bucket_hist_def intro!: exI [of _ "[]"])
next
  case (Cons c cs)
  let ?now = "ge_monotonic (gl_env c)" and ?t = "cx_tenant_id (gl_context c)"
  obtain a s2 where one: "create_generation (gl_ext c) (gl_fs c) o' (gl_ids c) (gl_env c) (gl_context c) (gl_body c) s = (a, s2)"
    by fastforce
  obtain as' where rest: "gen_run o' cs s2 = (as', s1)" "as = a # as'"
    using Cons.prems(1) by (auto simp: one split: prod.splits)
  let ?p = "snd (rate_check ?now ?t p)" and ?b = "bucket_of p tenant"
  have lim: "ga_limits s2 = Some ?p"
    using create_generation_limits [of "gl_ext c" "gl_fs c" o' "gl_ids c" "gl_env c" "gl_context c" "gl_body c" s] one Cons.prems(2)
    by simp
  have le: "last_now \<le> ?now" and srt: "sorted (?now # map (\<lambda>c. ge_monotonic (gl_env c)) cs)"
    using Cons.prems(4) by auto
  show ?case
  proof (cases "?t = tenant")
    case True
    let ?al = "rr_allowed (fst (check_and_record ?now ?b))"
    have "bucket_hist (bucket_of ?p tenant) (if ?al then h @ [?now] else h) ?now"
      using hist_step [OF Cons.prems(3) le] True by (simp add: rate_check_bucket)
    from Cons.IH [OF rest(1) lim this srt] obtain ts
      where ts: "window_bound (bk_policy ?b) ((if ?al then h @ [?now] else h) @ ts)" "subseq (let_through tenant cs as') ts"
      using True by (auto simp: rate_check_bucket)
    show ?thesis
    proof (cases ?al)
      case al: True
      with ts True rest(2) show ?thesis by (intro exI [of _ "?now # ts"]) auto
    next
      case False
      then have "too_many a"
        using refused_too_many [OF one Cons.prems(2)] True by (simp add: rate_check_bucket)
      with ts False rest(2) show ?thesis by (intro exI [of _ ts]) auto
    qed
  next
    case False
    then have "bucket_of ?p tenant = ?b" by (simp add: rate_check_bucket)
    moreover have "bucket_hist ?b h ?now"
      using Cons.prems(3) le by (rule hist_later)
    ultimately show ?thesis
      using Cons.IH [OF rest(1) lim _ srt, of h] False rest(2) by simp
  qed
qed

lemma subseq_filter_length: "subseq xs ys \<Longrightarrow> length (filter P xs) \<le> length (filter P ys)"
  by (rule list_emb_length) (rule subseq_filter)

text \<open>C6: The generation route keeps the limit of every tenant: whatever the requests and whoever sends them, within
  any interval of the tenant's window at most \<open>max_requests\<close> of its requests are answered with anything but 429.\<close>

theorem generation_rate_bound:
  assumes "gen_run o' cs s = (as, s1)" and "ga_limits s = Some p" and "rl_buckets p = []"
    and "sorted (map (\<lambda>c. ge_monotonic (gl_env c)) cs)"
  shows "length (filter (\<lambda>t. x \<le> t \<and> t \<le> x + of_nat (rp_window_seconds (policy_for p tenant))) (let_through tenant cs as))
     \<le> rp_max_requests (policy_for p tenant)"
proof (cases cs)
  case Nil
  then show ?thesis by simp
next
  case (Cons c cs')
  have b: "bucket_of p tenant = new_bucket (policy_for p tenant)"
    using assms(3) by (simp add: bucket_of_def get_or_create_bucket_def Let_def)
  have "bucket_hist (bucket_of p tenant) [] (ge_monotonic (gl_env c))"
    by (auto simp: b bucket_hist_def new_bucket_def window_bound_def)
  from let_through_hist [OF assms(1,2) this] assms(4) Cons obtain ts
    where "window_bound (policy_for p tenant) ts" "subseq (let_through tenant cs as) ts"
    by (auto simp: b new_bucket_def)
  then have "length (filter (in_window (rp_window_seconds (policy_for p tenant)) x) (let_through tenant cs as)) \<le> rp_max_requests (policy_for p tenant)"
    unfolding window_bound_def by (metis subseq_filter_length order_trans)
  then show ?thesis unfolding in_window_eq .
qed

section \<open>Snapshots of generations\<close>

text \<open>An answered generation can be looked up: its tenant finds, under the request id of the answer, the plan id, the
  skills and memories and the token estimate of the answer; another tenant finds nothing.\<close>

theorem generation_snapshot:
  assumes "create_generation X fs o' ids v cx q s = (Inr r, s1)"
    and "ga_snapshots s = Some rows" and "gc_context_plan_id (gn_context r) = Some sid" and "sid \<noteq> []"
    and "sid \<notin> sn_id ` set rows" and "ru_request_id ids \<notin> sn_request_id ` set rows"
  shows "\<exists>rows1. ga_snapshots s1 = Some rows1 \<and>
     get_by_request_id pg stamp tenant (ru_request_id ids) rows1 =
       (if tenant = cx_tenant_id cx
        then Some [(''snapshot_id'', JStr sid), (''tenant_id'', JStr tenant), (''application_id'', JStr (gr_application_id q)),
               (''request_id'', JStr (ru_request_id ids)),
               (''skill_ids'', JStr (pg (JList (map JStr (gc_skill_ids (gn_context r)))))),
               (''memory_ids'', JStr (pg (JList (map JStr (gc_memory_ids (gn_context r)))))),
               (''estimated_input_tokens'', JInt (gc_estimated_input_tokens (gn_context r))),
               (''created_at'', JStr (stamp (ge_db_now v)))]
        else None)"
proof -
  have rid: "gn_request_id r = ru_request_id ids"
    using assms(1) generate_request_id by (auto simp: create_generation_def split: prod.splits sum.splits if_splits)
  have "given (Some sid) = Some sid" using assms(4) by (cases sid) (simp_all add: given_def)
  then have "ga_snapshots s1 = Some (snapshot_save (ge_db_now v) sid (cx_tenant_id cx) (gr_application_id q) (ru_request_id ids)
      (gc_skill_ids (gn_context r)) (gc_memory_ids (gn_context r)) (gc_estimated_input_tokens (gn_context r)) rows)"
    using create_generation_books(3) [OF assms(1)] assms(2,3) by (simp add: save_snapshot_def rid)
  with snapshot_saved [OF assms(5,6)] show ?thesis by auto
qed

text \<open>A validation that only warns is counted as not run.\<close>

lemma warning_counted_not_run:
  "vs_status (gn_validation r) = V_WARNING \<Longrightarrow>
   gm_validation_not_run (count_generation r m) = gm_validation_not_run m + 1 \<and>
   gm_validation_passed (count_generation r m) = gm_validation_passed m"
  by (simp add: count_generation_def record_validation_def record_generation_def)

section \<open>Witnesses\<close>

definition demo_gen_app :: "(unit, unit) gen_app" where
  "demo_gen_app = \<lparr>ga_orch = demo_orch_state, ga_limits = Some \<lparr>rl_default = \<lparr>rp_max_requests = 1, rp_window_seconds = 60\<rparr>,
     rl_policies = [], rl_buckets = []\<rparr>, ga_audit = Some [], ga_snapshots = Some [], ga_metrics = Some new_generation_metrics\<rparr>"

definition demo_cx :: "string \<Rightarrow> tenant_context" where
  "demo_cx tenant = \<lparr>cx_tenant_id = tenant, cx_actor_id = ''ann'', cx_roles = [''reader''], cx_permissions = []\<rparr>"

definition demo_gen_env :: "rat \<Rightarrow> gen_env" where
  "demo_gen_env now = \<lparr>ge_monotonic = now, ge_uuid = ''ev'', ge_db_now = 5\<rparr>"

definition demo_call :: "rat \<Rightarrow> (unit, unit) gen_call" where
  "demo_call now = \<lparr>gl_ext = demo_orch, gl_fs = [], gl_ids = demo_ids, gl_env = demo_gen_env now,
     gl_context = demo_cx ''t'', gl_body = demo_qa ''buy milk'' (Some ''AB-1'')\<rparr>"

definition demo_default :: orchestrator where
  "demo_default = projr (fst (create_orchestrator (\<lambda>_. None) (\<lambda>_ _. None) [] 0 (CredentialProviderChain []) new_registry None
     (ConfigFeatureFlagProvider [])))"

lemma demo_generate:
  "\<exists>gn s'. generate demo_orch [] demo_default demo_ids (demo_qa ''buy milk'' (Some ''AB-1'')) demo_orch_state = (Inr gn, s') \<and>
     gn_status gn = G_COMPLETED \<and> gc_context_plan_id (gn_context gn) = Some ''p1''"
proof -
  let ?q = "demo_qa ''buy milk'' (Some ''AB-1'')"
  have o': "plain_testgen demo_default" unfolding demo_default_def default_orchestrator by (simp add: plain_testgen_def)
  have g: "dict_get (os_gateway demo_orch_state) ''stub'' = Some (StubProvider None)" by (simp add: build_gateway_def)
  have q: "contract_str1 (gr_prompt ?q)" "strip (gr_prompt ?q) \<noteq> []" using demo_prompt_ok by simp_all
  have k: "contract_str ''AB-1''" and d: "trim (lower (strip ''d'')) \<noteq> []" and s: "contract_str1 ''m''" "contract_str1 ''r1''"
    by code_simp+
  have "\<exists>m. extract_metadata ?q = Inr m"
    using d by (simp add: extract_metadata_def demo_qa_def validate_str1_def split: prod.splits)
  then obtain m where m: "extract_metadata ?q = Inr m" by blast
  have p: "ru_plan_id demo_ids = ''p1''" by (simp add: demo_ids_def)
  from stub_testgen_run [OF q demo_prompt_ok(3) m _ _ _ _ o' g, of demo_ids demo_orch "[]"]
  show ?thesis using k s unfolding p by auto
qed

lemma demo_first:
  "\<exists>r s1. create_generation demo_orch [] demo_default demo_ids (demo_gen_env 0) (demo_cx ''t'') (demo_qa ''buy milk'' (Some ''AB-1'')) demo_gen_app = (Inr r, s1) \<and>
     gn_status r = G_COMPLETED \<and> gc_context_plan_id (gn_context r) = Some ''p1''"
proof -
  have "ok (fst (check_rate_limit 0 (demo_cx ''t'') demo_gen_app))"
    unfolding check_rate_limit_eq(2) by code_simp
  moreover have "ga_orch (snd (check_rate_limit 0 (demo_cx ''t'') demo_gen_app)) = demo_orch_state"
    by (simp add: check_rate_limit_eq(1) demo_gen_app_def)
  ultimately show ?thesis
    using demo_generate
    by (auto simp: create_generation_def demo_gen_env_def demo_cx_def demo_qa_def ok_iff split: prod.splits)
qed

lemma demo_run_one:
  "\<exists>r s1. gen_run demo_default [demo_call 0] demo_gen_app = ([Inr r], s1) \<and> gn_status r = G_COMPLETED"
  using demo_first by (auto simp: demo_call_def)

lemma demo_app_fields:
  "ga_metrics demo_gen_app = Some new_generation_metrics" "ga_audit demo_gen_app = Some []" "ga_snapshots demo_gen_app = Some []"
  by (simp_all add: demo_gen_app_def)

lemma generation_guarded_witness:
  "\<exists>m. fst (create_generation demo_orch [] demo_default demo_ids (demo_gen_env 0) (demo_cx ''evil'') (demo_qa ''buy milk'' None) demo_gen_app) =
     Inl (HTTPException 403 m)"
proof -
  have "\<not> rate_refused (ge_monotonic (demo_gen_env 0)) (demo_cx ''evil'') demo_gen_app" by code_simp
  moreover have "gr_tenant_id (demo_qa ''buy milk'' None) \<noteq> cx_tenant_id (demo_cx ''evil'')"
    by (simp add: demo_qa_def demo_cx_def)
  ultimately show ?thesis
    using generation_guarded [of "demo_gen_env 0" "demo_cx ''evil''" demo_gen_app "demo_qa ''buy milk'' None" demo_orch "[]" demo_default demo_ids]
    by auto
qed

lemma generations_accounted_witness:
  "\<exists>m. ga_metrics (snd (gen_run demo_default [demo_call 0] demo_gen_app)) = Some m \<and>
     gm_generations_total m = 1 \<and> gm_generations_completed m = 1 \<and> gm_generations_failed m = 0"
proof -
  obtain r s1 where r: "gen_run demo_default [demo_call 0] demo_gen_app = ([Inr r], s1)" "gn_status r = G_COMPLETED"
    using demo_run_one by blast
  from generations_accounted [OF r(1) demo_app_fields(1)] r show ?thesis by (auto simp: count_if_def)
qed

lemma generations_audited_witness:
  "\<exists>e. ga_audit (snd (gen_run demo_default [demo_call 0] demo_gen_app)) = Some [e] \<and>
     event_view e = (''t'', ''ann'', ''generation.completed'', Some ''a'')"
proof -
  obtain r s1 where r: "gen_run demo_default [demo_call 0] demo_gen_app = ([Inr r], s1)" "gn_status r = G_COMPLETED"
    using demo_run_one by blast
  from generations_audited [OF r(1) demo_app_fields(2)] r
  show ?thesis by (auto simp: demo_call_def demo_cx_def demo_qa_def)
qed

lemma generation_rate_bound_witness:
  "length (filter (\<lambda>t. 0 \<le> t \<and> t \<le> 60)
     (let_through ''t'' [demo_call 0, demo_call 1] (fst (gen_run demo_default [demo_call 0, demo_call 1] demo_gen_app)))) \<le> 1"
proof -
  obtain as s1 where r: "gen_run demo_default [demo_call 0, demo_call 1] demo_gen_app = (as, s1)" by fastforce
  have l: "ga_limits demo_gen_app = Some \<lparr>rl_default = \<lparr>rp_max_requests = 1, rp_window_seconds = 60\<rparr>, rl_policies = [], rl_buckets = []\<rparr>"
    by (simp add: demo_gen_app_def)
  have p: "policy_for \<lparr>rl_default = \<lparr>rp_max_requests = 1, rp_window_seconds = 60\<rparr>, rl_policies = [], rl_buckets = []\<rparr> ''t'' =
      \<lparr>rp_max_requests = 1, rp_window_seconds = 60\<rparr>"
    by (simp add: policy_for_def dict_get_or_def)
  have "sorted (map (\<lambda>c. ge_monotonic (gl_env c)) [demo_call 0, demo_call 1])" by (simp add: demo_call_def demo_gen_env_def)
  from generation_rate_bound [OF r l _ this, of 0 "''t''"] show ?thesis
    unfolding r fst_conv p by simp
qed

lemma generation_snapshot_witness:
  "\<exists>rows1 d. ga_snapshots (snd (create_generation demo_orch [] demo_default demo_ids (demo_gen_env 0) (demo_cx ''t'') (demo_qa ''buy milk'' (Some ''AB-1'')) demo_gen_app)) = Some rows1 \<and>
     get_by_request_id dumps (\<lambda>_. ''now'') ''t'' ''r1'' rows1 = Some d \<and> dict_get d ''snapshot_id'' = Some (JStr ''p1'') \<and>
     get_by_request_id dumps (\<lambda>_. ''now'') ''evil'' ''r1'' rows1 = None"
proof -
  obtain r s1 where r: "create_generation demo_orch [] demo_default demo_ids (demo_gen_env 0) (demo_cx ''t'') (demo_qa ''buy milk'' (Some ''AB-1'')) demo_gen_app = (Inr r, s1)"
    and p: "gc_context_plan_id (gn_context r) = Some ''p1''"
    using demo_first by blast
  have i: "ru_request_id demo_ids = ''r1''" by (simp add: demo_ids_def)
  from generation_snapshot [OF r demo_app_fields(3) p, of dumps "\<lambda>_. ''now''" "''t''"]
    generation_snapshot [OF r demo_app_fields(3) p, of dumps "\<lambda>_. ''now''" "''evil''"]
  show ?thesis unfolding r snd_conv i by (auto simp: demo_cx_def)
qed

end
