(* ===== verification/Monitoring.thy ===== *)
theory Monitoring
  imports Generations
begin

text \<open>
  \<open>totalrecall/api/routes/monitoring.py\<close>: the snapshots of the memory adapter, the providers and the counters, and
  the overall status. One clock reading serves a whole request; \<open>sdk\<close> says whether the package of Mem0 can be found.
  A response model without state of its own is the ordered dictionary of its fields.
\<close>

section \<open>Response models\<close>

definition trimmed :: "json \<Rightarrow> json" where
  "trimmed j = (case j of JStr x \<Rightarrow> JStr (trim x) | _ \<Rightarrow> j)"

text \<open>A model whose fields all have defaults, filled from keyword arguments; an unknown one is refused.\<close>

definition fill_model :: "string \<Rightarrow> (string, json) dict \<Rightarrow> (string, json) dict \<Rightarrow> (string, json) dict result" where
  "fill_model name defaults d =
     (if list_all (\<lambda>k. dict_get defaults k \<noteq> None) (dict_keys d)
      then Inr (map (\<lambda>(k, v). (k, trimmed (dict_get_or d k v))) defaults) else Inl (ValidationError name))"

definition memory_operation_fields :: "(string, json) dict" where
  "memory_operation_fields =
     [(''search_total'', JInt 0), (''search_success_total'', JInt 0), (''search_failure_total'', JInt 0),
      (''search_cache_hit_total'', JInt 0), (''average_search_latency_ms'', JFloat 0),
      (''get_total'', JInt 0), (''get_success_total'', JInt 0), (''get_failure_total'', JInt 0),
      (''average_get_latency_ms'', JFloat 0),
      (''upsert_total'', JInt 0), (''upsert_success_total'', JInt 0), (''upsert_failure_total'', JInt 0),
      (''average_upsert_latency_ms'', JFloat 0),
      (''delete_total'', JInt 0), (''delete_success_total'', JInt 0), (''delete_failure_total'', JInt 0),
      (''average_delete_latency_ms'', JFloat 0),
      (''last_success_at'', JNull), (''last_failure_at'', JNull), (''last_error_type'', JNull)]"

definition token_efficiency_fields :: "(string, json) dict" where
  "token_efficiency_fields =
     [(''generations_total'', JInt 0), (''input_tokens_total'', JInt 0), (''output_tokens_total'', JInt 0),
      (''estimated_tokens_saved_total'', JInt 0), (''last_context_plan_id'', JNull),
      (''last_estimated_input_tokens'', JInt 0), (''last_baseline_input_tokens'', JInt 0),
      (''last_estimated_tokens_saved'', JInt 0), (''last_token_savings_percent'', JFloat 0),
      (''last_selected_skill_count'', JInt 0), (''last_selected_memory_count'', JInt 0),
      (''last_excluded_memory_count'', JInt 0), (''last_max_input_tokens'', JInt 0)]"

record mem0_monitor =
  mx_credential_configured :: bool
  mx_host_configured :: bool
  mx_active :: bool
  mx_sdk_available :: bool
  mx_status :: string
  mx_write_enabled :: bool
  mx_fail_open_on_search :: bool
  mx_supports_search :: bool
  mx_supports_get :: bool
  mx_supports_upsert :: bool
  mx_supports_delete :: bool

record memory_monitor =
  mq_active_adapter :: string
  mq_configured_adapter :: string
  mq_health :: memory_health
  mq_capabilities :: memory_capabilities
  mq_operations :: "(string, json) dict"
  mq_mem0 :: mem0_monitor

record provider_monitor =
  pv_provider_id :: string
  pv_registered :: bool
  pv_credential_configured :: bool
  pv_status :: string
  pv_model :: "string option"
  pv_latency_ms :: "nat option"
  pv_error :: "string option"

record monitoring_report =
  mr_status :: string
  mr_tenant_id :: string
  mr_actor_id :: string
  mr_memory :: memory_monitor
  mr_providers :: "provider_monitor list"
  mr_token_efficiency :: "(string, json) dict"
  mr_generation_metrics :: "(string, json) dict"

section \<open>Memory\<close>

definition credential_configured :: "string \<Rightarrow> fs \<Rightarrow> string \<Rightarrow> bool" where
  "credential_configured dir fs k = (case cred_has dir fs k of Inl _ \<Rightarrow> False | Inr b \<Rightarrow> b)"

text \<open>The application and the wrapper share one feature flag provider.\<close>

definition flag_switch ::
  "'r ext \<Rightarrow> fs \<Rightarrow> reading \<Rightarrow> string \<Rightarrow> bool \<Rightarrow> memory_wrapper \<Rightarrow> bool \<times> memory_wrapper" where
  "flag_switch X fs t k dflt w =
     (let (v, p) = get_bool (x_http X) fs (rd_now t) k dflt (mw_feature_flags w)
      in (v, w\<lparr>mw_feature_flags := p\<rparr>))"

definition memory_snapshot ::
  "'r ext \<Rightarrow> fs \<Rightarrow> string \<Rightarrow> bool \<Rightarrow> reading \<Rightarrow> memory_wrapper \<Rightarrow> 'r \<Rightarrow> memory_monitor result \<times> memory_wrapper \<times> 'r" where
  "memory_snapshot X fs dir sdk t w r =
     (case wrapper_health X fs t w r of
        (Inl e, w1, r1) \<Rightarrow> (Inl e, w1, r1)
      | (Inr h, w1, r1) \<Rightarrow>
          (case wrapper_capabilities X fs t w1 of
             (Inl e, w2) \<Rightarrow> (Inl e, w2, r1)
           | (Inr c, w2) \<Rightarrow>
               (let (configured, w3) = flag_string X fs t ''memory.adapter'' ''null'' w2;
                    active = (configured = ''mem0_v1'' \<or> mh_adapter_version h = ''mem0_v1'')
                in (case fill_model ''MemoryOperationStats'' memory_operation_fields (operation_stats w3) of
                      Inl e \<Rightarrow> (Inl e, w3, r1)
                    | Inr ops \<Rightarrow>
                        (let (writes, w4) = flag_switch X fs t ''memory.write_enabled'' False w3;
                             (open', w5) = flag_switch X fs t ''memory.fail_open_on_search'' False w4
                         in (Inr \<lparr>mq_active_adapter = trim (mh_adapter_version h), mq_configured_adapter = trim configured,
                                  mq_health = h, mq_capabilities = c, mq_operations = ops,
                                  mq_mem0 =
                                    \<lparr>mx_credential_configured = credential_configured dir fs ''mem0_api_key'',
                                     mx_host_configured = credential_configured dir fs ''mem0_host'', mx_active = active,
                                     mx_sdk_available = sdk,
                                     mx_status = (if active then health_value (mh_status h) else ''inactive''),
                                     mx_write_enabled = writes, mx_fail_open_on_search = open',
                                     mx_supports_search = mc_supports_search c, mx_supports_get = mc_supports_get c,
                                     mx_supports_upsert = mc_supports_upsert c, mx_supports_delete = mc_supports_delete c\<rparr>\<rparr>,
                             w5, r1))))))"

section \<open>Providers\<close>

definition definition_provider_ids :: "string list" where
  "definition_provider_ids =
     concat (map (\<lambda>d. case cd_provider_id d of None \<Rightarrow> [] | Some pid \<Rightarrow> [pid]) SUPPORTED_RUNTIME_CREDENTIALS)"

definition monitored_ids :: "gateway \<Rightarrow> string list" where
  "monitored_ids g = sort (remdups (registered_ids g @ definition_provider_ids))"

definition provider_configured :: "string \<Rightarrow> fs \<Rightarrow> string \<Rightarrow> bool" where
  "provider_configured dir fs pid =
     list_ex (\<lambda>d. cd_provider_id d = Some pid \<and> credential_configured dir fs (cd_key d)) SUPPORTED_RUNTIME_CREDENTIALS"

definition unprobed :: "string \<Rightarrow> bool \<Rightarrow> bool \<Rightarrow> string \<Rightarrow> provider_monitor" where
  "unprobed pid registered configured status =
     \<lparr>pv_provider_id = trim pid, pv_registered = registered, pv_credential_configured = configured, pv_status = status,
      pv_model = None, pv_latency_ms = None, pv_error = None\<rparr>"

definition probe_provider ::
  "'p llm_ext \<Rightarrow> fs \<Rightarrow> string \<Rightarrow> string list \<Rightarrow> string \<Rightarrow> gateway \<Rightarrow> 'p \<Rightarrow> provider_monitor result \<times> gateway \<times> 'p" where
  "probe_provider L fs dir registered pid g p =
     (let configured = provider_configured dir fs pid
      in if pid \<notin> set registered then (Inr (unprobed pid False configured ''unregistered''), g, p)
         else if \<not> configured \<and> pid \<noteq> ''stub'' then (Inr (unprobed pid True False ''unconfigured''), g, p)
         else (case gateway_health L fs pid g p of
                 (Inl e, g1, p1) \<Rightarrow> (Inl e, g1, p1)
               | (Inr h, g1, p1) \<Rightarrow>
                   (Inr \<lparr>pv_provider_id = trim pid, pv_registered = True, pv_credential_configured = configured,
                         pv_status = health_value (ph_status h), pv_model = map_option trim (ph_model h),
                         pv_latency_ms = ph_latency_ms h,
                         pv_error = map_option (\<lambda>e. trim (se_message e)) (ph_error h)\<rparr>, g1, p1)))"

fun probe_providers ::
  "'p llm_ext \<Rightarrow> fs \<Rightarrow> string \<Rightarrow> string list \<Rightarrow> string list \<Rightarrow> gateway \<Rightarrow> 'p \<Rightarrow> provider_monitor list result \<times> gateway \<times> 'p" where
  "probe_providers L fs dir registered [] g p = (Inr [], g, p)"
| "probe_providers L fs dir registered (pid # pids) g p =
     (case probe_provider L fs dir registered pid g p of
        (Inl e, g1, p1) \<Rightarrow> (Inl e, g1, p1)
      | (Inr st, g1, p1) \<Rightarrow>
          (case probe_providers L fs dir registered pids g1 p1 of
             (Inl e, g2, p2) \<Rightarrow> (Inl e, g2, p2)
           | (Inr sts, g2, p2) \<Rightarrow> (Inr (st # sts), g2, p2)))"

definition providers_snapshot ::
  "'p llm_ext \<Rightarrow> fs \<Rightarrow> string \<Rightarrow> gateway \<Rightarrow> 'p \<Rightarrow> provider_monitor list result \<times> gateway \<times> 'p" where
  "providers_snapshot L fs dir g p = probe_providers L fs dir (registered_ids g) (monitored_ids g) g p"

section \<open>Tokens and the overall status\<close>

definition token_efficiency_snapshot :: "generation_metrics option \<Rightarrow> (string, json) dict result" where
  "token_efficiency_snapshot metrics =
     (case metrics of
        None \<Rightarrow> Inr token_efficiency_fields
      | Some m \<Rightarrow> fill_model ''TokenEfficiencySnapshot'' token_efficiency_fields
          (filter (\<lambda>kv. dict_get token_efficiency_fields (fst kv) \<noteq> None) (metrics_snapshot m)))"

definition monitor_status :: "memory_monitor \<Rightarrow> provider_monitor list \<Rightarrow> string" where
  "monitor_status mem sts =
     (if mh_status (mq_health mem) = H_UNAVAILABLE then ''unavailable''
      else if mh_degraded (mq_health mem) \<or> mx_status (mq_mem0 mem) = ''degraded'' \<or>
        list_ex (\<lambda>p. pv_credential_configured p \<and> pv_registered p \<and> pv_status p \<notin> {''ok'', ''unregistered''}) sts
      then ''degraded'' else ''healthy'')"

section \<open>Routes\<close>

definition memory_monitoring ::
  "('r, 'p) orch_ext \<Rightarrow> fs \<Rightarrow> string \<Rightarrow> bool \<Rightarrow> reading \<Rightarrow> ('r, 'p) gen_app \<Rightarrow> memory_monitor result \<times> ('r, 'p) gen_app" where
  "memory_monitoring X fs dir sdk t s =
     (case on_memory (memory_snapshot (ox_mem X) fs dir sdk t) (ga_orch s) of (x, os) \<Rightarrow> (x, s\<lparr>ga_orch := os\<rparr>))"

definition provider_monitoring ::
  "('r, 'p) orch_ext \<Rightarrow> fs \<Rightarrow> string \<Rightarrow> ('r, 'p) gen_app \<Rightarrow> provider_monitor list result \<times> ('r, 'p) gen_app" where
  "provider_monitoring X fs dir s =
     (case on_gateway (providers_snapshot (gx_llm (ox_gen X)) fs dir) (ga_orch s) of (x, os) \<Rightarrow> (x, s\<lparr>ga_orch := os\<rparr>))"

definition token_efficiency_monitoring :: "('r, 'p) gen_app \<Rightarrow> (string, json) dict result" where
  "token_efficiency_monitoring s = token_efficiency_snapshot (ga_metrics s)"

definition monitoring_summary ::
  "('r, 'p) orch_ext \<Rightarrow> fs \<Rightarrow> string \<Rightarrow> bool \<Rightarrow> reading \<Rightarrow> tenant_context \<Rightarrow> ('r, 'p) gen_app
   \<Rightarrow> monitoring_report result \<times> ('r, 'p) gen_app" where
  "monitoring_summary X fs dir sdk t cx s =
     (case memory_monitoring X fs dir sdk t s of
        (Inl e, s1) \<Rightarrow> (Inl e, s1)
      | (Inr mem, s1) \<Rightarrow>
          (case provider_monitoring X fs dir s1 of
             (Inl e, s2) \<Rightarrow> (Inl e, s2)
           | (Inr sts, s2) \<Rightarrow>
               (case token_efficiency_monitoring s2 of
                  Inl e \<Rightarrow> (Inl e, s2)
                | Inr tokens \<Rightarrow>
                    (Inr \<lparr>mr_status = monitor_status mem sts, mr_tenant_id = trim (cx_tenant_id cx),
                          mr_actor_id = trim (cx_actor_id cx), mr_memory = mem, mr_providers = sts,
                          mr_token_efficiency = tokens, mr_generation_metrics = get_metrics s2\<rparr>, s2))))"

section \<open>The response models always fit\<close>

lemma operation_stats_fit: "\<exists>d. fill_model name memory_operation_fields (operation_stats w) = Inr d"
proof -
  have "list_all (\<lambda>k. dict_get memory_operation_fields k \<noteq> None) (dict_keys (operation_stats w))"
    by (simp add: operation_stats_def operation_metrics_snapshot_def operation_stats_of_def Let_def
        memory_operation_fields_def dict_keys_def)
  then show ?thesis by (simp add: fill_model_def)
qed

lemma token_efficiency_fit:
  "token_efficiency_snapshot metrics =
     Inr (case metrics of None \<Rightarrow> token_efficiency_fields
          | Some m \<Rightarrow> map (\<lambda>(k, v). (k, trimmed (dict_get_or (metrics_snapshot m) k v))) token_efficiency_fields)"
proof (cases metrics)
  case None
  then show ?thesis by (simp add: token_efficiency_snapshot_def)
next
  case (Some m)
  let ?in = "\<lambda>kv :: string \<times> json. dict_get token_efficiency_fields (fst kv) \<noteq> None"
  have f: "dict_get (filter ?in d) k = dict_get d k" if "dict_get token_efficiency_fields k \<noteq> None" for d k
    using that by (induction d) auto
  have k: "dict_get token_efficiency_fields k \<noteq> None" if "(k, v) \<in> set token_efficiency_fields" for k v
    using that by (metis map_of_eq_None_iff fst_conv image_eqI)
  have "list_all (\<lambda>k. dict_get token_efficiency_fields k \<noteq> None) (dict_keys (filter ?in (metrics_snapshot m)))"
    by (auto simp: dict_keys_def list_all_iff)
  moreover have "map (\<lambda>(k, v). (k, trimmed (dict_get_or (filter ?in (metrics_snapshot m)) k v))) token_efficiency_fields =
      map (\<lambda>(k, v). (k, trimmed (dict_get_or (metrics_snapshot m) k v))) token_efficiency_fields"
  proof (rule map_cong [OF refl])
    fix x
    assume x: "x \<in> set token_efficiency_fields"
    obtain k v where kv: "x = (k, v)" by (cases x)
    from f [OF k [OF x [unfolded kv]], of "metrics_snapshot m"] show "(case x of (k, v) \<Rightarrow> (k, trimmed (dict_get_or (filter ?in (metrics_snapshot m)) k v))) =
        (case x of (k, v) \<Rightarrow> (k, trimmed (dict_get_or (metrics_snapshot m) k v)))"
      by (simp only: kv prod.case dict_get_or_def)
  qed
  ultimately show ?thesis by (simp add: token_efficiency_snapshot_def Some fill_model_def)
qed

section \<open>Monitoring only reads\<close>

text \<open>What monitoring must not touch: the counters, the cache, the tombstones and the shadow log of the wrapper.\<close>

definition wrapper_view :: "memory_wrapper \<Rightarrow> op_metrics \<times> memory_search_result ttl_cache option \<times> tombstone list \<times> shadow_entry list" where
  "wrapper_view w = (mw_metrics w, mw_cache w, mw_tombstones w, mw_shadow_log w)"

lemma flag_view: "flag_string X fs t k d w = (v, w1) \<Longrightarrow> wrapper_view w1 = wrapper_view w"
  "flag_switch X fs t k' d' w = (v', w2) \<Longrightarrow> wrapper_view w2 = wrapper_view w"
  by (auto simp: flag_string_def flag_switch_def wrapper_view_def split: prod.splits)

lemma active_adapter_view: "active_adapter X fs t w = (a, w1) \<Longrightarrow> wrapper_view w1 = wrapper_view w"
  by (auto simp: active_adapter_def active_adapter_name_def flag_string_def wrapper_view_def split: prod.splits)

lemma wrapper_health_view: "wrapper_health X fs t w r = (h, w1, r1) \<Longrightarrow> wrapper_view w1 = wrapper_view w"
  using active_adapter_view [of X fs t w]
  by (auto simp: wrapper_health_def put_adapter_def wrapper_view_def split: prod.splits sum.splits)

lemma wrapper_capabilities_view: "wrapper_capabilities X fs t w = (c, w1) \<Longrightarrow> wrapper_view w1 = wrapper_view w"
  using active_adapter_view [of X fs t w]
  by (auto simp: wrapper_capabilities_def split: prod.splits sum.splits)

lemma memory_snapshot_view: "memory_snapshot X fs dir sdk t w r = (x, w1, r1) \<Longrightarrow> wrapper_view w1 = wrapper_view w"
  by (auto simp: memory_snapshot_def Let_def split: prod.splits sum.splits
      dest!: flag_view wrapper_health_view wrapper_capabilities_view)

definition app_view where
  "app_view s = (ga_limits s, ga_audit s, ga_snapshots s, ga_metrics s, wrapper_view (os_wrapper (ga_orch s)))"

lemma memory_monitoring_view: "memory_monitoring X fs dir sdk t s = (x, s1) \<Longrightarrow> app_view s1 = app_view s"
  by (auto simp: memory_monitoring_def on_memory_def app_view_def split: prod.splits dest: memory_snapshot_view)

lemma provider_monitoring_view:
  "provider_monitoring X fs dir s = (x, s1) \<Longrightarrow> app_view s1 = app_view s \<and> os_wrapper (ga_orch s1) = os_wrapper (ga_orch s)"
  by (auto simp: provider_monitoring_def on_gateway_def app_view_def split: prod.splits)

text \<open>Monitoring only observes: a summary, answered or failed, leaves the rate limits, the audit log, the snapshots,
  the counters of the generations and of the memory operations, the cache, the tombstones and the shadow log as they were.\<close>

theorem monitoring_read_only:
  "app_view (snd (monitoring_summary X fs dir sdk t cx s)) = app_view s"
proof -
  obtain x s1 where m: "memory_monitoring X fs dir sdk t s = (x, s1)" by fastforce
  obtain y s2 where p: "provider_monitoring X fs dir s1 = (y, s2)" by fastforce
  show ?thesis
    using memory_monitoring_view [OF m] provider_monitoring_view [OF p]
    by (auto simp: monitoring_summary_def m p split: sum.splits)
qed

section \<open>The list of providers\<close>

text \<open>What an entry of the list says of its provider.\<close>

definition describes :: "string \<Rightarrow> fs \<Rightarrow> string list \<Rightarrow> string \<Rightarrow> provider_monitor \<Rightarrow> bool" where
  "describes dir fs registered pid st =
     (pv_provider_id st = trim pid \<and> (pv_registered st \<longleftrightarrow> pid \<in> set registered) \<and>
      (pv_credential_configured st \<longleftrightarrow> provider_configured dir fs pid) \<and>
      (if pid \<notin> set registered then pv_status st = ''unregistered''
       else if \<not> provider_configured dir fs pid \<and> pid \<noteq> ''stub'' then pv_status st = ''unconfigured''
       else pv_status st \<in> {''ok'', ''degraded'', ''unavailable''}))"

lemma health_value_cases: "health_value h = ''ok'' \<or> health_value h = ''degraded'' \<or> health_value h = ''unavailable''"
  by (cases h) auto

lemma probe_provider_describes:
  assumes "probe_provider L fs dir registered pid g p = (Inr st, g1, p1)"
  shows "describes dir fs registered pid st"
proof (cases "pid \<in> set registered \<and> (provider_configured dir fs pid \<or> pid = ''stub'')")
  case True
  with assms obtain h where "pv_status st = health_value h" "pv_provider_id st = trim pid" "pv_registered st"
    "pv_credential_configured st = provider_configured dir fs pid"
    by (auto simp: probe_provider_def Let_def split: prod.splits sum.splits)
  then show ?thesis using True health_value_cases [of h] by (auto simp: describes_def)
next
  case False
  with assms show ?thesis by (auto simp: probe_provider_def Let_def describes_def unprobed_def split: if_splits)
qed

lemma probe_providers_describe:
  "probe_providers L fs dir registered pids g p = (Inr sts, g1, p1) \<Longrightarrow>
   list_all2 (describes dir fs registered) pids sts"
  by (induction pids arbitrary: g p sts) (auto dest: probe_provider_describes split: prod.splits sum.splits)

text \<open>The provider list is exact: it has one entry for every registered provider and every provider a credential
  is defined for, in alphabetical order, and each entry says whether it is registered and has a stored credential; only
  registered providers that have one, and the stub, are asked for their health.\<close>

theorem provider_monitor_exact:
  assumes "provider_monitoring X fs dir s = (Inr sts, s1)"
  shows "\<exists>pids. list_all2 (describes dir fs (registered_ids (os_gateway (ga_orch s)))) pids sts \<and>
      sorted pids \<and> distinct pids \<and> set pids = set (registered_ids (os_gateway (ga_orch s))) \<union> set definition_provider_ids"
proof (intro exI [of _ "monitored_ids (os_gateway (ga_orch s))"] conjI)
  show "list_all2 (describes dir fs (registered_ids (os_gateway (ga_orch s)))) (monitored_ids (os_gateway (ga_orch s))) sts"
    using assms by (auto simp: provider_monitoring_def on_gateway_def providers_snapshot_def
        dest!: probe_providers_describe split: prod.splits)
qed (auto simp: monitored_ids_def)

text \<open>The health check of the stub contacts nothing.\<close>

lemma stub_health_quiet:
  assumes "dict_get g ''stub'' = Some (StubProvider fixed)"
  shows "\<exists>h. gateway_health L fs ''stub'' g p = (Inr h, g, p)"
proof -
  have "dict_set ''stub'' (StubProvider fixed) g = g"
    using assms by (induction g) auto
  then show ?thesis by (simp add: gateway_health_def assms)
qed

lemma probe_providers_quiet:
  assumes "dict_get g ''stub'' = Some (StubProvider fixed)" and "\<forall>pid. \<not> provider_configured dir fs pid"
  shows "\<exists>sts. probe_providers L fs dir registered pids g p = (Inr sts, g, p)"
proof (induction pids)
  case (Cons pid pids)
  have "\<exists>st. probe_provider L fs dir registered pid g p = (Inr st, g, p)"
    using stub_health_quiet [OF assms(1), of L fs p] assms(2)
    by (cases "pid = ''stub''") (auto simp: probe_provider_def Let_def)
  with Cons.IH show ?case by auto
qed simp

lemma provider_monitoring_quiet:
  assumes "dict_get (os_gateway (ga_orch s)) ''stub'' = Some (StubProvider fixed)" and "\<forall>pid. \<not> provider_configured dir fs pid"
  shows "\<exists>sts. provider_monitoring X fs dir s = (Inr sts, s)"
  using probe_providers_quiet [OF assms, of "gx_llm (ox_gen X)" "registered_ids (os_gateway (ga_orch s))"
      "monitored_ids (os_gateway (ga_orch s))" "os_world (ga_orch s)"]
  by (auto simp: provider_monitoring_def on_gateway_def providers_snapshot_def)

text \<open>With no stored credential no provider is contacted: the list is answered and nothing changes.\<close>

theorem unconfigured_not_contacted:
  assumes "dict_get (os_gateway (ga_orch s)) ''stub'' = Some (StubProvider fixed)"
    and "\<forall>d \<in> set SUPPORTED_RUNTIME_CREDENTIALS. dict_get fs (secret_path dir d) = None"
  shows "\<exists>sts. provider_monitoring X fs dir s = (Inr sts, s)"
proof -
  have "\<forall>pid. \<not> provider_configured dir fs pid"
    using assms(2) by (auto simp: provider_configured_def list_ex_iff credential_configured_def cred_has_def
        definition_of_def rbind_def find_Some_iff split: option.splits sum.splits)
  then show ?thesis by (rule provider_monitoring_quiet [OF assms(1)])
qed

text \<open>A provider that fails with a blank message makes its health check raise instead of reporting it.\<close>

lemma blank_failure_raises:
  assumes "dict_get g ''local'' = Some (LocalProvider a)" and "local_base_url L fs a = Inl (RuntimeError [])"
  shows "fst (gateway_health L fs ''local'' g p) = Inl (ValidationError ''message'')"
  using assms by (simp add: gateway_health_def local_health_def unavailable_def validate_str1_def trim_def strip_by_def
      rstrip_by_def split: prod.splits)

section \<open>Witnesses\<close>

lemma demo_gateway: "os_gateway (ga_orch demo_gen_app) = build_gateway (CredentialProviderChain [])"
  "dict_get (build_gateway (CredentialProviderChain [])) ''stub'' = Some (StubProvider None)"
  by (simp_all add: demo_gen_app_def build_gateway_def)

lemma unconfigured_not_contacted_witness:
  "\<exists>sts. provider_monitoring demo_orch [] ''/s'' demo_gen_app = (Inr sts, demo_gen_app)"
  by (rule unconfigured_not_contacted [of _ None]) (simp_all add: demo_gateway)

lemma provider_monitor_exact_witness:
  "\<exists>sts :: provider_monitor list. map pv_provider_id sts = [''claude'', ''gemini'', ''local'', ''openai'', ''stub''] \<and>
     take 4 (map pv_status sts) = [''unregistered'', ''unregistered'', ''unconfigured'', ''unconfigured'']"
proof -
  let ?g = "build_gateway (CredentialProviderChain [])" and ?ids = "[''claude'', ''gemini'', ''local'', ''openai'', ''stub'']"
  have c: "\<not> provider_configured ''/s'' [] pid" for pid
    by (auto simp: provider_configured_def list_ex_iff credential_configured_def cred_has_def rbind_def split: sum.splits)
  have ids: "set (registered_ids ?g) = {''stub'', ''openai'', ''local''}"
    "set definition_provider_ids = {''openai'', ''claude'', ''gemini'', ''local''}"
    by (simp_all add: build_gateway_def registered_ids_def dict_keys_def definition_provider_ids_def SUPPORTED_RUNTIME_CREDENTIALS_def)
  have tr: "map trim ?ids = ?ids" by code_simp
  obtain sts where r: "provider_monitoring demo_orch [] ''/s'' demo_gen_app = (Inr sts, demo_gen_app)"
    using provider_monitoring_quiet [of demo_gen_app None "''/s''" "[]" demo_orch] c demo_gateway by metis
  from provider_monitor_exact [OF r] obtain pids where
    pids: "list_all2 (describes ''/s'' [] (registered_ids ?g)) pids sts" "sorted pids" "distinct pids"
    "set pids = set (registered_ids ?g) \<union> set definition_provider_ids"
    by (auto simp: demo_gateway(1))
  have "sorted ?ids" "distinct ?ids" by code_simp+
  moreover have "set ?ids = set (registered_ids ?g) \<union> set definition_provider_ids" unfolding ids by auto
  ultimately have e: "pids = ?ids" using pids(2-4) by (metis sorted_distinct_set_unique)
  have "list_all2 (\<lambda>pid st. pv_provider_id st = trim pid) ?ids sts"
    using pids(1) unfolding e by (rule list_all2_mono) (simp add: describes_def)
  then have "map trim ?ids = map pv_provider_id sts"
    by (induction rule: list_all2_induct) simp_all
  then have names: "map pv_provider_id sts = ?ids" unfolding tr by (rule sym)
  obtain a b d f g where sts: "sts = [a, b, d, f, g]"
    using pids(1) unfolding e by (auto simp: list_all2_Cons1)
  have states: "take 4 (map pv_status sts) = [''unregistered'', ''unregistered'', ''unconfigured'', ''unconfigured'']"
    using pids(1) unfolding e sts by (simp add: describes_def ids(1) c)
  from names states show ?thesis by (intro exI conjI)
qed

end
