(* ===== verification/Catalogue.thy ===== *)
theory Catalogue
  imports Skills Tables
begin

text \<open>
  \<open>totalrecall/catalogue/models.py\<close>, \<open>totalrecall/storage/catalogue_repo.py\<close> and
  \<open>totalrecall/api/routes/catalogue.py\<close>: the catalogue of skills, memories and references, one row
  per entry, read page by page and only by its tenant. The \<open>jsonb\<close> columns hold JSON values. The
  clock of the process is the argument \<open>now\<close>.
\<close>

section \<open>models.py\<close>

datatype catalogue_category = STATIC_SKILL | DYNAMIC_MEMORY | LEARNING_REFERENCE
datatype catalogue_status = C_DISCOVERED | C_ACTIVE | C_REJECTED | C_TOMBSTONED | C_DEPRECATED

fun category_value :: "catalogue_category \<Rightarrow> string" where
  "category_value STATIC_SKILL = ''static_skill''"
| "category_value DYNAMIC_MEMORY = ''dynamic_memory''"
| "category_value LEARNING_REFERENCE = ''learning_reference''"

definition category_of :: "string \<Rightarrow> catalogue_category option" where
  "category_of s = find (\<lambda>x. category_value x = s) [STATIC_SKILL, DYNAMIC_MEMORY, LEARNING_REFERENCE]"

fun catalogue_status_value :: "catalogue_status \<Rightarrow> string" where
  "catalogue_status_value C_DISCOVERED = ''discovered''"
| "catalogue_status_value C_ACTIVE = ''active''"
| "catalogue_status_value C_REJECTED = ''rejected''"
| "catalogue_status_value C_TOMBSTONED = ''tombstoned''"
| "catalogue_status_value C_DEPRECATED = ''deprecated''"

definition catalogue_status_of :: "string \<Rightarrow> catalogue_status option" where
  "catalogue_status_of s =
     find (\<lambda>x. catalogue_status_value x = s) [C_DISCOVERED, C_ACTIVE, C_REJECTED, C_TOMBSTONED, C_DEPRECATED]"

record catalogue_source =
  so0_type :: string
  so0_reference :: string
  so0_file_path :: "string option"
  so0_symbol_name :: "string option"
  so0_commit_id :: "string option"
  so0_scan_id :: "string option"

definition wf_source :: "catalogue_source \<Rightarrow> bool" where
  "wf_source s = (contract_str1 (so0_type s) \<and> contract_str1 (so0_reference s) \<and> contract_opt (so0_file_path s) \<and>
     contract_opt (so0_symbol_name s) \<and> contract_opt (so0_commit_id s) \<and> contract_opt (so0_scan_id s))"

record catalogue_entry =
  en_entity_id :: string
  en_tenant_id :: string
  en_application_id :: string
  en_category :: catalogue_category
  en_status :: catalogue_status
  en_summary :: string
  en_tags :: "(string, json) dict"
  en_source :: "catalogue_source option"
  en_owner :: "string option"
  en_approved_by :: "string option"
  en_approved_at :: "rat option"
  en_deleted_by :: "string option"
  en_deleted_at :: "rat option"
  en_created_at :: rat
  en_updated_at :: rat

text \<open>The keys of \<open>tags\<close> are strings and stripped like every string of a contract; values are \<open>Any\<close>.\<close>

definition wf_tags :: "(string, json) dict \<Rightarrow> bool" where
  "wf_tags d = (dict_ok d \<and> list_all contract_str (dict_keys d))"

definition wf_catalogue_entry :: "catalogue_entry \<Rightarrow> bool" where
  "wf_catalogue_entry e = (contract_str1 (en_entity_id e) \<and> contract_str1 (en_tenant_id e) \<and> contract_str1 (en_application_id e) \<and>
     contract_str1 (en_summary e) \<and> wf_tags (en_tags e) \<and> (case en_source e of None \<Rightarrow> True | Some s \<Rightarrow> wf_source s) \<and>
     contract_opt (en_owner e) \<and> contract_opt (en_approved_by e) \<and> contract_opt (en_deleted_by e))"

record search_filters =
  sf_tenant_id :: string
  sf_application_id :: "string option"
  sf_category :: "catalogue_category option"
  sf_status :: "catalogue_status option"
  sf_limit :: nat
  sf_offset :: nat

record catalogue_result =
  cr_items :: "catalogue_entry list"
  cr_total :: nat

section \<open>catalogue_repo.py\<close>

record catalogue_row =
  ct_id :: string
  ct_tenant_id :: string
  ct_application_id :: string
  ct_category :: string
  ct_status :: string
  ct_summary :: string
  ct_source :: json
  ct_tags :: json
  ct_owner :: "string option"
  ct_approved_by :: "string option"
  ct_approved_at :: "rat option"
  ct_deleted_by :: "string option"
  ct_deleted_at :: "rat option"
  ct_created_at :: rat
  ct_updated_at :: rat

definition source_json :: "catalogue_source \<Rightarrow> json" where
  "source_json s =
     JDict [(''type'', JStr (so0_type s)), (''reference'', JStr (so0_reference s)),
            (''file_path'', opt_json (so0_file_path s)), (''symbol_name'', opt_json (so0_symbol_name s)),
            (''commit_id'', opt_json (so0_commit_id s)), (''scan_id'', opt_json (so0_scan_id s))]"

definition SOURCE_FIELDS :: "string list" where
  "SOURCE_FIELDS = [''type'', ''reference'', ''file_path'', ''symbol_name'', ''commit_id'', ''scan_id'']"

definition source_of_dict :: "(string, json) dict \<Rightarrow> catalogue_source result" where
  "source_of_dict d =
     rbind (no_extra SOURCE_FIELDS d) (\<lambda>_.
     rbind (required d ''type'' (as_str1 ''type'')) (\<lambda>ty.
     rbind (required d ''reference'' (as_str1 ''reference'')) (\<lambda>ref.
     rbind (optional d ''file_path'' None (as_opt (as_str ''file_path''))) (\<lambda>fp.
     rbind (optional d ''symbol_name'' None (as_opt (as_str ''symbol_name''))) (\<lambda>sn.
     rbind (optional d ''commit_id'' None (as_opt (as_str ''commit_id''))) (\<lambda>ci.
     rbind (optional d ''scan_id'' None (as_opt (as_str ''scan_id''))) (\<lambda>si.
       Inr \<lparr>so0_type = ty, so0_reference = ref, so0_file_path = fp, so0_symbol_name = sn, so0_commit_id = ci,
            so0_scan_id = si\<rparr>)))))))"

text \<open>\<open>entry.source.model_dump(mode="json") if entry.source else {}\<close>\<close>

definition entry_row :: "rat \<Rightarrow> catalogue_entry \<Rightarrow> catalogue_row" where
  "entry_row now e =
     \<lparr>ct_id = en_entity_id e, ct_tenant_id = en_tenant_id e, ct_application_id = en_application_id e,
      ct_category = category_value (en_category e), ct_status = catalogue_status_value (en_status e),
      ct_summary = en_summary e,
      ct_source = (case en_source e of None \<Rightarrow> JDict [] | Some s \<Rightarrow> source_json s), ct_tags = JDict (en_tags e),
      ct_owner = en_owner e, ct_approved_by = en_approved_by e, ct_approved_at = en_approved_at e,
      ct_deleted_by = en_deleted_by e, ct_deleted_at = en_deleted_at e, ct_created_at = now, ct_updated_at = now\<rparr>"

text \<open>The columns an upsert overwrites; the tenant, the application, the category and the creation time
  stay those of the first insertion.\<close>

definition overwrite_entry :: "catalogue_row \<Rightarrow> catalogue_row \<Rightarrow> catalogue_row" where
  "overwrite_entry old new =
     old\<lparr>ct_status := ct_status new, ct_summary := ct_summary new, ct_source := ct_source new,
       ct_tags := ct_tags new, ct_owner := ct_owner new, ct_approved_by := ct_approved_by new,
       ct_approved_at := ct_approved_at new, ct_deleted_by := ct_deleted_by new,
       ct_deleted_at := ct_deleted_at new, ct_updated_at := ct_updated_at new\<rparr>"

text \<open>A validated entry has a non-empty id, so the branch that draws a new one is dead.\<close>

definition catalogue_upsert ::
  "string \<Rightarrow> rat \<Rightarrow> catalogue_entry \<Rightarrow> catalogue_row list \<Rightarrow> catalogue_entry \<times> catalogue_row list" where
  "catalogue_upsert uid now e rows =
     (let e1 = e\<lparr>en_entity_id := (if en_entity_id e \<noteq> [] then en_entity_id e else uid)\<rparr>
      in (e1, put_row ct_id overwrite_entry (entry_row now e1) rows))"

definition catalogue_update_status ::
  "rat \<Rightarrow> string \<Rightarrow> string \<Rightarrow> catalogue_status \<Rightarrow> catalogue_row list \<Rightarrow> bool \<times> catalogue_row list" where
  "catalogue_update_status now tenant eid st rows =
     (case update_where (\<lambda>x. ct_id x = eid \<and> ct_tenant_id x = tenant)
             (\<lambda>x. x\<lparr>ct_status := catalogue_status_value st, ct_updated_at := now\<rparr>) rows of
        (n, rows') \<Rightarrow> (n \<noteq> 0, rows'))"

text \<open>\<open>_row_to_entry\<close> builds the model anew, and validates it: a source that is not an object, an
  unknown category or status, or an empty application id raises. It does not pass the row's own
  times, so the entry carries the time of the reading.\<close>

definition row_source :: "json \<Rightarrow> catalogue_source option result" where
  "row_source j =
     (case j of
        JDict d \<Rightarrow>
          if d \<noteq> [] \<and> truthy (dict_get_or d ''type'' JNull) \<and> truthy (dict_get_or d ''reference'' JNull)
          then rbind (source_of_dict d) (\<lambda>s. Inr (Some s)) else Inr None
      | _ \<Rightarrow> if truthy j then Inl (OtherError ''AttributeError'' ''get'') else Inr None)"

definition validate_dict :: "string \<Rightarrow> json \<Rightarrow> (string, json) dict result" where
  "validate_dict field j = (case j of JDict d \<Rightarrow> Inr (fold (\<lambda>(k, v) acc. dict_set (trim k) v acc) d []) | _ \<Rightarrow> invalid field)"

text \<open>\<open>tags_raw or {}\<close>\<close>

definition row_tags :: "json \<Rightarrow> (string, json) dict result" where
  "row_tags j = (if truthy j then validate_dict ''tags'' j else Inr [])"

definition enum_of :: "string \<Rightarrow> (string \<Rightarrow> 'e option) \<Rightarrow> string \<Rightarrow> 'e result" where
  "enum_of cls of_value s =
     (case of_value s of Some x \<Rightarrow> Inr x
      | None \<Rightarrow> Inl (ValueError (repr_str s @ '' is not a valid '' @ cls)))"

definition row_to_entry :: "rat \<Rightarrow> catalogue_row \<Rightarrow> catalogue_entry result" where
  "row_to_entry now x =
     rbind (row_source (ct_source x)) (\<lambda>src.
     rbind (enum_of ''CatalogueCategory'' category_of (ct_category x)) (\<lambda>cat.
     rbind (enum_of ''CatalogueStatus'' catalogue_status_of (ct_status x)) (\<lambda>st.
     rbind (validate_str1 ''entity_id'' (ct_id x)) (\<lambda>eid.
     rbind (validate_str1 ''tenant_id'' (ct_tenant_id x)) (\<lambda>tenant.
     rbind (validate_str1 ''application_id'' (ct_application_id x)) (\<lambda>app.
     rbind (validate_str1 ''summary'' (ct_summary x)) (\<lambda>summary.
     rbind (row_tags (ct_tags x)) (\<lambda>tags.
       Inr \<lparr>en_entity_id = eid, en_tenant_id = tenant, en_application_id = app, en_category = cat,
            en_status = st, en_summary = summary, en_tags = tags, en_source = src,
            en_owner = map_option trim (ct_owner x), en_approved_by = map_option trim (ct_approved_by x),
            en_approved_at = ct_approved_at x, en_deleted_by = map_option trim (ct_deleted_by x),
            en_deleted_at = ct_deleted_at x, en_created_at = now, en_updated_at = now\<rparr>))))))))"

definition catalogue_matches :: "search_filters \<Rightarrow> catalogue_row \<Rightarrow> bool" where
  "catalogue_matches f x =
     (ct_tenant_id x = sf_tenant_id f \<and>
      (case sf_application_id f of None \<Rightarrow> True | Some a \<Rightarrow> a = [] \<or> ct_application_id x = a) \<and>
      (case sf_category f of None \<Rightarrow> True | Some c \<Rightarrow> ct_category x = category_value c) \<and>
      (case sf_status f of None \<Rightarrow> True | Some s \<Rightarrow> ct_status x = catalogue_status_value s))"

definition catalogue_search ::
  "rat \<Rightarrow> search_filters \<Rightarrow> catalogue_row list \<Rightarrow> catalogue_result result" where
  "catalogue_search now f rows =
     (case rmap (row_to_entry now)
             (page (sf_limit f) (sf_offset f) (newest_first ct_updated_at (catalogue_matches f) rows)) of
        Inl e \<Rightarrow> Inl e
      | Inr es \<Rightarrow> Inr \<lparr>cr_items = es, cr_total = length (filter (catalogue_matches f) rows)\<rparr>)"

definition catalogue_get :: "rat \<Rightarrow> string \<Rightarrow> string \<Rightarrow> catalogue_row list \<Rightarrow> catalogue_entry option result" where
  "catalogue_get now tenant eid rows =
     (case find (\<lambda>x. ct_id x = eid \<and> ct_tenant_id x = tenant) rows of
        None \<Rightarrow> Inr None
      | Some x \<Rightarrow> rbind (row_to_entry now x) (\<lambda>e. Inr (Some e)))"

section \<open>routes/catalogue.py\<close>

text \<open>\<open>Query(ge=1, le=200)\<close> and \<open>Query(ge=0)\<close> answer 422 outside their bounds; the filters then
  validate the tenant and strip the application id.\<close>

definition search_catalogue ::
  "rat \<Rightarrow> tenant_context \<Rightarrow> string option \<Rightarrow> catalogue_category option \<Rightarrow> catalogue_status option \<Rightarrow> int \<Rightarrow> int
   \<Rightarrow> catalogue_row list option \<Rightarrow> catalogue_result result" where
  "search_catalogue now cx app cat st limit offset repo =
     rbind (require_repo repo) (\<lambda>rows.
       if limit < 1 \<or> 200 < limit \<or> offset < 0 then Inl (HTTPException 422 ''query'')
       else rbind (validate_str1 ''tenant_id'' (cx_tenant_id cx)) (\<lambda>tenant.
         catalogue_search now
           \<lparr>sf_tenant_id = tenant, sf_application_id = map_option trim app, sf_category = cat, sf_status = st,
            sf_limit = nat limit, sf_offset = nat offset\<rparr> rows))"

definition get_catalogue_entry ::
  "rat \<Rightarrow> tenant_context \<Rightarrow> string \<Rightarrow> catalogue_row list option \<Rightarrow> catalogue_entry result" where
  "get_catalogue_entry now cx eid repo =
     rbind (require_repo repo) (\<lambda>rows.
     rbind (catalogue_get now (cx_tenant_id cx) eid rows) (\<lambda>found.
       (case found of
          None \<Rightarrow> Inl (HTTPException 404 (''Catalogue entry '' @ [CHR 0x27] @ eid @ [CHR 0x27] @ '' not found.''))
        | Some e \<Rightarrow> Inr e)))"

section \<open>Reading rows back\<close>

interpretation ct: upsert_table ct_id overwrite_entry
  by unfold_locales (simp add: overwrite_entry_def)

lemma category_of_value [simp]: "category_of (category_value c) = Some c"
  by (cases c) (simp_all add: category_of_def)

lemma catalogue_status_of_value [simp]: "catalogue_status_of (catalogue_status_value s) = Some s"
  by (cases s) (simp_all add: catalogue_status_of_def)

lemma opt_str_back: "contract_opt o' \<Longrightarrow> as_opt (as_str k) (opt_json o') = Inr o'"
  by (auto simp: as_opt_def opt_json_def as_str_def contract_opt_def contract_str_def split: option.splits)

lemma source_back: "wf_source s \<Longrightarrow> row_source (source_json s) = Inr (Some s)"
  by (simp add: row_source_def source_json_def dict_get_or_def wf_source_def source_of_dict_def no_extra_def
      dict_keys_def SOURCE_FIELDS_def required_def optional_def as_str1_def validate_str1_id opt_str_back contract_str1_def)

lemma tags_fold:
  "dict_ok (acc @ d) \<Longrightarrow> list_all contract_str (dict_keys d) \<Longrightarrow>
   fold (\<lambda>(k, v) acc. dict_set (trim k) v acc) d acc = acc @ d"
proof (induction d arbitrary: acc)
  case (Cons kv d)
  obtain k v where kv: "kv = (k, v)" by (cases kv)
  have "k \<notin> fst ` set acc" using Cons.prems by (auto simp: kv dict_ok_def)
  then have "dict_set k v acc = acc @ [(k, v)]" by (induction acc) auto
  with Cons kv show ?case by (simp add: dict_keys_def contract_str_def)
qed simp

lemma tags_back: "wf_tags d \<Longrightarrow> row_tags (JDict d) = Inr d"
  using tags_fold [of "[]" d] by (simp add: wf_tags_def validate_dict_def row_tags_def)

lemma opt_trim_back: "contract_opt o' \<Longrightarrow> map_option trim o' = o'"
  by (cases o') (simp_all add: contract_opt_def contract_str_def)

lemma row_source_entry:
  "(case en_source e of None \<Rightarrow> True | Some s \<Rightarrow> wf_source s) \<Longrightarrow>
   row_source (case en_source e of None \<Rightarrow> JDict [] | Some s \<Rightarrow> source_json s) = Inr (en_source e)"
  by (cases "en_source e") (simp_all add: source_back, simp add: row_source_def)

lemma row_to_entry_back:
  assumes "wf_catalogue_entry e"
  shows "row_to_entry now (entry_row t e) = Inr (e\<lparr>en_created_at := now, en_updated_at := now\<rparr>)"
  using assms
  by (simp add: row_to_entry_def entry_row_def wf_catalogue_entry_def row_source_entry enum_of_def validate_str1_id tags_back
      opt_trim_back)

text \<open>Whether a row can be read does not depend on the time of reading.\<close>

definition readable :: "catalogue_row \<Rightarrow> bool" where
  "readable x = ok (row_to_entry 0 x)"

lemma readable_parts:
  "ok (row_to_entry now x) \<longleftrightarrow> ok (row_source (ct_source x)) \<and> category_of (ct_category x) \<noteq> None \<and>
     catalogue_status_of (ct_status x) \<noteq> None \<and> trim (ct_id x) \<noteq> [] \<and> trim (ct_tenant_id x) \<noteq> [] \<and>
     trim (ct_application_id x) \<noteq> [] \<and> trim (ct_summary x) \<noteq> [] \<and>
     ok (row_tags (ct_tags x))"
  unfolding row_to_entry_def enum_of_def validate_str1_def
  by (cases "row_source (ct_source x)"; cases "row_tags (ct_tags x)")
    (simp_all split: option.splits)

lemma readable_read: "readable x \<Longrightarrow> \<exists>e. row_to_entry now x = Inr e"
  by (simp add: readable_def readable_parts [of 0] readable_parts [of now] ok_iff [symmetric])

lemma readable_entry_row: "wf_catalogue_entry e \<Longrightarrow> readable (entry_row t e)"
  by (simp add: readable_def row_to_entry_back)

lemma readable_overwrite: "readable old \<Longrightarrow> readable new \<Longrightarrow> readable (overwrite_entry old new)"
  by (simp add: readable_def readable_parts overwrite_entry_def)

lemma row_to_entry_tenant: "row_to_entry now x = Inr e \<Longrightarrow> en_tenant_id e = trim (ct_tenant_id x)"
  by (auto simp: row_to_entry_def rbind_Inr_iff validate_str1_Inr)

section \<open>Properties\<close>

lemma catalogue_matches_page:
  "catalogue_matches \<lparr>sf_tenant_id = a, sf_application_id = b, sf_category = c, sf_status = d, sf_limit = n, sf_offset = k\<rparr> =
   catalogue_matches \<lparr>sf_tenant_id = a, sf_application_id = b, sf_category = c, sf_status = d, sf_limit = n, sf_offset = 0\<rparr>"
  by (simp add: catalogue_matches_def fun_eq_iff)

lemma search_catalogue_Inr:
  "search_catalogue now cx app cat st limit offset repo = Inr res \<longleftrightarrow>
     (\<exists>rows. repo = Some rows \<and> 1 \<le> limit \<and> limit \<le> 200 \<and> 0 \<le> offset \<and> trim (cx_tenant_id cx) \<noteq> [] \<and>
       (let f = \<lparr>sf_tenant_id = trim (cx_tenant_id cx), sf_application_id = map_option trim app, sf_category = cat,
              sf_status = st, sf_limit = nat limit, sf_offset = nat offset\<rparr>
        in cr_total res = length (filter (catalogue_matches f) rows) \<and>
           list_all2 (\<lambda>x e. row_to_entry now x = Inr e)
             (page (nat limit) (nat offset) (newest_first ct_updated_at (catalogue_matches f) rows)) (cr_items res)))"
  by (cases repo; cases res)
    (auto simp: search_catalogue_def require_repo_def rbind_Inr_iff validate_str1_Inr catalogue_search_def Let_def
      rmap_Inr_iff [symmetric] split: sum.splits)

lemma list_all2_concat_map:
  "(\<And>i. i < m \<Longrightarrow> list_all2 P (f i) (g i)) \<Longrightarrow> list_all2 P (concat (map f [0..<m])) (concat (map g [0..<m]))"
  by (induction m) (auto intro: list_all2_appendI)


lemma find_tenant:
  "distinct (map ct_id rows) \<Longrightarrow> find (\<lambda>x. ct_id x = eid \<and> ct_tenant_id x = tenant) rows =
     (case find (\<lambda>x. ct_id x = eid) rows of None \<Rightarrow> None | Some x \<Rightarrow> if ct_tenant_id x = tenant then Some x else None)"
proof (induction rows)
  case (Cons r rows)
  have "find (\<lambda>x. ct_id x = ct_id r \<and> ct_tenant_id x = tenant) rows = None"
    using Cons.prems by (auto simp: find_None_iff image_iff)
  with Cons show ?case by auto
qed simp

lemma overwrite_same:
  "ct_id x = en_entity_id e \<Longrightarrow> ct_tenant_id x = en_tenant_id e \<Longrightarrow> ct_application_id x = en_application_id e \<Longrightarrow>
   ct_category x = category_value (en_category e) \<Longrightarrow>
   row_to_entry now (overwrite_entry x (entry_row t e)) = row_to_entry now (entry_row t e)"
  by (simp add: row_to_entry_def overwrite_entry_def entry_row_def)

text \<open>An entry written to the catalogue is read back as it was, apart from its two times, which are those
  of the reading; this holds for a new id and for one that was there for the same tenant, application
  and category. Every other entry reads as before.\<close>

theorem catalogue_upsert_get:
  assumes "wf_catalogue_entry e" and "distinct (map ct_id rows)"
    and "\<forall>x \<in> set rows. ct_id x = en_entity_id e \<longrightarrow> ct_tenant_id x = en_tenant_id e \<and>
      ct_application_id x = en_application_id e \<and> ct_category x = category_value (en_category e)"
    and "catalogue_upsert uid t e rows = (e1, rows')"
  shows "catalogue_get now (en_tenant_id e) (en_entity_id e) rows' =
      Inr (Some (e\<lparr>en_created_at := now, en_updated_at := now\<rparr>)) \<and>
    (k \<noteq> en_entity_id e \<longrightarrow> catalogue_get now tenant k rows' = catalogue_get now tenant k rows)"
proof -
  have rows': "rows' = put_row ct_id overwrite_entry (entry_row t e) rows"
    using assms(1,4) by (auto simp: catalogue_upsert_def wf_catalogue_entry_def contract_str1_def)
  have id: "ct_id (entry_row t e) = en_entity_id e" by (simp add: entry_row_def)
  have d: "distinct (map ct_id rows')" unfolding rows' by (rule ct.put_distinct [OF assms(2)])
  have g: "catalogue_get now tenant k rs = (case find (\<lambda>x. ct_id x = k) rs of
      None \<Rightarrow> Inr None
    | Some x \<Rightarrow> if ct_tenant_id x = tenant then rbind (row_to_entry now x) (\<lambda>e. Inr (Some e)) else Inr None)"
    if "distinct (map ct_id rs)" for tenant k rs
    by (simp add: catalogue_get_def find_tenant [OF that] split: option.split)
  have l: "find (\<lambda>x. ct_id x = k) rows' =
    (if k = en_entity_id e
     then Some (case find (\<lambda>x. ct_id x = k) rows of None \<Rightarrow> entry_row t e | Some old \<Rightarrow> overwrite_entry old (entry_row t e))
     else find (\<lambda>x. ct_id x = k) rows)" for k
    unfolding rows' ct.put_lookup [OF assms(2)] id ..
  obtain x where x: "find (\<lambda>x. ct_id x = en_entity_id e) rows' = Some x" "ct_tenant_id x = en_tenant_id e"
    "row_to_entry now x = row_to_entry now (entry_row t e)"
  proof (cases "find (\<lambda>x. ct_id x = en_entity_id e) rows")
    case None
    show ?thesis by (rule that [of "entry_row t e"]) (simp_all add: l None, simp add: entry_row_def)
  next
    case (Some old)
    then have "old \<in> set rows" "ct_id old = en_entity_id e" by (auto simp: find_Some_iff)
    with assms(3) have o': "ct_tenant_id old = en_tenant_id e" "ct_application_id old = en_application_id e"
      "ct_category old = category_value (en_category e)" "ct_id old = en_entity_id e" by auto
    show ?thesis
      by (rule that [of "overwrite_entry old (entry_row t e)"])
        (simp_all add: l Some overwrite_same o', simp add: overwrite_entry_def o')
  qed
  show ?thesis by (simp add: g [OF d] g [OF assms(2)] x row_to_entry_back [OF assms(1)] l)
qed

text \<open>Writing valid entries keeps every row readable, so a search over them never raises.\<close>

theorem catalogue_search_total:
  assumes "list_all readable rows" and "list_all wf_catalogue_entry es"
    and "rows' = fold (\<lambda>e rows. snd (catalogue_upsert uid t e rows)) es rows"
  shows "list_all readable rows' \<and> ok (catalogue_search now f rows')"
proof -
  have r: "list_all readable rows'"
    unfolding assms(3) using assms(1,2)
  proof (induction es arbitrary: rows)
    case (Cons e es)
    then have "readable (entry_row t e)" by (simp add: readable_entry_row)
    moreover have "e\<lparr>en_entity_id := (if en_entity_id e \<noteq> [] then en_entity_id e else uid)\<rparr> = e"
      using Cons.prems by (simp add: wf_catalogue_entry_def contract_str1_def)
    ultimately have "list_all readable (snd (catalogue_upsert uid t e rows))"
      using Cons.prems readable_overwrite
      by (auto simp: catalogue_upsert_def put_row_def list_all_iff)
    with Cons show ?case by simp
  qed simp
  have "ok (rmap (row_to_entry now) xs)" if "list_all readable xs" for xs
    using that
  proof (induction xs)
    case (Cons x xs)
    then obtain e where "row_to_entry now x = Inr e" using readable_read by fastforce
    with Cons show ?case by (auto simp: ok_iff split: sum.splits)
  qed simp
  moreover have "list_all readable (page (sf_limit f) (sf_offset f) (newest_first ct_updated_at (catalogue_matches f) rows'))"
    using r page_set [of "sf_limit f" "sf_offset f" "newest_first ct_updated_at (catalogue_matches f) rows'"]
    by (auto simp: list_all_iff)
  ultimately show ?thesis using r by (force simp: catalogue_search_def ok_iff split: sum.splits)
qed

section \<open>Examples\<close>

definition demo_catalogue_entry :: "string \<Rightarrow> catalogue_entry" where
  "demo_catalogue_entry i =
     \<lparr>en_entity_id = i, en_tenant_id = ''acme'', en_application_id = ''web'', en_category = DYNAMIC_MEMORY,
      en_status = C_ACTIVE, en_summary = ''login'', en_tags = [(''file'', JStr ''a.py'')], en_source = None,
      en_owner = None, en_approved_by = Some ''ann'', en_approved_at = Some 1, en_deleted_by = None,
      en_deleted_at = None, en_created_at = 1, en_updated_at = 1\<rparr>"

definition demo_catalogue :: "catalogue_row list" where
  "demo_catalogue = snd (catalogue_upsert ''u'' 2 (demo_catalogue_entry ''e2'') (snd (catalogue_upsert ''u'' 1 (demo_catalogue_entry ''e1'') [])))"

lemma demo_catalogue_entry_wf: "wf_catalogue_entry (demo_catalogue_entry ''e1'')" "wf_catalogue_entry (demo_catalogue_entry ''e2'')" "wf_catalogue_entry (demo_catalogue_entry ''e3'')"
  by code_simp+

lemma catalogue_upsert_get_witness:
  "catalogue_get 9 ''acme'' ''e3'' (snd (catalogue_upsert ''u'' 3 (demo_catalogue_entry ''e3'') demo_catalogue)) =
     Inr (Some ((demo_catalogue_entry ''e3'')\<lparr>en_created_at := 9, en_updated_at := 9\<rparr>))"
proof -
  have d: "distinct (map ct_id demo_catalogue)" "\<forall>x \<in> set demo_catalogue. ct_id x \<noteq> ''e3''" by code_simp+
  show ?thesis
    using catalogue_upsert_get [OF demo_catalogue_entry_wf(3) d(1), of "''u''" 3 _ _ 9] d(2)
    by (cases "catalogue_upsert ''u'' 3 (demo_catalogue_entry ''e3'') demo_catalogue") (auto simp: demo_catalogue_entry_def)
qed

definition demo_reader :: tenant_context where
  "demo_reader = \<lparr>cx_tenant_id = ''acme'', cx_actor_id = ''ann'', cx_roles = [''reader''], cx_permissions = []\<rparr>"

definition demo_pages :: "nat \<Rightarrow> catalogue_result" where
  "demo_pages i = projr (search_catalogue 9 demo_reader None None None 1 (int i * 1) (Some demo_catalogue))"


end
