(* ===== verification/LearningScan.thy ===== *)
theory LearningScan
  imports Catalogue Redaction
begin

text \<open>
  The learning run: \<open>totalrecall/learning/models.py\<close>, \<open>paths.py\<close>, \<open>scanner.py\<close>, \<open>parser.py\<close>,
  \<open>classifier.py\<close> and \<open>runner.py\<close>. A run maps the requested path, lists the source files below it,
  extracts the patterns of each, redacts their excerpts and compares each with the hash of the run
  before. The directory tree, the syntax tree of a Python text, MD5 and the identifiers are
  parameters; the walk over the tree, the TypeScript patterns and the paths of \<open>pathlib\<close> are modelled.
\<close>

section \<open>models.py\<close>

datatype trigger_type = MANUAL | SCHEDULED | EVENT
datatype run_status = R_QUEUED | R_RUNNING | R_COMPLETED | R_FAILED
datatype discovery_type = STATIC_SKILL_CANDIDATE | D_DYNAMIC_MEMORY | CATALOGUE_REFERENCE
datatype discovery_status = DISCOVERED | APPROVED | REJECTED | PROMOTED
datatype delta_state = D_NEW | D_CHANGED | D_REMOVED | D_UNCHANGED
datatype approval_decision = A_APPROVED | A_REJECTED | A_NEEDS_REVIEW

fun trigger_value :: "trigger_type \<Rightarrow> string" where
  "trigger_value MANUAL = ''manual''"
| "trigger_value SCHEDULED = ''scheduled''"
| "trigger_value EVENT = ''event''"

fun run_status_value :: "run_status \<Rightarrow> string" where
  "run_status_value R_QUEUED = ''queued''"
| "run_status_value R_RUNNING = ''running''"
| "run_status_value R_COMPLETED = ''completed''"
| "run_status_value R_FAILED = ''failed''"

fun discovery_type_value :: "discovery_type \<Rightarrow> string" where
  "discovery_type_value STATIC_SKILL_CANDIDATE = ''static_skill_candidate''"
| "discovery_type_value D_DYNAMIC_MEMORY = ''dynamic_memory''"
| "discovery_type_value CATALOGUE_REFERENCE = ''catalogue_reference''"

fun discovery_status_value :: "discovery_status \<Rightarrow> string" where
  "discovery_status_value DISCOVERED = ''discovered''"
| "discovery_status_value APPROVED = ''approved''"
| "discovery_status_value REJECTED = ''rejected''"
| "discovery_status_value PROMOTED = ''promoted''"

fun delta_value :: "delta_state \<Rightarrow> string" where
  "delta_value D_NEW = ''new''"
| "delta_value D_CHANGED = ''changed''"
| "delta_value D_REMOVED = ''removed''"
| "delta_value D_UNCHANGED = ''unchanged''"

definition trigger_of :: "string \<Rightarrow> trigger_type option" where
  "trigger_of s = find (\<lambda>x. trigger_value x = s) [MANUAL, SCHEDULED, EVENT]"

definition run_status_of :: "string \<Rightarrow> run_status option" where
  "run_status_of s = find (\<lambda>x. run_status_value x = s) [R_QUEUED, R_RUNNING, R_COMPLETED, R_FAILED]"

definition discovery_type_of :: "string \<Rightarrow> discovery_type option" where
  "discovery_type_of s =
     find (\<lambda>x. discovery_type_value x = s) [STATIC_SKILL_CANDIDATE, D_DYNAMIC_MEMORY, CATALOGUE_REFERENCE]"

definition discovery_status_of :: "string \<Rightarrow> discovery_status option" where
  "discovery_status_of s = find (\<lambda>x. discovery_status_value x = s) [DISCOVERED, APPROVED, REJECTED, PROMOTED]"

definition delta_of :: "string \<Rightarrow> delta_state option" where
  "delta_of s = find (\<lambda>x. delta_value x = s) [D_NEW, D_CHANGED, D_REMOVED, D_UNCHANGED]"

record learning_scope =
  ls_repository :: string
  ls_branch :: string
  ls_path :: string
  ls_framework :: "framework option"
  ls_domain :: "string option"
  ls_route :: "string option"
  ls_tags :: "string list"

record learning_approval =
  la_decision :: approval_decision
  la_actor_id :: string
  la_decided_at :: rat
  la_reason :: "string option"

record learning_delta =
  dl_state :: delta_state
  dl_previous_hash :: "string option"
  dl_current_hash :: "string option"
  dl_changed_fields :: "string list"

record learning_discovery =
  ld_discovery_id :: string
  ld_type :: discovery_type
  ld_status :: discovery_status
  ld_delta :: learning_delta
  ld_summary :: string
  ld_confidence :: rat
  ld_source :: catalogue_source
  ld_proposed_tags :: "(string, json) dict"
  ld_approval :: "learning_approval option"
  ld_warnings :: "string list"

record learning_run =
  lr_run_id :: string
  lr_tenant_id :: string
  lr_application_id :: string
  lr_scope :: learning_scope
  lr_trigger_type :: trigger_type
  lr_status :: run_status
  lr_discoveries :: "learning_discovery list"
  lr_started_at :: rat
  lr_completed_at :: "rat option"

record learning_report =
  lp_run :: learning_run
  lp_discovered_count :: nat
  lp_changed_count :: nat
  lp_removed_count :: nat
  lp_unchanged_count :: nat
  lp_rejected_count :: nat
  lp_warnings :: "string list"

section \<open>paths.py\<close>

text \<open>\<open>str(PurePosixPath(*paths))\<close>: join, split off the root, drop empty and \<open>.\<close> components.\<close>

definition posix_join :: "string list \<Rightarrow> string" where
  "posix_join ps =
     (case ps of [] \<Rightarrow> []
      | p # qs \<Rightarrow> foldl (\<lambda>path b. if prefix ''/'' b \<or> path = [] then b
          else if suffix ''/'' path then path @ b else path @ ''/'' @ b) p qs)"

definition posix_splitroot :: "string \<Rightarrow> string \<times> string" where
  "posix_splitroot p =
     (if \<not> prefix ''/'' p then ([], p)
      else if \<not> prefix ''//'' p \<or> prefix ''///'' p then (''/'', drop 1 p)
      else (take 2 p, drop 2 p))"

definition components :: "char \<Rightarrow> string \<Rightarrow> string list" where
  "components sep rel = filter (\<lambda>x. x \<noteq> [] \<and> x \<noteq> ''.'') (split_chr sep rel)"

definition or_dot :: "string \<Rightarrow> string" where
  "or_dot s = (if s = [] then ''.'' else s)"

definition posix_path_str :: "string list \<Rightarrow> string" where
  "posix_path_str ps =
     (let (rt, rel) = posix_splitroot (posix_join ps) in or_dot (rt @ join ''/'' (components CHR ''/'' rel)))"

text \<open>\<open>ntpath.splitroot\<close>: drive (a letter or a UNC share), root, rest.\<close>

definition bs :: char where
  "bs = CHR 0x5C"

definition to_backslash :: "string \<Rightarrow> string" where
  "to_backslash p = map (\<lambda>c. if c = CHR ''/'' then bs else c) p"

definition find_from :: "char \<Rightarrow> string \<Rightarrow> nat \<Rightarrow> nat option" where
  "find_from c s i = find (\<lambda>k. s ! k = c) [i..<length s]"

definition nt_splitroot :: "string \<Rightarrow> string \<times> string \<times> string" where
  "nt_splitroot p =
     (let normp = to_backslash p
      in if take 1 normp = [bs] then
           (if take 1 (drop 1 normp) = [bs] then
              (let start = (if lower (take 8 normp) = [bs, bs, CHR ''?'', bs] @ ''unc'' @ [bs] then 8 else 2)
               in (case find_from bs normp start of
                     None \<Rightarrow> (p, [], [])
                   | Some i \<Rightarrow>
                       (case find_from bs normp (i + 1) of
                          None \<Rightarrow> (p, [], [])
                        | Some j \<Rightarrow> (take j p, take 1 (drop j p), drop (j + 1) p))))
            else ([], take 1 p, drop 1 p))
         else if take 1 (drop 1 normp) = '':'' then
           (if take 1 (drop 2 normp) = [bs] then (take 2 p, take 1 (drop 2 p), drop 3 p) else (take 2 p, [], drop 2 p))
         else ([], [], p))"

fun nt_join_step :: "string \<times> string \<times> string \<Rightarrow> string \<Rightarrow> string \<times> string \<times> string" where
  "nt_join_step (drive, rt, path) p =
     (let (d, r, q) = nt_splitroot p;
          append = (\<lambda>drive. (drive, rt,
             (if path \<noteq> [] \<and> last path \<noteq> bs \<and> last path \<noteq> CHR ''/'' then path @ [bs] else path) @ q))
      in if r \<noteq> [] then (if d \<noteq> [] \<or> drive = [] then d else drive, r, q)
         else if d \<noteq> [] \<and> d \<noteq> drive then (if lower d \<noteq> lower drive then (d, r, q) else append d)
         else append drive)"

definition nt_join :: "string list \<Rightarrow> string" where
  "nt_join ps =
     (case ps of [] \<Rightarrow> []
      | p # qs \<Rightarrow>
          (case foldl nt_join_step (nt_splitroot p) qs of
             (drive, rt, path) \<Rightarrow>
               if path \<noteq> [] \<and> rt = [] \<and> drive \<noteq> [] \<and> last drive \<notin> {CHR '':'', bs, CHR ''/''}
               then drive @ [bs] @ path else drive @ rt @ path))"

text \<open>\<open>str(PureWindowsPath(*paths))\<close>\<close>

definition nt_path_str :: "string list \<Rightarrow> string" where
  "nt_path_str ps =
     (case nt_splitroot (to_backslash (nt_join ps)) of
        (drv, rt0, rel) \<Rightarrow>
          (let parts = split_chr bs drv;
               rt = (if rt0 = [] \<and> take 1 drv = [bs] \<and> \<not> suffix [bs] drv \<and>
                          ((length parts = 4 \<and> \<not> contains (parts ! 2) ''?.'') \<or> length parts = 6)
                       then [bs] else rt0);
               tail0 = components bs rel;
               tail1 = (if drv = [] \<and> rt = [] \<and> tail0 \<noteq> [] \<and> fst (nt_splitroot (hd tail0)) \<noteq> []
                        then ''.'' # tail0 else tail0)
           in or_dot (drv @ rt @ join [bs] tail1)))"

definition looks_like_windows_path :: "string \<Rightarrow> bool" where
  "looks_like_windows_path v = (bs \<in> set v \<or> (2 \<le> length v \<and> v ! 1 = CHR '':''))"

definition normalise_for_match :: "string \<Rightarrow> string" where
  "normalise_for_match v = rstrip_chr ''/'' (replace_chr bs ''/'' (strip v))"

text \<open>\<open>s.casefold()\<close>; the micro sign folds to a letter outside the modelled range, on both sides of every
  comparison, so keeping it gives the same answers.\<close>

definition casefold :: "string \<Rightarrow> string" where
  "casefold s = concat (map (\<lambda>c. if c = CHR 0xDF then ''ss'' else [lower_char c]) s)"

definition comparison_value :: "string \<Rightarrow> string \<Rightarrow> string" where
  "comparison_value original normalised =
     (if looks_like_windows_path original then casefold normalised else normalised)"

text \<open>The service runs on a POSIX host, where \<open>Path\<close> is a POSIX path.\<close>

definition join_mapped_path :: "string \<Rightarrow> string \<Rightarrow> string" where
  "join_mapped_path target suff =
     (let parts = filter (\<lambda>p. p \<noteq> []) (split_chr CHR ''/'' suff);
          clean = rstrip_chr [bs, CHR ''/''] target
      in if looks_like_windows_path clean then nt_path_str (clean # parts) else posix_path_str (clean # parts))"

fun first_mapping :: "string \<Rightarrow> (string \<times> string) list \<Rightarrow> (string \<times> string list) option" where
  "first_mapping clean [] = None"
| "first_mapping clean ((source, target) # ms) =
     (let cs = strip source; ct = strip target;
          candidate = normalise_for_match clean; candidate_cmp = comparison_value clean candidate;
          source_norm = normalise_for_match cs; source_cmp = comparison_value cs source_norm
      in if cs = [] \<or> ct = [] then first_mapping clean ms
         else if candidate_cmp \<noteq> source_cmp \<and> \<not> prefix (source_cmp @ ''/'') candidate_cmp then first_mapping clean ms
         else (let mapped = join_mapped_path ct (lstrip_chr ''/'' (drop (length source_norm) candidate))
               in Some (mapped, [''Mapped learning path from '' @ clean @ '' to '' @ mapped
                    @ '' using configured path mapping '' @ cs @ '' -> '' @ ct @ ''.''])))"

definition resolve_learning_path :: "string \<Rightarrow> (string, string) dict \<Rightarrow> string \<times> string list" where
  "resolve_learning_path requested mappings =
     (let clean = strip requested
      in if clean = [] \<or> mappings = [] then (clean, [])
         else (case first_mapping clean (sort_key (\<lambda>m. - int (length (fst m))) mappings) of
                 Some r \<Rightarrow> r | None \<Rightarrow> (clean, [])))"

section \<open>scanner.py\<close>

text \<open>An entry of \<open>root.rglob("*")\<close>: \<open>None\<close> for the size or the text is an \<open>OSError\<close>.\<close>

record dir_entry =
  de_path :: string
  de_is_file :: bool
  de_size :: "int option"
  de_text :: "string option"

record scanned_file =
  sn_path :: string
  sn_content :: string
  sn_content_hash :: string
  sn_language :: string

definition LANGUAGE_MAP :: "(string, string) dict" where
  "LANGUAGE_MAP = [(''.py'', ''python''), (''.ts'', ''typescript'')]"

definition MAX_FILE_BYTES :: int where
  "MAX_FILE_BYTES = 256 * 1024"

definition MAX_FILES :: nat where
  "MAX_FILES = 500"

text \<open>\<open>path.suffix\<close>: from the last dot of the name, unless only dots precede it.\<close>

definition path_suffix :: "string \<Rightarrow> string" where
  "path_suffix path =
     (let name = last (split_chr CHR ''/'' path); ext = rev (takeWhile (\<lambda>c. c \<noteq> CHR ''.'') (rev name));
          stem = take (length name - length ext - 1) name
      in if CHR ''.'' \<in> set name \<and> (\<exists>c \<in> set stem. c \<noteq> CHR ''.'') then CHR ''.'' # ext else [])"

fun scan_loop :: "(string \<Rightarrow> string) \<Rightarrow> nat \<Rightarrow> dir_entry list \<Rightarrow> scanned_file list \<Rightarrow> scanned_file list" where
  "scan_loop md5 max_files [] files = files"
| "scan_loop md5 max_files (e # es) files =
     (if max_files \<le> length files then files
      else if \<not> de_is_file e then scan_loop md5 max_files es files
      else (case dict_get LANGUAGE_MAP (lower (path_suffix (de_path e))) of
              None \<Rightarrow> scan_loop md5 max_files es files
            | Some lang \<Rightarrow>
                (case de_size e of
                   None \<Rightarrow> scan_loop md5 max_files es files
                 | Some n \<Rightarrow>
                     if n > MAX_FILE_BYTES then scan_loop md5 max_files es files
                     else (case de_text e of
                             None \<Rightarrow> scan_loop md5 max_files es files
                           | Some content \<Rightarrow>
                               scan_loop md5 max_files es
                                 (files @ [\<lparr>sn_path = de_path e, sn_content = content, sn_content_hash = md5 content,
                                            sn_language = lang\<rparr>])))))"

definition scan_path :: "(string \<Rightarrow> string) \<Rightarrow> nat \<Rightarrow> dir_entry list \<Rightarrow> scanned_file list" where
  "scan_path md5 max_files entries =
     scan_loop md5 max_files (sort_key (\<lambda>e. split_chr CHR ''/'' (de_path e)) entries) []"

section \<open>parser.py\<close>

record extracted_pattern =
  ep_pattern_type :: string
  ep_name :: string
  ep_source_excerpt :: string
  ep_file_path :: string
  ep_start_line :: int
  ep_language :: string

text \<open>What the extractor reads of Python's \<open>ast\<close>; the outcome of \<open>ast.parse\<close> is a parameter.\<close>

datatype ast_expr = Name string | Attribute ast_expr string | Call ast_expr | OtherExpr

datatype ast_kind =
    ClassDef string int
  | FunctionDef string int "ast_expr list"
  | AsyncFunctionDef string int "ast_expr list"
  | OtherKind

datatype ast_node = AstNode (ast_kind: ast_kind) (children: "ast_node list")

datatype ast_outcome = AstModule ast_node | AstSyntaxError | AstRaises py_exn

text \<open>\<open>ast.walk\<close>: breadth first.\<close>

function ast_walk_from :: "ast_node list \<Rightarrow> ast_kind list" where
  "ast_walk_from [] = []"
| "ast_walk_from (AstNode k cs # todo) = k # ast_walk_from (todo @ cs)"
  by pat_completeness auto
termination
  by (relation "measure (size_list size)") (simp_all add: size_list_conv_sum_list)

definition ast_walk :: "ast_node \<Rightarrow> ast_kind list" where
  "ast_walk n = ast_walk_from [n]"

definition PAGE_KEYWORDS :: "string list" where
  "PAGE_KEYWORDS = [''page'', ''component'', ''widget'', ''modal'', ''form'', ''dialog'', ''screen'']"

definition is_page_name :: "string \<Rightarrow> bool" where
  "is_page_name name = (\<exists>kw \<in> set PAGE_KEYWORDS. contains kw (lower name))"

fun is_fixture :: "ast_expr \<Rightarrow> bool" where
  "is_fixture (Name i) = (i = ''fixture'')"
| "is_fixture (Attribute e a) = (a = ''fixture'')"
| "is_fixture (Call (Name i)) = (i = ''fixture'')"
| "is_fixture (Call (Attribute e a)) = (a = ''fixture'')"
| "is_fixture _ = False"

definition has_fixture_decorator :: "ast_expr list \<Rightarrow> bool" where
  "has_fixture_decorator ds = (\<exists>d \<in> set ds. is_fixture d)"

definition excerpt :: "string list \<Rightarrow> int \<Rightarrow> int \<Rightarrow> string" where
  "excerpt lines line n = join nl (py_slice lines (line - 1) (line + n))"

definition class_type :: "string \<Rightarrow> string" where
  "class_type name = (if is_page_name name then ''page_object_class'' else ''utility_class'')"

definition mk_pattern :: "string \<Rightarrow> string \<Rightarrow> string \<Rightarrow> string \<Rightarrow> int \<Rightarrow> string \<Rightarrow> extracted_pattern" where
  "mk_pattern ty name ex path line lang =
     \<lparr>ep_pattern_type = ty, ep_name = name, ep_source_excerpt = ex, ep_file_path = path, ep_start_line = line,
      ep_language = lang\<rparr>"

definition function_patterns :: "string list \<Rightarrow> string \<Rightarrow> string \<Rightarrow> int \<Rightarrow> ast_expr list \<Rightarrow> extracted_pattern list" where
  "function_patterns lines path name line ds =
     (if has_fixture_decorator ds then [mk_pattern ''fixture_function'' name (excerpt lines line 4) path line ''python'']
      else if prefix ''test_'' name then [mk_pattern ''test_function'' name (excerpt lines line 4) path line ''python'']
      else [])"

fun node_patterns :: "string list \<Rightarrow> string \<Rightarrow> ast_kind \<Rightarrow> extracted_pattern list" where
  "node_patterns lines path (ClassDef name line) =
     [mk_pattern (class_type name) name (excerpt lines line 9) path line ''python'']"
| "node_patterns lines path (FunctionDef name line ds) = function_patterns lines path name line ds"
| "node_patterns lines path (AsyncFunctionDef name line ds) = function_patterns lines path name line ds"
| "node_patterns lines path OtherKind = []"

definition extract_python :: "(string \<Rightarrow> ast_outcome) \<Rightarrow> string \<Rightarrow> string \<Rightarrow> extracted_pattern list result" where
  "extract_python parse content path =
     (case parse content of
        AstSyntaxError \<Rightarrow> Inr []
      | AstRaises e \<Rightarrow> Inl e
      | AstModule tree \<Rightarrow> Inr (concat (map (node_patterns (splitlines content) path) (ast_walk tree))))"

definition TS_CLASS_RE :: re where
  "TS_CLASS_RE =
     cats [Bol, opt (cats [word ''export'', plus space]), opt (cats [word ''abstract'', plus space]), word ''class'',
           plus space, Grp (plus (Cls is_word))]"

definition TS_QUOTES :: string where
  "TS_QUOTES = [CHR 0x27, CHR 0x22, CHR 0x60]"

definition TS_TEST_RE :: re where
  "TS_TEST_RE =
     cats [Bol, alts [word ''test'', word ''it'', word ''describe''], star space, chr CHR ''('', star space,
           one_of TS_QUOTES, Grp (Rep 1 (Some 80) (none_of TS_QUOTES))]"

definition line_at :: "string \<Rightarrow> nat \<Rightarrow> int" where
  "line_at content i = int (length (filter (\<lambda>c. c = CHR 0x0A) (take i content))) + 1"

definition extract_typescript :: "string \<Rightarrow> string \<Rightarrow> extracted_pattern list" where
  "extract_typescript content path =
     (let lines = splitlines content
      in map (\<lambda>m. let line = line_at content (fst m); name = group1 content m
                   in mk_pattern (class_type name) name (excerpt lines line 9) path line ''typescript'')
           (finditer content TS_CLASS_RE)
         @ map (\<lambda>m. let line = line_at content (fst m)
                   in mk_pattern ''test_function'' (group1 content m) (excerpt lines line 4) path line ''typescript'')
           (finditer content TS_TEST_RE))"

definition extract_patterns ::
  "(string \<Rightarrow> ast_outcome) \<Rightarrow> string \<Rightarrow> string \<Rightarrow> string \<Rightarrow> extracted_pattern list result" where
  "extract_patterns parse content path lang =
     (if lang = ''python'' then extract_python parse content path
      else if lang = ''typescript'' then Inr (extract_typescript content path)
      else Inr [])"

section \<open>classifier.py\<close>

definition TYPE_MAP :: "(string, discovery_type) dict" where
  "TYPE_MAP =
     [(''page_object_class'', STATIC_SKILL_CANDIDATE), (''fixture_function'', D_DYNAMIC_MEMORY),
      (''test_function'', CATALOGUE_REFERENCE), (''utility_class'', CATALOGUE_REFERENCE)]"

definition classify :: "extracted_pattern \<Rightarrow> discovery_type" where
  "classify p = dict_get_or TYPE_MAP (ep_pattern_type p) CATALOGUE_REFERENCE"

section \<open>runner.py\<close>

text \<open>What a run takes from outside: the tree below a path (\<open>None\<close> when it does not exist),
  \<open>ast.parse\<close>, the hex digest of MD5, the identifiers drawn one after the other, and the two readings
  of the clock, the completion time before the default of the start time.\<close>

record learn_ext =
  lx_tree :: "string \<Rightarrow> dir_entry list option"
  lx_parse :: "string \<Rightarrow> ast_outcome"
  lx_md5 :: "string \<Rightarrow> string"
  lx_uuid :: "nat \<Rightarrow> string"
  lx_completed :: rat
  lx_started :: rat

definition stable_key :: "string \<Rightarrow> string \<Rightarrow> string" where
  "stable_key path name = path @ ''::'' @ name"

definition content_hash :: "learn_ext \<Rightarrow> extracted_pattern \<Rightarrow> string" where
  "content_hash X p = lx_md5 X (ep_pattern_type p @ ''::'' @ fst (redact (ep_source_excerpt p)))"

definition delta_for :: "string option \<Rightarrow> string \<Rightarrow> delta_state" where
  "delta_for prev h = (case prev of None \<Rightarrow> D_NEW | Some g \<Rightarrow> if g = h then D_UNCHANGED else D_CHANGED)"

text \<open>\<open>CatalogueSource(...)\<close> and \<open>LearningDiscovery(...)\<close> with their validation; the values of the tags
  are \<open>Any\<close> and kept as they are.\<close>

definition discovery_of ::
  "learn_ext \<Rightarrow> (string, string) dict \<Rightarrow> string \<Rightarrow> string \<Rightarrow> extracted_pattern \<Rightarrow> learning_discovery result" where
  "discovery_of X previous lang uid p =
     (let ws = snd (redact (ep_source_excerpt p)); h = content_hash X p;
          prev = dict_get previous (stable_key (ep_file_path p) (ep_name p))
      in rbind (validate_str1 ''reference'' (ep_file_path p)) (\<lambda>ref.
         rbind (validate_str1 ''discovery_id'' uid) (\<lambda>did.
         rbind (validate_str1 ''summary'' (ep_pattern_type p @ '': '' @ ep_name p @ '' ('' @ lang @ '')'')) (\<lambda>summary.
           Inr \<lparr>ld_discovery_id = did, ld_type = classify p, ld_status = DISCOVERED,
                ld_delta = \<lparr>dl_state = delta_for prev h, dl_previous_hash = map_option trim prev,
                   dl_current_hash = Some (trim h), dl_changed_fields = []\<rparr>,
                ld_summary = summary, ld_confidence = 1,
                ld_source = \<lparr>so0_type = ''file_scan'', so0_reference = ref, so0_file_path = Some (trim (ep_file_path p)),
                   so0_symbol_name = Some (trim (ep_name p)), so0_commit_id = None, so0_scan_id = None\<rparr>,
                ld_proposed_tags = [(''pattern_type'', JStr (ep_pattern_type p)), (''language'', JStr (ep_language p)),
                   (''file'', JStr (ep_file_path p))],
                ld_approval = None, ld_warnings = map trim ws\<rparr>))))"

fun discover_patterns ::
  "learn_ext \<Rightarrow> (string, string) dict \<Rightarrow> string \<Rightarrow> extracted_pattern list \<Rightarrow> learning_discovery list \<Rightarrow> string list
   \<Rightarrow> (learning_discovery list \<times> string list) result" where
  "discover_patterns X previous lang [] ds ws = Inr (ds, ws)"
| "discover_patterns X previous lang (p # ps) ds ws =
     (case discovery_of X previous lang (lx_uuid X (Suc (length ds))) p of
        Inl e \<Rightarrow> Inl e
      | Inr d \<Rightarrow> discover_patterns X previous lang ps (ds @ [d]) (ws @ snd (redact (ep_source_excerpt p))))"

fun discover_files ::
  "learn_ext \<Rightarrow> (string, string) dict \<Rightarrow> scanned_file list \<Rightarrow> learning_discovery list \<Rightarrow> string list
   \<Rightarrow> (learning_discovery list \<times> string list) result" where
  "discover_files X previous [] ds ws = Inr (ds, ws)"
| "discover_files X previous (f # fs) ds ws =
     (case extract_patterns (lx_parse X) (sn_content f) (sn_path f) (sn_language f) of
        Inl e \<Rightarrow> Inl e
      | Inr ps \<Rightarrow>
          (case discover_patterns X previous (sn_language f) ps ds ws of
             Inl e \<Rightarrow> Inl e
           | Inr (ds1, ws1) \<Rightarrow> discover_files X previous fs ds1 ws1))"

definition count_delta :: "delta_state \<Rightarrow> learning_discovery list \<Rightarrow> nat" where
  "count_delta st ds = length (filter (\<lambda>d. dl_state (ld_delta d) = st) ds)"

definition mk_run ::
  "learn_ext \<Rightarrow> string \<Rightarrow> string \<Rightarrow> learning_scope \<Rightarrow> trigger_type \<Rightarrow> run_status \<Rightarrow> learning_discovery list
   \<Rightarrow> learning_run result" where
  "mk_run X tenant app scope trig st ds =
     rbind (validate_str1 ''run_id'' (lx_uuid X 0)) (\<lambda>rid.
     rbind (validate_str1 ''tenant_id'' tenant) (\<lambda>ten.
     rbind (validate_str1 ''application_id'' app) (\<lambda>ap.
       Inr \<lparr>lr_run_id = rid, lr_tenant_id = ten, lr_application_id = ap, lr_scope = scope, lr_trigger_type = trig,
            lr_status = st, lr_discoveries = ds, lr_started_at = lx_started X,
            lr_completed_at = Some (lx_completed X)\<rparr>)))"

definition run_learning ::
  "learn_ext \<Rightarrow> string \<Rightarrow> string \<Rightarrow> learning_scope \<Rightarrow> (string, string) dict \<Rightarrow> trigger_type \<Rightarrow> learning_report result" where
  "run_learning X tenant app scope previous trig =
     (case lx_tree X (ls_path scope) of
        None \<Rightarrow>
          rbind (mk_run X tenant app scope trig R_FAILED []) (\<lambda>run.
            Inr \<lparr>lp_run = run, lp_discovered_count = 0, lp_changed_count = 0, lp_removed_count = 0,
                 lp_unchanged_count = 0, lp_rejected_count = 0,
                 lp_warnings = [trim (''Scope path does not exist: '' @ ls_path scope)]\<rparr>)
      | Some entries \<Rightarrow>
          rbind (discover_files X previous (scan_path (lx_md5 X) MAX_FILES entries) [] []) (\<lambda>(ds, ws).
          rbind (mk_run X tenant app scope trig R_COMPLETED ds) (\<lambda>run.
            Inr \<lparr>lp_run = run, lp_discovered_count = count_delta D_NEW ds, lp_changed_count = count_delta D_CHANGED ds,
                 lp_removed_count = 0, lp_unchanged_count = count_delta D_UNCHANGED ds, lp_rejected_count = 0,
                 lp_warnings = map trim ws\<rparr>)))"

section \<open>The scan as a bounded filter\<close>

text \<open>What makes a listed entry a scanned file.\<close>

definition scannable :: "(string \<Rightarrow> string) \<Rightarrow> dir_entry \<Rightarrow> scanned_file option" where
  "scannable md5 e =
     (case (dict_get LANGUAGE_MAP (lower (path_suffix (de_path e))), de_size e, de_text e) of
        (Some lang, Some n, Some content) \<Rightarrow>
          if de_is_file e \<and> n \<le> MAX_FILE_BYTES
          then Some \<lparr>sn_path = de_path e, sn_content = content, sn_content_hash = md5 content, sn_language = lang\<rparr>
          else None
      | _ \<Rightarrow> None)"

lemma scan_loop_eq:
  "length acc \<le> n \<Longrightarrow> scan_loop md5 n es acc = acc @ take (n - length acc) (List.map_filter (scannable md5) es)"
proof (induction es arbitrary: acc)
  case (Cons e es)
  show ?case
  proof (cases "n = length acc")
    case False
    with Cons.prems have "n - length acc = Suc (n - Suc (length acc))" by simp
    then show ?thesis using Cons False
      by (auto simp: scannable_def map_filter_simps not_less split: option.splits)
  qed simp
qed (simp add: map_filter_simps)

text \<open>A scan returns exactly the readable Python and TypeScript files of at most 256 KB, in the order of
  their paths, cut to the maximum number of files.\<close>

theorem scan_path_exact:
  "scan_path md5 n es =
     take n (List.map_filter (scannable md5) (sort_key (\<lambda>e. split_chr CHR ''/'' (de_path e)) es))"
  by (simp add: scan_path_def scan_loop_eq)

section \<open>The discoveries of a run\<close>

lemma discovery_of_Inr:
  "discovery_of X previous lang uid p = Inr d \<Longrightarrow>
     ld_discovery_id d = trim uid \<and> ld_type d = classify p \<and> ld_status d = DISCOVERED \<and> ld_approval d = None \<and>
     dl_state (ld_delta d) = delta_for (dict_get previous (stable_key (ep_file_path p) (ep_name p))) (content_hash X p) \<and>
     dl_current_hash (ld_delta d) = Some (trim (content_hash X p)) \<and>
     so0_file_path (ld_source d) = Some (trim (ep_file_path p)) \<and> so0_symbol_name (ld_source d) = Some (trim (ep_name p))"
  by (auto simp: discovery_of_def Let_def rbind_Inr_iff validate_str1_Inr)

text \<open>A pattern and the discovery it became: \<open>made_from\<close> ties a discovery to its pattern.\<close>

definition made_from ::
  "learn_ext \<Rightarrow> (string, string) dict \<Rightarrow> extracted_pattern \<Rightarrow> learning_discovery \<Rightarrow> bool" where
  "made_from X previous p d = (\<exists>lang uid. discovery_of X previous lang uid p = Inr d)"

lemma discover_patterns_Inr:
  "discover_patterns X previous lang ps ds ws = Inr (ds', ws') \<Longrightarrow>
   \<exists>new. ds' = ds @ new \<and> list_all2 (made_from X previous) ps new \<and>
     map ld_discovery_id new = map (\<lambda>i. trim (lx_uuid X (Suc i))) [length ds..<length ds']"
proof (induction ps arbitrary: ds ws)
  case (Cons p ps)
  from Cons.prems obtain d where d: "discovery_of X previous lang (lx_uuid X (Suc (length ds))) p = Inr d"
    and r: "discover_patterns X previous lang ps (ds @ [d]) (ws @ snd (redact (ep_source_excerpt p))) = Inr (ds', ws')"
    by (auto split: sum.splits)
  from Cons.IH [OF r] obtain new where new: "ds' = (ds @ [d]) @ new" "list_all2 (made_from X previous) ps new"
    "map ld_discovery_id new = map (\<lambda>i. trim (lx_uuid X (Suc i))) [length (ds @ [d])..<length ds']" by blast
  have "made_from X previous p d" using d unfolding made_from_def by blast
  moreover have "[length ds..<length ds'] = length ds # [Suc (length ds)..<length ds']"
    using new(1) by (simp add: upt_rec)
  ultimately show ?case using new discovery_of_Inr [OF d] by (intro exI [of _ "d # new"]) simp
qed simp

lemma discover_files_Inr:
  "discover_files X previous fs ds ws = Inr (ds', ws') \<Longrightarrow>
   \<exists>pss new. list_all2 (\<lambda>f ps. extract_patterns (lx_parse X) (sn_content f) (sn_path f) (sn_language f) = Inr ps) fs pss \<and>
     ds' = ds @ new \<and> list_all2 (made_from X previous) (concat pss) new \<and>
     map ld_discovery_id new = map (\<lambda>i. trim (lx_uuid X (Suc i))) [length ds..<length ds']"
proof (induction fs arbitrary: ds ws)
  case (Cons f fs)
  from Cons.prems obtain ps ds1 ws1 where
    ps: "extract_patterns (lx_parse X) (sn_content f) (sn_path f) (sn_language f) = Inr ps"
    and p: "discover_patterns X previous (sn_language f) ps ds ws = Inr (ds1, ws1)"
    and r: "discover_files X previous fs ds1 ws1 = Inr (ds', ws')" by (auto split: sum.splits)
  from discover_patterns_Inr [OF p] obtain n1 where n1: "ds1 = ds @ n1" "list_all2 (made_from X previous) ps n1"
    "map ld_discovery_id n1 = map (\<lambda>i. trim (lx_uuid X (Suc i))) [length ds..<length ds1]" by blast
  from Cons.IH [OF r] obtain pss n2 where
    n2: "list_all2 (\<lambda>f ps. extract_patterns (lx_parse X) (sn_content f) (sn_path f) (sn_language f) = Inr ps) fs pss"
    "ds' = ds1 @ n2" "list_all2 (made_from X previous) (concat pss) n2"
    "map ld_discovery_id n2 = map (\<lambda>i. trim (lx_uuid X (Suc i))) [length ds1..<length ds']" by blast
  have "[length ds..<length ds'] = [length ds..<length ds1] @ [length ds1..<length ds']"
    using n1(1) n2(2) upt_add_eq_append [of "length ds" "length ds1" "length n2"] by (simp add: add.assoc)
  with ps n1 n2 show ?case
    by (intro exI [of _ "ps # pss"] exI [of _ "n1 @ n2"]) (auto intro: list_all2_appendI)
qed simp

definition run_patterns :: "learn_ext \<Rightarrow> dir_entry list \<Rightarrow> extracted_pattern list \<Rightarrow> bool" where
  "run_patterns X es ps =
     (\<exists>pss. list_all2 (\<lambda>f qs. extract_patterns (lx_parse X) (sn_content f) (sn_path f) (sn_language f) = Inr qs)
        (scan_path (lx_md5 X) MAX_FILES es) pss \<and> ps = concat pss)"

lemma run_patterns_fun: "run_patterns X es ps \<Longrightarrow> run_patterns X es qs \<Longrightarrow> ps = qs"
proof -
  assume "run_patterns X es ps" "run_patterns X es qs"
  then show "ps = qs" unfolding run_patterns_def rmap_Inr_iff [symmetric] by auto
qed

lemma run_learning_Inr:
  assumes "run_learning X tenant app scope previous trig = Inr r" and "lx_tree X (ls_path scope) = Some es"
  shows "\<exists>ps. run_patterns X es ps \<and> list_all2 (made_from X previous) ps (lr_discoveries (lp_run r)) \<and>
    map ld_discovery_id (lr_discoveries (lp_run r)) =
      map (\<lambda>i. trim (lx_uuid X (Suc i))) [0..<length (lr_discoveries (lp_run r))] \<and>
    lp_discovered_count r = count_delta D_NEW (lr_discoveries (lp_run r)) \<and>
    lp_changed_count r = count_delta D_CHANGED (lr_discoveries (lp_run r)) \<and>
    lp_unchanged_count r = count_delta D_UNCHANGED (lr_discoveries (lp_run r)) \<and>
    lp_removed_count r = 0 \<and> lp_rejected_count r = 0 \<and>
    lr_run_id (lp_run r) = trim (lx_uuid X 0) \<and> lr_tenant_id (lp_run r) = trim tenant \<and>
    lr_application_id (lp_run r) = trim app \<and> lr_status (lp_run r) = R_COMPLETED \<and>
    lr_completed_at (lp_run r) = Some (lx_completed X)"
proof -
  from assms obtain ds ws where
    d: "discover_files X previous (scan_path (lx_md5 X) MAX_FILES es) [] [] = Inr (ds, ws)"
    and r: "lr_discoveries (lp_run r) = ds" "lp_discovered_count r = count_delta D_NEW ds"
      "lp_changed_count r = count_delta D_CHANGED ds" "lp_unchanged_count r = count_delta D_UNCHANGED ds"
      "lp_removed_count r = 0" "lp_rejected_count r = 0"
      "lr_run_id (lp_run r) = trim (lx_uuid X 0)" "lr_tenant_id (lp_run r) = trim tenant"
      "lr_application_id (lp_run r) = trim app" "lr_status (lp_run r) = R_COMPLETED"
      "lr_completed_at (lp_run r) = Some (lx_completed X)"
    by (auto simp: run_learning_def mk_run_def rbind_Inr_iff validate_str1_Inr)
  from discover_files_Inr [OF d] show ?thesis
    unfolding run_patterns_def r by auto
qed

lemma count_deltas:
  "list_all (\<lambda>d. dl_state (ld_delta d) \<noteq> D_REMOVED) ds \<Longrightarrow>
   count_delta D_NEW ds + count_delta D_CHANGED ds + count_delta D_UNCHANGED ds = length ds"
proof (induction ds)
  case (Cons d ds)
  then show ?case by (cases "dl_state (ld_delta d)") (auto simp: count_delta_def)
qed (simp add: count_delta_def)

text \<open>C23: A run over an existing path makes one discovery per pattern the extractor finds in the scanned
  files, in their order, still open and without a decision; the discovery is new, changed or unchanged
  exactly as the hash of the redacted excerpt compares with the hash the previous run had under the same
  file and name; and the three counts add up to the number of discoveries.\<close>

theorem learning_delta_exact:
  assumes "run_learning X tenant app scope previous trig = Inr r" and "lx_tree X (ls_path scope) = Some es"
  shows "\<exists>ps. run_patterns X es ps \<and>
    list_all2 (\<lambda>p d. ld_type d = classify p \<and> ld_status d = DISCOVERED \<and> ld_approval d = None \<and>
      dl_state (ld_delta d) =
        (case dict_get previous (stable_key (ep_file_path p) (ep_name p)) of
           None \<Rightarrow> D_NEW
         | Some h \<Rightarrow> if h = content_hash X p then D_UNCHANGED else D_CHANGED)) ps (lr_discoveries (lp_run r)) \<and>
    lp_discovered_count r + lp_changed_count r + lp_unchanged_count r = length (lr_discoveries (lp_run r))"
    (is "\<exists>ps. _ \<and> list_all2 ?P ps _ \<and> _")
proof -
  from run_learning_Inr [OF assms] obtain ps where ps: "run_patterns X es ps"
    "list_all2 (made_from X previous) ps (lr_discoveries (lp_run r))"
    and c: "lp_discovered_count r = count_delta D_NEW (lr_discoveries (lp_run r))"
    "lp_changed_count r = count_delta D_CHANGED (lr_discoveries (lp_run r))"
    "lp_unchanged_count r = count_delta D_UNCHANGED (lr_discoveries (lp_run r))" by blast
  have "list_all (\<lambda>d. dl_state (ld_delta d) \<noteq> D_REMOVED) (lr_discoveries (lp_run r))"
    unfolding list_all_iff
  proof
    fix d assume "d \<in> set (lr_discoveries (lp_run r))"
    with ps(2) obtain p where "made_from X previous p d" by (blast dest: list_all2_right)
    then show "dl_state (ld_delta d) \<noteq> D_REMOVED"
      by (auto simp: made_from_def delta_for_def dest!: discovery_of_Inr split: option.splits if_splits)
  qed
  from count_deltas [OF this] have "lp_discovered_count r + lp_changed_count r + lp_unchanged_count r =
    length (lr_discoveries (lp_run r))" unfolding c .
  moreover have "list_all2 ?P ps (lr_discoveries (lp_run r))"
    using ps(2) by (rule list_all2_mono)
      (auto simp: made_from_def delta_for_def dest!: discovery_of_Inr)
  ultimately show ?thesis using ps(1) by blast
qed

section \<open>Path mappings\<close>

text \<open>A mapping applies to a path when its source is the path or a whole-component prefix of it.\<close>

definition mapping_applies :: "string \<Rightarrow> string \<times> string \<Rightarrow> bool" where
  "mapping_applies clean m =
     (let cs = strip (fst m);
          candidate_cmp = comparison_value clean (normalise_for_match clean);
          source_cmp = comparison_value cs (normalise_for_match cs)
      in cs \<noteq> [] \<and> strip (snd m) \<noteq> [] \<and> (candidate_cmp = source_cmp \<or> prefix (source_cmp @ ''/'') candidate_cmp))"

definition mapped_path :: "string \<Rightarrow> string \<times> string \<Rightarrow> string" where
  "mapped_path clean m =
     join_mapped_path (strip (snd m))
       (lstrip_chr ''/'' (drop (length (normalise_for_match (strip (fst m)))) (normalise_for_match clean)))"

lemma first_mapping_find:
  "map_option fst (first_mapping clean ms) = map_option (mapped_path clean) (find (mapping_applies clean) ms)"
  by (induction ms) (auto simp: mapping_applies_def mapped_path_def Let_def)

lemma find_sorted_key:
  "find P (sort_key (\<lambda>x. - k x :: int) xs) = Some x \<Longrightarrow> x \<in> set xs \<and> P x \<and> (\<forall>y \<in> set xs. P y \<longrightarrow> k y \<le> k x)"
proof -
  assume f: "find P (sort_key (\<lambda>x. - k x) xs) = Some x"
  let ?ys = "sort_key (\<lambda>x. - k x) xs"
  from f obtain i where i: "i < length ?ys" "P (?ys ! i)" "x = ?ys ! i" "\<forall>j < i. \<not> P (?ys ! j)"
    by (auto simp: find_Some_iff)
  have s: "sorted (map (\<lambda>x. - k x) ?ys)" by simp
  have "k y \<le> k x" if "y \<in> set xs" "P y" for y
  proof -
    from that(1) have "y \<in> set ?ys" by simp
    then obtain j where j: "j < length ?ys" "y = ?ys ! j" by (metis in_set_conv_nth)
    with i(4) that(2) have "i \<le> j" by (metis not_less)
    with s i(1) j show ?thesis using sorted_nth_mono [OF s, of i j] by (simp add: i(3))
  qed
  moreover have "x \<in> set xs" using i(1,3) by (metis nth_mem set_sort)
  ultimately show ?thesis using i by blast
qed

text \<open>A requested path is rewritten by a mapping with the longest source among those that apply to it,
  where a source applies only at a component boundary; without such a mapping the stripped path is
  used as it is.\<close>

theorem learning_path_longest:
  "case find (mapping_applies (strip p)) ms of
     None \<Rightarrow> resolve_learning_path p ms = (strip p, [])
   | Some _ \<Rightarrow> strip p \<noteq> [] \<longrightarrow>
       (\<exists>m \<in> set ms. mapping_applies (strip p) m \<and> fst (resolve_learning_path p ms) = mapped_path (strip p) m \<and>
         (\<forall>m' \<in> set ms. mapping_applies (strip p) m' \<longrightarrow> length (fst m') \<le> length (fst m)))"
proof -
  let ?ms = "sort_key (\<lambda>m. - int (length (fst m))) ms"
  have r: "resolve_learning_path p ms =
     (if strip p = [] \<or> ms = [] then (strip p, []) else (case first_mapping (strip p) ?ms of Some r \<Rightarrow> r | None \<Rightarrow> (strip p, [])))"
    by (simp add: resolve_learning_path_def Let_def)
  show ?thesis
  proof (cases "find (mapping_applies (strip p)) ms")
    case None
    then have "find (mapping_applies (strip p)) ?ms = None" by (simp add: find_None_iff)
    then have "first_mapping (strip p) ?ms = None"
      using first_mapping_find [of "strip p" ?ms] by simp
    with None show ?thesis by (simp add: r)
  next
    case (Some m0)
    then have "\<exists>m \<in> set ?ms. mapping_applies (strip p) m" by (auto simp: find_Some_iff)
    then obtain m where m: "find (mapping_applies (strip p)) ?ms = Some m"
      by (cases "find (mapping_applies (strip p)) ?ms") (auto simp: find_None_iff)
    have "ms \<noteq> []" using Some by auto
    have "map_option fst (first_mapping (strip p) ?ms) = Some (mapped_path (strip p) m)"
      using first_mapping_find [of "strip p" ?ms] m by simp
    with find_sorted_key [OF m] Some \<open>ms \<noteq> []\<close> show ?thesis by (auto simp: r)
  qed
qed

section \<open>Examples\<close>

definition demo_scope :: learning_scope where
  "demo_scope = \<lparr>ls_repository = ''r'', ls_branch = ''main'', ls_path = ''/w'', ls_framework = None, ls_domain = None,
     ls_route = None, ls_tags = []\<rparr>"

definition demo_tree :: "dir_entry list" where
  "demo_tree =
     [\<lparr>de_path = ''b.py'', de_is_file = True, de_size = Some 1, de_text = Some ''x''\<rparr>,
      \<lparr>de_path = ''a.md'', de_is_file = True, de_size = Some 3, de_text = Some ''x''\<rparr>]"

definition demo_ast :: ast_node where
  "demo_ast = AstNode OtherKind [AstNode (ClassDef ''A'' 1) [], AstNode (FunctionDef ''test_a'' 1 []) []]"

definition demo_learn :: "nat \<Rightarrow> learn_ext" where
  "demo_learn n =
     \<lparr>lx_tree = (\<lambda>p. if p = ''/w'' then Some demo_tree else None), lx_parse = (\<lambda>_. AstModule demo_ast),
      lx_md5 = (\<lambda>_. ''h''), lx_uuid = (\<lambda>i. nat_str (n + i)), lx_completed = of_nat n,
      lx_started = of_nat n\<rparr>"

definition demo_report :: learning_report where
  "demo_report = projr (run_learning (demo_learn 10) ''acme'' ''web'' demo_scope [(''b.py::A'', ''0'')] MANUAL)"

lemma demo_pieces:
  "scan_path (lx_md5 (demo_learn 10)) MAX_FILES demo_tree =
     [\<lparr>sn_path = ''b.py'', sn_content = ''x'', sn_content_hash = ''h'', sn_language = ''python''\<rparr>]"
  "extract_patterns (lx_parse (demo_learn 10)) ''x'' ''b.py'' ''python'' =
     Inr [mk_pattern ''utility_class'' ''A'' ''x'' ''b.py'' 1 ''python'', mk_pattern ''test_function'' ''test_a'' ''x'' ''b.py'' 1 ''python'']"
  "redact ''x'' = (''x'', [])"
  "validate_str1 n ''b.py'' = Inr ''b.py''"
  "validate_str1 n (lx_uuid (demo_learn 10) 0) = Inr ''10''"
  "validate_str1 n (lx_uuid (demo_learn 10) (Suc 0)) = Inr ''11''"
  "validate_str1 n (lx_uuid (demo_learn 10) (Suc (Suc 0))) = Inr ''12''"
  "validate_str1 n (''utility_class'' @ '': '' @ ''A'' @ '' ('' @ ''python'' @ '')'') = Inr ''utility_class: A (python)''"
  "validate_str1 n (''test_function'' @ '': '' @ ''test_a'' @ '' ('' @ ''python'' @ '')'') = Inr ''test_function: test_a (python)''"
  "validate_str1 n ''acme'' = Inr ''acme''" "validate_str1 n ''web'' = Inr ''web''"
  by code_simp+

lemma demo_learn_tree: "lx_tree (demo_learn 10) (ls_path demo_scope) = Some demo_tree" "lx_md5 (demo_learn 10) s = ''h''"
  by (simp_all add: demo_learn_def demo_scope_def)

lemma demo_run_any:
  "\<exists>r. run_learning (demo_learn 10) ''acme'' ''web'' demo_scope previous MANUAL = Inr r \<and> lr_run_id (lp_run r) = ''10'' \<and>
     map ld_discovery_id (lr_discoveries (lp_run r)) = [''11'', ''12''] \<and>
     map (dl_state \<circ> ld_delta) (lr_discoveries (lp_run r)) =
       [delta_for (dict_get previous ''b.py::A'') ''h'', delta_for (dict_get previous ''b.py::test_a'') ''h'']"
  unfolding run_learning_def demo_learn_tree(1) option.case demo_pieces(1)
  by (simp add: demo_pieces(2-) [unfolded append_Cons append_Nil] demo_learn_tree(2) discovery_of_def mk_pattern_def Let_def
      content_hash_def mk_run_def stable_key_def)

lemma demo_report_run:
  "run_learning (demo_learn 10) ''acme'' ''web'' demo_scope [(''b.py::A'', ''0'')] MANUAL = Inr demo_report"
  "map (dl_state \<circ> ld_delta) (lr_discoveries (lp_run demo_report)) = [D_CHANGED, D_NEW]"
  using demo_run_any [of "[(''b.py::A'', ''0'')]"] by (auto simp: demo_report_def delta_for_def)

lemma learning_delta_exact_witness:
  "lp_discovered_count demo_report + lp_changed_count demo_report + lp_unchanged_count demo_report = 2"
proof -
  have "length (lr_discoveries (lp_run demo_report)) = 2"
    using demo_report_run(2) by (metis length_map length_Cons list.size(3) numeral_2_eq_2)
  then show ?thesis using learning_delta_exact [OF demo_report_run(1) demo_learn_tree(1)] by auto
qed

lemma learning_path_longest_witness:
  "fst (resolve_learning_path ''/src/app/x'' [(''/src'', ''/a''), (''/src/app'', ''/b'')]) = ''/b/x''"
proof -
  let ?ms = "[(''/src'', ''/a''), (''/src/app'', ''/b'')]"
  have p: "strip ''/src/app/x'' = ''/src/app/x''" by code_simp
  have a: "mapping_applies ''/src/app/x'' (''/src'', ''/a'')" by code_simp
  have b: "mapping_applies ''/src/app/x'' (''/src/app'', ''/b'')" "mapped_path ''/src/app/x'' (''/src/app'', ''/b'') = ''/b/x''"
    by code_simp+
  show ?thesis using learning_path_longest [of "''/src/app/x''" ?ms] a b unfolding p by auto
qed

end
