(* ===== verification/Learning.thy ===== *)
theory Learning
  imports LearningScan MemoryService
begin

text \<open>
  \<open>totalrecall/storage/learning_repo.py\<close>, \<open>totalrecall/learning/promotion.py\<close> and
  \<open>totalrecall/api/routes/learning.py\<close>: runs and discoveries are stored, listed and decided, and an
  approved discovery of a promotable type becomes an active entry of the catalogue. A transaction
  is one step of the model.
\<close>

section \<open>learning_repo.py: rows\<close>

record run_row =
  lw_id :: string
  lw_tenant_id :: string
  lw_application_id :: string
  lw_scope :: json
  lw_trigger_type :: string
  lw_status :: string
  lw_summary :: json
  lw_started_at :: rat
  lw_completed_at :: "rat option"

record discovery_row =
  dw_id :: string
  dw_run_id :: string
  dw_tenant_id :: string
  dw_application_id :: string
  dw_type :: string
  dw_status :: string
  dw_delta_state :: string
  dw_summary :: string
  dw_confidence :: rat
  dw_source :: json
  dw_proposed_tags :: json
  dw_content_hash :: "string option"
  dw_warnings :: json
  dw_approved_by :: "string option"
  dw_approved_at :: "rat option"
  dw_rejection_reason :: "string option"
  dw_created_at :: rat

record learning_db =
  db_runs :: "run_row list"
  db_discoveries :: "discovery_row list"

section \<open>Writing a report\<close>

definition scope_json :: "learning_scope \<Rightarrow> json" where
  "scope_json s =
     JDict [(''repository'', JStr (ls_repository s)), (''branch'', JStr (ls_branch s)), (''path'', JStr (ls_path s)),
            (''framework'', (case ls_framework s of None \<Rightarrow> JNull | Some f \<Rightarrow> JStr (framework_value f))),
            (''domain'', opt_json (ls_domain s)), (''route'', opt_json (ls_route s)),
            (''tags'', JList (map JStr (ls_tags s)))]"

definition summary_json :: "learning_report \<Rightarrow> json" where
  "summary_json r =
     JDict [(''discovered_count'', JInt (int (lp_discovered_count r))),
            (''changed_count'', JInt (int (lp_changed_count r))),
            (''removed_count'', JInt (int (lp_removed_count r))),
            (''unchanged_count'', JInt (int (lp_unchanged_count r))),
            (''rejected_count'', JInt (int (lp_rejected_count r))),
            (''warnings'', JList (map JStr (lp_warnings r)))]"

definition report_row :: "learning_report \<Rightarrow> run_row" where
  "report_row r =
     (let rn = lp_run r
      in \<lparr>lw_id = lr_run_id rn, lw_tenant_id = lr_tenant_id rn, lw_application_id = lr_application_id rn,
          lw_scope = scope_json (lr_scope rn), lw_trigger_type = trigger_value (lr_trigger_type rn),
          lw_status = run_status_value (lr_status rn), lw_summary = summary_json r,
          lw_started_at = lr_started_at rn, lw_completed_at = lr_completed_at rn\<rparr>)"

definition overwrite_run :: "run_row \<Rightarrow> run_row \<Rightarrow> run_row" where
  "overwrite_run old new =
     old\<lparr>lw_status := lw_status new, lw_summary := lw_summary new, lw_completed_at := lw_completed_at new\<rparr>"

text \<open>\<open>now\<close> is the default of \<open>created_at\<close>: the start of the transaction, the same for every row.\<close>

definition discovery_row_of :: "rat \<Rightarrow> learning_run \<Rightarrow> learning_discovery \<Rightarrow> discovery_row" where
  "discovery_row_of now rn d =
     \<lparr>dw_id = ld_discovery_id d, dw_run_id = lr_run_id rn, dw_tenant_id = lr_tenant_id rn,
      dw_application_id = lr_application_id rn, dw_type = discovery_type_value (ld_type d),
      dw_status = discovery_status_value (ld_status d), dw_delta_state = delta_value (dl_state (ld_delta d)),
      dw_summary = ld_summary d, dw_confidence = ld_confidence d, dw_source = source_json (ld_source d),
      dw_proposed_tags = JDict (ld_proposed_tags d), dw_content_hash = dl_current_hash (ld_delta d),
      dw_warnings = JList (map JStr (ld_warnings d)), dw_approved_by = None, dw_approved_at = None,
      dw_rejection_reason = None, dw_created_at = now\<rparr>"

definition keep_old :: "'r \<Rightarrow> 'r \<Rightarrow> 'r" where
  "keep_old old new = old"

definition save_report :: "rat \<Rightarrow> learning_report \<Rightarrow> learning_db \<Rightarrow> learning_db" where
  "save_report now r db =
     \<lparr>db_runs = put_row lw_id overwrite_run (report_row r) (db_runs db),
      db_discoveries = fold (put_row dw_id keep_old)
        (map (discovery_row_of now (lp_run r)) (lr_discoveries (lp_run r))) (db_discoveries db)\<rparr>"

section \<open>Reading rows\<close>

text \<open>\<open>.get(key, default)\<close> on a parsed column.\<close>

definition column_dict :: "json \<Rightarrow> (string, json) dict result" where
  "column_dict j = (case j of JDict d \<Rightarrow> Inr d | _ \<Rightarrow> Inl (OtherError ''AttributeError'' ''get''))"

text \<open>A count; numeric strings, which the repository never writes, are refused here.\<close>

definition as_count :: "string \<Rightarrow> json \<Rightarrow> nat result" where
  "as_count field j =
     (case j of
        JInt i \<Rightarrow> if 0 \<le> i then Inr (nat i) else invalid field
      | JBool b \<Rightarrow> Inr (if b then 1 else 0)
      | JFloat x \<Rightarrow> if 0 \<le> x \<and> of_int \<lfloor>x\<rfloor> = x then Inr (nat \<lfloor>x\<rfloor>) else invalid field
      | _ \<Rightarrow> invalid field)"

definition scope_of_json :: "json \<Rightarrow> learning_scope result" where
  "scope_of_json j =
     rbind (column_dict j) (\<lambda>d.
     rbind (as_str1 ''repository'' (dict_get_or d ''repository'' (JStr ''local''))) (\<lambda>repository.
     rbind (as_str1 ''branch'' (dict_get_or d ''branch'' (JStr ''local''))) (\<lambda>branch.
     rbind (as_str1 ''path'' (dict_get_or d ''path'' (JStr []))) (\<lambda>path.
     rbind (as_opt (as_enum ''framework'' framework_of) (dict_get_or d ''framework'' JNull)) (\<lambda>framework.
     rbind (as_opt (as_str ''domain'') (dict_get_or d ''domain'' JNull)) (\<lambda>domain.
     rbind (as_opt (as_str ''route'') (dict_get_or d ''route'' JNull)) (\<lambda>route.
     rbind (as_list ''tags'' (as_str ''tags'') (dict_get_or d ''tags'' (JList []))) (\<lambda>tags.
       Inr \<lparr>ls_repository = repository, ls_branch = branch, ls_path = path, ls_framework = framework,
            ls_domain = domain, ls_route = route, ls_tags = tags\<rparr>))))))))"

definition row_approval :: "rat \<Rightarrow> discovery_row \<Rightarrow> learning_approval option result" where
  "row_approval now x =
     (case dw_approved_by x of
        None \<Rightarrow> Inr None
      | Some actor \<Rightarrow>
          if actor = [] then Inr None
          else rbind (validate_str1 ''actor_id'' actor) (\<lambda>a.
            Inr (Some \<lparr>la_decision = (if dw_status x = ''approved'' then A_APPROVED else A_REJECTED), la_actor_id = a,
                       la_decided_at = (case dw_approved_at x of None \<Rightarrow> now | Some t \<Rightarrow> t),
                       la_reason = map_option trim (dw_rejection_reason x)\<rparr>)))"

definition discovery_source :: "json \<Rightarrow> catalogue_source result" where
  "discovery_source j =
     rbind (column_dict j) (\<lambda>d.
     rbind (as_str1 ''type'' (dict_get_or d ''type'' (JStr ''file_scan''))) (\<lambda>ty.
     rbind (as_str1 ''reference'' (dict_get_or d ''reference'' (JStr []))) (\<lambda>ref.
     rbind (as_opt (as_str ''file_path'') (dict_get_or d ''file_path'' JNull)) (\<lambda>fp.
     rbind (as_opt (as_str ''symbol_name'') (dict_get_or d ''symbol_name'' JNull)) (\<lambda>sn.
     rbind (as_opt (as_str ''commit_id'') (dict_get_or d ''commit_id'' JNull)) (\<lambda>ci.
     rbind (as_opt (as_str ''scan_id'') (dict_get_or d ''scan_id'' JNull)) (\<lambda>si.
       Inr \<lparr>so0_type = ty, so0_reference = ref, so0_file_path = fp, so0_symbol_name = sn, so0_commit_id = ci,
            so0_scan_id = si\<rparr>)))))))"

definition str_list_or_empty :: "string \<Rightarrow> json \<Rightarrow> string list result" where
  "str_list_or_empty field j = (case j of JList _ \<Rightarrow> as_list field (as_str field) j | _ \<Rightarrow> Inr [])"

definition row_to_discovery :: "rat \<Rightarrow> discovery_row \<Rightarrow> learning_discovery result" where
  "row_to_discovery now x =
     rbind (discovery_source (dw_source x)) (\<lambda>src.
     rbind (row_approval now x) (\<lambda>approval.
     rbind (enum_of ''LearningDiscoveryType'' discovery_type_of (dw_type x)) (\<lambda>ty.
     rbind (enum_of ''LearningDiscoveryStatus'' discovery_status_of (dw_status x)) (\<lambda>st.
     rbind (enum_of ''LearningDeltaState'' delta_of (dw_delta_state x)) (\<lambda>delta.
     rbind (validate_str1 ''discovery_id'' (dw_id x)) (\<lambda>did.
     rbind (validate_str1 ''summary'' (dw_summary x)) (\<lambda>summary.
     rbind (if 0 \<le> dw_confidence x \<and> dw_confidence x \<le> 1 then Inr (dw_confidence x) else invalid ''confidence'') (\<lambda>conf.
     rbind (case dw_proposed_tags x of JDict _ \<Rightarrow> validate_dict ''proposed_tags'' (dw_proposed_tags x) | _ \<Rightarrow> Inr []) (\<lambda>tags.
     rbind (str_list_or_empty ''warnings'' (dw_warnings x)) (\<lambda>ws.
       Inr \<lparr>ld_discovery_id = did, ld_type = ty, ld_status = st,
            ld_delta = \<lparr>dl_state = delta, dl_previous_hash = None, dl_current_hash = map_option trim (dw_content_hash x),
               dl_changed_fields = []\<rparr>,
            ld_summary = summary, ld_confidence = conf, ld_source = src, ld_proposed_tags = tags,
            ld_approval = approval, ld_warnings = ws\<rparr>))))))))))"

definition rows_to_report :: "rat \<Rightarrow> run_row \<Rightarrow> discovery_row list \<Rightarrow> learning_report result" where
  "rows_to_report now x ds =
     rbind (scope_of_json (lw_scope x)) (\<lambda>scope.
     rbind (rmap (row_to_discovery now) ds) (\<lambda>discoveries.
     rbind (enum_of ''LearningTriggerType'' trigger_of (lw_trigger_type x)) (\<lambda>trig.
     rbind (enum_of ''LearningRunStatus'' run_status_of (lw_status x)) (\<lambda>st.
     rbind (validate_str1 ''run_id'' (lw_id x)) (\<lambda>rid.
     rbind (validate_str1 ''tenant_id'' (lw_tenant_id x)) (\<lambda>tenant.
     rbind (validate_str1 ''application_id'' (lw_application_id x)) (\<lambda>app.
     rbind (column_dict (lw_summary x)) (\<lambda>d.
     rbind (as_count ''discovered_count'' (dict_get_or d ''discovered_count'' (JInt 0))) (\<lambda>n1.
     rbind (as_count ''changed_count'' (dict_get_or d ''changed_count'' (JInt 0))) (\<lambda>n2.
     rbind (as_count ''removed_count'' (dict_get_or d ''removed_count'' (JInt 0))) (\<lambda>n3.
     rbind (as_count ''unchanged_count'' (dict_get_or d ''unchanged_count'' (JInt 0))) (\<lambda>n4.
     rbind (as_count ''rejected_count'' (dict_get_or d ''rejected_count'' (JInt 0))) (\<lambda>n5.
     rbind (as_list ''warnings'' (as_str ''warnings'') (dict_get_or d ''warnings'' (JList []))) (\<lambda>ws.
       Inr \<lparr>lp_run = \<lparr>lr_run_id = rid, lr_tenant_id = tenant, lr_application_id = app, lr_scope = scope,
              lr_trigger_type = trig, lr_status = st, lr_discoveries = discoveries, lr_started_at = lw_started_at x,
              lr_completed_at = lw_completed_at x\<rparr>,
            lp_discovered_count = n1, lp_changed_count = n2, lp_removed_count = n3, lp_unchanged_count = n4,
            lp_rejected_count = n5, lp_warnings = ws\<rparr>))))))))))))))"

text \<open>\<open>order by created_at\<close>\<close>

definition run_discoveries :: "string \<Rightarrow> discovery_row list \<Rightarrow> discovery_row list" where
  "run_discoveries rid rows = sort_key dw_created_at (filter (\<lambda>d. dw_run_id d = rid) rows)"

definition get_run :: "rat \<Rightarrow> string \<Rightarrow> string \<Rightarrow> learning_db \<Rightarrow> learning_report option result" where
  "get_run now tenant rid db =
     (case find (\<lambda>x. lw_id x = rid \<and> lw_tenant_id x = tenant) (db_runs db) of
        None \<Rightarrow> Inr None
      | Some x \<Rightarrow> rbind (rows_to_report now x (run_discoveries rid (db_discoveries db))) (\<lambda>r. Inr (Some r)))"

definition list_runs ::
  "rat \<Rightarrow> string \<Rightarrow> string option \<Rightarrow> nat \<Rightarrow> learning_db \<Rightarrow> learning_report list result" where
  "list_runs now tenant app limit db =
     (let rows = take limit (newest_first lw_started_at
            (\<lambda>x. lw_tenant_id x = tenant \<and> (case app of None \<Rightarrow> True | Some a \<Rightarrow> a = [] \<or> lw_application_id x = a))
            (db_runs db))
      in rmap (\<lambda>x. rows_to_report now x (run_discoveries (lw_id x) (db_discoveries db))) rows)"

text \<open>\<open>order by completed_at desc limit 1\<close>: rows without a time come first.\<close>

definition last_completed :: "string \<Rightarrow> string \<Rightarrow> run_row list \<Rightarrow> run_row option" where
  "last_completed tenant app rows =
     (let done = filter (\<lambda>x. lw_tenant_id x = tenant \<and> lw_application_id x = app \<and> lw_status x = ''completed'') rows
      in (case filter (\<lambda>x. lw_completed_at x = None) done
                @ newest_first (\<lambda>x. the (lw_completed_at x)) (\<lambda>x. lw_completed_at x \<noteq> None) done of
            [] \<Rightarrow> None | x # _ \<Rightarrow> Some x))"

definition row_stable_key :: "discovery_row \<Rightarrow> string result" where
  "row_stable_key x =
     rbind (column_dict (dw_source x)) (\<lambda>d.
       (let fp = dict_get_or d ''file_path'' JNull;
            file_path = (if truthy fp then fp else dict_get_or d ''reference'' (JStr []))
        in Inr (py_str file_path @ ''::'' @ py_str (dict_get_or d ''symbol_name'' (JStr [])))))"

fun collect_hashes :: "discovery_row list \<Rightarrow> (string, string) dict \<Rightarrow> (string, string) dict result" where
  "collect_hashes [] acc = Inr acc"
| "collect_hashes (x # xs) acc =
     (case row_stable_key x of
        Inl e \<Rightarrow> Inl e
      | Inr k \<Rightarrow>
          (case dw_content_hash x of
             Some h \<Rightarrow> collect_hashes xs (if h \<noteq> [] then dict_set k h acc else acc)
           | None \<Rightarrow> collect_hashes xs acc))"

definition get_previous_hashes :: "string \<Rightarrow> string \<Rightarrow> learning_db \<Rightarrow> (string, string) dict result" where
  "get_previous_hashes tenant app db =
     (case last_completed tenant app (db_runs db) of
        None \<Rightarrow> Inr []
      | Some x \<Rightarrow>
          collect_hashes (filter (\<lambda>d. dw_run_id d = lw_id x \<and> dw_content_hash d \<noteq> None) (db_discoveries db)) [])"

definition get_discovery ::
  "rat \<Rightarrow> string \<Rightarrow> string \<Rightarrow> learning_db \<Rightarrow> (learning_discovery \<times> string) option result" where
  "get_discovery now tenant did db =
     (case find (\<lambda>x. dw_id x = did \<and> dw_tenant_id x = tenant) (db_discoveries db) of
        None \<Rightarrow> Inr None
      | Some x \<Rightarrow> rbind (row_to_discovery now x) (\<lambda>d. Inr (Some (d, dw_application_id x))))"

section \<open>Deciding\<close>

definition open_for :: "string \<Rightarrow> string set \<Rightarrow> discovery_row \<Rightarrow> bool" where
  "open_for tenant ids x = (dw_id x \<in> ids \<and> dw_tenant_id x = tenant \<and> dw_status x = ''discovered'')"

definition approve_row :: "rat \<Rightarrow> string \<Rightarrow> discovery_row \<Rightarrow> discovery_row" where
  "approve_row now actor x =
     x\<lparr>dw_status := ''approved'', dw_approved_by := Some actor, dw_approved_at := Some now\<rparr>"

definition reject_row :: "rat \<Rightarrow> string \<Rightarrow> string option \<Rightarrow> discovery_row \<Rightarrow> discovery_row" where
  "reject_row now actor reason x =
     x\<lparr>dw_status := ''rejected'', dw_approved_by := Some actor, dw_approved_at := Some now,
       dw_rejection_reason := reason\<rparr>"

definition repo_approve :: "rat \<Rightarrow> string \<Rightarrow> string \<Rightarrow> string \<Rightarrow> learning_db \<Rightarrow> bool \<times> learning_db" where
  "repo_approve now tenant did actor db =
     (case update_where (open_for tenant {did}) (approve_row now actor) (db_discoveries db) of
        (n, rows) \<Rightarrow> (n \<noteq> 0, db\<lparr>db_discoveries := rows\<rparr>))"

definition repo_reject :: "rat \<Rightarrow> string \<Rightarrow> string \<Rightarrow> string \<Rightarrow> string option \<Rightarrow> learning_db \<Rightarrow> bool \<times> learning_db" where
  "repo_reject now tenant did actor reason db =
     (case update_where (open_for tenant {did}) (reject_row now actor reason) (db_discoveries db) of
        (n, rows) \<Rightarrow> (n \<noteq> 0, db\<lparr>db_discoveries := rows\<rparr>))"

record bulk_result =
  br_processed :: nat
  br_skipped :: int
  br_discovery_ids :: "string list"

definition bulk_decide ::
  "(discovery_row \<Rightarrow> discovery_row) \<Rightarrow> string \<Rightarrow> string list \<Rightarrow> learning_db \<Rightarrow> bulk_result \<times> learning_db" where
  "bulk_decide f tenant ids db =
     (if ids = [] then (\<lparr>br_processed = 0, br_skipped = 0, br_discovery_ids = []\<rparr>, db)
      else (let changed = map dw_id (filter (open_for tenant (set ids)) (db_discoveries db))
            in (\<lparr>br_processed = length changed, br_skipped = int (length ids) - int (length changed),
                 br_discovery_ids = map trim changed\<rparr>,
                db\<lparr>db_discoveries := snd (update_where (open_for tenant (set ids)) f (db_discoveries db))\<rparr>)))"

definition bulk_approve :: "rat \<Rightarrow> string \<Rightarrow> string list \<Rightarrow> string \<Rightarrow> learning_db \<Rightarrow> bulk_result \<times> learning_db" where
  "bulk_approve now tenant ids actor db = bulk_decide (approve_row now actor) tenant ids db"

definition bulk_reject ::
  "rat \<Rightarrow> string \<Rightarrow> string list \<Rightarrow> string \<Rightarrow> string option \<Rightarrow> learning_db \<Rightarrow> bulk_result \<times> learning_db" where
  "bulk_reject now tenant ids actor reason db = bulk_decide (reject_row now actor reason) tenant ids db"

text \<open>The \<open>where\<close> clause a search builds from the parameters it is given; \<open>ilike\<close> is Postgres' pattern
  match, with the pattern of the parameter, case folded by its collation.\<close>

definition discovery_matches ::
  "(string \<Rightarrow> string \<Rightarrow> bool) \<Rightarrow> string \<Rightarrow> string option \<Rightarrow> string option \<Rightarrow> string option \<Rightarrow> rat option \<Rightarrow> string option
   \<Rightarrow> discovery_row \<Rightarrow> bool" where
  "discovery_matches ilike tenant q st ty conf rid x =
     (dw_tenant_id x = tenant \<and>
      (case given q of None \<Rightarrow> True | Some s \<Rightarrow> ilike (dw_summary x) (''%'' @ s @ ''%'')) \<and>
      (case given st of None \<Rightarrow> True | Some s \<Rightarrow> dw_status x = s) \<and>
      (case given ty of None \<Rightarrow> True | Some s \<Rightarrow> dw_type x = s) \<and>
      (case conf of None \<Rightarrow> True | Some c \<Rightarrow> c \<le> dw_confidence x) \<and>
      (case given rid of None \<Rightarrow> True | Some s \<Rightarrow> dw_run_id x = s))"

record discovery_result =
  dr0_discovery_id :: string
  dr0_run_id :: string
  dr0_application_id :: string
  dr0_type :: discovery_type
  dr0_status :: discovery_status
  dr0_summary :: string
  dr0_confidence :: rat
  dr0_delta_state :: delta_state
  dr0_warnings :: "string list"
  dr0_approval :: "learning_approval option"

definition row_to_result :: "rat \<Rightarrow> discovery_row \<Rightarrow> discovery_result result" where
  "row_to_result now x =
     rbind (row_approval now x) (\<lambda>approval.
     rbind (enum_of ''LearningDiscoveryType'' discovery_type_of (dw_type x)) (\<lambda>ty.
     rbind (enum_of ''LearningDiscoveryStatus'' discovery_status_of (dw_status x)) (\<lambda>st.
     rbind (enum_of ''LearningDeltaState'' delta_of (dw_delta_state x)) (\<lambda>delta.
     rbind (str_list_or_empty ''warnings'' (dw_warnings x)) (\<lambda>ws.
       Inr \<lparr>dr0_discovery_id = trim (dw_id x), dr0_run_id = trim (dw_run_id x),
            dr0_application_id = trim (dw_application_id x), dr0_type = ty, dr0_status = st,
            dr0_summary = trim (dw_summary x), dr0_confidence = dw_confidence x, dr0_delta_state = delta,
            dr0_warnings = ws, dr0_approval = approval\<rparr>)))))"

definition repo_search ::
  "(string \<Rightarrow> string \<Rightarrow> bool) \<Rightarrow> rat \<Rightarrow> string \<Rightarrow> string option \<Rightarrow> string option \<Rightarrow> string option \<Rightarrow> rat option
   \<Rightarrow> string option \<Rightarrow> nat \<Rightarrow> learning_db \<Rightarrow> discovery_result list result" where
  "repo_search ilike now tenant q st ty conf rid limit db =
     rmap (row_to_result now)
       (take limit (newest_first dw_created_at (discovery_matches ilike tenant q st ty conf rid) (db_discoveries db)))"

section \<open>promotion.py\<close>

definition TYPE_TO_CATEGORY :: "(discovery_type, catalogue_category) dict" where
  "TYPE_TO_CATEGORY =
     [(STATIC_SKILL_CANDIDATE, STATIC_SKILL), (D_DYNAMIC_MEMORY, DYNAMIC_MEMORY),
      (CATALOGUE_REFERENCE, LEARNING_REFERENCE)]"

definition PROMOTABLE :: "discovery_type list" where
  "PROMOTABLE = [STATIC_SKILL_CANDIDATE, D_DYNAMIC_MEMORY]"

definition should_promote :: "learning_discovery \<Rightarrow> bool" where
  "should_promote d = (ld_type d \<in> set PROMOTABLE)"

definition discovery_to_entry ::
  "rat \<Rightarrow> learning_discovery \<Rightarrow> string \<Rightarrow> string \<Rightarrow> string \<Rightarrow> catalogue_entry result" where
  "discovery_to_entry now d tenant app approved_by =
     rbind (validate_str1 ''entity_id'' (ld_discovery_id d)) (\<lambda>eid.
     rbind (validate_str1 ''tenant_id'' tenant) (\<lambda>ten.
     rbind (validate_str1 ''application_id'' app) (\<lambda>ap.
     rbind (validate_str1 ''summary'' (ld_summary d)) (\<lambda>summary.
     rbind (validate_dict ''tags'' (JDict (ld_proposed_tags d))) (\<lambda>tags.
       Inr \<lparr>en_entity_id = eid, en_tenant_id = ten, en_application_id = ap,
            en_category = the (dict_get TYPE_TO_CATEGORY (ld_type d)), en_status = C_ACTIVE, en_summary = summary,
            en_tags = tags, en_source = Some (ld_source d), en_owner = None, en_approved_by = Some (trim approved_by),
            en_approved_at = Some now, en_deleted_by = None, en_deleted_at = None, en_created_at = now,
            en_updated_at = now\<rparr>)))))"

section \<open>routes/learning.py\<close>

text \<open>The repositories of the application (absent without a database), and what a request draws from
  outside: the time and the identifier of its audit event.\<close>

record learning_state =
  le_learning :: "learning_db option"
  le_catalogue :: "catalogue_row list option"
  le_audit :: "audit_event list option"

record request_env =
  re_now :: rat
  re_uuid :: string

definition record_audit ::
  "request_env \<Rightarrow> tenant_context \<Rightarrow> string \<Rightarrow> string \<Rightarrow> string \<Rightarrow> (string, json) dict \<Rightarrow> learning_state \<Rightarrow> learning_state" where
  "record_audit v cx ev subject_type subject details s =
     s\<lparr>le_audit := map_option (audit_record (re_uuid v) (re_now v) (cx_tenant_id cx) (cx_actor_id cx) ev subject_type
       (Some subject) details) (le_audit s)\<rparr>"

definition require_promote :: "tenant_context \<Rightarrow> unit result" where
  "require_promote cx = require_role_permission cx PROMOTE_LEARNING"

definition with_learning ::
  "learning_state \<Rightarrow> (learning_db \<Rightarrow> 'a result \<times> learning_state) \<Rightarrow> 'a result \<times> learning_state" where
  "with_learning s f = (case require_repo (le_learning s) of Inl e \<Rightarrow> (Inl e, s) | Inr db \<Rightarrow> f db)"

definition with_catalogue :: "learning_state \<Rightarrow> ('a result \<times> learning_state) \<Rightarrow> 'a result \<times> learning_state" where
  "with_catalogue s x = (case require_repo (le_catalogue s) of Inl e \<Rightarrow> (Inl e, s) | Inr _ \<Rightarrow> x)"

definition with_audit :: "learning_state \<Rightarrow> ('a result \<times> learning_state) \<Rightarrow> 'a result \<times> learning_state" where
  "with_audit s x = (case require_repo (le_audit s) of Inl e \<Rightarrow> (Inl e, s) | Inr _ \<Rightarrow> x)"

definition guard_then :: "learning_state \<Rightarrow> unit result \<Rightarrow> ('a result \<times> learning_state) \<Rightarrow> 'a result \<times> learning_state" where
  "guard_then s g x = (case g of Inl e \<Rightarrow> (Inl e, s) | Inr _ \<Rightarrow> x)"

definition trigger_learning_run ::
  "learn_ext \<Rightarrow> (string, string) dict \<Rightarrow> request_env \<Rightarrow> tenant_context \<Rightarrow> string \<Rightarrow> learning_scope \<Rightarrow> trigger_type
   \<Rightarrow> learning_state \<Rightarrow> learning_report result \<times> learning_state" where
  "trigger_learning_run X mappings v cx app scope0 trig s =
     with_learning s (\<lambda>db. with_audit s (guard_then s (require_promote cx)
       (case get_previous_hashes (cx_tenant_id cx) app db of
          Inl e \<Rightarrow> (Inl e, s)
        | Inr previous \<Rightarrow>
            (let (path, warnings) = resolve_learning_path (ls_path scope0) mappings;
                 scope = (if path \<noteq> ls_path scope0 then scope0\<lparr>ls_path := path\<rparr> else scope0)
             in (case run_learning X (cx_tenant_id cx) app scope previous trig of
                   Inl e \<Rightarrow> (Inl e, s)
                 | Inr report0 \<Rightarrow>
                     (let report = (if warnings \<noteq> [] then report0\<lparr>lp_warnings := map trim (warnings @ lp_warnings report0)\<rparr>
                                    else report0)
                      in (Inr report,
                          record_audit v cx ''learning.run.triggered'' ''learning_run'' (lr_run_id (lp_run report))
                            [(''application_id'', JStr app), (''scope_path'', JStr (ls_path scope0)),
                             (''discovered_count'', JInt (int (lp_discovered_count report))),
                             (''trigger_type'', JStr (trigger_value trig))]
                            (s\<lparr>le_learning := Some (save_report (re_now v) report db)\<rparr>))))))))"

definition list_learning_runs ::
  "rat \<Rightarrow> tenant_context \<Rightarrow> string option \<Rightarrow> int \<Rightarrow> learning_state \<Rightarrow> learning_report list result" where
  "list_learning_runs now cx app limit s =
     rbind (require_repo (le_learning s)) (\<lambda>db.
       if limit < 1 \<or> 100 < limit then Inl (HTTPException 422 ''limit'')
       else list_runs now (cx_tenant_id cx) app (nat limit) db)"

definition get_learning_run :: "rat \<Rightarrow> tenant_context \<Rightarrow> string \<Rightarrow> learning_state \<Rightarrow> learning_report result" where
  "get_learning_run now cx rid s =
     rbind (require_repo (le_learning s)) (\<lambda>db.
     rbind (get_run now (cx_tenant_id cx) rid db) (\<lambda>r.
       (case r of
          None \<Rightarrow> Inl (HTTPException 404 (''Learning run '' @ [CHR 0x27] @ rid @ [CHR 0x27] @ '' not found.''))
        | Some x \<Rightarrow> Inr x)))"

definition not_open :: "string \<Rightarrow> py_exn" where
  "not_open did =
     HTTPException 404 (''Discovery '' @ [CHR 0x27] @ did @ [CHR 0x27] @ '' not found or already processed.'')"

text \<open>Look the discovery up and, if its type is promotable, write its catalogue entry.\<close>

definition promote ::
  "request_env \<Rightarrow> tenant_context \<Rightarrow> string \<Rightarrow> learning_state \<Rightarrow> bool result \<times> learning_state" where
  "promote v cx did s =
     (case le_learning s of
        None \<Rightarrow> (Inr False, s)
      | Some db \<Rightarrow>
          (case get_discovery (re_now v) (cx_tenant_id cx) did db of
             Inl e \<Rightarrow> (Inl e, s)
           | Inr None \<Rightarrow> (Inr False, s)
           | Inr (Some (d, app)) \<Rightarrow>
               if should_promote d
               then (case discovery_to_entry (re_now v) d (cx_tenant_id cx) app (cx_actor_id cx) of
                       Inl e \<Rightarrow> (Inl e, s)
                     | Inr entry \<Rightarrow>
                         (Inr True, s\<lparr>le_catalogue := map_option (\<lambda>rows. snd (catalogue_upsert (re_uuid v) (re_now v) entry rows))
                            (le_catalogue s)\<rparr>))
               else (Inr False, s)))"

record approve_response =
  ar_discovery_id :: string
  ar_approved :: bool
  ar_promoted :: bool

definition approve_discovery ::
  "request_env \<Rightarrow> tenant_context \<Rightarrow> string \<Rightarrow> string \<Rightarrow> string option \<Rightarrow> learning_state
   \<Rightarrow> approve_response result \<times> learning_state" where
  "approve_discovery v cx rid did reason s =
     with_learning s (\<lambda>db. with_catalogue s (with_audit s (guard_then s (require_promote cx)
       (case repo_approve (re_now v) (cx_tenant_id cx) did (cx_actor_id cx) db of
          (updated, db1) \<Rightarrow>
            (let s1 = s\<lparr>le_learning := Some db1\<rparr>
             in if \<not> updated then (Inl (not_open did), s1)
                else (case promote v cx did s1 of
                        (Inl e, s2) \<Rightarrow> (Inl e, s2)
                      | (Inr promoted, s2) \<Rightarrow>
                          (Inr \<lparr>ar_discovery_id = did, ar_approved = True, ar_promoted = promoted\<rparr>,
                           record_audit v cx ''learning.discovery.approved'' ''learning_discovery'' did
                             [(''run_id'', JStr rid), (''reason'', opt_json reason), (''promoted'', JBool promoted)] s2)))))))"

definition reject_discovery ::
  "request_env \<Rightarrow> tenant_context \<Rightarrow> string \<Rightarrow> string \<Rightarrow> string option \<Rightarrow> learning_state
   \<Rightarrow> string result \<times> learning_state" where
  "reject_discovery v cx rid did reason s =
     with_learning s (\<lambda>db. with_audit s (guard_then s (require_promote cx)
       (case repo_reject (re_now v) (cx_tenant_id cx) did (cx_actor_id cx) reason db of
          (updated, db1) \<Rightarrow>
            (let s1 = s\<lparr>le_learning := Some db1\<rparr>
             in if \<not> updated then (Inl (not_open did), s1)
                else (Inr did,
                      record_audit v cx ''learning.discovery.rejected'' ''learning_discovery'' did
                        [(''run_id'', JStr rid), (''reason'', opt_json reason)] s1)))))"

definition search_discoveries ::
  "(string \<Rightarrow> string \<Rightarrow> bool) \<Rightarrow> rat \<Rightarrow> tenant_context \<Rightarrow> string option \<Rightarrow> string option \<Rightarrow> string option \<Rightarrow> rat option
   \<Rightarrow> string option \<Rightarrow> int \<Rightarrow> learning_state \<Rightarrow> discovery_result list result" where
  "search_discoveries ilike now cx q st ty conf rid limit s =
     rbind (require_repo (le_learning s)) (\<lambda>db.
       if limit < 1 \<or> 200 < limit \<or> (case conf of None \<Rightarrow> False | Some c \<Rightarrow> c < 0 \<or> 1 < c)
       then Inl (HTTPException 422 ''query'')
       else repo_search ilike now (cx_tenant_id cx) q st ty conf rid (nat limit) db)"

fun promote_all ::
  "request_env \<Rightarrow> tenant_context \<Rightarrow> string list \<Rightarrow> learning_state \<Rightarrow> unit result \<times> learning_state" where
  "promote_all v cx [] s = (Inr (), s)"
| "promote_all v cx (did # dids) s =
     (case promote v cx did s of
        (Inl e, s1) \<Rightarrow> (Inl e, s1)
      | (Inr _, s1) \<Rightarrow> promote_all v cx dids s1)"

definition bulk_details :: "bulk_result \<Rightarrow> string option \<Rightarrow> (string, json) dict" where
  "bulk_details b reason =
     [(''processed'', JInt (int (br_processed b))), (''skipped'', JInt (br_skipped b)), (''reason'', opt_json reason)]"

definition no_ids :: "string list \<Rightarrow> unit result" where
  "no_ids ids = (if ids = [] then Inl (HTTPException 400 ''No discovery IDs provided.'') else Inr ())"

definition bulk_approve_discoveries ::
  "request_env \<Rightarrow> tenant_context \<Rightarrow> string list \<Rightarrow> string option \<Rightarrow> learning_state \<Rightarrow> bulk_result result \<times> learning_state" where
  "bulk_approve_discoveries v cx ids reason s =
     with_learning s (\<lambda>db. with_catalogue s (with_audit s (guard_then s (require_promote cx) (guard_then s (no_ids ids)
       (case bulk_approve (re_now v) (cx_tenant_id cx) ids (cx_actor_id cx) db of
          (b, db1) \<Rightarrow>
            (case promote_all v cx (br_discovery_ids b) (s\<lparr>le_learning := Some db1\<rparr>) of
               (Inl e, s1) \<Rightarrow> (Inl e, s1)
             | (Inr _, s1) \<Rightarrow>
                 (Inr b, record_audit v cx ''learning.discoveries.bulk_approved'' ''learning_discovery'' ''bulk''
                    (bulk_details b reason) s1)))))))"

definition bulk_reject_discoveries ::
  "request_env \<Rightarrow> tenant_context \<Rightarrow> string list \<Rightarrow> string option \<Rightarrow> learning_state \<Rightarrow> bulk_result result \<times> learning_state" where
  "bulk_reject_discoveries v cx ids reason s =
     with_learning s (\<lambda>db. with_audit s (guard_then s (require_promote cx) (guard_then s (no_ids ids)
       (case bulk_reject (re_now v) (cx_tenant_id cx) ids (cx_actor_id cx) reason db of
          (b, db1) \<Rightarrow>
            (Inr b, record_audit v cx ''learning.discoveries.bulk_rejected'' ''learning_discovery'' ''bulk''
               (bulk_details b reason) (s\<lparr>le_learning := Some db1\<rparr>))))))"

section \<open>A stored report read back\<close>

interpretation runs: upsert_table lw_id overwrite_run
  by unfold_locales (simp add: overwrite_run_def)

interpretation discoveries: upsert_table dw_id keep_old
  by unfold_locales (simp add: keep_old_def)

definition wf_learning_scope :: "learning_scope \<Rightarrow> bool" where
  "wf_learning_scope s = (contract_str1 (ls_repository s) \<and> contract_str1 (ls_branch s) \<and> contract_str1 (ls_path s) \<and>
     contract_opt (ls_domain s) \<and> contract_opt (ls_route s) \<and> list_all contract_str (ls_tags s))"

definition wf_discovery :: "learning_discovery \<Rightarrow> bool" where
  "wf_discovery d = (contract_str1 (ld_discovery_id d) \<and> contract_str1 (ld_summary d) \<and> 0 \<le> ld_confidence d \<and>
     ld_confidence d \<le> 1 \<and> wf_source (ld_source d) \<and> wf_tags (ld_proposed_tags d) \<and>
     list_all contract_str (ld_warnings d) \<and> contract_opt (dl_current_hash (ld_delta d)))"

definition wf_report :: "learning_report \<Rightarrow> bool" where
  "wf_report r = (contract_str1 (lr_run_id (lp_run r)) \<and> contract_str1 (lr_tenant_id (lp_run r)) \<and>
     contract_str1 (lr_application_id (lp_run r)) \<and> wf_learning_scope (lr_scope (lp_run r)) \<and>
     list_all wf_discovery (lr_discoveries (lp_run r)) \<and> list_all contract_str (lp_warnings r))"

lemma enum_back [simp]:
  "discovery_type_of (discovery_type_value ty) = Some ty" "discovery_status_of (discovery_status_value st) = Some st"
  "delta_of (delta_value dl) = Some dl" "trigger_of (trigger_value tr) = Some tr" "run_status_of (run_status_value rs) = Some rs"
  "framework_of (framework_value fw) = Some fw"
  subgoal by (cases ty) (simp_all add: discovery_type_of_def)
  subgoal by (cases st) (simp_all add: discovery_status_of_def)
  subgoal by (cases dl) (simp_all add: delta_of_def)
  subgoal by (cases tr) (simp_all add: trigger_of_def)
  subgoal by (cases rs) (simp_all add: run_status_of_def)
  subgoal by (cases fw) (simp_all add: framework_of_def)
  done

lemma str_list_back: "list_all contract_str xs \<Longrightarrow> as_list k (as_str k) (JList (map JStr xs)) = Inr xs"
  unfolding as_list_def by (induction xs) (simp_all add: as_str_def contract_str_def)

lemma framework_back:
  "as_opt (as_enum k framework_of) (case fw of None \<Rightarrow> JNull | Some f \<Rightarrow> JStr (framework_value f)) = Inr fw"
  by (cases fw) (simp_all add: as_opt_def as_enum_def)

lemma scope_back: "wf_learning_scope s \<Longrightarrow> scope_of_json (scope_json s) = Inr s"
  by (simp add: scope_of_json_def scope_json_def column_dict_def dict_get_or_def wf_learning_scope_def as_str1_def
      validate_str1_id opt_str_back framework_back str_list_back)

lemma discovery_source_back: "wf_source s \<Longrightarrow> discovery_source (source_json s) = Inr s"
  by (simp add: discovery_source_def source_json_def column_dict_def dict_get_or_def wf_source_def as_str1_def
      validate_str1_id opt_str_back)

lemma tags_dict_back: "wf_tags d \<Longrightarrow> validate_dict k (JDict d) = Inr d"
  using tags_fold [of "[]" d] by (simp add: wf_tags_def validate_dict_def)

text \<open>What the table does not keep of a discovery.\<close>

definition stored :: "learning_discovery \<Rightarrow> learning_discovery" where
  "stored d = d\<lparr>ld_delta := (ld_delta d)\<lparr>dl_previous_hash := None, dl_changed_fields := []\<rparr>, ld_approval := None\<rparr>"

lemma discovery_back:
  assumes "wf_discovery d"
  shows "row_to_discovery now (discovery_row_of t rn d) = Inr (stored d)"
  using assms
  by (simp add: row_to_discovery_def discovery_row_of_def wf_discovery_def discovery_source_back row_approval_def
      enum_of_def validate_str1_id tags_dict_back str_list_or_empty_def str_list_back opt_trim_back stored_def)

lemma counts_back: "as_count k (JInt (int n)) = Inr n"
  by (simp add: as_count_def)

lemma report_back:
  assumes "wf_report r" and "rmap (row_to_discovery now) ds = Inr ds'"
  shows "rows_to_report now (report_row r) ds = Inr (r\<lparr>lp_run := (lp_run r)\<lparr>lr_discoveries := ds'\<rparr>\<rparr>)"
  using assms
  by (simp add: rows_to_report_def report_row_def wf_report_def scope_back enum_of_def validate_str1_id column_dict_def
      summary_json_def dict_get_or_def counts_back str_list_back Let_def)

lemma sort_key_const: "(\<forall>x \<in> set xs. f x = c) \<Longrightarrow> sort_key f xs = xs"
  by (rule sort_key_id_if_sorted) (induction xs, auto)

lemma run_discoveries_fresh:
  assumes "\<forall>d \<in> set rows. dw_run_id d \<noteq> lr_run_id rn"
  shows "run_discoveries (lr_run_id rn) (rows @ map (discovery_row_of now rn) ds) = map (discovery_row_of now rn) ds"
proof -
  have "filter (\<lambda>d. dw_run_id d = lr_run_id rn) (rows @ map (discovery_row_of now rn) ds) = map (discovery_row_of now rn) ds"
    using assms by (auto simp: filter_empty_conv discovery_row_of_def intro!: filter_True)
  then show ?thesis unfolding run_discoveries_def by (simp add: sort_key_const [of _ _ now] discovery_row_of_def)
qed

text \<open>A report with identifiers the database has not seen.\<close>

definition fresh_report :: "learning_report \<Rightarrow> learning_db \<Rightarrow> bool" where
  "fresh_report r db =
     (lr_run_id (lp_run r) \<notin> lw_id ` set (db_runs db) \<and> lr_run_id (lp_run r) \<notin> dw_run_id ` set (db_discoveries db) \<and>
      distinct (map ld_discovery_id (lr_discoveries (lp_run r))) \<and>
      ld_discovery_id ` set (lr_discoveries (lp_run r)) \<inter> dw_id ` set (db_discoveries db) = {})"

lemma save_fresh:
  assumes "fresh_report r db"
  shows "save_report now r db =
    \<lparr>db_runs = db_runs db @ [report_row r],
     db_discoveries = db_discoveries db @ map (discovery_row_of now (lp_run r)) (lr_discoveries (lp_run r))\<rparr>"
proof -
  have id: "dw_id (discovery_row_of now rn d) = ld_discovery_id d" for rn d by (simp add: discovery_row_of_def)
  have "lw_id (report_row r) = lr_run_id (lp_run r)" by (simp add: report_row_def Let_def)
  then have "put_row lw_id overwrite_run (report_row r) (db_runs db) = db_runs db @ [report_row r]"
    using assms by (auto simp: fresh_report_def put_row_def image_iff)
  moreover have "fold (put_row dw_id keep_old) (map (discovery_row_of now (lp_run r)) (lr_discoveries (lp_run r)))
      (db_discoveries db) = db_discoveries db @ map (discovery_row_of now (lp_run r)) (lr_discoveries (lp_run r))"
    using assms by (intro discoveries.puts_fresh) (auto simp: fresh_report_def id comp_def)
  ultimately show ?thesis by (simp add: save_report_def)
qed


section \<open>Running again\<close>

lemma collect_hashes_fold:
  "list_all2 (\<lambda>x kh. row_stable_key x = Inr (fst kh) \<and> dw_content_hash x = Some (snd kh) \<and> snd kh \<noteq> []) xs khs \<Longrightarrow>
   collect_hashes xs acc = Inr (fold (\<lambda>(k, h). dict_set k h) khs acc)"
  by (induction arbitrary: acc rule: list_all2_induct) auto

lemma fold_dict_get:
  assumes "\<forall>h'. (k, h') \<in> set khs \<longrightarrow> h' = h" and "(k, h) \<in> set khs"
  shows "dict_get (fold (\<lambda>(k, h). dict_set k h) khs acc) k = Some h"
  using assms
proof (induction khs rule: rev_induct)
  case (snoc kh khs)
  obtain k' h' where kh: "kh = (k', h')" by (cases kh)
  show ?case
  proof (cases "k' = k")
    case True
    with snoc.prems(1) have "h' = h" by (auto simp: kh)
    with True show ?thesis by (simp add: kh dict_get_set)
  next
    case False
    have "dict_get (fold (\<lambda>(k, h). dict_set k h) khs acc) k = Some h"
    proof (rule snoc.IH)
      show "\<forall>h'. (k, h') \<in> set khs \<longrightarrow> h' = h" using snoc.prems(1) by simp
      show "(k, h) \<in> set khs" using snoc.prems(2) False by (simp add: kh)
    qed
    with False show ?thesis by (simp add: kh dict_get_set)
  qed
qed simp

definition pattern_key :: "extracted_pattern \<Rightarrow> string" where
  "pattern_key p = stable_key (ep_file_path p) (ep_name p)"

text \<open>Patterns whose key survives storage: contract strings, and the same hash wherever the same key.\<close>

definition keyed_patterns :: "learn_ext \<Rightarrow> extracted_pattern list \<Rightarrow> bool" where
  "keyed_patterns X ps =
     ((\<forall>p \<in> set ps. contract_str1 (ep_file_path p) \<and> contract_str (ep_name p)) \<and>
      (\<forall>p \<in> set ps. \<forall>q \<in> set ps. pattern_key p = pattern_key q \<longrightarrow> content_hash X p = content_hash X q))"

lemma made_from_row:
  assumes "made_from X previous p d" and "contract_str1 (ep_file_path p)" "contract_str (ep_name p)"
    and "contract_str1 (content_hash X p)"
  shows "row_stable_key (discovery_row_of t rn d) = Inr (pattern_key p) \<and>
    dw_content_hash (discovery_row_of t rn d) = Some (content_hash X p) \<and> content_hash X p \<noteq> []"
proof -
  from assms(1) obtain lang uid where "discovery_of X previous lang uid p = Inr d" by (auto simp: made_from_def)
  from discovery_of_Inr [OF this] assms(2-) show ?thesis
    by (simp add: row_stable_key_def column_dict_def discovery_row_of_def source_json_def dict_get_or_def opt_json_def
        py_str_def contract_str1_def contract_str_def pattern_key_def stable_key_def)
qed

text \<open>The newest completed run is the one just saved.\<close>

lemma last_completed_new:
  assumes "\<forall>x \<in> set rows. lw_tenant_id x = lw_tenant_id new \<and> lw_application_id x = lw_application_id new \<and>
      lw_status x = ''completed'' \<longrightarrow> (\<exists>u. lw_completed_at x = Some u \<and> u < done)"
    and "lw_status new = ''completed''" and "lw_completed_at new = Some done"
  shows "last_completed (lw_tenant_id new) (lw_application_id new) (rows @ [new]) = Some new"
proof -
  let ?P = "\<lambda>x. lw_tenant_id x = lw_tenant_id new \<and> lw_application_id x = lw_application_id new \<and> lw_status x = ''completed''"
  let ?t = "\<lambda>x. the (lw_completed_at x)" and ?xs = "filter ?P (rows @ [new])"
  have n: "filter (\<lambda>x. lw_completed_at x = None) ?xs = []"
    using assms by (auto simp: filter_empty_conv)
  have f: "filter (\<lambda>x. lw_completed_at x \<noteq> None) ?xs = filter ?P rows @ [new]"
    using assms by (auto intro!: filter_cong)
  have "sort_key (\<lambda>x. - ?t x) (filter ?P rows @ [new]) = new # sort_key (\<lambda>x. - ?t x) (filter ?P rows)"
  proof -
    have less: "\<forall>x \<in> set (filter ?P rows). - ?t new < - ?t x" using assms(1,3) by fastforce
    have "sort_key k (xs @ [x]) = x # sort_key k xs" if "\<forall>y \<in> set xs. k x < k y" for k :: "run_row \<Rightarrow> rat" and xs x
      using that
    proof (induction xs)
      case (Cons y xs)
      then have "sort_key k (xs @ [x]) = x # sort_key k xs" "k x < k y" by auto
      then show ?case by (simp add: not_le)
    qed simp
    from this [of "filter ?P rows" "\<lambda>x. - ?t x" new] less show ?thesis by blast
  qed
  then show ?thesis using n f by (simp add: last_completed_def newest_first_def Let_def)
qed

lemma previous_after_save:
  assumes "run_learning X tenant app scope previous trig = Inr r" and "lx_tree X (ls_path scope) = Some es"
    and "run_patterns X es ps" and "keyed_patterns X ps" and "\<forall>x. contract_str1 (lx_md5 X x)"
    and "fresh_report r db"
    and "\<forall>x \<in> set (db_runs db). lw_tenant_id x = trim tenant \<and> lw_application_id x = trim app \<and>
      lw_status x = ''completed'' \<longrightarrow> (\<exists>u. lw_completed_at x = Some u \<and> u < lx_completed X)"
  shows "\<exists>previous'. get_previous_hashes (trim tenant) (trim app) (save_report t r db) = Inr previous' \<and>
    (\<forall>p \<in> set ps. dict_get previous' (pattern_key p) = Some (content_hash X p))"
proof -
  let ?ds = "lr_discoveries (lp_run r)" and ?rows = "map (discovery_row_of t (lp_run r)) (lr_discoveries (lp_run r))"
  from run_learning_Inr [OF assms(1,2)] obtain qs where q: "run_patterns X es qs" "list_all2 (made_from X previous) qs ?ds"
    and rn: "lr_tenant_id (lp_run r) = trim tenant" "lr_application_id (lp_run r) = trim app"
      "lr_status (lp_run r) = R_COMPLETED" "lr_completed_at (lp_run r) = Some (lx_completed X)" by blast
  from run_patterns_fun [OF q(1) assms(3)] q(2) have made: "list_all2 (made_from X previous) ps ?ds" by simp
  have l: "last_completed (trim tenant) (trim app) (db_runs db @ [report_row r]) = Some (report_row r)"
    using last_completed_new [of "db_runs db" "report_row r" "lx_completed X"] assms(7)
    by (simp add: report_row_def Let_def rn)
  have rows: "filter (\<lambda>d. dw_run_id d = lw_id (report_row r) \<and> dw_content_hash d \<noteq> None)
      (db_discoveries db @ ?rows) = ?rows"
  proof -
    have "filter (\<lambda>d. dw_run_id d = lw_id (report_row r) \<and> dw_content_hash d \<noteq> None) (db_discoveries db) = []"
      using assms(6) by (auto simp: filter_empty_conv fresh_report_def report_row_def Let_def image_iff)
    moreover have "dw_run_id d = lw_id (report_row r) \<and> dw_content_hash d \<noteq> None" if "d \<in> set ?rows" for d
    proof -
      from that obtain x where x: "x \<in> set ?ds" "d = discovery_row_of t (lp_run r) x" by auto
      with made obtain p where "made_from X previous p x" by (blast dest: list_all2_right)
      with x show ?thesis
        by (auto simp: made_from_def discovery_row_of_def report_row_def Let_def dest!: discovery_of_Inr)
    qed
    ultimately show ?thesis by simp
  qed
  have h: "contract_str1 (content_hash X p)" for p using assms(5) by (simp add: content_hash_def)
  let ?khs = "map (\<lambda>p. (pattern_key p, content_hash X p)) ps"
  have "list_all2 (\<lambda>x kh. row_stable_key x = Inr (fst kh) \<and> dw_content_hash x = Some (snd kh) \<and> snd kh \<noteq> []) ?rows ?khs"
  proof (rule list_all2_all_nthI)
    show len: "length ?rows = length ?khs" using made by (simp add: list_all2_lengthD)
    fix i assume i: "i < length ?rows"
    with len made have m: "made_from X previous (ps ! i) (?ds ! i)" by (simp add: list_all2_nthD2)
    have "contract_str1 (ep_file_path (ps ! i))" "contract_str (ep_name (ps ! i))"
      using assms(4) i len by (simp_all add: keyed_patterns_def)
    from made_from_row [OF m this h, of t "lp_run r"] i len
    show "row_stable_key (?rows ! i) = Inr (fst (?khs ! i)) \<and> dw_content_hash (?rows ! i) = Some (snd (?khs ! i)) \<and>
      snd (?khs ! i) \<noteq> []" by simp
  qed
  from collect_hashes_fold [OF this, of "[]"] have
    g: "get_previous_hashes (trim tenant) (trim app) (save_report t r db) = Inr (fold (\<lambda>(k, h). dict_set k h) ?khs [])"
    unfolding get_previous_hashes_def save_fresh [OF assms(6)] learning_db.simps l option.case rows .
  have "dict_get (fold (\<lambda>(k, h). dict_set k h) ?khs []) (pattern_key p) = Some (content_hash X p)" if "p \<in> set ps" for p
  proof (rule fold_dict_get)
    show "\<forall>h'. (pattern_key p, h') \<in> set ?khs \<longrightarrow> h' = content_hash X p"
    proof (intro allI impI)
      fix h' assume "(pattern_key p, h') \<in> set ?khs"
      then obtain q where "q \<in> set ps" "pattern_key p = pattern_key q" "h' = content_hash X q" by auto
      with that assms(4) show "h' = content_hash X p" unfolding keyed_patterns_def by metis
    qed
    show "(pattern_key p, content_hash X p) \<in> set ?khs" using that by simp
  qed
  with g show ?thesis by blast
qed

text \<open>What a discovery is about, apart from its comparison with the run before.\<close>

definition finding :: "learning_discovery \<Rightarrow> discovery_type \<times> string option \<times> string option \<times> string option" where
  "finding d = (ld_type d, so0_file_path (ld_source d), so0_symbol_name (ld_source d), dl_current_hash (ld_delta d))"

lemma findings_of:
  "list_all2 (made_from X previous) ps ds \<Longrightarrow> map finding ds =
     map (\<lambda>p. (classify p, Some (trim (ep_file_path p)), Some (trim (ep_name p)), Some (trim (content_hash X p)))) ps"
  by (induction rule: list_all2_induct) (auto simp: finding_def made_from_def dest!: discovery_of_Inr)


section \<open>The life of a discovery\<close>

text \<open>The requests that write, by an authenticated caller \<open>cx\<close>.\<close>

inductive learn_step :: "tenant_context \<Rightarrow> learning_state \<Rightarrow> learning_state \<Rightarrow> bool" where
  triggered: "trigger_learning_run X mappings v cx app scope trig s = (res, s') \<Longrightarrow> learn_step cx s s'"
| approved: "approve_discovery v cx rid did reason s = (res, s') \<Longrightarrow> learn_step cx s s'"
| rejected: "reject_discovery v cx rid did reason s = (res, s') \<Longrightarrow> learn_step cx s s'"
| bulk_approved: "bulk_approve_discoveries v cx ids reason s = (res, s') \<Longrightarrow> learn_step cx s s'"
| bulk_rejected: "bulk_reject_discoveries v cx ids reason s = (res, s') \<Longrightarrow> learn_step cx s s'"

inductive learn_steps :: "learning_state \<Rightarrow> learning_state \<Rightarrow> bool" where
  no_step: "learn_steps s s"
| a_step: "learn_steps s s' \<Longrightarrow> learn_step cx s' s'' \<Longrightarrow> learn_steps s s''"

text \<open>A caller with the permission decides an open discovery of its own tenant.\<close>

definition decision :: "tenant_context \<Rightarrow> discovery_row \<Rightarrow> discovery_row \<Rightarrow> bool" where
  "decision cx x y =
     (dw_status x = ''discovered'' \<and> dw_tenant_id x = cx_tenant_id cx \<and> has_permission (cx_roles cx) PROMOTE_LEARNING \<and>
      (\<exists>now reason. y = approve_row now (cx_actor_id cx) x \<or> y = reject_row now (cx_actor_id cx) reason x))"

definition evolves :: "tenant_context \<Rightarrow> discovery_row list \<Rightarrow> discovery_row list \<Rightarrow> bool" where
  "evolves cx rows rows' =
     (\<exists>f new. rows' = map f rows @ new \<and> (\<forall>x \<in> set rows. f x = x \<or> decision cx x (f x)) \<and>
        (\<forall>y \<in> set new. dw_status y = ''discovered'' \<and> dw_tenant_id y = trim (cx_tenant_id cx)))"

lemma evolves_update:
  assumes "has_permission (cx_roles cx) PROMOTE_LEARNING"
    and "\<And>x. \<exists>now reason. f x = approve_row now (cx_actor_id cx) x \<or> f x = reject_row now (cx_actor_id cx) reason x"
  shows "evolves cx rows (snd (update_where (open_for (cx_tenant_id cx) ids) f rows))"
proof -
  let ?g = "\<lambda>x. if open_for (cx_tenant_id cx) ids x then f x else x"
  have "snd (update_where (open_for (cx_tenant_id cx) ids) f rows) = map ?g rows @ []" by (simp add: update_where_def)
  moreover have "\<forall>x \<in> set rows. ?g x = x \<or> decision cx x (?g x)"
    using assms by (simp add: decision_def open_for_def)
  ultimately show ?thesis unfolding evolves_def by fastforce
qed

lemma upserts_keep_old:
  "\<exists>new. fold (put_row dw_id keep_old) rs rows = rows @ new \<and> set new \<subseteq> set rs"
proof (induction rs arbitrary: rows)
  case (Cons r rs)
  show ?case
  proof (cases "\<exists>x \<in> set rows. dw_id x = dw_id r")
    case True
    have "map (\<lambda>x. if dw_id x = dw_id r then keep_old x r else x) rows = rows"
      by (auto simp: keep_old_def intro: map_idI)
    with True have "put_row dw_id keep_old r rows = rows" by (simp add: put_row_def)
    with Cons [of rows] show ?thesis by auto
  next
    case False
    then have "put_row dw_id keep_old r rows = rows @ [r]" by (simp add: put_row_def)
    with Cons [of "rows @ [r]"] show ?thesis by auto
  qed
qed simp

lemma run_learning_open:
  assumes "run_learning X tenant app scope previous trig = Inr r"
  shows "(\<forall>d \<in> set (lr_discoveries (lp_run r)). ld_status d = DISCOVERED) \<and> lr_tenant_id (lp_run r) = trim tenant"
proof (cases "lx_tree X (ls_path scope)")
  case None
  with assms show ?thesis by (auto simp: run_learning_def mk_run_def rbind_Inr_iff validate_str1_Inr)
next
  case (Some es)
  from run_learning_Inr [OF assms Some] obtain ps where "lr_tenant_id (lp_run r) = trim tenant"
    "list_all2 (made_from X previous) ps (lr_discoveries (lp_run r))" by blast
  then show ?thesis by (auto simp: made_from_def dest!: list_all2_right discovery_of_Inr)
qed

lemma promote_keeps: "le_learning (snd (promote v cx did s)) = le_learning s"
  by (auto simp: promote_def split: option.splits sum.splits)

lemma promote_all_keeps: "le_learning (snd (promote_all v cx dids s)) = le_learning s"
proof (induction dids arbitrary: s)
  case (Cons d dids)
  then show ?case using promote_keeps [of v cx d s] by (auto split: prod.splits sum.splits)
qed simp

lemma record_audit_keeps [simp]: "le_learning (record_audit v cx ev ty su det s) = le_learning s"
  by (simp add: record_audit_def)

lemmas learn_guards = with_learning_def with_catalogue_def with_audit_def guard_then_def require_promote_def
  require_role_permission_def require_repo_def no_ids_def

lemma evolves_refl: "evolves cx rows rows"
  unfolding evolves_def by (intro exI [of _ id] exI [of _ "[]"]) simp

lemma trigger_cases:
  assumes "trigger_learning_run X mappings v cx app scope trig s = (res, s')" and "le_learning s = Some db"
  shows "s' = s \<or> (\<exists>scope' previous r0 r. run_learning X (cx_tenant_id cx) app scope' previous trig = Inr r0 \<and>
    lp_run r = lp_run r0 \<and> le_learning s' = Some (save_report (re_now v) r db))"
proof -
  obtain path ws where p: "resolve_learning_path (ls_path scope) mappings = (path, ws)" by (cases "resolve_learning_path (ls_path scope) mappings")
  let ?sc = "if path \<noteq> ls_path scope then scope\<lparr>ls_path := path\<rparr> else scope"
  show ?thesis
  proof (cases "s' = s")
    case False
    with assms obtain previous where h: "get_previous_hashes (cx_tenant_id cx) app db = Inr previous"
      "has_permission (cx_roles cx) PROMOTE_LEARNING" "le_audit s \<noteq> None"
      by (auto simp: trigger_learning_run_def learn_guards split: sum.splits option.splits if_splits)
    with assms False p obtain r0 where r0: "run_learning X (cx_tenant_id cx) app ?sc previous trig = Inr r0"
      by (cases "run_learning X (cx_tenant_id cx) app ?sc previous trig")
        (auto simp: trigger_learning_run_def learn_guards Let_def)
    let ?r = "if ws \<noteq> [] then r0\<lparr>lp_warnings := map trim (ws @ lp_warnings r0)\<rparr> else r0"
    have "le_learning s' = Some (save_report (re_now v) ?r db)"
      using assms h r0 p by (auto simp: trigger_learning_run_def learn_guards Let_def simp del: map_append)
    moreover have "lp_run ?r = lp_run r0" by simp
    ultimately show ?thesis using r0 by blast
  qed simp
qed

lemma approve_learning:
  assumes "approve_discovery v cx rid did reason s = (res, s')" and "le_learning s = Some db"
  shows "s' = s \<or> le_learning s' = Some (snd (repo_approve (re_now v) (cx_tenant_id cx) did (cx_actor_id cx) db))"
proof -
  obtain u db1 where ra: "repo_approve (re_now v) (cx_tenant_id cx) did (cx_actor_id cx) db = (u, db1)" by fastforce
  obtain pr s2 where p: "promote v cx did (s\<lparr>le_learning := Some db1\<rparr>) = (pr, s2)" by fastforce
  from promote_keeps [of v cx did "s\<lparr>le_learning := Some db1\<rparr>"] p have "le_learning s2 = Some db1" by simp
  with assms ra p show ?thesis
    by (auto simp: approve_discovery_def learn_guards Let_def split: option.splits sum.splits if_splits)
qed

lemma bulk_approve_learning:
  assumes "bulk_approve_discoveries v cx ids reason s = (res, s')" and "le_learning s = Some db"
  shows "s' = s \<or> le_learning s' = Some (snd (bulk_approve (re_now v) (cx_tenant_id cx) ids (cx_actor_id cx) db))"
proof -
  obtain b db1 where ra: "bulk_approve (re_now v) (cx_tenant_id cx) ids (cx_actor_id cx) db = (b, db1)" by fastforce
  obtain pr s2 where p: "promote_all v cx (br_discovery_ids b) (s\<lparr>le_learning := Some db1\<rparr>) = (pr, s2)" by fastforce
  from promote_all_keeps [of v cx "br_discovery_ids b" "s\<lparr>le_learning := Some db1\<rparr>"] p
  have "le_learning s2 = Some db1" by simp
  with assms ra p show ?thesis
    by (auto simp: bulk_approve_discoveries_def learn_guards Let_def split: option.splits sum.splits if_splits)
qed

lemma reject_learning:
  assumes "reject_discovery v cx rid did reason s = (res, s')" and "le_learning s = Some db"
  shows "s' = s \<or> le_learning s' = Some (snd (repo_reject (re_now v) (cx_tenant_id cx) did (cx_actor_id cx) reason db))"
  using assms by (auto simp: reject_discovery_def learn_guards Let_def split: option.splits prod.splits if_splits)

lemma bulk_reject_learning:
  assumes "bulk_reject_discoveries v cx ids reason s = (res, s')" and "le_learning s = Some db"
  shows "s' = s \<or> le_learning s' = Some (snd (bulk_reject (re_now v) (cx_tenant_id cx) ids (cx_actor_id cx) reason db))"
  using assms by (auto simp: bulk_reject_discoveries_def learn_guards Let_def split: option.splits prod.splits if_splits)

lemma decide_row_approve: "\<exists>now' reason. approve_row now a x = approve_row now' a x \<or> approve_row now a x = reject_row now' a reason x"
  by blast

lemma decide_row_reject: "\<exists>now' reason'. reject_row now a reason x = approve_row now' a x \<or> reject_row now a reason x = reject_row now' a reason' x"
  by blast

lemma learn_step_evolves:
  assumes "learn_step cx s s'" and "le_learning s = Some db"
  shows "\<exists>db'. le_learning s' = Some db' \<and> evolves cx (db_discoveries db) (db_discoveries db')"
  using assms
proof (cases rule: learn_step.cases)
  case (triggered X mappings v app scope trig res)
  show ?thesis
  proof (cases "s' = s")
    case True
    with assms(2) show ?thesis by (simp add: evolves_refl)
  next
    case False
    with trigger_cases [OF triggered assms(2)] obtain previous scope' r0 r where
      r0: "run_learning X (cx_tenant_id cx) app scope' previous trig = Inr r0" and rn: "lp_run r = lp_run r0"
      and s': "le_learning s' = Some (save_report (re_now v) r db)" by blast
    obtain new where new: "db_discoveries (save_report (re_now v) r db) = db_discoveries db @ new"
      "set new \<subseteq> discovery_row_of (re_now v) (lp_run r) ` set (lr_discoveries (lp_run r))"
      using upserts_keep_old [of "map (discovery_row_of (re_now v) (lp_run r)) (lr_discoveries (lp_run r))" "db_discoveries db"]
      by (auto simp: save_report_def)
    from run_learning_open [OF r0] new(2)
    have "\<forall>y \<in> set new. dw_status y = ''discovered'' \<and> dw_tenant_id y = trim (cx_tenant_id cx)"
      by (auto simp: rn discovery_row_of_def)
    with new(1) s' show ?thesis unfolding evolves_def by (intro exI conjI) (auto intro!: exI [of _ id] exI [of _ new])
  qed
next
  case (approved v rid did reason res)
  show ?thesis
  proof (cases "has_permission (cx_roles cx) PROMOTE_LEARNING")
    case True
    from approve_learning [OF approved assms(2)] assms(2)
    have "le_learning s' = Some db \<or> le_learning s' = Some (db\<lparr>db_discoveries :=
        snd (update_where (open_for (cx_tenant_id cx) {did}) (approve_row (re_now v) (cx_actor_id cx)) (db_discoveries db))\<rparr>)"
      by (auto simp: repo_approve_def update_where_def)
    then show ?thesis using evolves_update [OF True decide_row_approve] evolves_refl by fastforce
  next
    case False
    with approved assms(2) have "le_learning s' = Some db"
      by (auto simp: approve_discovery_def learn_guards split: option.splits)
    then show ?thesis by (simp add: evolves_refl)
  qed
next
  case (rejected v rid did reason res)
  show ?thesis
  proof (cases "has_permission (cx_roles cx) PROMOTE_LEARNING")
    case True
    from rejected assms(2)
    have "le_learning s' = Some db \<or> le_learning s' = Some (db\<lparr>db_discoveries :=
        snd (update_where (open_for (cx_tenant_id cx) {did}) (reject_row (re_now v) (cx_actor_id cx) reason) (db_discoveries db))\<rparr>)"
      by (auto simp: reject_discovery_def learn_guards repo_reject_def update_where_def Let_def
          split: option.splits if_splits)
    then show ?thesis using evolves_update [OF True decide_row_reject] evolves_refl by fastforce
  next
    case False
    with rejected assms(2) have "le_learning s' = Some db"
      by (auto simp: reject_discovery_def learn_guards split: option.splits)
    then show ?thesis by (simp add: evolves_refl)
  qed
next
  case (bulk_approved v ids reason res)
  show ?thesis
  proof (cases "has_permission (cx_roles cx) PROMOTE_LEARNING")
    case True
    from bulk_approve_learning [OF bulk_approved assms(2)] assms(2)
    have "le_learning s' = Some db \<or> le_learning s' = Some (db\<lparr>db_discoveries :=
        snd (update_where (open_for (cx_tenant_id cx) (set ids)) (approve_row (re_now v) (cx_actor_id cx)) (db_discoveries db))\<rparr>)"
      by (auto simp: bulk_approve_def bulk_decide_def Let_def split: if_splits)
    then show ?thesis using evolves_update [OF True decide_row_approve] evolves_refl by fastforce
  next
    case False
    with bulk_approved assms(2) have "le_learning s' = Some db"
      by (auto simp: bulk_approve_discoveries_def learn_guards split: option.splits)
    then show ?thesis by (simp add: evolves_refl)
  qed
next
  case (bulk_rejected v ids reason res)
  show ?thesis
  proof (cases "has_permission (cx_roles cx) PROMOTE_LEARNING")
    case True
    from bulk_rejected assms(2)
    have "le_learning s' = Some db \<or> le_learning s' = Some (db\<lparr>db_discoveries :=
        snd (update_where (open_for (cx_tenant_id cx) (set ids)) (reject_row (re_now v) (cx_actor_id cx) reason) (db_discoveries db))\<rparr>)"
      by (auto simp: bulk_reject_discoveries_def learn_guards bulk_reject_def bulk_decide_def Let_def
          split: option.splits if_splits)
    then show ?thesis using evolves_update [OF True decide_row_reject] evolves_refl by fastforce
  next
    case False
    with bulk_rejected assms(2) have "le_learning s' = Some db"
      by (auto simp: bulk_reject_discoveries_def learn_guards split: option.splits)
    then show ?thesis by (simp add: evolves_refl)
  qed
qed

lemma save_report_distinct:
  "distinct (map dw_id (db_discoveries db)) \<Longrightarrow> distinct (map dw_id (db_discoveries (save_report now r db)))"
  by (simp add: save_report_def discoveries.puts_distinct)

lemma update_rows_distinct:
  assumes "\<And>x. dw_id (f x) = dw_id x" and "distinct (map dw_id rows)"
  shows "distinct (map dw_id (snd (update_where P f rows)))"
  using update_where_map [of dw_id f P rows] assms by simp

lemma learn_step_distinct:
  assumes "learn_step cx s s'" and "le_learning s = Some db" and "le_learning s' = Some db'"
    and "distinct (map dw_id (db_discoveries db))"
  shows "distinct (map dw_id (db_discoveries db'))"
  using assms(1)
proof (cases rule: learn_step.cases)
  case (triggered X mappings v app scope trig res)
  from trigger_cases [OF triggered assms(2)] assms show ?thesis by (auto simp: save_report_distinct)
next
  case (approved v rid did reason res)
  have "distinct (map dw_id (db_discoveries (snd (repo_approve (re_now v) (cx_tenant_id cx) did (cx_actor_id cx) db))))"
    using update_rows_distinct [OF _ assms(4), of "approve_row (re_now v) (cx_actor_id cx)"]
    by (simp add: repo_approve_def approve_row_def split: prod.split) (metis snd_conv)
  with approve_learning [OF approved assms(2)] assms show ?thesis by auto
next
  case (rejected v rid did reason res)
  have "distinct (map dw_id (db_discoveries (snd (repo_reject (re_now v) (cx_tenant_id cx) did (cx_actor_id cx) reason db))))"
    using update_rows_distinct [OF _ assms(4), of "reject_row (re_now v) (cx_actor_id cx) reason"]
    by (simp add: repo_reject_def reject_row_def split: prod.split) (metis snd_conv)
  with reject_learning [OF rejected assms(2)] assms show ?thesis by auto
next
  case (bulk_approved v ids reason res)
  have "distinct (map dw_id (db_discoveries (snd (bulk_approve (re_now v) (cx_tenant_id cx) ids (cx_actor_id cx) db))))"
    using update_rows_distinct [OF _ assms(4), of "approve_row (re_now v) (cx_actor_id cx)"] assms(4)
    by (simp add: bulk_approve_def bulk_decide_def approve_row_def Let_def)
  with bulk_approve_learning [OF bulk_approved assms(2)] assms show ?thesis by auto
next
  case (bulk_rejected v ids reason res)
  have "distinct (map dw_id (db_discoveries (snd (bulk_reject (re_now v) (cx_tenant_id cx) ids (cx_actor_id cx) reason db))))"
    using update_rows_distinct [OF _ assms(4), of "reject_row (re_now v) (cx_actor_id cx) reason"] assms(4)
    by (simp add: bulk_reject_def bulk_decide_def reject_row_def Let_def)
  with bulk_reject_learning [OF bulk_rejected assms(2)] assms show ?thesis by auto
qed

lemma learn_steps_keep:
  assumes "learn_steps s s'" and "le_learning s = Some db"
  shows "\<exists>db'. le_learning s' = Some db' \<and>
    (\<forall>x \<in> set (db_discoveries db). dw_status x \<noteq> ''discovered'' \<longrightarrow> x \<in> set (db_discoveries db')) \<and>
    (distinct (map dw_id (db_discoveries db)) \<longrightarrow> distinct (map dw_id (db_discoveries db')))"
  using assms
proof (induction rule: learn_steps.induct)
  case (a_step s s' cx s'')
  then obtain db1 where db1: "le_learning s' = Some db1"
    "\<forall>x \<in> set (db_discoveries db). dw_status x \<noteq> ''discovered'' \<longrightarrow> x \<in> set (db_discoveries db1)"
    "distinct (map dw_id (db_discoveries db)) \<longrightarrow> distinct (map dw_id (db_discoveries db1))" by blast
  from learn_step_evolves [OF a_step.hyps(2) db1(1)] obtain db2 f new where
    db2: "le_learning s'' = Some db2" "db_discoveries db2 = map f (db_discoveries db1) @ new"
    "\<forall>x \<in> set (db_discoveries db1). f x = x \<or> decision cx x (f x)" unfolding evolves_def by blast
  have "x \<in> set (db_discoveries db2)" if "x \<in> set (db_discoveries db1)" "dw_status x \<noteq> ''discovered''" for x
  proof -
    from db2(3) that have "f x = x" by (auto simp: decision_def)
    with that(1) db2(2) show ?thesis by (force simp: image_iff)
  qed
  moreover have "distinct (map dw_id (db_discoveries db1)) \<longrightarrow> distinct (map dw_id (db_discoveries db2))"
    using learn_step_distinct [OF a_step.hyps(2) db1(1) db2(1)] by blast
  ultimately show ?case using db1 db2(1) by blast
qed simp

text \<open>C20: A decided discovery is final: whatever requests follow, from whatever callers, its row, with its
  status, actor, time and reason, stays in the table as it is.\<close>

theorem decided_final:
  assumes "learn_steps s s'" and "le_learning s = Some db"
    and "x \<in> set (db_discoveries db)" and "dw_status x \<noteq> ''discovered''"
  shows "\<exists>db'. le_learning s' = Some db' \<and> x \<in> set (db_discoveries db')"
  using learn_steps_keep [OF assms(1,2)] assms(3,4) by blast

text \<open>C21: Every decision is authorised: a row that a request leaves decided, and that was not there before,
  was an open discovery of the caller's own tenant, decided by the caller, who holds the permission to
  promote; the rest of the row is unchanged.\<close>

theorem decision_authorised:
  assumes "learn_step cx s s'" and "le_learning s = Some db" and "le_learning s' = Some db'"
    and "y \<in> set (db_discoveries db')" and "y \<notin> set (db_discoveries db)" and "dw_status y \<noteq> ''discovered''"
  shows "\<exists>x \<in> set (db_discoveries db). dw_status x = ''discovered'' \<and> dw_tenant_id x = cx_tenant_id cx \<and>
    has_permission (cx_roles cx) PROMOTE_LEARNING \<and> dw_approved_by y = Some (cx_actor_id cx) \<and>
    (dw_status y = ''approved'' \<or> dw_status y = ''rejected'') \<and>
    y = x\<lparr>dw_status := dw_status y, dw_approved_by := dw_approved_by y, dw_approved_at := dw_approved_at y,
          dw_rejection_reason := dw_rejection_reason y\<rparr>"
proof -
  from learn_step_evolves [OF assms(1,2)] assms(3) obtain f new where
    f: "db_discoveries db' = map f (db_discoveries db) @ new"
    "\<forall>x \<in> set (db_discoveries db). f x = x \<or> decision cx x (f x)" "\<forall>y \<in> set new. dw_status y = ''discovered''"
    unfolding evolves_def by auto
  from assms(4,6) f(1,3) obtain x where x: "x \<in> set (db_discoveries db)" "y = f x" by auto
  with f(2) assms(5) have "decision cx x y" by auto
  with x(1) show ?thesis by (auto simp: decision_def approve_row_def reject_row_def intro!: bexI [of _ x])
qed

lemma repo_approve_done:
  "repo_approve now tenant did actor db = (True, db1) \<Longrightarrow>
   \<exists>x \<in> set (db_discoveries db). open_for tenant {did} x \<and> approve_row now actor x \<in> set (db_discoveries db1) \<and>
     db_discoveries db1 = map (\<lambda>x. if open_for tenant {did} x then approve_row now actor x else x) (db_discoveries db)"
  by (auto simp: repo_approve_def update_where_def filter_empty_conv)

lemma approve_ok:
  assumes "approve_discovery v cx rid did reason s = (Inr resp, s')"
  shows "\<exists>db db1 s2. le_learning s = Some db \<and> has_permission (cx_roles cx) PROMOTE_LEARNING \<and>
    repo_approve (re_now v) (cx_tenant_id cx) did (cx_actor_id cx) db = (True, db1) \<and>
    promote v cx did (s\<lparr>le_learning := Some db1\<rparr>) = (Inr (ar_promoted resp), s2) \<and>
    s' = record_audit v cx ''learning.discovery.approved'' ''learning_discovery'' did
      [(''run_id'', JStr rid), (''reason'', opt_json reason), (''promoted'', JBool (ar_promoted resp))] s2 \<and>
    resp = \<lparr>ar_discovery_id = did, ar_approved = True, ar_promoted = ar_promoted resp\<rparr>"
proof -
  from assms obtain db where db: "le_learning s = Some db" "has_permission (cx_roles cx) PROMOTE_LEARNING"
    by (auto simp: approve_discovery_def learn_guards split: option.splits if_splits)
  obtain u db1 where ra: "repo_approve (re_now v) (cx_tenant_id cx) did (cx_actor_id cx) db = (u, db1)" by fastforce
  obtain pr s2 where p: "promote v cx did (s\<lparr>le_learning := Some db1\<rparr>) = (pr, s2)" by fastforce
  from assms db ra p show ?thesis
    by (auto simp: approve_discovery_def learn_guards Let_def split: option.splits sum.splits if_splits)
qed

text \<open>After an approval was answered, no later request decides the same discovery again: approving or
  rejecting it, by anyone and in any later state, is answered with 404.\<close>

theorem second_decision_404:
  assumes "approve_discovery v cx rid did reason s = (Inr resp, s')" and "learn_steps s' s''"
    and "le_learning s = Some db" and "distinct (map dw_id (db_discoveries db))"
    and "has_permission (cx_roles cx') PROMOTE_LEARNING" and "le_catalogue s'' \<noteq> None" and "le_audit s'' \<noteq> None"
  shows "fst (approve_discovery v' cx' rid' did reason' s'') = Inl (not_open did) \<and>
    fst (reject_discovery v' cx' rid' did reason' s'') = Inl (not_open did)"
proof -
  from approve_ok [OF assms(1)] assms(3) obtain db1 s2 where
    ra: "repo_approve (re_now v) (cx_tenant_id cx) did (cx_actor_id cx) db = (True, db1)"
    and p: "promote v cx did (s\<lparr>le_learning := Some db1\<rparr>) = (Inr (ar_promoted resp), s2)"
    and s': "le_learning s' = le_learning s2" by auto
  have db1: "le_learning s' = Some db1" using s' p promote_keeps [of v cx did "s\<lparr>le_learning := Some db1\<rparr>"] by simp
  from repo_approve_done [OF ra] obtain x0 where
    x0: "open_for (cx_tenant_id cx) {did} x0" "approve_row (re_now v) (cx_actor_id cx) x0 \<in> set (db_discoveries db1)" by blast
  then obtain x where x: "x \<in> set (db_discoveries db1)" "dw_id x = did" "dw_status x \<noteq> ''discovered''"
    by (auto simp: open_for_def approve_row_def)
  have "distinct (map dw_id (db_discoveries db1))"
    using learn_step_distinct [OF learn_step.approved [OF assms(1)] assms(3) db1 assms(4)] .
  with learn_steps_keep [OF assms(2) db1] x obtain db2 where
    db2: "le_learning s'' = Some db2" "x \<in> set (db_discoveries db2)" "distinct (map dw_id (db_discoveries db2))" by blast
  have "\<not> open_for tenant {did} z" if z: "z \<in> set (db_discoveries db2)" for tenant z
  proof
    assume o': "open_for tenant {did} z"
    then have "dw_id z = dw_id x" using x(2) by (simp add: open_for_def)
    from distinct_key_inj [OF db2(3) z db2(2) this] o' x(3) show False by (simp add: open_for_def)
  qed
  then have none: "filter (open_for tenant {did}) (db_discoveries db2) = []" for tenant by (simp add: filter_empty_conv)
  obtain cat where "le_catalogue s'' = Some cat" using assms(6) by blast
  moreover obtain au where "le_audit s'' = Some au" using assms(7) by blast
  ultimately show ?thesis using db2(1) assms(5) none
    by (simp add: approve_discovery_def reject_discovery_def learn_guards repo_approve_def repo_reject_def update_where_def Let_def)
qed

text \<open>What \<open>promote\<close> finds and writes for a discovery that was just approved.\<close>

lemma discovery_type_back: "discovery_type_of s = Some ty \<Longrightarrow> s = discovery_type_value ty"
  by (auto simp: discovery_type_of_def find_Some_iff nth_Cons' split: if_splits)

lemma should_promote_iff:
  "should_promote d \<longleftrightarrow> discovery_type_value (ld_type d) = ''static_skill_candidate'' \<or> discovery_type_value (ld_type d) = ''dynamic_memory''"
  by (cases "ld_type d") (simp_all add: should_promote_def PROMOTABLE_def)

lemma approved_discovery:
  assumes "row_to_discovery now (approve_row now actor x) = Inr d"
  shows "dw_type x = discovery_type_value (ld_type d) \<and> ld_discovery_id d = trim (dw_id x) \<and> ld_summary d = trim (dw_summary x)"
  using assms
  by (auto simp: row_to_discovery_def rbind_Inr_iff enum_of_def validate_str1_Inr approve_row_def
      intro: discovery_type_back split: option.splits)

lemma approved_found:
  assumes "repo_approve now tenant did actor db = (True, db1)" and "distinct (map dw_id (db_discoveries db))"
  shows "\<exists>x \<in> set (db_discoveries db). open_for tenant {did} x \<and>
    find (\<lambda>z. dw_id z = did \<and> dw_tenant_id z = tenant) (db_discoveries db1) = Some (approve_row now actor x)"
proof -
  from repo_approve_done [OF assms(1)] obtain x where x: "x \<in> set (db_discoveries db)" "open_for tenant {did} x"
    "approve_row now actor x \<in> set (db_discoveries db1)" by blast
  have "map dw_id (db_discoveries db1) = map dw_id (db_discoveries db)"
    using repo_approve_done [OF assms(1)] by (auto simp: approve_row_def)
  with assms(2) have "distinct (map dw_id (db_discoveries db1))" by simp
  with x have "find (\<lambda>z. dw_id z = did \<and> dw_tenant_id z = tenant) (db_discoveries db1) = Some (approve_row now actor x)"
    by (subst find_iff_distinct) (auto simp: open_for_def approve_row_def)
  with x show ?thesis by blast
qed

lemma entry_written:
  assumes "discovery_to_entry now d tenant app actor = Inr e" and "ld_discovery_id d = trim did" and "trim did \<notin> ct_id ` set cat"
  shows "\<exists>row. snd (catalogue_upsert uid now e cat) = cat @ [row] \<and> ct_id row = trim did \<and> ct_tenant_id row = trim tenant \<and>
    ct_application_id row = trim app \<and> ct_status row = ''active'' \<and> ct_summary row = trim (ld_summary d) \<and>
    ct_approved_by row = Some (trim actor)"
proof -
  from assms(1) have e: "en_entity_id e = trim did" "en_entity_id e \<noteq> []" "en_tenant_id e = trim tenant"
    "en_application_id e = trim app" "en_status e = C_ACTIVE" "en_summary e = trim (ld_summary d)"
    "en_approved_by e = Some (trim actor)"
    by (auto simp: discovery_to_entry_def rbind_Inr_iff validate_str1_Inr assms(2) trim_idem)
  have "\<not> (\<exists>z \<in> set cat. ct_id z = ct_id (entry_row now e))"
    using assms(3) e(1) by (auto simp: entry_row_def image_iff)
  then have "snd (catalogue_upsert uid now e cat) = cat @ [entry_row now e]"
    using e(2) by (simp add: catalogue_upsert_def put_row_def)
  with e show ?thesis by (intro exI [of _ "entry_row now e"]) (simp add: entry_row_def)
qed

text \<open>C22: An approval turns exactly one open discovery of the caller's tenant into an approved one, and writes
  its catalogue entry, active and approved by the caller, exactly when its type is promotable; a
  reference only changes its status.\<close>

theorem approve_promotes:
  assumes "approve_discovery v cx rid did reason s = (Inr resp, s')"
    and "le_learning s = Some db" and "distinct (map dw_id (db_discoveries db))"
    and "le_catalogue s = Some cat" and "trim did \<notin> ct_id ` set cat"
  shows "\<exists>x \<in> set (db_discoveries db). dw_id x = did \<and> dw_tenant_id x = cx_tenant_id cx \<and> dw_status x = ''discovered'' \<and>
    ar_promoted resp = (dw_type x = ''static_skill_candidate'' \<or> dw_type x = ''dynamic_memory'') \<and>
    (case le_catalogue s' of
       None \<Rightarrow> False
     | Some cat' \<Rightarrow>
         if ar_promoted resp
         then (\<exists>row. cat' = cat @ [row] \<and> ct_id row = trim did \<and> ct_tenant_id row = trim (cx_tenant_id cx) \<and>
                 ct_application_id row = trim (dw_application_id x) \<and> ct_status row = ''active'' \<and>
                 ct_summary row = trim (dw_summary x) \<and> ct_approved_by row = Some (trim (cx_actor_id cx)))
         else cat' = cat)"
proof -
  from approve_ok [OF assms(1)] assms(2) obtain db1 s2 where
    ra: "repo_approve (re_now v) (cx_tenant_id cx) did (cx_actor_id cx) db = (True, db1)"
    and p: "promote v cx did (s\<lparr>le_learning := Some db1\<rparr>) = (Inr (ar_promoted resp), s2)"
    and s': "le_catalogue s' = le_catalogue s2" by (auto simp: record_audit_def)
  from approved_found [OF ra assms(3)] obtain x where x: "x \<in> set (db_discoveries db)" "open_for (cx_tenant_id cx) {did} x"
    and f: "find (\<lambda>z. dw_id z = did \<and> dw_tenant_id z = cx_tenant_id cx) (db_discoveries db1) =
      Some (approve_row (re_now v) (cx_actor_id cx) x)" by blast
  from p f obtain d where d: "row_to_discovery (re_now v) (approve_row (re_now v) (cx_actor_id cx) x) = Inr d"
    by (cases "row_to_discovery (re_now v) (approve_row (re_now v) (cx_actor_id cx) x)") (auto simp: promote_def get_discovery_def)
  from approved_discovery [OF d] x(2) have ty: "dw_type x = discovery_type_value (ld_type d)" "ld_discovery_id d = trim did"
    "ld_summary d = trim (dw_summary x)" by (auto simp: open_for_def)
  have step: "promote v cx did (s\<lparr>le_learning := Some db1\<rparr>) =
      (if should_promote d
       then (case discovery_to_entry (re_now v) d (cx_tenant_id cx) (dw_application_id x) (cx_actor_id cx) of
               Inl e \<Rightarrow> (Inl e, s\<lparr>le_learning := Some db1\<rparr>)
             | Inr entry \<Rightarrow> (Inr True, s\<lparr>le_learning := Some db1,
                 le_catalogue := Some (snd (catalogue_upsert (re_uuid v) (re_now v) entry cat))\<rparr>))
       else (Inr False, s\<lparr>le_learning := Some db1\<rparr>))"
    using f d by (simp add: promote_def get_discovery_def approve_row_def assms(4) split: sum.split)
  have pr: "ar_promoted resp = should_promote d" using p step by (auto split: if_splits sum.splits)
  have x': "dw_id x = did" "dw_tenant_id x = cx_tenant_id cx" "dw_status x = ''discovered''"
    using x(2) by (simp_all add: open_for_def)
  show ?thesis
  proof (cases "should_promote d")
    case True
    with p step obtain e where e: "discovery_to_entry (re_now v) d (cx_tenant_id cx) (dw_application_id x) (cx_actor_id cx) = Inr e"
      "le_catalogue s2 = Some (snd (catalogue_upsert (re_uuid v) (re_now v) e cat))" by (auto split: sum.splits)
    from entry_written [OF e(1) ty(2) assms(5), of "re_uuid v"] e(2) x(1) x' pr True show ?thesis
      by (intro bexI [of _ x]) (auto simp: s' ty(3) trim_idem should_promote_iff simp flip: ty(1))
  next
    case False
    with p step assms(4) have "le_catalogue s2 = Some cat" by auto
    with x(1) x' pr False show ?thesis
      by (intro bexI [of _ x]) (auto simp: s' should_promote_iff simp flip: ty(1))
  qed
qed

lemma decide_rows_insert:
  assumes "\<And>x. dw_status (f x) \<noteq> ''discovered''"
  shows "map (\<lambda>x. if open_for tenant ids x then f x else x) (map (\<lambda>x. if open_for tenant {did} x then f x else x) rows) =
    map (\<lambda>x. if open_for tenant (insert did ids) x then f x else x) rows"
  using assms by (auto simp: open_for_def)

text \<open>C19: Approving a list of discoveries at once leaves the table as approving them one after the other does,
  whatever the list holds (ids twice, unknown ids, ids of other tenants), and the result accounts for every
  id as processed or skipped; the same holds of rejecting.\<close>

theorem bulk_is_one_by_one:
  "snd (bulk_approve now tenant ids actor db) =
     fold (\<lambda>did db. snd (repo_approve now tenant did actor db)) ids db \<and>
   snd (bulk_reject now tenant ids actor reason db) =
     fold (\<lambda>did db. snd (repo_reject now tenant did actor reason db)) ids db \<and>
   int (br_processed (fst (bulk_approve now tenant ids actor db))) + br_skipped (fst (bulk_approve now tenant ids actor db)) =
     int (length ids)"
proof -
  have fold_map: "fold (\<lambda>did db. db\<lparr>db_discoveries := map (\<lambda>x. if open_for tenant {did} x then f x else x) (db_discoveries db)\<rparr>) ids db =
      db\<lparr>db_discoveries := map (\<lambda>x. if open_for tenant (set ids) x then f x else x) (db_discoveries db)\<rparr>"
    if f: "\<And>x. dw_status (f x) \<noteq> ''discovered''" for f
  proof (induction ids arbitrary: db)
    case Nil
    have "map (\<lambda>x. if open_for tenant {} x then f x else x) (db_discoveries db) = db_discoveries db"
      by (simp add: open_for_def)
    then show ?case by simp
  next
    case (Cons did ids)
    show ?case unfolding fold_simps Cons by (simp add: decide_rows_insert [OF f] del: map_map)
  qed
  have a: "snd (repo_approve now tenant did actor db) =
      db\<lparr>db_discoveries := map (\<lambda>x. if open_for tenant {did} x then approve_row now actor x else x) (db_discoveries db)\<rparr>"
    for did db by (simp add: repo_approve_def update_where_def)
  have b: "snd (repo_reject now tenant did actor reason db) =
      db\<lparr>db_discoveries := map (\<lambda>x. if open_for tenant {did} x then reject_row now actor reason x else x) (db_discoveries db)\<rparr>"
    for did db by (simp add: repo_reject_def update_where_def)
  have n: "map (\<lambda>x. if open_for tenant {} x then f x else x) (db_discoveries db) = db_discoveries db" for f
    by (simp add: open_for_def)
  show ?thesis
    unfolding a b using fold_map [of "approve_row now actor"] fold_map [of "reject_row now actor reason"] n
    by (simp add: approve_row_def reject_row_def bulk_approve_def bulk_reject_def bulk_decide_def update_where_def Let_def)
qed

text \<open>Without the permission to promote, every request that writes is answered with 403 and changes
  nothing.\<close>

theorem learning_guarded:
  assumes "\<not> has_permission (cx_roles cx) PROMOTE_LEARNING"
    and "le_learning s = Some db" "le_catalogue s = Some cat" "le_audit s = Some au"
  shows "\<exists>e. e = HTTPException 403 ''Permission 'learning:promote' required.'' \<and>
    trigger_learning_run X mappings v cx app scope trig s = (Inl e, s) \<and>
    approve_discovery v cx rid did reason s = (Inl e, s) \<and> reject_discovery v cx rid did reason s = (Inl e, s) \<and>
    bulk_approve_discoveries v cx ids reason s = (Inl e, s) \<and> bulk_reject_discoveries v cx ids reason s = (Inl e, s)"
  using assms
  by (simp add: trigger_learning_run_def approve_discovery_def reject_discovery_def bulk_approve_discoveries_def
      bulk_reject_discoveries_def learn_guards PROMOTE_LEARNING_def)

section \<open>Examples\<close>

definition demo_discovery_row :: "string \<Rightarrow> string \<Rightarrow> discovery_row" where
  "demo_discovery_row i ty =
     \<lparr>dw_id = i, dw_run_id = ''r1'', dw_tenant_id = ''acme'', dw_application_id = ''web'', dw_type = ty,
      dw_status = ''discovered'', dw_delta_state = ''new'', dw_summary = ''page'', dw_confidence = 1,
      dw_source = JDict [(''type'', JStr ''file_scan''), (''reference'', JStr ''a.py'')], dw_proposed_tags = JDict [],
      dw_content_hash = Some ''h'', dw_warnings = JList [], dw_approved_by = None, dw_approved_at = None,
      dw_rejection_reason = None, dw_created_at = 1\<rparr>"

definition demo_learning_state :: learning_state where
  "demo_learning_state =
     \<lparr>le_learning = Some \<lparr>db_runs = [], db_discoveries = [demo_discovery_row ''d1'' ''dynamic_memory'', demo_discovery_row ''d2'' ''catalogue_reference'']\<rparr>,
      le_catalogue = Some [], le_audit = Some []\<rparr>"

definition demo_env :: request_env where
  "demo_env = \<lparr>re_now = 5, re_uuid = ''ev''\<rparr>"

definition demo_maintainer :: tenant_context where
  "demo_maintainer = \<lparr>cx_tenant_id = ''acme'', cx_actor_id = ''mia'', cx_roles = [''maintainer''], cx_permissions = []\<rparr>"

definition demo_approval :: "approve_response result \<times> learning_state" where
  "demo_approval = approve_discovery demo_env demo_maintainer ''r1'' ''d1'' None demo_learning_state"

lemma demo_approval_ok:
  "demo_approval = (Inr \<lparr>ar_discovery_id = ''d1'', ar_approved = True, ar_promoted = True\<rparr>, snd demo_approval)"
proof -
  have "fst demo_approval = Inr \<lparr>ar_discovery_id = ''d1'', ar_approved = True, ar_promoted = True\<rparr>" by code_simp
  then show ?thesis by (metis prod.collapse)
qed

lemma demo_learning_state_db:
  "le_learning demo_learning_state = Some \<lparr>db_runs = [], db_discoveries = [demo_discovery_row ''d1'' ''dynamic_memory'', demo_discovery_row ''d2'' ''catalogue_reference'']\<rparr>"
  "le_catalogue demo_learning_state = Some []" "le_audit demo_learning_state = Some []"
  "distinct (map dw_id [demo_discovery_row ''d1'' ''dynamic_memory'', demo_discovery_row ''d2'' ''catalogue_reference''])"
  by (simp_all add: demo_learning_state_def demo_discovery_row_def)

lemma approve_promotes_witness:
  "\<exists>cat'. le_catalogue (snd demo_approval) = Some cat' \<and> map ct_status cat' = [''active'']"
proof -
  have "trim ''d1'' \<notin> ct_id ` set []" by simp
  from approve_promotes [OF demo_approval_ok [unfolded demo_approval_def] demo_learning_state_db(1) _ demo_learning_state_db(2) this] demo_learning_state_db(4)
  show ?thesis by (auto simp: demo_approval_def split: option.splits)
qed

lemma second_decision_404_witness:
  "fst (reject_discovery demo_env demo_maintainer ''r1'' ''d1'' None (snd demo_approval)) = Inl (not_open ''d1'')"
proof -
  have p: "has_permission (cx_roles demo_maintainer) PROMOTE_LEARNING" by code_simp
  have n: "le_catalogue (snd demo_approval) \<noteq> None" "le_audit (snd demo_approval) \<noteq> None" by code_simp+
  from second_decision_404 [OF demo_approval_ok [unfolded demo_approval_def] learn_steps.no_step demo_learning_state_db(1) _ p
      n(1) [unfolded demo_approval_def] n(2) [unfolded demo_approval_def]] demo_learning_state_db(4)
  show ?thesis unfolding demo_approval_def by simp
qed

lemma decided_final_witness:
  "\<exists>db' x. le_learning (snd (reject_discovery demo_env demo_maintainer ''r1'' ''d2'' None (snd demo_approval))) = Some db' \<and>
     x \<in> set (db_discoveries db') \<and> dw_id x = ''d1'' \<and> dw_approved_by x = Some ''mia''"
proof -
  let ?x = "approve_row 5 ''mia'' (demo_discovery_row ''d1'' ''dynamic_memory'')"
  let ?s = "snd (reject_discovery demo_env demo_maintainer ''r1'' ''d2'' None (snd demo_approval))"
  have "learn_steps (snd demo_approval) ?s"
    by (rule learn_steps.a_step [OF learn_steps.no_step learn_step.rejected [OF prod.collapse [symmetric]]])
  moreover obtain db where "le_learning (snd demo_approval) = Some db" "?x \<in> set (db_discoveries db)"
  proof -
    have "case le_learning (snd demo_approval) of None \<Rightarrow> False | Some db \<Rightarrow> ?x = hd (db_discoveries db) \<and> db_discoveries db \<noteq> []"
      by code_simp
    then show ?thesis using that by (auto split: option.splits)
  qed
  ultimately obtain db' where "le_learning ?s = Some db'" "?x \<in> set (db_discoveries db')"
    using decided_final [of "snd demo_approval" ?s _ ?x] by (auto simp: approve_row_def)
  then show ?thesis by (intro exI [of _ db'] exI [of _ ?x]) (simp add: approve_row_def demo_discovery_row_def)
qed

lemma decision_authorised_witness:
  "\<exists>x \<in> set [demo_discovery_row ''d1'' ''dynamic_memory'', demo_discovery_row ''d2'' ''catalogue_reference'']. dw_tenant_id x = cx_tenant_id demo_maintainer"
proof -
  let ?x = "approve_row 5 ''mia'' (demo_discovery_row ''d1'' ''dynamic_memory'')"
  have st: "learn_step demo_maintainer demo_learning_state (snd demo_approval)"
    unfolding demo_approval_def by (rule learn_step.approved [OF prod.collapse [symmetric]])
  have c: "case le_learning (snd demo_approval) of None \<Rightarrow> False | Some db \<Rightarrow> ?x = hd (db_discoveries db) \<and> db_discoveries db \<noteq> []"
    by code_simp
  then obtain db' where db': "le_learning (snd demo_approval) = Some db'" "?x \<in> set (db_discoveries db')"
    by (auto split: option.splits)
  have "dw_status ?x \<noteq> ''discovered''" by (simp add: approve_row_def)
  moreover have "?x \<notin> set [demo_discovery_row ''d1'' ''dynamic_memory'', demo_discovery_row ''d2'' ''catalogue_reference'']"
    by (auto simp: approve_row_def demo_discovery_row_def)
  ultimately show ?thesis using decision_authorised [OF st demo_learning_state_db(1) db'] by auto
qed

lemma learning_guarded_witness:
  "fst (approve_discovery demo_env demo_reader ''r1'' ''d1'' None demo_learning_state) =
     Inl (HTTPException 403 ''Permission 'learning:promote' required.'')"
proof -
  have "\<not> has_permission (cx_roles demo_reader) PROMOTE_LEARNING" by code_simp
  from learning_guarded [OF this demo_learning_state_db(1-3)] show ?thesis by (metis fst_conv)
qed

definition demo_discovery :: learning_discovery where
  "demo_discovery =
     \<lparr>ld_discovery_id = ''d1'', ld_type = D_DYNAMIC_MEMORY, ld_status = DISCOVERED,
      ld_delta = \<lparr>dl_state = D_CHANGED, dl_previous_hash = Some ''g'', dl_current_hash = Some ''h'', dl_changed_fields = []\<rparr>,
      ld_summary = ''s'', ld_confidence = 1,
      ld_source = \<lparr>so0_type = ''file_scan'', so0_reference = ''a.py'', so0_file_path = Some ''a.py'', so0_symbol_name = Some ''f'',
        so0_commit_id = None, so0_scan_id = None\<rparr>,
      ld_proposed_tags = [(''file'', JStr ''a.py'')], ld_approval = None, ld_warnings = [''w'']\<rparr>"

definition demo_saved :: learning_report where
  "demo_saved =
     \<lparr>lp_run = \<lparr>lr_run_id = ''r1'', lr_tenant_id = ''acme'', lr_application_id = ''web'', lr_scope = demo_scope,
        lr_trigger_type = MANUAL, lr_status = R_COMPLETED, lr_discoveries = [demo_discovery], lr_started_at = 2,
        lr_completed_at = Some 1\<rparr>,
      lp_discovered_count = 0, lp_changed_count = 1, lp_removed_count = 0, lp_unchanged_count = 0,
      lp_rejected_count = 0, lp_warnings = []\<rparr>"

definition empty_db :: learning_db where
  "empty_db = \<lparr>db_runs = [], db_discoveries = []\<rparr>"



end
