(* ===== verification/Selfhost.thy ===== *)
theory Selfhost
  imports Credentials
begin

text \<open>
  The administration routes of runtime credentials, \<open>api/routes/credentials.py\<close> and
  \<open>api/routes/mem0.py\<close>, and the manager of a self-hosted Mem0, \<open>selfhost/mem0.py\<close>. A route maps the
  authenticated context, the validated body and the files to a response and the files after it.
\<close>

section \<open>selfhost/mem0.py\<close>

definition has_line_break :: "string \<Rightarrow> bool" where
  "has_line_break s = (CHR 0x0A \<in> set s \<or> CHR 0x0D \<in> set s)"

definition escape_env :: "string \<Rightarrow> string" where
  "escape_env s = replace_chr CHR 0x22 [CHR 0x5C, CHR 0x22] (replace_chr CHR 0x5C [CHR 0x5C, CHR 0x5C] s)"

definition env_line :: "string \<Rightarrow> string \<Rightarrow> string result" where
  "env_line k v =
     (let clean = strip v
      in if clean = [] then Inl (ValueError (k @ '' must not be empty.''))
         else if has_line_break clean then Inl (ValueError (k @ '' must not contain line breaks.''))
         else Inr (k @ ''='' @ [CHR 0x22] @ escape_env clean @ [CHR 0x22]))"

record mem0_manager =
  mm_secrets_dir :: string
  mm_project_dir :: string
  mm_docker_control_enabled :: bool
  mm_compose_command :: "string list"
  mm_timeout_seconds :: nat

record mem0_start_result =
  sr_env_file :: string
  sr_start_status :: string
  sr_started :: bool
  sr_message :: string
  sr_command :: "string list"

datatype docker_outcome = CommandNotFound | TimeoutExpired | Completed int string string

definition env_file_path :: "mem0_manager \<Rightarrow> string" where
  "env_file_path m = path_join (mm_secrets_dir m) ''mem0-selfhost.env''"

definition write_env_file ::
  "mem0_manager \<Rightarrow> string \<Rightarrow> string \<Rightarrow> string \<Rightarrow> fs \<Rightarrow> string result \<times> fs" where
  "write_env_file m openai_key admin_key jwt fs =
     (case rmap (\<lambda>(k, v). env_line k v)
             [(''OPENAI_API_KEY'', openai_key), (''MEM0_ADMIN_API_KEY'', admin_key),
              (''MEM0_JWT_SECRET'', jwt), (''MEM0_AUTH_DISABLED'', ''false''),
              (''MEM0_DASHBOARD_URL'', ''http://localhost:3000'')] of
        Inl e \<Rightarrow> (Inl e, fs)
      | Inr ls \<Rightarrow> (Inr (env_file_path m), dict_set (env_file_path m) (join nl ls @ nl) fs))"

definition start_command :: "mem0_manager \<Rightarrow> string \<Rightarrow> string list" where
  "start_command m env_file = mm_compose_command m @
     [''--env-file'', env_file, ''-f'', ''docker-compose.yml'', ''-f'', ''docker-compose.mem0.yml'',
      ''up'', ''-d'', ''mem0'', ''mem0-postgres'']"

definition docker_failure_message :: "string \<Rightarrow> string \<Rightarrow> string" where
  "docker_failure_message stdout stderr =
     (let detail = splitlines (strip (if stderr \<noteq> [] then stderr else stdout))
      in if detail \<noteq> [] then last detail else ''Docker Compose startup failed.'')"

definition configure ::
  "(string \<Rightarrow> string) \<Rightarrow> (string list \<Rightarrow> docker_outcome) \<Rightarrow> mem0_manager \<Rightarrow> string \<Rightarrow> string \<Rightarrow> string \<Rightarrow> bool \<Rightarrow> fs
   \<Rightarrow> mem0_start_result result \<times> fs" where
  "configure resolve docker m openai_key admin_key jwt start_containers fs =
     (case write_env_file m openai_key admin_key jwt fs of
        (Inl e, fs1) \<Rightarrow> (Inl e, fs1)
      | (Inr env_file, fs1) \<Rightarrow>
          (let command = start_command m env_file;
               result = (\<lambda>status started message.
                 \<lparr>sr_env_file = env_file, sr_start_status = status, sr_started = started,
                  sr_message = message, sr_command = command\<rparr>);
               project = resolve (mm_project_dir m)
           in (Inr (if \<not> start_containers then
                 result ''skipped'' False
                   ''Saved self-hosted Mem0 environment values. Container startup was skipped.''
               else if \<not> mm_docker_control_enabled m then
                 result ''disabled'' False
                   (''Saved self-hosted Mem0 environment values. Docker startup is disabled; '' @
                    ''set TOTALRECALL_ADMIN_DOCKER_CONTROL_ENABLED=true to allow admin UI startup.'')
               else if dict_get fs1 (path_join project ''docker-compose.yml'') = None then
                 result ''failed'' False (''docker-compose.yml was not found under '' @ project @ ''.'')
               else if dict_get fs1 (path_join project ''docker-compose.mem0.yml'') = None then
                 result ''failed'' False (''docker-compose.mem0.yml was not found under '' @ project @ ''.'')
               else (case docker command of
                   CommandNotFound \<Rightarrow>
                     result ''failed'' False ''Docker Compose command was not found in the API process PATH.''
                 | TimeoutExpired \<Rightarrow>
                     result ''failed'' False
                       (''Docker Compose startup timed out after '' @ nat_str (mm_timeout_seconds m) @ '' seconds.'')
                 | Completed code out err \<Rightarrow>
                     if code \<noteq> 0 then result ''failed'' False (docker_failure_message out err)
                     else result ''started'' True ''Self-hosted Mem0 containers are starting.'')), fs1)))"

section \<open>api/routes/credentials.py\<close>

definition memory_activation_flags :: flag_values where
  "memory_activation_flags =
     [(''memory.adapter'', JStr ''mem0_v1''), (''memory.write_enabled'', JBool True),
      (''memory.fail_open_on_search'', JBool True)]"

definition activate_memory :: "string \<Rightarrow> fs \<Rightarrow> fs" where
  "activate_memory dir fs = fold (\<lambda>(k, v). store_set dir k v) memory_activation_flags fs"

definition list_runtime_credentials ::
  "string \<Rightarrow> tenant_context \<Rightarrow> fs \<Rightarrow> credential_status list result" where
  "list_runtime_credentials dir cx fs =
     rbind (require_role_permission cx MANAGE_CREDENTIALS) (\<lambda>_. list_statuses dir fs)"

record mutation_response =
  mu_key :: string
  mu_configured :: bool
  mu_ref :: "string option"
  mu_updated_at :: "string option"
  mu_activated :: bool
  mu_runtime_flags :: flag_values

definition upsert_runtime_credential ::
  "string \<Rightarrow> string \<Rightarrow> tenant_context \<Rightarrow> string \<Rightarrow> string \<Rightarrow> bool \<Rightarrow> fs \<Rightarrow> mutation_response result \<times> fs" where
  "upsert_runtime_credential dir now cx k v activate fs =
     (case require_role_permission cx MANAGE_CREDENTIALS of
        Inl e \<Rightarrow> (Inl e, fs)
      | Inr _ \<Rightarrow>
          (case cred_upsert dir now k (trim v) fs of
             (Inl (KeyError m), fs1) \<Rightarrow> (Inl (HTTPException 404 (repr_str m)), fs1)
           | (Inl (ValueError m), fs1) \<Rightarrow> (Inl (HTTPException 422 m), fs1)
           | (Inl e, fs1) \<Rightarrow> (Inl e, fs1)
           | (Inr r, fs1) \<Rightarrow>
               (let act = activate \<and> k = ''mem0_api_key''
                in (Inr \<lparr>mu_key = cm_key r, mu_configured = True, mu_ref = cm_ref r,
                       mu_updated_at = cm_updated_at r, mu_activated = act,
                       mu_runtime_flags = (if act then memory_activation_flags else [])\<rparr>,
                    if act then activate_memory dir fs1 else fs1))))"

definition delete_runtime_credential ::
  "string \<Rightarrow> tenant_context \<Rightarrow> string \<Rightarrow> fs \<Rightarrow> mutation_response result \<times> fs" where
  "delete_runtime_credential dir cx k fs =
     (case require_role_permission cx MANAGE_CREDENTIALS of
        Inl e \<Rightarrow> (Inl e, fs)
      | Inr _ \<Rightarrow>
          (case cred_delete dir k fs of
             (Inl (KeyError m), fs1) \<Rightarrow> (Inl (HTTPException 404 (repr_str m)), fs1)
           | (Inl e, fs1) \<Rightarrow> (Inl e, fs1)
           | (Inr r, fs1) \<Rightarrow>
               (Inr \<lparr>mu_key = cm_key r, mu_configured = False, mu_ref = None, mu_updated_at = None,
                   mu_activated = False, mu_runtime_flags = []\<rparr>, fs1)))"

section \<open>api/routes/mem0.py\<close>

record mem0_start_request =
  mq0_openai_api_key :: string
  mq0_admin_api_key :: string
  mq0_jwt_secret :: string
  mq0_host :: string
  mq0_start_containers :: bool
  mq0_activate :: bool

text \<open>Validation of the body: every string is stripped, then its length is checked.\<close>

definition mk_start_request ::
  "string \<Rightarrow> string \<Rightarrow> string \<Rightarrow> string \<Rightarrow> bool \<Rightarrow> bool \<Rightarrow> mem0_start_request result" where
  "mk_start_request key admin jwt host start act =
     rbind (validate_str1 ''openai_api_key'' key) (\<lambda>key1.
     rbind (validate_str1 ''mem0_admin_api_key'' admin) (\<lambda>admin1.
     rbind (if length (trim jwt) < 16 then Inl (ValidationError ''mem0_jwt_secret'') else Inr (trim jwt)) (\<lambda>jwt1.
     rbind (validate_str1 ''mem0_host'' host) (\<lambda>host1.
       Inr \<lparr>mq0_openai_api_key = key1, mq0_admin_api_key = admin1, mq0_jwt_secret = jwt1, mq0_host = host1,
            mq0_start_containers = start, mq0_activate = act\<rparr>))))"

record mem0_start_response =
  mp_started :: bool
  mp_start_status :: string
  mp_message :: string
  mp_env_file :: string
  mp_host :: string
  mp_command :: "string list"
  mp_runtime_flags :: flag_values

text \<open>The upserts of a request, one after the other; the first failure stops them.\<close>

fun upsert_all :: "string \<Rightarrow> string \<Rightarrow> (string \<times> string) list \<Rightarrow> fs \<Rightarrow> unit result \<times> fs" where
  "upsert_all dir now [] fs = (Inr (), fs)"
| "upsert_all dir now ((k, v) # kvs) fs =
     (case cred_upsert dir now k v fs of
        (Inl e, fs1) \<Rightarrow> (Inl e, fs1)
      | (Inr _, fs1) \<Rightarrow> upsert_all dir now kvs fs1)"

definition start_self_hosted_mem0 ::
  "(string \<Rightarrow> string) \<Rightarrow> (string list \<Rightarrow> docker_outcome) \<Rightarrow> mem0_manager \<Rightarrow> string \<Rightarrow> tenant_context \<Rightarrow>
   mem0_start_request \<Rightarrow> fs \<Rightarrow> mem0_start_response result \<times> fs" where
  "start_self_hosted_mem0 resolve docker m now cx body fs =
     (let dir = mm_secrets_dir m;
          unprocessable = (\<lambda>e. case e of ValueError msg \<Rightarrow> HTTPException 422 msg | _ \<Rightarrow> e)
      in case require_role_permission cx MANAGE_CREDENTIALS of
        Inl e \<Rightarrow> (Inl e, fs)
      | Inr _ \<Rightarrow>
          (case upsert_all dir now
                  [(''openai_api_key'', mq0_openai_api_key body), (''mem0_api_key'', mq0_admin_api_key body),
                   (''mem0_jwt_secret'', mq0_jwt_secret body), (''mem0_host'', mq0_host body)] fs of
             (Inl e, fs1) \<Rightarrow> (Inl (unprocessable e), fs1)
           | (Inr _, fs1) \<Rightarrow>
               (let fs2 = (if mq0_activate body then activate_memory dir fs1 else fs1)
                in case configure resolve docker m (mq0_openai_api_key body) (mq0_admin_api_key body)
                          (mq0_jwt_secret body) (mq0_start_containers body) fs2 of
                     (Inl e, fs3) \<Rightarrow> (Inl (unprocessable e), fs3)
                   | (Inr r, fs3) \<Rightarrow>
                       (Inr \<lparr>mp_started = sr_started r, mp_start_status = sr_start_status r,
                           mp_message = sr_message r, mp_env_file = sr_env_file r, mp_host = mq0_host body,
                           mp_command = sr_command r,
                           mp_runtime_flags = (if mq0_activate body then memory_activation_flags else [])\<rparr>,
                        fs3))))"


section \<open>Properties\<close>

lemma activate_memory_other:
  "path \<noteq> flags_file dir \<Longrightarrow> dict_get (activate_memory dir fs) path = dict_get fs path"
  by (simp add: activate_memory_def memory_activation_flags_def store_set_def store_write_def dict_get_set)

text \<open>The administration routes are closed to everyone but administrators: for any other caller
  each of them answers 403 and leaves every file as it was.\<close>

theorem credential_routes_guarded:
  assumes "''admin'' \<notin> set (cx_roles cx)"
  shows "(\<exists>m. list_runtime_credentials dir cx fs = Inl (HTTPException 403 m)) \<and>
    (\<exists>m. upsert_runtime_credential dir now cx k v act fs = (Inl (HTTPException 403 m), fs)) \<and>
    (\<exists>m. delete_runtime_credential dir cx k fs = (Inl (HTTPException 403 m), fs)) \<and>
    (\<exists>m. start_self_hosted_mem0 resolve docker mgr now cx body fs = (Inl (HTTPException 403 m), fs))"
proof -
  have "\<not> has_permission (cx_roles cx) MANAGE_CREDENTIALS"
    using assms by (simp add: has_permission_iff role_grants)
  then obtain m where "require_role_permission cx MANAGE_CREDENTIALS = Inl (HTTPException 403 m)"
    by (simp add: require_role_permission_def)
  then show ?thesis
    by (simp add: list_runtime_credentials_def upsert_runtime_credential_def
        delete_runtime_credential_def start_self_hosted_mem0_def)
qed

definition some_reader :: tenant_context where
  "some_reader = \<lparr>cx_tenant_id = ''t'', cx_actor_id = ''a'', cx_roles = [''maintainer''], cx_permissions = []\<rparr>"

theorem credential_routes_guarded_witness:
  "\<exists>m. delete_runtime_credential ''s'' some_reader ''mem0_host'' [(''s/mem0_host'', ''h'')] =
     (Inl (HTTPException 403 m), [(''s/mem0_host'', ''h'')])"
  by (rule credential_routes_guarded [THEN conjunct2, THEN conjunct2, THEN conjunct1])
    (simp add: some_reader_def)

text \<open>Listing credentials never reveals a secret: the answer depends only on the manifest and on which
  credentials exist, not on what any credential file contains.\<close>

theorem list_hides_secrets:
  assumes "dict_get fs (manifest_path dir) = dict_get fs' (manifest_path dir)"
    and "\<forall>k. supported_key k \<longrightarrow> (dict_get fs (path_join dir k) = None) = (dict_get fs' (path_join dir k) = None)"
  shows "list_runtime_credentials dir cx fs = list_runtime_credentials dir cx fs'"
proof -
  have m: "read_manifest dir fs = read_manifest dir fs'"
    by (simp add: read_manifest_def assms(1))
  have "credential_status_of dir fs d = credential_status_of dir fs' d"
    if "d \<in> set SUPPORTED_RUNTIME_CREDENTIALS" for d
  proof -
    from that have "supported_key (cd_key d)" by (auto simp: supported_key_def list_ex_iff)
    with assms(2) m show ?thesis by (simp add: credential_status_of_def secret_path_def)
  qed
  then have "rmap (credential_status_of dir fs) SUPPORTED_RUNTIME_CREDENTIALS =
      rmap (credential_status_of dir fs') SUPPORTED_RUNTIME_CREDENTIALS"
    by (intro rmap_cong) auto
  then show ?thesis by (simp add: list_runtime_credentials_def list_statuses_def)
qed

theorem list_hides_secrets_witness:
  "list_runtime_credentials ''s'' some_reader [(''s/mem0_host'', ''secret1'')] =
     list_runtime_credentials ''s'' some_reader [(''s/mem0_host'', ''secret2'')]"
  by (rule list_hides_secrets) (simp_all add: manifest_path_def path_join_def)

lemma upsert_four:
  assumes "supported_key k1" "supported_key k2" "supported_key k3" "supported_key k4"
    and "distinct [k1, k2, k3, k4]"
    and "strip v1 \<noteq> []" "strip v2 \<noteq> []" "strip v3 \<noteq> []" "strip v4 \<noteq> []"
  shows "\<exists>fs1. upsert_all dir now [(k1, v1), (k2, v2), (k3, v3), (k4, v4)] fs = (Inr (), fs1) \<and>
    dict_get fs1 (path_join dir k2) = Some (strip v2 @ nl)"
proof -
  define u where "u k v fs = snd (cred_upsert dir now k v fs)" for k v fs
  have step: "upsert_all dir now ((k, v) # kvs) fs = upsert_all dir now kvs (u k v fs)"
    if "supported_key k" "strip v \<noteq> []" for k v kvs fs
    using upsert_files [OF that supported_paths(1) [OF that(1), of dir], of now fs]
    by (cases "cred_upsert dir now k v fs") (auto simp: u_def ok_iff)
  have get: "dict_get (u k v fs) (path_join dir k') =
      (if k' = k then Some (strip v @ nl) else dict_get fs (path_join dir k'))"
    if "supported_key k" "supported_key k'" "strip v \<noteq> []" for k k' v fs
    using upsert_files [OF that(1,3) supported_paths(1) [OF that(2), of dir], of now fs] that(1,2)
    by (simp add: u_def)
  show ?thesis
    using assms by (intro exI [of _ "u k4 v4 (u k3 v3 (u k2 v2 (u k1 v1 fs)))"]) (simp add: step get del: upsert_all.simps(2))
qed

text \<open>A rejected start is not undone: when the API key has a line break inside, the route answers 422,
  but the credentials of the request are already stored and, if asked for, memory is activated.\<close>

theorem start_rejected_after_writes:
  assumes "''admin'' \<in> set (cx_roles cx)"
    and "has_line_break (strip (mq0_openai_api_key body))"
    and "strip (mq0_admin_api_key body) \<noteq> []" "strip (mq0_jwt_secret body) \<noteq> []" "strip (mq0_host body) \<noteq> []"
    and "start_self_hosted_mem0 resolve docker mgr now cx body fs = (r, fs')"
  shows "r = Inl (HTTPException 422 ''OPENAI_API_KEY must not contain line breaks.'') \<and>
    cred_get (mm_secrets_dir mgr) fs' ''mem0_api_key'' = Inr (strip (mq0_admin_api_key body))"
proof -
  let ?dir = "mm_secrets_dir mgr"
  let ?kvs = "[(''openai_api_key'', mq0_openai_api_key body), (''mem0_api_key'', mq0_admin_api_key body),
     (''mem0_jwt_secret'', mq0_jwt_secret body), (''mem0_host'', mq0_host body)]"
  have sup: "supported_key ''openai_api_key''" "supported_key ''mem0_api_key''"
    "supported_key ''mem0_jwt_secret''" "supported_key ''mem0_host''"
    by (simp_all add: supported_key_def SUPPORTED_RUNTIME_CREDENTIALS_def)
  have key: "strip (mq0_openai_api_key body) \<noteq> []"
    using assms(2) by (auto simp: has_line_break_def)
  obtain fs1 where up: "upsert_all ?dir now ?kvs fs = (Inr (), fs1)"
    and f1: "dict_get fs1 (path_join ?dir ''mem0_api_key'') = Some (strip (mq0_admin_api_key body) @ nl)"
    using upsert_four [OF sup, of "mq0_openai_api_key body" "mq0_admin_api_key body" "mq0_jwt_secret body"
        "mq0_host body" ?dir now fs] key assms(3-5) by auto
  have perm: "require_role_permission cx MANAGE_CREDENTIALS = Inr ()"
    using assms(1) by (auto simp: require_role_permission_def has_permission_iff role_grants)
  have conf: "configure resolve docker mgr (mq0_openai_api_key body) a j s fs2 =
      (Inl (ValueError ''OPENAI_API_KEY must not contain line breaks.''), fs2)" for a j s fs2
    using key assms(2) by (simp add: configure_def write_env_file_def env_line_def Let_def)
  have "fs' = (if mq0_activate body then activate_memory ?dir fs1 else fs1)"
    and r: "r = Inl (HTTPException 422 ''OPENAI_API_KEY must not contain line breaks.'')"
    using assms(6) by (simp_all add: start_self_hosted_mem0_def Let_def perm up conf
        del: upsert_all.simps split: if_splits)
  then have "dict_get fs' (path_join ?dir ''mem0_api_key'') = Some (strip (mq0_admin_api_key body) @ nl)"
    using f1 supported_paths(2) [OF sup(2)] by (simp add: activate_memory_other)
  then show ?thesis using r sup(2) assms(3) by (simp add: cred_get_file)
qed


definition demo_admin :: tenant_context where
  "demo_admin = \<lparr>cx_tenant_id = ''t'', cx_actor_id = ''a'', cx_roles = [''admin''], cx_permissions = []\<rparr>"

definition demo_start :: mem0_start_request where
  "demo_start = \<lparr>mq0_openai_api_key = ''a'' @ nl @ ''b'', mq0_admin_api_key = ''k'', mq0_jwt_secret = ''j'',
     mq0_host = ''h'', mq0_start_containers = True, mq0_activate = True\<rparr>"

definition demo_manager :: mem0_manager where
  "demo_manager = \<lparr>mm_secrets_dir = ''s'', mm_project_dir = ''.'', mm_docker_control_enabled = False,
     mm_compose_command = [''docker'', ''compose''], mm_timeout_seconds = 180\<rparr>"

theorem start_rejected_after_writes_witness:
  "cred_get (mm_secrets_dir demo_manager) (snd (start_self_hosted_mem0 id (\<lambda>_. CommandNotFound) demo_manager ''now'' demo_admin demo_start []))
     ''mem0_api_key'' = Inr ''k''"
proof -
  have s: "strip ''k'' = ''k''" "strip ''j'' = ''j''" "strip ''h'' = ''h''"
    and n: "has_line_break (strip (''a'' @ nl @ ''b''))"
    by (simp_all add: strip_def strip_by_def rstrip_by_def is_space_def has_line_break_def nl_def)
  show ?thesis
    using start_rejected_after_writes [of demo_admin demo_start id "\<lambda>_. CommandNotFound" demo_manager "''now''" "[]"] s n
    by (cases "start_self_hosted_mem0 id (\<lambda>_. CommandNotFound) demo_manager ''now'' demo_admin demo_start []")
      (simp add: demo_admin_def demo_start_def)
qed

end
