(* ===== verification/Platform.thy ===== *)
theory Platform
  imports Flags Auth
begin

text \<open>
  The plumbing around the application: \<open>totalrecall/storage/database.py\<close>, \<open>storage/pool.py\<close> and
  \<open>storage/migrations.py\<close>, the request id middleware \<open>observability/middleware.py\<close>, and the routes
  \<open>api/routes/health.py\<close> and \<open>api/routes/system.py\<close>. Opening a connection and running the text of a migration
  are parameters.
\<close>

section \<open>database.py and pool.py\<close>

text \<open>\<open>s.replace(old, new, 1)\<close> for a non-empty \<open>old\<close>.\<close>

fun replace_first :: "string \<Rightarrow> string \<Rightarrow> string \<Rightarrow> string" where
  "replace_first old new [] = []"
| "replace_first old new (c # cs) =
     (if prefix old (c # cs) then new @ drop (length old) (c # cs) else c # replace_first old new cs)"

definition to_asyncpg_dsn :: "string \<Rightarrow> string" where
  "to_asyncpg_dsn url = replace_first ''postgresql+asyncpg://'' ''postgresql://'' url"

definition db_connect :: "(string \<Rightarrow> 'c result) \<Rightarrow> string \<Rightarrow> 'c result" where
  "db_connect connect url = connect (to_asyncpg_dsn url)"

definition check_database :: "(string \<Rightarrow> 'c result) \<Rightarrow> ('c \<Rightarrow> int result) \<Rightarrow> string \<Rightarrow> bool result" where
  "check_database connect select_one url =
     rbind (db_connect connect url) (\<lambda>c. rbind (select_one c) (\<lambda>x. Inr (x = 1)))"

text \<open>Every failure to connect is swallowed: the application then runs without a database.\<close>

definition create_pool :: "(string \<Rightarrow> 'c result) \<Rightarrow> string \<Rightarrow> 'c option" where
  "create_pool connect url = (case connect (to_asyncpg_dsn url) of Inl _ \<Rightarrow> None | Inr c \<Rightarrow> Some c)"

section \<open>migrations.py\<close>

text \<open>
  The database is \<open>(db, versions)\<close>: the content the migrations change and the rows of \<open>schema_migrations\<close>.
  \<open>exec\<close> runs one SQL text; a failed statement rolls its transaction back and is raised. \<open>files\<close> are the names
  and texts of the migrations directory.
\<close>

definition migration_files :: "(string \<times> string) list \<Rightarrow> (string \<times> string) list" where
  "migration_files files = sort_key fst (filter (\<lambda>f. suffix ''.sql'' (fst f)) files)"

fun run_migrations ::
  "(string \<Rightarrow> 'd \<Rightarrow> 'd result) \<Rightarrow> string list \<Rightarrow> (string \<times> string) list \<Rightarrow> string list \<Rightarrow> 'd \<times> string list
   \<Rightarrow> string list result \<times> 'd \<times> string list" where
  "run_migrations exec existing [] applied d = (Inr applied, d)"
| "run_migrations exec existing ((version, sql) # fs) applied (db, versions) =
     (if version \<in> set existing then run_migrations exec existing fs applied (db, versions)
      else (case exec sql db of
              Inl e \<Rightarrow> (Inl e, db, versions)
            | Inr db1 \<Rightarrow> run_migrations exec existing fs (applied @ [version]) (db1, versions @ [version])))"

definition apply_migrations ::
  "(string \<Rightarrow> 'd \<Rightarrow> 'd result) \<Rightarrow> (string \<times> string) list \<Rightarrow> 'd \<times> string list \<Rightarrow> string list result \<times> 'd \<times> string list" where
  "apply_migrations exec files d = run_migrations exec (snd d) (migration_files files) [] d"

definition migrations_main :: "string list \<Rightarrow> string" where
  "migrations_main applied =
     (if applied \<noteq> [] then ''Applied migrations: '' @ join '', '' applied else ''No migrations to apply.'')"

section \<open>The request id\<close>

record http_response =
  hr_status :: nat
  hr_headers :: "(string, string) dict"

definition request_id_of :: "string \<Rightarrow> string option \<Rightarrow> string" where
  "request_id_of uuid header = (case header of None \<Rightarrow> uuid | Some h \<Rightarrow> if h = [] then uuid else h)"

definition dispatch_request ::
  "string \<Rightarrow> string option \<Rightarrow> (string \<Rightarrow> http_response result) \<Rightarrow> http_response result" where
  "dispatch_request uuid header call_next =
     (let rid = request_id_of uuid header
      in rbind (call_next rid) (\<lambda>resp. Inr (resp\<lparr>hr_headers := dict_set ''X-Request-ID'' rid (hr_headers resp)\<rparr>)))"

section \<open>health.py and system.py\<close>

definition version_string :: string where
  "version_string = ''0.1.0''"

definition health :: "string \<Rightarrow> string \<Rightarrow> (string, string) dict" where
  "health service environment =
     [(''status'', ''ok''), (''service'', service), (''environment'', environment), (''version'', version_string)]"

definition whoami :: "tenant_context \<Rightarrow> (string, json) dict" where
  "whoami cx =
     [(''tenant_id'', JStr (cx_tenant_id cx)), (''actor_id'', JStr (cx_actor_id cx)),
      (''roles'', JList (map JStr (cx_roles cx))), (''permissions'', JList (map JStr (cx_permissions cx)))]"

definition system_flags ::
  "http \<Rightarrow> fs \<Rightarrow> rat \<Rightarrow> string \<Rightarrow> tenant_context \<Rightarrow> flag_provider \<Rightarrow> (string, json) dict \<times> flag_provider" where
  "system_flags http fs now rid cx p =
     (let (values, p1) = snapshot http fs now p
      in ([(''tenant_id'', JStr (cx_tenant_id cx)), (''actor_id'', JStr (cx_actor_id cx)),
           (''request_id'', JStr rid), (''flags'', JDict [(''values'', JDict values)])], p1))"

section \<open>Migrations are applied once and in order\<close>

definition pending :: "(string \<times> string) list \<Rightarrow> string list \<Rightarrow> (string \<times> string) list" where
  "pending files versions = filter (\<lambda>f. fst f \<notin> set versions) (migration_files files)"

text \<open>The texts run one after the other.\<close>

fun exec_all :: "(string \<Rightarrow> 'd \<Rightarrow> 'd result) \<Rightarrow> string list \<Rightarrow> 'd \<Rightarrow> 'd result" where
  "exec_all exec [] db = Inr db"
| "exec_all exec (sql # sqls) db = (case exec sql db of Inl e \<Rightarrow> Inl e | Inr db1 \<Rightarrow> exec_all exec sqls db1)"

lemma exec_all_append: "exec_all exec (xs @ ys) db = rbind (exec_all exec xs db) (exec_all exec ys)"
  by (induction xs arbitrary: db) (auto split: sum.splits)

lemma run_migrations_prefix:
  assumes "run_migrations exec existing fs applied (db, versions) = (x, db1, versions1)"
  shows "\<exists>ran rest. filter (\<lambda>f. fst f \<notin> set existing) fs = ran @ rest \<and>
     exec_all exec (map snd ran) db = Inr db1 \<and> versions1 = versions @ map fst ran \<and>
     (case rest of [] \<Rightarrow> x = Inr (applied @ map fst ran) | f # _ \<Rightarrow> \<exists>e. exec (snd f) db1 = Inl e \<and> x = Inl e)"
  using assms
proof (induction fs arbitrary: applied db versions)
  case Nil
  then show ?case by auto
next
  case (Cons f fs)
  obtain v sql where f: "f = (v, sql)" by (cases f)
  show ?case
  proof (cases "v \<in> set existing")
    case True
    with Cons.IH [of applied db versions] Cons.prems show ?thesis by (simp add: f)
  next
    case new: False
    show ?thesis
    proof (cases "exec sql db")
      case (Inl e)
      with Cons.prems new show ?thesis
        by (intro exI [of _ "[]"] exI [of _ "f # filter (\<lambda>f. fst f \<notin> set existing) fs"]) (simp add: f)
    next
      case (Inr db2)
      with Cons.prems new Cons.IH [of "applied @ [v]" db2 "versions @ [v]"] obtain ran' rest
        where "filter (\<lambda>f. fst f \<notin> set existing) fs = ran' @ rest" "exec_all exec (map snd ran') db2 = Inr db1"
          "versions1 = (versions @ [v]) @ map fst ran'"
          "case rest of [] \<Rightarrow> x = Inr ((applied @ [v]) @ map fst ran') | f # _ \<Rightarrow> \<exists>e. exec (snd f) db1 = Inl e \<and> x = Inl e"
        by (auto simp: f)
      with new Inr show ?thesis
        by - (rule exI [of _ "(v, sql) # ran'"], rule exI [of _ rest], auto simp: f split: list.splits)
    qed
  qed
qed

lemma apply_migrations_prefix:
  assumes "apply_migrations exec files d = (x, db1, versions1)"
  obtains ran rest where "pending files (snd d) = ran @ rest" "exec_all exec (map snd ran) (fst d) = Inr db1"
    "versions1 = snd d @ map fst ran" "rest = [] \<Longrightarrow> x = Inr (map fst ran)"
    "\<And>f fs. rest = f # fs \<Longrightarrow> \<exists>e. exec (snd f) db1 = Inl e \<and> x = Inl e"
proof -
  from assms have "run_migrations exec (snd d) (migration_files files) [] (fst d, snd d) = (x, db1, versions1)"
    by (simp add: apply_migrations_def)
  from run_migrations_prefix [OF this] obtain ran rest where
    r: "filter (\<lambda>f. fst f \<notin> set (snd d)) (migration_files files) = ran @ rest"
    "exec_all exec (map snd ran) (fst d) = Inr db1" "versions1 = snd d @ map fst ran"
    "case rest of [] \<Rightarrow> x = Inr ([] @ map fst ran) | f # _ \<Rightarrow> \<exists>e. exec (snd f) db1 = Inl e \<and> x = Inl e"
    by (elim exE conjE) blast
  show thesis
    by (rule that [of ran rest]) (use r in \<open>auto simp: pending_def\<close>)
qed

text \<open>Migrations are applied in the order of their names and each at most once: a run applies a prefix of the
  pending ones and records exactly these; it answers with all of them, or raises the error of the first one that
  fails, whose statement leaves no trace.\<close>

theorem migrations_prefix:
  "\<exists>ran rest. pending files (snd d) = ran @ rest \<and>
     (case apply_migrations exec files d of (x, db1, versions1) \<Rightarrow>
        exec_all exec (map snd ran) (fst d) = Inr db1 \<and> versions1 = snd d @ map fst ran \<and>
        (case rest of [] \<Rightarrow> x = Inr (map fst ran) | f # _ \<Rightarrow> \<exists>e. exec (snd f) db1 = Inl e \<and> x = Inl e))"
proof -
  obtain x db1 versions1 where r: "apply_migrations exec files d = (x, db1, versions1)"
    by (cases "apply_migrations exec files d") auto
  show ?thesis
    by (rule apply_migrations_prefix [OF r]) (rule exI, rule exI, auto simp: r split: list.splits)
qed

text \<open>C29: A migration run that is interrupted by a failure can be resumed: with the cause repaired the second run
  applies exactly what the first left out, and both together are one run over the repaired files.\<close>

theorem migrations_resume:
  assumes "apply_migrations exec files d = (x, d1)" and "distinct (map fst files)"
    and "exec_all exec' (map snd (pending files (snd d))) (fst d) = Inr final"
    and "\<forall>sql db y. exec sql db = Inr y \<longrightarrow> exec' sql db = Inr y"
  shows "\<exists>applied. apply_migrations exec' files d1 = (Inr applied, final, snd d @ map fst (pending files (snd d)))"
proof -
  obtain db1 versions1 where d1: "d1 = (db1, versions1)" by (cases d1)
  from assms(1) [unfolded d1] obtain ran rest where
    p: "pending files (snd d) = ran @ rest" and e: "exec_all exec (map snd ran) (fst d) = Inr db1"
      and v: "versions1 = snd d @ map fst ran"
    by (rule apply_migrations_prefix)
  have mono: "exec_all exec sqls db = Inr y \<Longrightarrow> exec_all exec' sqls db = Inr y" for sqls db y
    by (induction sqls arbitrary: db) (auto simp: assms(4) split: sum.splits)
  have fin: "exec_all exec' (map snd rest) db1 = Inr final"
    using assms(3) mono [OF e] by (simp add: p exec_all_append)
  have dist: "distinct (map fst (ran @ rest))"
    using assms(2) by (auto simp: p [symmetric] pending_def migration_files_def distinct_map inj_on_def)
  have rest: "pending files versions1 = rest"
  proof -
    have "pending files versions1 = filter (\<lambda>f. fst f \<notin> fst ` set ran) (pending files (snd d))"
      by (auto simp: pending_def v intro: filter_cong)
    also have "\<dots> = rest"
    proof -
      have "filter (\<lambda>f. fst f \<notin> fst ` set ran) rest = rest" using dist by (auto intro: filter_True)
      moreover have "filter (\<lambda>f. fst f \<notin> fst ` set ran) ran = []" by (simp add: filter_empty_conv)
      ultimately show ?thesis by (simp add: p)
    qed
    finally show ?thesis .
  qed
  obtain y db2 versions2 where r2: "apply_migrations exec' files d1 = (y, db2, versions2)"
    by (cases "apply_migrations exec' files d1") auto
  from r2 obtain ran' rest'
    where r: "rest = ran' @ rest'" "exec_all exec' (map snd ran') db1 = Inr db2" "versions2 = versions1 @ map fst ran'"
      "rest' = [] \<Longrightarrow> y = Inr (map fst ran')" "\<And>f fs. rest' = f # fs \<Longrightarrow> \<exists>e. exec' (snd f) db2 = Inl e \<and> y = Inl e"
    by (rule apply_migrations_prefix) (simp add: d1 rest)
  have "rest' = []"
    using fin r(1,2) r(5) by (cases rest') (auto simp: exec_all_append split: sum.splits)
  with r r2 fin show ?thesis by (auto simp: v p)
qed

text \<open>Migrating twice is migrating once.\<close>

lemma migrations_idempotent:
  assumes "apply_migrations exec files d = (Inr applied, d1)" and "distinct (map fst files)"
  shows "apply_migrations exec files d1 = (Inr [], d1)"
proof -
  obtain db1 versions1 where d1: "d1 = (db1, versions1)" by (cases d1)
  from assms(1) [unfolded d1] obtain ran rest where
    r: "pending files (snd d) = ran @ rest" "versions1 = snd d @ map fst ran"
      "\<And>f fs. rest = f # fs \<Longrightarrow> \<exists>e. exec (snd f) db1 = Inl e \<and> Inr applied = (Inl e :: string list result)"
    by (rule apply_migrations_prefix) blast
  then have "rest = []" by (cases rest) auto
  have "fst f \<in> set versions1" if "f \<in> set (migration_files files)" for f
  proof (cases "fst f \<in> set (snd d)")
    case False
    with that have "f \<in> set (pending files (snd d))" by (simp add: pending_def)
    then show ?thesis by (simp add: r \<open>rest = []\<close>)
  qed (simp add: r)
  then have "pending files versions1 = []" by (simp add: pending_def filter_empty_conv)
  moreover have "run_migrations exec versions fs applied (db, vs) = (Inr applied, db, vs)"
    if "filter (\<lambda>f. fst f \<notin> set versions) fs = []" for versions fs applied db vs
    using that by (induction fs) (auto split: if_splits)
  ultimately show ?thesis by (simp add: apply_migrations_def d1 pending_def)
qed

section \<open>The request id comes back\<close>

text \<open>The request id of a request, or a fresh one when the request has none or an empty one, is handed to the
  handler and is the one and only \<open>X-Request-ID\<close> of the answer, whatever header the handler set itself; the rest of
  the answer is the handler's.\<close>

theorem request_id_echoed:
  assumes "call_next (request_id_of uuid header) = Inr resp"
  shows "\<exists>r. dispatch_request uuid header call_next = Inr r \<and> hr_status r = hr_status resp \<and>
    dict_get (hr_headers r) ''X-Request-ID'' = Some (case header of Some (c # cs) \<Rightarrow> c # cs | _ \<Rightarrow> uuid) \<and>
    (\<forall>k. k \<noteq> ''X-Request-ID'' \<longrightarrow> dict_get (hr_headers r) k = dict_get (hr_headers resp) k)"
  using assms
  by (auto simp: dispatch_request_def Let_def request_id_of_def dict_get_set split: option.splits list.splits)

section \<open>Connections\<close>

lemma replace_first_none: "\<not> sublist old s \<Longrightarrow> replace_first old new s = s"
proof (induction s)
  case (Cons c cs)
  then have "\<not> prefix old (c # cs)" "\<not> sublist old cs" by (auto simp: sublist_Cons_right)
  with Cons.IH show ?case by simp
qed simp

lemma dsn_plain: "\<not> sublist ''postgresql+asyncpg://'' url \<Longrightarrow> to_asyncpg_dsn url = url"
  by (simp add: to_asyncpg_dsn_def replace_first_none)

lemma dsn_dialect: "to_asyncpg_dsn (''postgresql+asyncpg://'' @ rest) = ''postgresql://'' @ rest"
  by (simp add: to_asyncpg_dsn_def)

section \<open>Witnesses\<close>

definition demo_exec :: "bool \<Rightarrow> string \<Rightarrow> string list \<Rightarrow> string list result" where
  "demo_exec repaired sql db = (if sql = ''bad'' \<and> \<not> repaired then Inl (OtherError ''PostgresError'' ''syntax'') else Inr (db @ [sql]))"

lemma migrations_resume_witness:
  "snd (apply_migrations (demo_exec False) [(''2.sql'', ''bad''), (''1.sql'', ''a''), (''3.sql'', ''c''), (''x.txt'', ''d'')] ([], [])) = ([''a''], [''1.sql'']) \<and>
   (\<exists>applied. apply_migrations (demo_exec True) [(''2.sql'', ''bad''), (''1.sql'', ''a''), (''3.sql'', ''c''), (''x.txt'', ''d'')] ([''a''], [''1.sql'']) =
      (Inr applied, [''a'', ''bad'', ''c''], [''1.sql'', ''2.sql'', ''3.sql'']))"
proof -
  let ?files = "[(''2.sql'', ''bad''), (''1.sql'', ''a''), (''3.sql'', ''c''), (''x.txt'', ''d'')]"
  have one: "snd (apply_migrations (demo_exec False) ?files ([], [])) = ([''a''], [''1.sql''])" by code_simp
  have two: "exec_all (demo_exec True) (map snd (pending ?files (snd (([], []) :: string list \<times> string list)))) (fst ([], [])) = Inr [''a'', ''bad'', ''c'']"
    by code_simp
  have three: "snd ([], []) @ map fst (pending ?files (snd (([], []) :: string list \<times> string list))) = [''1.sql'', ''2.sql'', ''3.sql'']"
    by code_simp
  obtain x where x: "apply_migrations (demo_exec False) ?files ([], []) = (x, [''a''], [''1.sql''])"
    using one by (cases "apply_migrations (demo_exec False) ?files ([], [])") auto
  have "\<forall>sql db y. demo_exec False sql db = Inr y \<longrightarrow> demo_exec True sql db = Inr y"
    by (auto simp: demo_exec_def split: if_splits)
  from migrations_resume [OF x _ two this] one three show ?thesis by auto
qed

lemma request_id_echoed_witness:
  "\<exists>r. dispatch_request ''u'' (Some ''r-1'') (\<lambda>rid. Inr \<lparr>hr_status = 200, hr_headers = [(''X-Request-ID'', ''other'')]\<rparr>) = Inr r \<and>
     dict_get (hr_headers r) ''X-Request-ID'' = Some ''r-1''"
  using request_id_echoed [of "\<lambda>rid. Inr \<lparr>hr_status = 200, hr_headers = [(''X-Request-ID'', ''other'')]\<rparr>" "''u''" "Some ''r-1''"]
  by auto

end
