(* ===== verification/Cli.thy ===== *)
theory Cli
  imports Auth JsonRoundtrip
begin

text \<open>
  The command line client, \<open>totalrecall/cli\<close>: the HTTP client of \<open>client.py\<close> and the commands over it. The network is
  the parameter \<open>net\<close>; the parsing of options and the question of \<open>click.confirm\<close> are left to click, so a command takes its
  options as arguments. What a command prints and its exit code are its result; an exception it does not catch is \<open>Inl\<close>.
\<close>

section \<open>client.py\<close>

datatype http_outcome = Reply string | HttpError nat string | NoAnswer py_exn

record http_request =
  rq_method :: string
  rq_url :: string
  rq_headers :: "(string, string) dict"
  rq_body :: "string option"

type_synonym net = "http_request \<Rightarrow> http_outcome"

record api_client =
  cl_base_url :: string
  cl_token :: string

definition mk_client :: "string \<Rightarrow> string \<Rightarrow> api_client" where
  "mk_client base_url token = \<lparr>cl_base_url = rstrip_chr ''/'' base_url, cl_token = token\<rparr>"

definition api_error :: "nat \<Rightarrow> json \<Rightarrow> py_exn" where
  "api_error status detail = OtherError ''ApiError'' (''HTTP '' @ nat_str status @ '': '' @ py_str detail)"

definition error_detail :: "string \<Rightarrow> json" where
  "error_detail text =
     (case loads text of Inr (JDict d) \<Rightarrow> dict_get_or d ''detail'' (JStr text) | _ \<Rightarrow> JStr text)"

definition api_call :: "api_client \<Rightarrow> string \<Rightarrow> string \<Rightarrow> json option \<Rightarrow> http_request" where
  "api_call c http_method path body =
     \<lparr>rq_method = http_method, rq_url = cl_base_url c @ path,
      rq_headers = [(''Authorization'', ''Bearer '' @ cl_token c), (''Content-Type'', ''application/json''),
        (''Accept'', ''application/json'')],
      rq_body = map_option dumps body\<rparr>"

definition api_request :: "net \<Rightarrow> api_client \<Rightarrow> string \<Rightarrow> string \<Rightarrow> json option \<Rightarrow> json result" where
  "api_request net c http_method path body =
     (case net (api_call c http_method path body) of
        Reply text \<Rightarrow>
          (case loads text of
             Inr j \<Rightarrow> Inr j | Inl e \<Rightarrow> Inl (OtherError ''JSONDecodeError'' (json_error_str text e)))
      | HttpError status text \<Rightarrow> Inl (api_error status (error_detail text))
      | NoAnswer e \<Rightarrow> Inl e)"

definition api_generate :: "net \<Rightarrow> api_client \<Rightarrow> json \<Rightarrow> json result" where
  "api_generate net c payload = api_request net c ''POST'' ''/v1/generations'' (Some payload)"

definition catalogue_path :: "(string, json) dict \<Rightarrow> string" where
  "catalogue_path params =
     (let qs = join ''&'' (map (\<lambda>(k, v). k @ ''='' @ py_str v) (filter (\<lambda>kv. snd kv \<noteq> JNull) params))
      in if qs \<noteq> [] then ''/v1/catalogue?'' @ qs else ''/v1/catalogue'')"

definition api_search_catalogue :: "net \<Rightarrow> api_client \<Rightarrow> (string, json) dict \<Rightarrow> json result" where
  "api_search_catalogue net c params = api_request net c ''GET'' (catalogue_path params) None"

definition api_get_catalogue_entry :: "net \<Rightarrow> api_client \<Rightarrow> string \<Rightarrow> json result" where
  "api_get_catalogue_entry net c eid = api_request net c ''GET'' (''/v1/catalogue/'' @ eid) None"

definition api_delete_memory :: "net \<Rightarrow> api_client \<Rightarrow> string \<Rightarrow> string \<Rightarrow> string option \<Rightarrow> json result" where
  "api_delete_memory net c eid app reason =
     api_request net c ''DELETE'' (''/v1/memories/'' @ eid)
       (Some (JDict [(''application_id'', JStr app), (''reason'', opt_json reason)]))"

definition api_trigger_learning_run :: "net \<Rightarrow> api_client \<Rightarrow> json \<Rightarrow> json result" where
  "api_trigger_learning_run net c payload = api_request net c ''POST'' ''/v1/learning/runs'' (Some payload)"

definition api_get_learning_run :: "net \<Rightarrow> api_client \<Rightarrow> string \<Rightarrow> json result" where
  "api_get_learning_run net c rid = api_request net c ''GET'' (''/v1/learning/runs/'' @ rid) None"

definition api_list_learning_runs :: "net \<Rightarrow> api_client \<Rightarrow> string option \<Rightarrow> json result" where
  "api_list_learning_runs net c app =
     api_request net c ''GET''
       (''/v1/learning/runs'' @ (case app of None \<Rightarrow> [] | Some a \<Rightarrow> if a = [] then [] else ''?application_id='' @ a)) None"

section \<open>Values of a decoded answer\<close>

definition json_get :: "json \<Rightarrow> string \<Rightarrow> json \<Rightarrow> json result" where
  "json_get j k dflt = (case j of JDict d \<Rightarrow> Inr (dict_get_or d k dflt) | _ \<Rightarrow> Inl (OtherError ''AttributeError'' ''get''))"

definition json_item :: "json \<Rightarrow> string \<Rightarrow> json result" where
  "json_item j k =
     (case j of
        JDict d \<Rightarrow> (case dict_get d k of None \<Rightarrow> Inl (KeyError k) | Some v \<Rightarrow> Inr v)
      | _ \<Rightarrow> Inl (TypeError ''indices''))"

definition json_iter :: "json \<Rightarrow> json list result" where
  "json_iter j =
     (case j of
        JList xs \<Rightarrow> Inr xs | JDict d \<Rightarrow> Inr (map JStr (dict_keys d)) | JStr s \<Rightarrow> Inr (map (\<lambda>c. JStr [c]) s)
      | _ \<Rightarrow> Inl (TypeError ''not iterable''))"

definition json_slice :: "nat \<Rightarrow> json \<Rightarrow> json result" where
  "json_slice n j =
     (case j of JStr s \<Rightarrow> Inr (JStr (take n s)) | JList xs \<Rightarrow> Inr (JList (take n xs)) | _ \<Rightarrow> Inl (TypeError ''not subscriptable''))"

text \<open>\<open>f"{value:36s}"\<close>: only a string has the format; it is padded on the right.\<close>

definition pad_right :: "nat \<Rightarrow> json \<Rightarrow> string result" where
  "pad_right w j =
     (case j of
        JStr s \<Rightarrow> Inr (s @ replicate (w - length s) CHR '' '')
      | JInt _ \<Rightarrow> Inl (ValueError ''Unknown format code'') | JFloat _ \<Rightarrow> Inl (ValueError ''Unknown format code'')
      | JNaN \<Rightarrow> Inl (ValueError ''Unknown format code'') | JInf _ \<Rightarrow> Inl (ValueError ''Unknown format code'')
      | JBool _ \<Rightarrow> Inl (ValueError ''Unknown format code'')
      | _ \<Rightarrow> Inl (TypeError ''unsupported format string''))"

section \<open>Commands\<close>

record cli_exit =
  ce_out :: "string list"
  ce_err :: "string list"
  ce_code :: int

definition finish_with :: "string list \<Rightarrow> cli_exit" where
  "finish_with ls = \<lparr>ce_out = ls, ce_err = [], ce_code = 0\<rparr>"

text \<open>\<open>except ApiError\<close>: the error goes to standard error and the command exits with 1.\<close>

definition with_answer :: "json result \<Rightarrow> (json \<Rightarrow> cli_exit result) \<Rightarrow> cli_exit result" where
  "with_answer r k =
     (case r of
        Inr j \<Rightarrow> k j
      | Inl e \<Rightarrow>
          if exn_name e = ''ApiError'' then Inr \<lparr>ce_out = [], ce_err = [''Error: '' @ exn_str e], ce_code = 1\<rparr> else Inl e)"

definition json_output :: "json \<Rightarrow> cli_exit" where
  "json_output j = finish_with [dumps_indent 0 j]"

definition generate_payload ::
  "string \<Rightarrow> string \<Rightarrow> string \<Rightarrow> string \<Rightarrow> string \<Rightarrow> string \<Rightarrow> string \<Rightarrow> bool \<Rightarrow> json" where
  "generate_payload tenant app prompt language framework provider model no_validate =
     JDict [(''tenant_id'', JStr tenant), (''application_id'', JStr app), (''prompt'', JStr prompt),
       (''target'', JDict [(''language'', JStr language), (''framework'', JStr framework), (''pattern'', JStr ''pom''),
          (''locator_strategy'', JStr ''page_file'')]),
       (''provider'', JDict [(''provider_id'', JStr provider), (''model'', JStr model)]),
       (''options'', JDict [(''validate'', JBool (\<not> no_validate))])]"

definition diagnostic_line :: "json \<Rightarrow> string result" where
  "diagnostic_line d =
     rbind (json_item d ''severity'') (\<lambda>sev. rbind (json_item d ''message'') (\<lambda>m.
       Inr (''  ['' @ py_str sev @ ''] '' @ py_str m)))"

definition validation_lines :: "json \<Rightarrow> string list result" where
  "validation_lines v =
     (if truthy v
      then rbind (json_get v ''status'' (JStr ''n/a'')) (\<lambda>st.
           rbind (json_get v ''diagnostics'' (JList [])) (\<lambda>ds. rbind (json_iter ds) (\<lambda>xs.
           rbind (rmap diagnostic_line xs) (\<lambda>ls. Inr ((''Validation: '' @ py_str st) # ls)))))
      else Inr [])"

definition artifact_line :: "json \<Rightarrow> string result" where
  "artifact_line a =
     rbind (json_get a ''path'' JNull) (\<lambda>p. rbind (json_get a ''language'' JNull) (\<lambda>l.
       Inr (''  '' @ py_str p @ '' ['' @ py_str l @ '']'')))"

definition generate_text :: "json \<Rightarrow> cli_exit result" where
  "generate_text result =
     rbind (json_get result ''status'' (JStr ''unknown'')) (\<lambda>status.
     rbind (json_get result ''artifacts'' (JList [])) (\<lambda>artifacts. rbind (json_iter artifacts) (\<lambda>arts.
     rbind (rmap artifact_line arts) (\<lambda>ls.
     rbind (json_get result ''validation'' (JDict [])) (\<lambda>v. rbind (validation_lines v) (\<lambda>vls.
       Inr \<lparr>ce_out = [''Status: '' @ py_str status, ''Artifacts: '' @ nat_str (length arts)] @ ls @ vls, ce_err = [],
            ce_code = (if status \<in> {JStr ''failed'', JStr ''error''} then 2 else 0)\<rparr>))))))"

definition generate_cmd :: "net \<Rightarrow> api_client \<Rightarrow> json \<Rightarrow> bool \<Rightarrow> cli_exit result" where
  "generate_cmd net c payload as_json =
     with_answer (api_generate net c payload) (\<lambda>result.
       if as_json then Inr (json_output result) else generate_text result)"

definition catalogue_line :: "json \<Rightarrow> string result" where
  "catalogue_line item =
     rbind (json_item item ''entity_id'') (\<lambda>e. rbind (json_item item ''category'') (\<lambda>cat.
     rbind (json_item item ''status'') (\<lambda>st. rbind (json_item item ''summary'') (\<lambda>s0. rbind (json_slice 60 s0) (\<lambda>s.
     rbind (pad_right 36 e) (\<lambda>e1. rbind (pad_right 20 cat) (\<lambda>cat1. rbind (pad_right 12 st) (\<lambda>st1.
       Inr (''  '' @ e1 @ ''  ['' @ cat1 @ '']  '' @ st1 @ ''  '' @ py_str s)))))))))"

definition search_params :: "string option \<Rightarrow> string option \<Rightarrow> string option \<Rightarrow> int \<Rightarrow> (string, json) dict" where
  "search_params app category status limit =
     [(''application_id'', opt_json app), (''category'', opt_json category), (''status'', opt_json status),
      (''limit'', JInt limit)]"

definition catalogue_search_cmd :: "net \<Rightarrow> api_client \<Rightarrow> (string, json) dict \<Rightarrow> bool \<Rightarrow> cli_exit result" where
  "catalogue_search_cmd net c params as_json =
     with_answer (api_search_catalogue net c params) (\<lambda>result.
       if as_json then Inr (json_output result)
       else rbind (json_get result ''items'' (JList [])) (\<lambda>items. rbind (json_get result ''total'' (JInt 0)) (\<lambda>total.
            rbind (json_iter items) (\<lambda>xs. rbind (rmap catalogue_line xs) (\<lambda>ls.
              Inr (finish_with ((''Found '' @ py_str total @ '' entries (showing '' @ nat_str (length xs) @ ''):'') # ls)))))))"

definition catalogue_get_cmd :: "net \<Rightarrow> api_client \<Rightarrow> string \<Rightarrow> bool \<Rightarrow> cli_exit result" where
  "catalogue_get_cmd net c eid as_json =
     with_answer (api_get_catalogue_entry net c eid) (\<lambda>e.
       if as_json then Inr (json_output e)
       else rbind (json_item e ''entity_id'') (\<lambda>i. rbind (json_item e ''category'') (\<lambda>cat.
            rbind (json_item e ''status'') (\<lambda>st. rbind (json_item e ''summary'') (\<lambda>s.
            rbind (json_get e ''tags'' (JDict [])) (\<lambda>tags.
              Inr (finish_with [''ID:       '' @ py_str i, ''Category: '' @ py_str cat, ''Status:   '' @ py_str st,
                ''Summary:  '' @ py_str s, ''Tags:     '' @ py_str tags])))))))"

text \<open>Without \<open>--yes\<close> the user is asked first; a refusal aborts before anything is sent.\<close>

definition catalogue_delete_memory_cmd ::
  "net \<Rightarrow> api_client \<Rightarrow> string \<Rightarrow> string \<Rightarrow> string option \<Rightarrow> bool \<Rightarrow> bool \<Rightarrow> cli_exit result" where
  "catalogue_delete_memory_cmd net c eid app reason yes confirmed =
     (if \<not> yes \<and> \<not> confirmed then Inl (OtherError ''Abort'' [])
      else with_answer (api_delete_memory net c eid app reason) (\<lambda>r.
        rbind (json_get r ''deleted'' (JBool False)) (\<lambda>d. rbind (json_get r ''tombstoned'' (JBool False)) (\<lambda>t.
          Inr (finish_with [''Deleted: '' @ py_str d @ '', Tombstoned: '' @ py_str t])))))"

definition learn_payload :: "string \<Rightarrow> string \<Rightarrow> string \<Rightarrow> string \<Rightarrow> string option \<Rightarrow> string option \<Rightarrow> json" where
  "learn_payload app scan_path repository branch framework domain =
     JDict [(''application_id'', JStr app),
       (''scope'', JDict ([(''repository'', JStr repository), (''branch'', JStr branch), (''path'', JStr scan_path)]
          @ (case framework of None \<Rightarrow> [] | Some f \<Rightarrow> if f = [] then [] else [(''framework'', JStr f)])
          @ (case domain of None \<Rightarrow> [] | Some d \<Rightarrow> if d = [] then [] else [(''domain'', JStr d)]))),
       (''trigger_type'', JStr ''manual'')]"

definition count_lines :: "json \<Rightarrow> string list result" where
  "count_lines result =
     rbind (json_get result ''discovered_count'' (JInt 0)) (\<lambda>a. rbind (json_get result ''changed_count'' (JInt 0)) (\<lambda>b.
     rbind (json_get result ''unchanged_count'' (JInt 0)) (\<lambda>c.
       Inr [''Discovered: '' @ py_str a, ''Changed:    '' @ py_str b, ''Unchanged:  '' @ py_str c])))"

definition discovery_line :: "json \<Rightarrow> string result" where
  "discovery_line d =
     rbind (json_get d ''delta'' (JDict [])) (\<lambda>delta. rbind (json_get delta ''state'' (JStr ''?'')) (\<lambda>state.
     rbind (json_get d ''discovery_type'' (JStr ''?'')) (\<lambda>dtype. rbind (json_get d ''summary'' (JStr [])) (\<lambda>s0.
     rbind (json_slice 60 s0) (\<lambda>s. rbind (pad_right 10 state) (\<lambda>st. rbind (pad_right 25 dtype) (\<lambda>ty.
       Inr (''  ['' @ st @ ''] ['' @ ty @ '']  '' @ py_str s))))))))"

definition listed :: "string \<Rightarrow> json \<Rightarrow> (json \<Rightarrow> string result) \<Rightarrow> string list result" where
  "listed title j line =
     (if truthy j
      then rbind (json_iter j) (\<lambda>xs. rbind (rmap line xs) (\<lambda>ls.
             Inr ((title @ '' ('' @ nat_str (length xs) @ ''):'') # ls)))
      else Inr [])"

definition learn_run_cmd :: "net \<Rightarrow> api_client \<Rightarrow> json \<Rightarrow> bool \<Rightarrow> cli_exit result" where
  "learn_run_cmd net c payload as_json =
     with_answer (api_trigger_learning_run net c payload) (\<lambda>result.
       if as_json then Inr (json_output result)
       else rbind (json_get result ''run'' (JDict [])) (\<lambda>r. rbind (json_get r ''run_id'' JNull) (\<lambda>rid.
            rbind (json_get r ''status'' JNull) (\<lambda>st. rbind (count_lines result) (\<lambda>counts.
            rbind (json_get result ''warnings'' (JList [])) (\<lambda>ws.
            rbind (listed ''Warnings'' ws (\<lambda>w. Inr (''  '' @ py_str w))) (\<lambda>wls.
            rbind (json_get r ''discoveries'' (JList [])) (\<lambda>ds.
            rbind (listed (nl @ ''Discoveries'') ds discovery_line) (\<lambda>dls.
              Inr (finish_with ([''Run ID:     '' @ py_str rid, ''Status:     '' @ py_str st] @ counts @ wls @ dls)))))))))))"

definition run_line :: "json \<Rightarrow> string result" where
  "run_line r =
     rbind (json_get r ''run'' (JDict [])) (\<lambda>rn. rbind (json_get rn ''run_id'' (JStr ''?'')) (\<lambda>rid.
     rbind (json_get rn ''status'' (JStr ''?'')) (\<lambda>st. rbind (json_get r ''discovered_count'' (JInt 0)) (\<lambda>a.
     rbind (json_get r ''changed_count'' (JInt 0)) (\<lambda>b. rbind (pad_right 38 rid) (\<lambda>rid1. rbind (pad_right 12 st) (\<lambda>st1.
       Inr (''  '' @ rid1 @ ''  '' @ st1 @ ''  +'' @ py_str a @ '' new  ~'' @ py_str b @ '' changed''))))))))"

definition learn_list_cmd :: "net \<Rightarrow> api_client \<Rightarrow> string option \<Rightarrow> bool \<Rightarrow> cli_exit result" where
  "learn_list_cmd net c app as_json =
     with_answer (api_list_learning_runs net c app) (\<lambda>runs.
       if as_json then Inr (json_output runs)
       else rbind (json_iter runs) (\<lambda>xs. rbind (rmap run_line xs) (\<lambda>ls.
              Inr (finish_with ((''Found '' @ nat_str (length xs) @ '' run(s):'') # ls)))))"

definition learn_show_cmd :: "net \<Rightarrow> api_client \<Rightarrow> string \<Rightarrow> bool \<Rightarrow> cli_exit result" where
  "learn_show_cmd net c rid as_json =
     with_answer (api_get_learning_run net c rid) (\<lambda>result.
       if as_json then Inr (json_output result)
       else rbind (json_get result ''run'' (JDict [])) (\<lambda>r. rbind (json_get r ''run_id'' JNull) (\<lambda>i.
            rbind (json_get r ''status'' JNull) (\<lambda>st. rbind (json_get r ''scope'' (JDict [])) (\<lambda>scope.
            rbind (json_get scope ''path'' JNull) (\<lambda>path. rbind (json_get r ''started_at'' JNull) (\<lambda>a.
            rbind (json_get r ''completed_at'' JNull) (\<lambda>b. rbind (count_lines result) (\<lambda>counts.
              Inr (finish_with ([''Run ID:     '' @ py_str i, ''Status:     '' @ py_str st, ''Scope:      '' @ py_str path,
                ''Started:    '' @ py_str a, ''Completed:  '' @ py_str b] @ counts)))))))))))"

section \<open>cli/main.py\<close>

text \<open>\<open>token or os.environ.get("TOTALRECALL_TOKEN", "")\<close>\<close>

definition cli_client :: "(string \<Rightarrow> string option) \<Rightarrow> string \<Rightarrow> string option \<Rightarrow> api_client" where
  "cli_client env url token =
     mk_client url (case token of Some t \<Rightarrow> if t \<noteq> [] then t else (case env ''TOTALRECALL_TOKEN'' of None \<Rightarrow> [] | Some e \<Rightarrow> e)
                    | None \<Rightarrow> (case env ''TOTALRECALL_TOKEN'' of None \<Rightarrow> [] | Some e \<Rightarrow> e))"

section \<open>The client and the service understand each other\<close>

text \<open>C31: The service reads from the client's request exactly the token the client was given: for a token without outer
  blanks every request of the client is authenticated as that token is, and an unknown or empty token is a 401.\<close>

theorem client_token_accepted:
  assumes "strip (cl_token c) = cl_token c"
  shows "get_tenant_context tm (dict_get (rq_headers (api_call c http_method path body)) ''Authorization'') =
    (case dict_get tm (cl_token c) of
       None \<Rightarrow> Inl (HTTPException 401 ''Invalid bearer token.'')
     | Some cfg \<Rightarrow> Inr \<lparr>cx_tenant_id = at_tenant_id cfg, cx_actor_id = at_actor_id cfg, cx_roles = at_roles cfg,
         cx_permissions = permissions_for_roles (at_roles cfg)\<rparr>)"
proof -
  have "lower (''Bearer '' @ cl_token c) = ''bearer '' @ lower (cl_token c)"
  proof -
    have "lower ''Bearer '' = ''bearer ''" by code_simp
    then show ?thesis by (simp add: lower_def)
  qed
  then have "prefix ''bearer '' (lower (''Bearer '' @ cl_token c))" by simp
  moreover have "bearer_token (''Bearer '' @ cl_token c) = cl_token c"
    using assms by (simp add: bearer_token_def)
  ultimately show ?thesis by (auto simp: api_call_def get_tenant_context_def authenticate_def split: option.splits)
qed

lemma loads_dumps: "plain j \<Longrightarrow> loads (dumps j) = Inr j"
  unfolding dumps_render [of _ 0] by (rule compact.loads_render)

text \<open>What FastAPI sends for an \<open>HTTPException\<close>.\<close>

definition error_body :: "string \<Rightarrow> string" where
  "error_body detail = dumps (JDict [(''detail'', JStr detail)])"

text \<open>An error answer of the service reaches the user: whatever the command, it prints the status and the detail the
  service gave on standard error, prints nothing else and exits with 1.\<close>

theorem cli_reports_errors:
  assumes "net (api_call c http_method path body) = HttpError status (error_body detail)"
  shows "with_answer (api_request net c http_method path body) k =
    Inr \<lparr>ce_out = [], ce_err = [''Error: HTTP '' @ nat_str status @ '': '' @ detail], ce_code = 1\<rparr>"
proof -
  have "loads (error_body detail) = Inr (JDict [(''detail'', JStr detail)])"
    unfolding error_body_def by (rule loads_dumps) (simp add: dict_ok_def)
  then show ?thesis
    by (simp add: with_answer_def api_request_def assms error_detail_def dict_get_or_def api_error_def py_str_def)
qed

text \<open>The exit code of \<open>generate\<close> in text mode is 2 exactly when the answer says that the generation failed.\<close>

theorem generate_exit_code:
  assumes "net (api_call c ''POST'' ''/v1/generations'' (Some payload)) = Reply (dumps (JDict d))" and "plain (JDict d)"
    and "dict_get d ''status'' = Some (JStr st)" and "generate_cmd net c payload False = Inr x"
  shows "ce_code x = (if st = ''failed'' \<or> st = ''error'' then 2 else 0) \<and> hd (ce_out x) = ''Status: '' @ st"
proof -
  have "api_generate net c payload = Inr (JDict d)"
    using loads_dumps [OF assms(2)] by (simp add: api_generate_def api_request_def assms(1))
  with assms(3,4) show ?thesis
    by (auto simp: generate_cmd_def with_answer_def generate_text_def json_get_def dict_get_or_def rbind_Inr_iff py_str_def)
qed

text \<open>In JSON mode a failed generation exits with 0.\<close>

lemma json_mode_hides_failure:
  assumes "net (api_call c ''POST'' ''/v1/generations'' (Some payload)) = Reply (dumps j)" and "plain j"
  shows "generate_cmd net c payload True = Inr \<lparr>ce_out = [dumps_indent 0 j], ce_err = [], ce_code = 0\<rparr>"
  using loads_dumps [OF assms(2)]
  by (simp add: generate_cmd_def api_generate_def api_request_def assms(1) with_answer_def json_output_def finish_with_def)

text \<open>The query string is not encoded: an application id with an ampersand asks for something else.\<close>

lemma query_not_encoded:
  "catalogue_path (search_params (Some ''a&category=b'') None None 20) = catalogue_path (search_params (Some ''a'') (Some ''b'') None 20)"
  by (simp add: catalogue_path_def search_params_def opt_json_def py_str_def int_str_def nat_str.simps)

section \<open>Witnesses\<close>

definition demo_client :: api_client where
  "demo_client = mk_client ''http://localhost:8000/'' ''t0k''"

definition demo_net :: "string \<Rightarrow> net" where
  "demo_net text rq = (if rq_method rq = ''POST'' then Reply text else HttpError 404 (error_body ''Not found.''))"

lemma client_token_accepted_witness:
  "get_tenant_context [(''t0k'', \<lparr>at_tenant_id = ''acme'', at_actor_id = ''ann'', at_roles = []\<rparr>)]
     (dict_get (rq_headers (api_call demo_client ''GET'' ''/v1/catalogue'' None)) ''Authorization'') =
   Inr \<lparr>cx_tenant_id = ''acme'', cx_actor_id = ''ann'', cx_roles = [], cx_permissions = permissions_for_roles []\<rparr>"
proof -
  have "strip (cl_token demo_client) = cl_token demo_client" by code_simp
  from client_token_accepted [OF this] show ?thesis
    by (simp add: demo_client_def mk_client_def)
qed

lemma cli_reports_errors_witness:
  "catalogue_get_cmd (demo_net []) demo_client ''e1'' False =
     Inr \<lparr>ce_out = [], ce_err = [''Error: HTTP '' @ nat_str 404 @ '': Not found.''], ce_code = 1\<rparr>"
  using cli_reports_errors [of "demo_net []" demo_client "''GET''" "''/v1/catalogue/'' @ ''e1''" None 404 "''Not found.''"]
  by (simp add: catalogue_get_cmd_def api_get_catalogue_entry_def demo_net_def api_call_def)

lemma generate_exit_code_witness:
  "\<exists>x. generate_cmd (demo_net (dumps (JDict [(''status'', JStr ''failed'')]))) demo_client JNull False = Inr x \<and> ce_code x = 2"
proof -
  let ?net = "demo_net (dumps (JDict [(''status'', JStr ''failed'')]))"
  have n: "?net (api_call demo_client ''POST'' ''/v1/generations'' (Some JNull)) = Reply (dumps (JDict [(''status'', JStr ''failed'')]))"
    by (simp add: demo_net_def api_call_def del: dumps.simps)
  have p: "plain (JDict [(''status'', JStr ''failed'')])" by (simp add: dict_ok_def)
  have "\<exists>x. generate_cmd ?net demo_client JNull False = Inr x"
    using loads_dumps [OF p] n by (simp add: generate_cmd_def api_generate_def api_request_def with_answer_def
        generate_text_def json_get_def dict_get_or_def json_iter_def validation_lines_def  del: dumps.simps)
  then obtain x where x: "generate_cmd ?net demo_client JNull False = Inr x" by blast
  from generate_exit_code [OF n p _ x, of "''failed''"] x show ?thesis by simp
qed

end
