(* ===== verification/Requests.thy ===== *)
theory Requests
  imports Cli Skills LearningScan
begin

text \<open>
  The request bodies of the service: how \<open>GenerationRequest\<close> and its parts (\<open>totalrecall/generation/models.py\<close>), the body of a
  learning run (\<open>api/routes/learning.py\<close>, \<open>learning/models.py\<close>) and the body of a deletion (\<open>api/routes/memories.py\<close>) are
  validated, and what becomes of the bodies the command line client sends. \<open>num\<close> is pydantic's reading of a string as a
  number; of several errors only the first is kept.
\<close>

section \<open>Numbers and truth values\<close>

definition as_int :: "(string \<Rightarrow> int option) \<Rightarrow> string \<Rightarrow> json \<Rightarrow> int result" where
  "as_int num field j =
     (case j of
        JInt i \<Rightarrow> Inr i
      | JBool b \<Rightarrow> Inr (if b then 1 else 0)
      | JFloat x \<Rightarrow> if of_int \<lfloor>x\<rfloor> = x then Inr \<lfloor>x\<rfloor> else invalid field
      | JStr s \<Rightarrow> (case num s of Some i \<Rightarrow> Inr i | None \<Rightarrow> invalid field)
      | _ \<Rightarrow> invalid field)"

definition as_min :: "(string \<Rightarrow> int option) \<Rightarrow> int \<Rightarrow> string \<Rightarrow> json \<Rightarrow> int result" where
  "as_min num least field j = rbind (as_int num field j) (\<lambda>i. if least \<le> i then Inr i else invalid field)"

definition as_bool :: "string \<Rightarrow> json \<Rightarrow> bool result" where
  "as_bool field j =
     (case j of
        JBool b \<Rightarrow> Inr b
      | JInt i \<Rightarrow> if i = 0 then Inr False else if i = 1 then Inr True else invalid field
      | JFloat x \<Rightarrow> if x = 0 then Inr False else if x = 1 then Inr True else invalid field
      | JStr s \<Rightarrow>
          if lower s \<in> {''0'', ''off'', ''f'', ''false'', ''n'', ''no''} then Inr False
          else if lower s \<in> {''1'', ''on'', ''t'', ''true'', ''y'', ''yes''} then Inr True else invalid field
      | _ \<Rightarrow> invalid field)"

section \<open>generation/models.py\<close>

definition target_of_json :: "json \<Rightarrow> generation_target result" where
  "target_of_json j =
     (case j of
        JDict d \<Rightarrow>
          rbind (no_extra [''language'', ''framework'', ''pattern'', ''locator_strategy''] d) (\<lambda>_.
          rbind (required d ''language'' (as_enum ''language'' language_of)) (\<lambda>l.
          rbind (required d ''framework'' (as_enum ''framework'' framework_of)) (\<lambda>f.
          rbind (optional d ''pattern'' POM (as_enum ''pattern'' pattern_of)) (\<lambda>p.
          rbind (optional d ''locator_strategy'' PAGE_FILE (as_enum ''locator_strategy'' locator_of)) (\<lambda>s.
            Inr \<lparr>gt_language = l, gt_framework = f, gt_pattern = p, gt_locator_strategy = s\<rparr>)))))
      | _ \<Rightarrow> invalid ''target'')"

definition scope_body_of_json :: "json \<Rightarrow> generation_scope result" where
  "scope_body_of_json j =
     (case j of
        JDict d \<Rightarrow>
          rbind (no_extra [''domain'', ''route'', ''tags''] d) (\<lambda>_.
          rbind (required d ''domain'' (as_str1 ''domain'')) (\<lambda>dom.
          rbind (optional d ''route'' None (as_opt (as_str ''route''))) (\<lambda>r.
          rbind (optional d ''tags'' [] (as_list ''tags'' (as_str ''tags''))) (\<lambda>ts.
            Inr \<lparr>gs_domain = dom, gs_route = r, gs_tags = ts\<rparr>))))
      | _ \<Rightarrow> invalid ''scope'')"

definition default_selection :: provider_selection where
  "default_selection = \<lparr>ps_provider_id = ''stub'', ps_model = ''test'', ps_fallback_provider_ids = []\<rparr>"

definition selection_of_json :: "json \<Rightarrow> provider_selection result" where
  "selection_of_json j =
     (case j of
        JDict d \<Rightarrow>
          rbind (no_extra [''provider_id'', ''model'', ''fallback_provider_ids''] d) (\<lambda>_.
          rbind (optional d ''provider_id'' ''stub'' (as_str1 ''provider_id'')) (\<lambda>p.
          rbind (optional d ''model'' ''test'' (as_str1 ''model'')) (\<lambda>m.
          rbind (optional d ''fallback_provider_ids'' [] (as_list ''fallback_provider_ids'' (as_str ''fallback_provider_ids''))) (\<lambda>fs.
            Inr \<lparr>ps_provider_id = p, ps_model = m, ps_fallback_provider_ids = fs\<rparr>))))
      | _ \<Rightarrow> invalid ''provider'')"

definition default_options :: generation_options where
  "default_options = \<lparr>go_validation_enabled = True, go_allow_repair = False, go_max_input_tokens = 12000,
     go_max_output_tokens = None\<rparr>"

text \<open>The first field is read under its alias, and under its name when the alias is absent; both at once is one key too many.\<close>

definition options_of_json :: "(string \<Rightarrow> int option) \<Rightarrow> json \<Rightarrow> generation_options result" where
  "options_of_json num j =
     (case j of
        JDict d \<Rightarrow>
          (let key = (if dict_get d ''validate'' \<noteq> None then ''validate'' else ''validation_enabled'')
           in rbind (no_extra [key, ''allow_repair'', ''max_input_tokens'', ''max_output_tokens''] d) (\<lambda>_.
              rbind (optional d key True (as_bool ''validate'')) (\<lambda>v.
              rbind (optional d ''allow_repair'' False (as_bool ''allow_repair'')) (\<lambda>r.
              rbind (optional d ''max_input_tokens'' 12000 (as_min num 1 ''max_input_tokens'')) (\<lambda>i.
              rbind (optional d ''max_output_tokens'' None (as_opt (as_min num 1 ''max_output_tokens''))) (\<lambda>out.
                Inr \<lparr>go_validation_enabled = v, go_allow_repair = r, go_max_input_tokens = i, go_max_output_tokens = out\<rparr>))))))
      | _ \<Rightarrow> invalid ''options'')"

definition generation_request_of_json :: "(string \<Rightarrow> int option) \<Rightarrow> json \<Rightarrow> generation_request result" where
  "generation_request_of_json num j =
     (case j of
        JDict d \<Rightarrow>
          rbind (no_extra [''tenant_id'', ''application_id'', ''prompt'', ''target'', ''scope'', ''provider'', ''options'',
             ''jira_key'', ''test_types''] d) (\<lambda>_.
          rbind (required d ''tenant_id'' (as_str1 ''tenant_id'')) (\<lambda>tenant.
          rbind (required d ''application_id'' (as_str1 ''application_id'')) (\<lambda>app.
          rbind (required d ''prompt'' (as_str1 ''prompt'')) (\<lambda>prompt.
          rbind (required d ''target'' target_of_json) (\<lambda>target.
          rbind (required d ''scope'' scope_body_of_json) (\<lambda>scope.
          rbind (optional d ''provider'' default_selection selection_of_json) (\<lambda>provider.
          rbind (optional d ''options'' default_options (options_of_json num)) (\<lambda>options.
          rbind (optional d ''jira_key'' None (as_opt (as_str ''jira_key''))) (\<lambda>key.
          rbind (optional d ''test_types'' None (as_opt (as_list ''test_types'' (as_enum ''test_types'' test_type_of)))) (\<lambda>types.
            Inr \<lparr>gr_tenant_id = tenant, gr_application_id = app, gr_prompt = prompt, gr_target = target, gr_scope = scope,
                 gr_provider = provider, gr_options = options, gr_jira_key = key, gr_test_types = types\<rparr>))))))))))
      | _ \<Rightarrow> invalid ''body'')"

section \<open>Bodies of the learning and memory routes\<close>

definition learning_scope_of_json :: "json \<Rightarrow> learning_scope result" where
  "learning_scope_of_json j =
     (case j of
        JDict d \<Rightarrow>
          rbind (no_extra [''repository'', ''branch'', ''path'', ''framework'', ''domain'', ''route'', ''tags''] d) (\<lambda>_.
          rbind (required d ''repository'' (as_str1 ''repository'')) (\<lambda>repository.
          rbind (required d ''branch'' (as_str1 ''branch'')) (\<lambda>branch.
          rbind (required d ''path'' (as_str1 ''path'')) (\<lambda>path.
          rbind (optional d ''framework'' None (as_opt (as_enum ''framework'' framework_of))) (\<lambda>framework.
          rbind (optional d ''domain'' None (as_opt (as_str ''domain''))) (\<lambda>domain.
          rbind (optional d ''route'' None (as_opt (as_str ''route''))) (\<lambda>route.
          rbind (optional d ''tags'' [] (as_list ''tags'' (as_str ''tags''))) (\<lambda>tags.
            Inr \<lparr>ls_repository = repository, ls_branch = branch, ls_path = path, ls_framework = framework,
                 ls_domain = domain, ls_route = route, ls_tags = tags\<rparr>))))))))
      | _ \<Rightarrow> invalid ''scope'')"

record trigger_body =
  tb_application_id :: string
  tb_scope :: learning_scope
  tb_trigger_type :: trigger_type

definition trigger_body_of_json :: "json \<Rightarrow> trigger_body result" where
  "trigger_body_of_json j =
     (case j of
        JDict d \<Rightarrow>
          rbind (no_extra [''application_id'', ''scope'', ''trigger_type''] d) (\<lambda>_.
          rbind (required d ''application_id'' (as_str ''application_id'')) (\<lambda>app.
          rbind (required d ''scope'' learning_scope_of_json) (\<lambda>scope.
          rbind (optional d ''trigger_type'' MANUAL (as_enum ''trigger_type'' trigger_of)) (\<lambda>trig.
            Inr \<lparr>tb_application_id = app, tb_scope = scope, tb_trigger_type = trig\<rparr>))))
      | _ \<Rightarrow> invalid ''body'')"

record delete_body =
  bd_application_id :: string
  bd_reason :: "string option"

definition delete_body_of_json :: "json \<Rightarrow> delete_body result" where
  "delete_body_of_json j =
     (case j of
        JDict d \<Rightarrow>
          rbind (no_extra [''application_id'', ''reason''] d) (\<lambda>_.
          rbind (required d ''application_id'' (as_str ''application_id'')) (\<lambda>app.
          rbind (optional d ''reason'' None (as_opt (as_str ''reason''))) (\<lambda>reason.
            Inr \<lparr>bd_application_id = app, bd_reason = reason\<rparr>)))
      | _ \<Rightarrow> invalid ''body'')"

text \<open>The bodies of the single and of the bulk decisions; approving and rejecting take the same fields.\<close>

definition reason_body_of_json :: "json \<Rightarrow> string option result" where
  "reason_body_of_json j =
     (case j of
        JDict d \<Rightarrow> rbind (no_extra [''reason''] d) (\<lambda>_. optional d ''reason'' None (as_opt (as_str ''reason'')))
      | _ \<Rightarrow> invalid ''body'')"

definition bulk_body_of_json :: "json \<Rightarrow> (string list \<times> string option) result" where
  "bulk_body_of_json j =
     (case j of
        JDict d \<Rightarrow>
          rbind (no_extra [''discovery_ids'', ''reason''] d) (\<lambda>_.
          rbind (required d ''discovery_ids'' (as_list ''discovery_ids'' (as_str ''discovery_ids''))) (\<lambda>ids.
          rbind (optional d ''reason'' None (as_opt (as_str ''reason''))) (\<lambda>reason. Inr (ids, reason))))
      | _ \<Rightarrow> invalid ''body'')"

section \<open>What validation guarantees\<close>

lemma as_strings:
  "as_str f j = Inr s \<Longrightarrow> contract_str s" "as_str1 f j = Inr s \<Longrightarrow> contract_str1 s"
  by (auto simp: as_str_def as_str1_def invalid_def validate_str1_def contract_str_def contract_str1_def
      split: json.splits if_splits)

lemma as_opt_cases: "as_opt g j = Inr x \<Longrightarrow> (case x of None \<Rightarrow> True | Some y \<Rightarrow> g j = Inr y)"
  by (auto simp: as_opt_def rbind_Inr_iff split: json.splits)

lemma as_opt_contract: "as_opt (as_str f) j = Inr x \<Longrightarrow> contract_opt x"
  by (drule as_opt_cases) (auto simp: contract_opt_def as_strings split: option.splits)

lemma as_list_strings: "as_list f (as_str f) j = Inr xs \<Longrightarrow> list_all contract_str xs"
  by (auto simp: as_list_def invalid_def rmap_Inr_iff list_all_iff dest!: list_all2_right dest: as_strings split: json.splits)

lemma as_min_least: "as_min num least f j = Inr i \<Longrightarrow> least \<le> i"
  by (auto simp: as_min_def rbind_Inr_iff invalid_def split: if_splits)

lemma optional_Inr:
  "optional d k dflt f = Inr x \<longleftrightarrow> (case dict_get d k of None \<Rightarrow> x = dflt | Some j \<Rightarrow> f j = Inr x)"
  by (auto simp: optional_def split: option.splits)

lemma required_Inr: "required d k f = Inr x \<longleftrightarrow> (\<exists>j. dict_get d k = Some j \<and> f j = Inr x)"
  by (auto simp: required_def invalid_def split: option.splits)

lemma scope_body_wf: "scope_body_of_json j = Inr x \<Longrightarrow> wf_scope x"
  by (auto simp: scope_body_of_json_def rbind_Inr_iff required_Inr optional_Inr wf_scope_def invalid_def contract_opt_def
      dest!: as_list_strings as_opt_contract as_strings split: json.splits option.splits)

lemma selection_wf: "selection_of_json j = Inr x \<Longrightarrow> wf_selection x"
proof -
  have d: "contract_str1 ''stub''" "contract_str1 ''test''" by code_simp+
  then show "selection_of_json j = Inr x \<Longrightarrow> wf_selection x"
    by (auto simp: selection_of_json_def rbind_Inr_iff optional_Inr wf_selection_def invalid_def
        dest!: as_list_strings as_strings split: json.splits option.splits)
qed

lemma optional_keeps: "optional d k dflt f = Inr x \<Longrightarrow> P dflt \<Longrightarrow> (\<And>j. f j = Inr x \<Longrightarrow> P x) \<Longrightarrow> P x"
  by (simp add: optional_Inr split: option.splits)

lemma required_keeps: "required d k f = Inr x \<Longrightarrow> (\<And>j. f j = Inr x \<Longrightarrow> P x) \<Longrightarrow> P x"
  by (auto simp: required_Inr)

lemma as_opt_min: "as_opt (as_min num least f) j = Inr x \<Longrightarrow> (case x of None \<Rightarrow> True | Some n \<Rightarrow> least \<le> n)"
  by (drule as_opt_cases) (auto dest: as_min_least split: option.splits)

lemma options_wf:
  assumes "options_of_json num j = Inr x"
  shows "wf_options x"
proof -
  from assms obtain d where "j = JDict d" by (cases j) (auto simp: options_of_json_def invalid_def)
  with assms obtain v r i out where x: "x = \<lparr>go_validation_enabled = v, go_allow_repair = r, go_max_input_tokens = i,
       go_max_output_tokens = out\<rparr>"
    and i: "optional d ''max_input_tokens'' 12000 (as_min num 1 ''max_input_tokens'') = Inr i"
    and out: "optional d ''max_output_tokens'' None (as_opt (as_min num 1 ''max_output_tokens'')) = Inr out"
    by (auto simp only: options_of_json_def json.case Let_def rbind_Inr_iff sum.inject)
  from i have "1 \<le> i" by (rule optional_keeps) (simp, rule as_min_least)
  moreover from out have "case out of None \<Rightarrow> True | Some n \<Rightarrow> 1 \<le> n"
    by (rule optional_keeps) (simp, rule as_opt_min)
  ultimately show ?thesis by (simp add: x wf_options_def)
qed

lemma defaults_wf: "wf_selection default_selection" "wf_options default_options"
proof -
  have "contract_str1 ''stub''" "contract_str1 ''test''" by code_simp+
  then show "wf_selection default_selection" by (simp add: wf_selection_def default_selection_def)
qed (simp add: wf_options_def default_options_def)

lemma request_of_json_cases:
  assumes "generation_request_of_json num j = Inr r"
  obtains d where "required d ''tenant_id'' (as_str1 ''tenant_id'') = Inr (gr_tenant_id r)"
    and "required d ''application_id'' (as_str1 ''application_id'') = Inr (gr_application_id r)"
    and "required d ''prompt'' (as_str1 ''prompt'') = Inr (gr_prompt r)"
    and "required d ''scope'' scope_body_of_json = Inr (gr_scope r)"
    and "optional d ''provider'' default_selection selection_of_json = Inr (gr_provider r)"
    and "optional d ''options'' default_options (options_of_json num) = Inr (gr_options r)"
    and "optional d ''jira_key'' None (as_opt (as_str ''jira_key'')) = Inr (gr_jira_key r)"
proof -
  from assms obtain d where "j = JDict d" by (cases j) (auto simp: generation_request_of_json_def invalid_def)
  with assms show thesis
    by (auto simp only: generation_request_of_json_def json.case rbind_Inr_iff sum.inject generation_request.simps intro!: that)
qed

lemma request_of_json_texts:
  assumes "generation_request_of_json num j = Inr r"
  shows "contract_str1 (gr_tenant_id r)" "contract_str1 (gr_application_id r)" "contract_str1 (gr_prompt r)"
    "contract_opt (gr_jira_key r)" "wf_selection (gr_provider r)"
  by (rule request_of_json_cases [OF assms], erule required_keeps optional_keeps,
      auto simp: contract_opt_def defaults_wf dest: as_strings as_opt_contract selection_wf)+

text \<open>C30: what passes validation is well formed: whatever JSON a client sends, the request that reaches the generation route
  has non-blank tenant, application and prompt, stripped strings throughout, and positive token limits.\<close>

theorem parsed_request_wf:
  assumes "generation_request_of_json num j = Inr r"
  shows "wf_request r"
proof (rule request_of_json_cases [OF assms])
  fix d
  assume scope: "required d ''scope'' scope_body_of_json = Inr (gr_scope r)"
    and options: "optional d ''options'' default_options (options_of_json num) = Inr (gr_options r)"
  from scope have "wf_scope (gr_scope r)" by (rule required_keeps) (rule scope_body_wf)
  moreover from options have "wf_options (gr_options r)" by (rule optional_keeps) (rule defaults_wf, rule options_wf)
  ultimately show ?thesis using request_of_json_texts [OF assms] by (simp add: wf_request_def)
qed

definition demo_request_body :: json where
  "demo_request_body = JDict [(''tenant_id'', JStr '' qa ''), (''application_id'', JStr ''shop''), (''prompt'', JStr ''log in''),
     (''target'', JDict [(''language'', JStr ''python''), (''framework'', JStr ''playwright'')]),
     (''scope'', JDict [(''domain'', JStr ''checkout'')]),
     (''options'', JDict [(''validate'', JStr ''no''), (''max_input_tokens'', JStr ''9'')])]"

lemma parsed_request_wf_witness:
  "\<exists>r. generation_request_of_json (\<lambda>s. if s = ''9'' then Some 9 else None) demo_request_body = Inr r
     \<and> gr_tenant_id r = ''qa'' \<and> go_max_input_tokens (gr_options r) = 9 \<and> wf_request r"
proof -
  have "case generation_request_of_json (\<lambda>s. if s = ''9'' then Some 9 else None) demo_request_body of
      Inr r \<Rightarrow> gr_tenant_id r = ''qa'' \<and> go_max_input_tokens (gr_options r) = 9 | Inl _ \<Rightarrow> False"
    by code_simp
  then show ?thesis using parsed_request_wf by (auto split: sum.splits)
qed

section \<open>The bodies of the command line client\<close>

text \<open>The body of \<open>totalrecall generate\<close> has no scope, which the service requires.\<close>

lemma generate_payload_refused:
  "\<not> ok (generation_request_of_json num (generate_payload tenant app prompt language framework provider model no_validate))"
  by (auto simp: generation_request_of_json_def generate_payload_def ok_iff rbind_Inr_iff required_Inr)

text \<open>The command \<open>generate\<close> can not succeed against the service: a body that does not validate is answered 422, and
  the body of the command never validates, so every call ends with exit code 1 and nothing on standard output.\<close>

theorem cli_generate_never_accepted:
  assumes "\<And>rq j. rq_body rq = Some (dumps j) \<Longrightarrow> \<not> ok (generation_request_of_json num j) \<Longrightarrow> \<exists>text. net rq = HttpError 422 text"
  shows "\<exists>e. generate_cmd net c (generate_payload tenant app prompt language framework provider model no_validate) as_json =
    Inr \<lparr>ce_out = [], ce_err = [e], ce_code = 1\<rparr>"
proof -
  let ?p = "generate_payload tenant app prompt language framework provider model no_validate"
  have "\<exists>text. net (api_call c ''POST'' ''/v1/generations'' (Some ?p)) = HttpError 422 text"
    by (rule assms [of _ ?p, OF _ generate_payload_refused]) (simp add: api_call_def)
  then show ?thesis
    by (auto simp: generate_cmd_def api_generate_def api_request_def with_answer_def api_error_def)
qed

lemma cli_generate_never_accepted_witness:
  "\<exists>e. generate_cmd (\<lambda>rq. HttpError 422 ''Unprocessable'') c
      (generate_payload ''qa'' ''shop'' ''log in'' ''python'' ''playwright'' ''stub'' ''test'' False) True =
    Inr \<lparr>ce_out = [], ce_err = [e], ce_code = 1\<rparr>"
  by (rule cli_generate_never_accepted) simp

lemma frameworks: "framework_of (framework_value f) = Some f"
  by (cases f) (simp_all add: framework_of_def)

lemma trigger_manual: "trigger_of ''manual'' = Some MANUAL"
  by (simp add: trigger_of_def)

text \<open>The options of \<open>learn run\<close> as strings; an empty one is left out.\<close>

definition opt_framework :: "framework option \<Rightarrow> string option" where
  "opt_framework f = map_option framework_value f"

text \<open>The body of \<open>totalrecall learn run\<close> says what the user said: sent as text and read back by the service, it is
  accepted as a manual run with exactly the given application, repository, branch, path, framework and domain.\<close>

theorem learn_payload_accepted:
  assumes "contract_str app" and "contract_str1 repository" and "contract_str1 branch" and "contract_str1 path"
    and "\<forall>d. domain = Some d \<longrightarrow> contract_str1 d"
  shows "rbind (case loads (dumps (learn_payload app path repository branch (opt_framework framework) domain)) of
       Inl _ \<Rightarrow> invalid ''body'' | Inr j \<Rightarrow> Inr j) trigger_body_of_json =
     Inr \<lparr>tb_application_id = app,
       tb_scope = \<lparr>ls_repository = repository, ls_branch = branch, ls_path = path, ls_framework = framework,
         ls_domain = domain, ls_route = None, ls_tags = []\<rparr>,
       tb_trigger_type = MANUAL\<rparr>"
proof -
  let ?p = "learn_payload app path repository branch (opt_framework framework) domain"
  have fv: "framework_value f \<noteq> []" for f by (cases f) simp_all
  have pl: "plain ?p"
    using fv by (cases framework; cases domain)
      (auto simp: learn_payload_def opt_framework_def dict_ok_def split: option.splits)
  have s: "as_str f (JStr s) = Inr s" if "contract_str s" for f s
    using that by (simp add: as_str_def contract_str_def)
  have s1: "as_str1 f (JStr s) = Inr s" if "contract_str1 s" for f s
    using that by (simp add: as_str1_def validate_str1_def contract_str1_def)
  have sd: "as_str f (JStr s) = Inr s" "s \<noteq> []" if "contract_str1 s" for f s
    using that by (simp_all add: as_str_def contract_str1_def)
  have "trigger_body_of_json ?p = Inr \<lparr>tb_application_id = app,
       tb_scope = \<lparr>ls_repository = repository, ls_branch = branch, ls_path = path, ls_framework = framework,
         ls_domain = domain, ls_route = None, ls_tags = []\<rparr>,
       tb_trigger_type = MANUAL\<rparr>"
    using assms fv sd
    by (cases framework; cases domain)
      (auto simp: learn_payload_def trigger_body_of_json_def learning_scope_of_json_def opt_framework_def no_extra_def
        dict_keys_def required_def optional_def s s1 as_opt_def as_enum_def frameworks trigger_manual)
  then show ?thesis by (simp only: loads_dumps [OF pl] sum.case rbind_simps)
qed

lemma learn_payload_accepted_witness:
  "rbind (case loads (dumps (learn_payload ''shop'' ''tests'' ''repo'' ''main'' (opt_framework (Some PLAYWRIGHT)) (Some ''checkout''))) of
       Inl _ \<Rightarrow> invalid ''body'' | Inr j \<Rightarrow> Inr j) trigger_body_of_json =
     Inr \<lparr>tb_application_id = ''shop'',
       tb_scope = \<lparr>ls_repository = ''repo'', ls_branch = ''main'', ls_path = ''tests'', ls_framework = Some PLAYWRIGHT,
         ls_domain = Some ''checkout'', ls_route = None, ls_tags = []\<rparr>,
       tb_trigger_type = MANUAL\<rparr>"
proof -
  have "contract_str ''shop''" "contract_str1 ''repo''" "contract_str1 ''main''" "contract_str1 ''tests''"
    "contract_str1 ''checkout''" by code_simp+
  then show ?thesis by (intro learn_payload_accepted) simp_all
qed

end
