(* ===== verification/MemoryApp.thy ===== *)
theory MemoryApp
  imports Startup Requests
begin

text \<open>
  The memory service as an application of its own: \<open>create_memory_app\<close> of \<open>totalrecall/memory/service_app.py\<close> with its lifespan,
  the validation of the bodies of its routes (\<open>memory/models.py\<close>), and runs of requests to it. It shares the database with the
  main application and nothing else: it loads the tombstones when it starts and has a cache and a filter of its own.
  The routes themselves are in \<open>MemoryService\<close>.
\<close>

section \<open>Bodies\<close>

definition search_body_of_json :: "(string \<Rightarrow> int option) \<Rightarrow> json \<Rightarrow> memory_search_request result" where
  "search_body_of_json num j =
     (case j of
        JDict d \<Rightarrow>
          rbind (no_extra [''tenant_id'', ''application_id'', ''query'', ''filters'', ''limit''] d) (\<lambda>_.
          rbind (required d ''tenant_id'' (as_str1 ''tenant_id'')) (\<lambda>tenant.
          rbind (required d ''application_id'' (as_str1 ''application_id'')) (\<lambda>app.
          rbind (optional d ''query'' [] (as_str ''query'')) (\<lambda>query.
          rbind (optional d ''filters'' [] (validate_dict ''filters'')) (\<lambda>filters.
          rbind (optional d ''limit'' 10 (as_min num 1 ''limit'')) (\<lambda>limit.
            if 100 < limit then invalid ''limit''
            else Inr \<lparr>mq_tenant_id = tenant, mq_application_id = app, mq_query = query, mq_filters = filters,
                      mq_limit = nat limit\<rparr>))))))
      | _ \<Rightarrow> invalid ''body'')"

definition get_body_of_json :: "json \<Rightarrow> memory_get_request result" where
  "get_body_of_json j =
     (case j of
        JDict d \<Rightarrow>
          rbind (no_extra [''tenant_id'', ''application_id'', ''entity_id''] d) (\<lambda>_.
          rbind (required d ''tenant_id'' (as_str1 ''tenant_id'')) (\<lambda>tenant.
          rbind (required d ''application_id'' (as_str1 ''application_id'')) (\<lambda>app.
          rbind (required d ''entity_id'' (as_str1 ''entity_id'')) (\<lambda>eid.
            Inr \<lparr>mg_tenant_id = tenant, mg_application_id = app, mg_entity_id = eid\<rparr>))))
      | _ \<Rightarrow> invalid ''body'')"

definition memory_delete_of_json :: "json \<Rightarrow> memory_delete_request result" where
  "memory_delete_of_json j =
     (case j of
        JDict d \<Rightarrow>
          rbind (no_extra [''tenant_id'', ''application_id'', ''entity_id'', ''deleted_by'', ''reason''] d) (\<lambda>_.
          rbind (required d ''tenant_id'' (as_str1 ''tenant_id'')) (\<lambda>tenant.
          rbind (required d ''application_id'' (as_str1 ''application_id'')) (\<lambda>app.
          rbind (required d ''entity_id'' (as_str1 ''entity_id'')) (\<lambda>eid.
          rbind (required d ''deleted_by'' (as_str1 ''deleted_by'')) (\<lambda>actor.
          rbind (optional d ''reason'' None (as_opt (as_str ''reason''))) (\<lambda>reason.
            Inr \<lparr>md_tenant_id = tenant, md_application_id = app, md_entity_id = eid, md_deleted_by = actor,
                 md_reason = reason\<rparr>))))))
      | _ \<Rightarrow> invalid ''body'')"

definition as_confidence :: "(string \<Rightarrow> rat option) \<Rightarrow> json \<Rightarrow> rat result" where
  "as_confidence num j =
     rbind (case j of
              JInt i \<Rightarrow> Inr (of_int i) | JFloat x \<Rightarrow> Inr x | JBool b \<Rightarrow> Inr (if b then 1 else 0)
            | JStr s \<Rightarrow> (case num s of Some x \<Rightarrow> Inr x | None \<Rightarrow> invalid ''confidence'')
            | _ \<Rightarrow> invalid ''confidence'')
       (\<lambda>x. if 0 \<le> x \<and> x \<le> 1 then Inr x else invalid ''confidence'')"

text \<open>The source of a memory is validated; no operation reads it, nor the two times of an entry.\<close>

definition memory_source_of_json :: "(json \<Rightarrow> rat result) \<Rightarrow> json \<Rightarrow> unit result" where
  "memory_source_of_json py_datetime j =
     (case j of
        JDict d \<Rightarrow>
          rbind (no_extra [''source_type'', ''reference'', ''file_path'', ''symbol_name'', ''commit_id'', ''scan_id'', ''ingested_at''] d) (\<lambda>_.
          rbind (required d ''source_type'' (as_str1 ''source_type'')) (\<lambda>_.
          rbind (required d ''reference'' (as_str1 ''reference'')) (\<lambda>_.
          rbind (rmap (\<lambda>k. optional d k None (as_opt (as_str k))) [''file_path'', ''symbol_name'', ''commit_id'', ''scan_id'']) (\<lambda>_.
          rbind (optional d ''ingested_at'' 0 py_datetime) (\<lambda>_. Inr ())))))
      | _ \<Rightarrow> invalid ''source'')"

definition memory_of_json ::
  "(json \<Rightarrow> rat result) \<Rightarrow> (string \<Rightarrow> rat option) \<Rightarrow> json \<Rightarrow> memory_entry result" where
  "memory_of_json py_datetime num j =
     (case j of
        JDict d \<Rightarrow>
          rbind (no_extra [''entity_id'', ''tenant_id'', ''application_id'', ''summary'', ''knowledge'', ''tags'', ''source'',
             ''confidence'', ''status'', ''created_at'', ''updated_at''] d) (\<lambda>_.
          rbind (required d ''entity_id'' (as_str1 ''entity_id'')) (\<lambda>eid.
          rbind (required d ''tenant_id'' (as_str1 ''tenant_id'')) (\<lambda>tenant.
          rbind (required d ''application_id'' (as_str1 ''application_id'')) (\<lambda>app.
          rbind (required d ''summary'' (as_str1 ''summary'')) (\<lambda>summary.
          rbind (required d ''knowledge'' (as_str1 ''knowledge'')) (\<lambda>knowledge.
          rbind (optional d ''tags'' [] (validate_dict ''tags'')) (\<lambda>tags.
          rbind (optional d ''source'' None (as_opt (memory_source_of_json py_datetime))) (\<lambda>_.
          rbind (optional d ''confidence'' 1 (as_confidence num)) (\<lambda>confidence.
          rbind (optional d ''status'' M_ACTIVE (as_enum ''status'' memory_status_of)) (\<lambda>status.
          rbind (rmap (\<lambda>k. optional d k 0 py_datetime) [''created_at'', ''updated_at'']) (\<lambda>_.
            Inr \<lparr>me_entity_id = eid, me_tenant_id = tenant, me_application_id = app, me_summary = summary,
                 me_knowledge = knowledge, me_tags = tags, me_confidence = confidence, me_status = status\<rparr>)))))))))))
      | _ \<Rightarrow> invalid ''memory'')"

definition upsert_body_of_json ::
  "(json \<Rightarrow> rat result) \<Rightarrow> (string \<Rightarrow> rat option) \<Rightarrow> json \<Rightarrow> memory_entry result" where
  "upsert_body_of_json py_datetime num j =
     (case j of
        JDict d \<Rightarrow> rbind (no_extra [''memory''] d) (\<lambda>_. required d ''memory'' (memory_of_json py_datetime num))
      | _ \<Rightarrow> invalid ''body'')"

section \<open>create_memory_app\<close>

record memory_app =
  ma_settings :: app_settings
  ma_credentials :: credential_provider
  ma_wrapper :: memory_wrapper
  ma_tombstone_rows :: "tombstone_row list option"

definition create_memory_app :: "app_settings \<Rightarrow> memory_app result" where
  "create_memory_app st =
     (let dir = sc_secrets_dir (an_credentials st)
      in rbind (build_feature_flag_provider (an_flags st) (Some dir)) (\<lambda>flags.
         rbind (build_credential_provider (an_credentials st) (Some dir)) (\<lambda>cp.
           Inr \<lparr>ma_settings = st, ma_credentials = cp,
                ma_wrapper = build_memory_wrapper flags cp [] (Some (new_cache (an_cache_ttl st))),
                ma_tombstone_rows = None\<rparr>)))"

text \<open>\<open>lifespan\<close> up to the \<open>yield\<close>: the tombstones of the table are loaded into the filter of the wrapper.\<close>

definition memory_lifespan :: "(string \<Rightarrow> database result) \<Rightarrow> memory_app \<Rightarrow> memory_app" where
  "memory_lifespan connect a =
     (case (if an_enable_database (ma_settings a) then create_pool connect (an_database_url (ma_settings a)) else None) of
        None \<Rightarrow> a\<lparr>ma_tombstone_rows := None\<rparr>
      | Some db \<Rightarrow>
          a\<lparr>ma_wrapper := (ma_wrapper a)\<lparr>mw_tombstones :=
               load_bulk (tombstone_load_all (dt_tombstones db)) (mw_tombstones (ma_wrapper a))\<rparr>,
            ma_tombstone_rows := Some (dt_tombstones db)\<rparr>)"

text \<open>The service has no audit log, and no route that writes the table of tombstones.\<close>

definition service_state :: "'r \<Rightarrow> memory_app \<Rightarrow> 'r mem_state" where
  "service_state remote a =
     \<lparr>ms_wrapper = ma_wrapper a, ms_remote = remote, ms_tombstone_rows = ma_tombstone_rows a, ms_audit_rows = None\<rparr>"

section \<open>Requests to the service\<close>

datatype service_call =
    SearchMemory memory_search_request
  | GetMemory memory_get_request
  | UpsertMemory memory_entry
  | DeleteMemory memory_delete_request
  | HealthOfMemory
  | CapabilitiesOfMemory

datatype service_answer =
    Found memory_search_result
  | Entry "memory_entry option"
  | Upserted memory_entry
  | Deleted memory_delete_result
  | Healthy memory_health
  | Capable memory_capabilities

definition answer_with :: "('a \<Rightarrow> 'b) \<Rightarrow> 'a result \<times> 's \<Rightarrow> 'b result \<times> 's" where
  "answer_with f p = (map_sum id f (fst p), snd p)"

definition memory_health_route :: "'r ext \<Rightarrow> fs \<Rightarrow> reading \<Rightarrow> 'r mem_state \<Rightarrow> memory_health result \<times> 'r mem_state" where
  "memory_health_route X fs t s = run_wrapper (wrapper_health X fs t) s"

definition memory_capabilities_route ::
  "'r ext \<Rightarrow> fs \<Rightarrow> reading \<Rightarrow> 'r mem_state \<Rightarrow> memory_capabilities result \<times> 'r mem_state" where
  "memory_capabilities_route X fs t s =
     run_wrapper (\<lambda>w r. case wrapper_capabilities X fs t w of (x, w1) \<Rightarrow> (x, w1, r)) s"

fun serve ::
  "'r ext \<Rightarrow> fs \<Rightarrow> reading \<Rightarrow> tenant_context \<Rightarrow> service_call \<Rightarrow> 'r mem_state \<Rightarrow> service_answer result \<times> 'r mem_state" where
  "serve X fs t cx (SearchMemory q) s = answer_with Found (route_search X fs t cx q s)"
| "serve X fs t cx (GetMemory g) s = answer_with Entry (route_get X fs t cx g s)"
| "serve X fs t cx (UpsertMemory m) s = answer_with Upserted (route_upsert X fs t cx m s)"
| "serve X fs t cx (DeleteMemory d) s = answer_with Deleted (route_delete X fs t cx d s)"
| "serve X fs t cx HealthOfMemory s = answer_with Healthy (memory_health_route X fs t s)"
| "serve X fs t cx CapabilitiesOfMemory s = answer_with Capable (memory_capabilities_route X fs t s)"

record service_request =
  sq_fs :: fs
  sq_reading :: reading
  sq_context :: tenant_context
  sq_call :: service_call

fun serve_all :: "'r ext \<Rightarrow> service_request list \<Rightarrow> 'r mem_state \<Rightarrow> service_answer result list \<times> 'r mem_state" where
  "serve_all X [] s = ([], s)"
| "serve_all X (c # cs) s =
     (let (a, s1) = serve X (sq_fs c) (sq_reading c) (sq_context c) (sq_call c) s;
          (as, s2) = serve_all X cs s1
      in (a # as, s2))"

section \<open>What a run of requests keeps\<close>

fun wf_call :: "service_call \<Rightarrow> bool" where
  "wf_call (SearchMemory q) = wf_search_request q"
| "wf_call _ = True"

lemma search_body_cases:
  assumes "search_body_of_json num j = Inr q"
  obtains d limit where "required d ''tenant_id'' (as_str1 ''tenant_id'') = Inr (mq_tenant_id q)"
    and "required d ''application_id'' (as_str1 ''application_id'') = Inr (mq_application_id q)"
    and "optional d ''query'' [] (as_str ''query'') = Inr (mq_query q)"
    and "optional d ''limit'' 10 (as_min num 1 ''limit'') = Inr limit" and "\<not> 100 < limit" and "mq_limit q = nat limit"
proof -
  from assms obtain d where "j = JDict d" by (cases j) (auto simp: search_body_of_json_def invalid_def)
  with assms show thesis
    by (auto simp only: search_body_of_json_def json.case rbind_Inr_iff sum.inject invalid_def sum.distinct
        memory_search_request.simps split: if_splits intro!: that)
qed

lemma search_body_wf:
  assumes "search_body_of_json num j = Inr q"
  shows "wf_search_request q"
proof (rule search_body_cases [OF assms])
  fix d limit
  assume d: "required d ''tenant_id'' (as_str1 ''tenant_id'') = Inr (mq_tenant_id q)"
    "required d ''application_id'' (as_str1 ''application_id'') = Inr (mq_application_id q)"
    "optional d ''query'' [] (as_str ''query'') = Inr (mq_query q)"
    "optional d ''limit'' 10 (as_min num 1 ''limit'') = Inr limit" "\<not> 100 < limit" "mq_limit q = nat limit"
  have "contract_str1 (mq_tenant_id q)" "contract_str1 (mq_application_id q)"
    using d(1,2) by (auto elim!: required_keeps dest: as_strings)
  moreover have "contract_str (mq_query q)"
    using d(3) by (rule optional_keeps) (simp add: contract_str_def trim_Nil, rule as_strings)
  moreover have "1 \<le> limit" using d(4) by (rule optional_keeps) (simp, rule as_min_least)
  ultimately show ?thesis using d(5,6) by (auto simp: wf_search_request_def)
qed

lemma wrapper_health_same: "same_store w (fst (snd (wrapper_health X fs t w r)))"
  by (auto simp: wrapper_health_def Let_def split: prod.splits sum.splits)

lemma wrapper_capabilities_same: "same_store w (snd (wrapper_capabilities X fs t w))"
  by (auto simp: wrapper_capabilities_def split: prod.splits sum.splits)

text \<open>Of all requests only a search touches the filter or the cache, and it keeps the invariant.\<close>

lemma map_sum_Inr_iff: "map_sum id f x = Inr y \<longleftrightarrow> (\<exists>z. x = Inr z \<and> y = f z)"
  by (cases x) auto

lemma run_wrapper_same:
  assumes "\<And>w r. same_store w (fst (snd (f w r)))"
  shows "same_store (ms_wrapper s) (ms_wrapper (snd (run_wrapper f s)))"
  using assms by (simp add: run_wrapper_state)

lemma guarded_same:
  assumes "same_store (ms_wrapper s) (ms_wrapper (snd (f s)))"
  shows "same_store (ms_wrapper s) (ms_wrapper (snd (guarded g f s)))"
  using assms by (simp add: guarded_def split: sum.split)

lemma serve_same:
  assumes "\<And>q. call \<noteq> SearchMemory q"
  shows "same_store (ms_wrapper s) (ms_wrapper (snd (serve X fs t cx call s)))"
proof (cases call)
  case (SearchMemory q)
  with assms show ?thesis by blast
next
  case CapabilitiesOfMemory
  have "same_store w (fst (snd (case wrapper_capabilities X fs t w of (x, w1) \<Rightarrow> (x, w1, r))))" for w and r :: 'a
    using wrapper_capabilities_same [of w X fs t] by (simp add: case_prod_beta)
  from run_wrapper_same [OF this] CapabilitiesOfMemory show ?thesis
    by (simp add: answer_with_def memory_capabilities_route_def)
qed (simp_all add: answer_with_def route_get_def route_upsert_def route_delete_def memory_health_route_def
    guarded_same run_wrapper_same wrapper_same wrapper_health_same)

lemma serve_inv:
  assumes "serve X fs t cx call s = (a, s')" and "wf_call call" and "mem_inv X (\<lambda>_. True) (ms_wrapper s)"
  shows "mem_inv X (\<lambda>_. True) (ms_wrapper s') \<and> mw_tombstones (ms_wrapper s') = mw_tombstones (ms_wrapper s) \<and>
    (\<forall>res. a = Inr (Found res) \<longrightarrow> list_all (\<lambda>e. \<not> entry_tombstoned (mw_tombstones (ms_wrapper s)) e) (mr_items res))"
proof (cases call)
  case (SearchMemory q)
  obtain x w' r' where w: "wrapper_search X fs t q (ms_wrapper s) (ms_remote s) = (x, w', r')"
    by (cases "wrapper_search X fs t q (ms_wrapper s) (ms_remote s)") auto
  from wrapper_search_inv [OF assms(3) _ _ w] assms(1,2,3) SearchMemory w show ?thesis
    by (auto simp: answer_with_def route_search_def guarded_def run_wrapper_def served_def list_all_iff map_sum_Inr_iff
        split: sum.splits)
next
  case (GetMemory g)
  with assms serve_same [of call s X fs t cx] same_store_inv [of "ms_wrapper s" "ms_wrapper s'" X "\<lambda>_. True"] show ?thesis
    by (auto simp: same_store_def answer_with_def map_sum_Inr_iff)
qed (use assms serve_same [of call s X fs t cx] same_store_inv [of "ms_wrapper s" "ms_wrapper s'" X "\<lambda>_. True"] in
    \<open>auto simp: same_store_def answer_with_def map_sum_Inr_iff\<close>)

lemma serve_all_Cons:
  "serve_all X (c # cs) s = (as, s2) \<longleftrightarrow>
     (\<exists>a s1 as'. serve X (sq_fs c) (sq_reading c) (sq_context c) (sq_call c) s = (a, s1) \<and>
        serve_all X cs s1 = (as', s2) \<and> as = a # as')"
  by (auto split: prod.splits)

lemma serve_get_withheld:
  assumes "serve X fs t cx (GetMemory g) s = (Inr (Entry e), s')"
    and "is_tombstoned (mg_tenant_id g) (mg_application_id g) (mg_entity_id g) (mw_tombstones (ms_wrapper s))"
  shows "e = None"
  using assms by (auto simp: answer_with_def map_sum_Inr_iff route_get_def guarded_def run_wrapper_def wrapper_get_def split: sum.splits)

text \<open>What an answer must not show of a deleted memory: it is in no search result, and asking for it finds nothing.\<close>

definition withholds :: "tombstone \<Rightarrow> service_call \<Rightarrow> service_answer result \<Rightarrow> bool" where
  "withholds ts call a =
     (case (call, a) of
        (SearchMemory _, Inr (Found res)) \<Rightarrow>
          list_all (\<lambda>e. (me_tenant_id e, me_application_id e, me_entity_id e) \<noteq> ts) (mr_items res)
      | (GetMemory g, Inr (Entry (Some _))) \<Rightarrow> (mg_tenant_id g, mg_application_id g, mg_entity_id g) \<noteq> ts
      | _ \<Rightarrow> True)"

lemma serve_withholds:
  assumes "serve X fs t cx call s = (a, s')" and "wf_call call" and "mem_inv X (\<lambda>_. True) (ms_wrapper s)"
    and "ts \<in> set (mw_tombstones (ms_wrapper s))"
  shows "withholds ts call a"
proof (cases call)
  case (SearchMemory q)
  with serve_inv [OF assms(1-3)] assms(4) show ?thesis
    by (auto simp: withholds_def entry_tombstoned_def is_tombstoned_def list_all_iff split: sum.splits service_answer.splits)
next
  case (GetMemory g)
  with serve_get_withheld [of X fs t cx g s _ s'] assms(1,4) show ?thesis
    by (auto simp: withholds_def is_tombstoned_def split: sum.splits service_answer.splits option.splits)
qed (simp_all add: withholds_def)

lemma serve_all_inv:
  assumes "serve_all X cs s = (as, s')" and "list_all (\<lambda>c. wf_call (sq_call c)) cs" and "mem_inv X (\<lambda>_. True) (ms_wrapper s)"
  shows "mw_tombstones (ms_wrapper s') = mw_tombstones (ms_wrapper s) \<and>
    (ts \<in> set (mw_tombstones (ms_wrapper s)) \<longrightarrow> list_all2 (\<lambda>c a. withholds ts (sq_call c) a) cs as)"
  using assms
proof (induction cs arbitrary: s as)
  case Nil
  then show ?case by simp
next
  case (Cons c cs)
  then obtain a s1 as' where one: "serve X (sq_fs c) (sq_reading c) (sq_context c) (sq_call c) s = (a, s1)"
    and rest: "serve_all X cs s1 = (as', s')" "as = a # as'" by (auto simp only: serve_all_Cons)
  have wf: "wf_call (sq_call c)" "list_all (\<lambda>c. wf_call (sq_call c)) cs" using Cons.prems(2) by simp_all
  note inv = serve_inv [OF one wf(1) Cons.prems(3)]
  from Cons.IH [OF rest(1) wf(2)] inv serve_withholds [OF one wf(1) Cons.prems(3)] rest(2) show ?case by auto
qed

lemma memory_app_start:
  assumes "create_memory_app st = Inr a" and "an_enable_database st"
    and "connect (to_asyncpg_dsn (an_database_url st)) = Inr db"
  shows "\<exists>flags. ms_wrapper (service_state remote (memory_lifespan connect a)) =
    startup flags (ma_credentials a) (an_cache_ttl st) (Some (dt_tombstones db))"
  using assms
  by (auto simp: create_memory_app_def Let_def rbind_Inr_iff memory_lifespan_def create_pool_def startup_def build_memory_wrapper_def
      service_state_def)


text \<open>The filter of the running service never changes: no request to it, not even a deletion, records a tombstone, and one
  that the main application records later is seen after a restart only.\<close>

theorem memory_app_filter_fixed:
  assumes "create_memory_app st = Inr a" and "an_enable_database st"
    and "connect (to_asyncpg_dsn (an_database_url st)) = Inr db"
    and "list_all (\<lambda>c. wf_call (sq_call c)) cs" and "serve_all X cs (service_state remote (memory_lifespan connect a)) = (as, s')"
  shows "mw_tombstones (ms_wrapper s') = load_bulk (tombstone_load_all (dt_tombstones db)) []"
proof -
  from memory_app_start [of st a connect db remote, OF assms(1-3)] obtain flags where
    w: "ms_wrapper (service_state remote (memory_lifespan connect a)) =
      startup flags (ma_credentials a) (an_cache_ttl st) (Some (dt_tombstones db))" ..
  have "mem_inv X (\<lambda>_. True) (ms_wrapper (service_state remote (memory_lifespan connect a)))"
    unfolding w by (rule startup_inv)
  from serve_all_inv [OF assms(5,4) this] show ?thesis
    by (simp add: w startup_def build_memory_wrapper_def)
qed

section \<open>Witnesses\<close>

text \<open>The memory \<open>m1\<close> was deleted through the main application; it is written again, searched for and asked for.\<close>

definition demo_memory_app :: memory_app where
  "demo_memory_app = projr (create_memory_app demo_app_settings)"

lemma demo_memory_app_created: "create_memory_app demo_app_settings = Inr demo_memory_app"
proof -
  have "ok (create_memory_app demo_app_settings)" by code_simp
  then show ?thesis by (auto simp: demo_memory_app_def ok_iff)
qed

definition demo_service_requests :: "service_request list" where
  "demo_service_requests = map (\<lambda>call. \<lparr>sq_fs = [], sq_reading = demo_reading 1, sq_context = demo_mem_admin, sq_call = call\<rparr>)
     [UpsertMemory demo_entry, SearchMemory (demo_query ''acme'' ''web''),
      GetMemory \<lparr>mg_tenant_id = ''acme'', mg_application_id = ''web'', mg_entity_id = ''m1''\<rparr>]"

definition demo_service_answers :: "service_answer result list" where
  "demo_service_answers =
     fst (serve_all demo_X demo_service_requests (service_state () (memory_lifespan (\<lambda>_. Inr demo_database) demo_memory_app)))"


lemma memory_app_filter_fixed_witness:
  "mw_tombstones (ms_wrapper (snd (serve_all demo_X demo_service_requests
     (service_state () (memory_lifespan (\<lambda>_. Inr demo_database) demo_memory_app))))) = load_bulk (tombstone_load_all (dt_tombstones demo_database)) []"
proof -
  have wf: "list_all (\<lambda>c. wf_call (sq_call c)) demo_service_requests" by code_simp
  have en: "an_enable_database demo_app_settings" by (simp add: demo_app_settings_def default_settings_def)
  show ?thesis
    by (rule memory_app_filter_fixed [of _ _ "\<lambda>_. Inr demo_database" demo_database demo_service_requests demo_X "()",
        OF demo_memory_app_created en refl wf surjective_pairing])
qed

end
