(* ===== verification/Spec2Isabelle.thy ===== *)
theory Spec2Isabelle
  imports MemoryApp
begin

text \<open>
  TotalRecall: a formal model of the service and the theorems that make it correct

  \<^bold>\<open>The program.\<close> TotalRecall (Python, under \<open>src/totalrecall\<close>) is a service that generates test automation code and
  test case packs with language models. A request carries a bearer token and a prompt. The route
  (\<open>api/routes/generations.py\<close>) authenticates it, applies the rate limit of its tenant and hands it to the
  orchestrator (\<open>generation/orchestrator.py\<close>), which extracts the intent, runs the input guardrail, fetches a JIRA story
  and chunks of a knowledge base, selects a skill and memories within a token budget, builds and redacts the prompt, calls
  a provider through a gateway, runs the output guardrail, normalises the answer to artifacts or to a test case pack,
  validates and perhaps repairs them. Around this core are the memory wrapper with its cache and tombstones, the
  catalogue, the learning runs that read a repository and propose catalogue entries for approval, the governance of
  skills, feature flags and credentials, monitoring, and a command line client.

  \<^bold>\<open>How the theories follow the code.\<close> Every component has its own theory, with its state as records, its operations in
  the order of the source under the names of the source, and the lemmas about them.

  \<^item> Foundations. \<open>Prelude\<close>: exceptions, results, ordered dictionaries, string methods of Python. \<open>Json\<close>: \<open>json.loads\<close> and
    \<open>json.dumps\<close>; \<open>JsonRoundtrip\<close>: reading what was printed, in both layouts. \<open>PyRegex\<close>: a backtracking matcher for the
    patterns the code uses, sound and complete for its declarative meaning. \<open>Tables\<close>: what the repositories use of SQL.
    \<open>Contracts\<close>: the enums and pydantic models of \<open>errors.py\<close>, \<open>contracts.py\<close> and the packages' \<open>models.py\<close>.
  \<^item> Access. \<open>Auth\<close> (\<open>auth/\<close>, \<open>api/dependencies.py\<close>), \<open>RateLimit\<close> (\<open>ratelimit/\<close>), \<open>Requests\<close> (the validation of request
    bodies), \<open>Flags\<close> and \<open>Credentials\<close> (\<open>config/\<close>), \<open>Selfhost\<close> (\<open>selfhost/mem0.py\<close>, \<open>api/routes/credentials.py\<close>,
    \<open>api/routes/mem0.py\<close>).
  \<^item> Memory. \<open>Cache\<close> (\<open>cache/provider.py\<close>), \<open>MemoryAdapters\<close> (\<open>memory/adapters/\<close>, \<open>memory/tombstone.py\<close>), \<open>MemoryWrapper\<close>
    (\<open>memory/wrapper/service.py\<close>), \<open>MemoryService\<close> (\<open>memory/service_app.py\<close>, \<open>api/routes/memories.py\<close>, the tombstone and
    audit repositories).
  \<^item> Generation. \<open>Skills\<close> (\<open>skills/\<close> and its governance), \<open>Metadata\<close> (\<open>metadata/extractor.py\<close>), \<open>Planner\<close>
    (\<open>context/planner.py\<close>), \<open>Redaction\<close> (\<open>learning/redactor.py\<close>, \<open>prompts/redactor.py\<close>), \<open>Prompts\<close> (\<open>prompts/\<close>),
    \<open>Normalizer\<close> and \<open>Providers\<close> (\<open>providers/\<close>), \<open>Validation\<close> (\<open>validation/\<close>), \<open>Testgen\<close>, \<open>Pack\<close>, \<open>Rag\<close> and \<open>Jira\<close>
    (\<open>testgen/\<close>), \<open>Orchestrator\<close> (\<open>generation/orchestrator.py\<close>), \<open>Metrics\<close> (\<open>observability/metrics.py\<close>, context snapshots,
    provider mappings), \<open>Generations\<close> (the route), \<open>Monitoring\<close> (\<open>api/routes/monitoring.py\<close>).
  \<^item> Learning. \<open>Catalogue\<close> (\<open>catalogue/\<close>, its repository and routes), \<open>LearningScan\<close> (scanner, parser, paths, classifier and
    runner of \<open>learning/\<close>), \<open>Learning\<close> (\<open>storage/learning_repo.py\<close>, \<open>learning/promotion.py\<close>, \<open>api/routes/learning.py\<close>).
  \<^item> The frame. \<open>Platform\<close> (\<open>storage/pool.py\<close>, \<open>storage/migrations.py\<close>, the request id middleware, health and system
    routes), \<open>Startup\<close> (\<open>main.py\<close>: \<open>create_app\<close> and the lifespan), \<open>MemoryApp\<close> (the memory service as a process of its
    own, \<open>create_memory_app\<close>), \<open>Cli\<close> (\<open>cli/\<close>). This theory joins them: \<open>first_request_answered\<close> follows a request from the
    token to the audit log.

  \<^bold>\<open>State, errors and effects.\<close> An operation that changes an object takes its record and returns it changed; objects that
  several components share in the program are one component of the state (see \<open>Startup\<close>). What may raise returns a sum with
  the exception on the left, and the state an exception leaves behind is modelled: an operation that fails half way has
  changed what it has changed. Several requests are sequences of calls (\<open>gen_run\<close>, \<open>govern_run\<close>, \<open>provider_run\<close>, \<open>serve_all\<close>) or the
  closure of a step relation with an arbitrary caller in every step (\<open>mem_steps\<close>, \<open>learn_steps\<close>). Each request is one
  step, except in \<open>MemoryService.search_delete_race\<close>, which takes a search apart.

  \<^bold>\<open>Interfaces.\<close> A locale states what the clients of a component rely on, with the lemmas proved from it, and is interpreted
  on the model's own operations: \<open>prefix_cache\<close> (\<open>Cache\<close>), \<open>memory_adapter\<close> (every adapter), \<open>credential_source\<close> (the
  environment, the external and the runtime source), \<open>upsert_table\<close> (\<open>Tables\<close>, for catalogue, runs, discoveries, snapshots
  and mappings), \<open>guardrail\<close> and \<open>reformulation\<close> (\<open>Testgen\<close>), \<open>story_source\<close> (\<open>Jira\<close>), \<open>chunk_source\<close> (\<open>Rag\<close>) and
  \<open>json_layout\<close> (\<open>JsonRoundtrip\<close>).

  \<^bold>\<open>What is proved.\<close>
  \<^item> Deletion and tenants: what was deleted is never served again, in one process and across restarts, cached or not, and
    never reaches a prompt; searches, retrieval, catalogue and reports return the caller's tenant only.
  \<^item> Access: authentication gives exactly the configured identity and the permissions of its roles; the memory, credential
    and learning routes refuse others without changing state, the generation route with nothing but the request counted by
    the rate limiter; the sliding window is never exceeded, by the
    provider alone and by the route, and tenants do not influence each other.
  \<^item> Generation: every result is consistent, a request the guardrail refuses goes nowhere, the default application answers
    every valid test case request with a pack, selection by budget is a longest prefix, validation passes exactly when its
    requirements hold, redaction and reformulation are total, prompts contain what they must.
  \<^item> Round trips: JSON, artifacts, packs, chunks, credentials, catalogue entries, learning reports, snapshots, mappings.
  \<^item> Learning: the classification of a run is exact, an unchanged repository is found unchanged, decisions are authorised and
    final, bulk decisions are single ones, an approval promotes exactly the promotable types.
  \<^item> Persistence: governance and tombstones survive a restart, an interrupted migration resumes, counters and audit log are
    exact.
  \<^item> Deviations: lemmas that show where the code does not do what it means to, such as a search cached across a deletion or
    the client's generate command, whose body the service always refuses.

  \<^bold>\<open>Recursion and fuel.\<close> The JSON decoder runs on fuel, twice the length of its text and one; \<open>Json.loads_total\<close> shows it never runs out.
  Repetitions of the regular expression matcher are bounded by the rest of the text, which suffices since every body consumes
  a character; \<open>PyRegex.run_iff\<close> shows that no match is lost. The chunking loop may run forever and is a partial function;
  \<open>Rag.chunking_terminates_iff\<close> says exactly when it returns. All other functions terminate structurally or by a measure.

  \<^bold>\<open>Parameters.\<close> What is not under \<open>src/\<close> is an argument: the clock, fresh identifiers, the environment, the file system,
  HTTP, the OpenAI and Mem0 clients, SHA-256 and MD5, Python's parser, the validation worker process, Docker, the vector
  distance, pydantic's reading of numbers and datetimes, the execution of SQL text and the connection to a database. The
  hypotheses about them are stated in the theorems that need them.

  \<^bold>\<open>Bounds of the model.\<close> Characters are U+0000 to U+00FF. Floats are exact rationals. A table is a list of rows in the
  order of insertion, and a statement is atomic. Of several validation errors only the first is kept. The two fetches of the
  orchestrator run one after the other instead of in two threads.

  \<^bold>\<open>Not modelled.\<close> FastAPI's routing, the CORS middleware, tracing spans and log messages; option parsing by click and the
  HTTP exchange of the client; the bodies of the abstract protocols in \<open>storage/repositories.py\<close>; the command line entry
  point of the ingestion; the fixed answers that stub classes take for tests; the shutdown of the application; timestamps
  and memory sources that no operation reads. These are input and output, declarations without behaviour, or helpers of the
  tests.
\<close>

section \<open>A request through the whole service\<close>

lemma fresh_limits_allow:
  assumes "ga_limits s = Some p" and "rl_buckets p = []" and "policy_for p (cx_tenant_id cx) = default_policy"
  shows "\<exists>p1. check_rate_limit now cx s = (Inr (), s\<lparr>ga_limits := Some p1\<rparr>)"
  using assms by (auto simp: check_rate_limit_def rate_check_def get_or_create_bucket_def check_and_record_def new_bucket_def
      default_policy_def Let_def)

text \<open>C7: The service answers. The application with the default settings, given tokens and a database that can be reached,
  answers the first request of an authenticated client: a valid body for the caller's own tenant that asks the stub
  provider for test cases gets a completed result under its request id with the provider's pack; the outcome is in the
  audit log, after all that was there, and in the counters.\<close>

theorem first_request_answered:
  assumes "dict_get fs (flags_file dir) = None" and "load_registry files = Inr reg"
    and st: "st = (default_settings dir)\<lparr>an_auth_tokens := tm, an_database_url := url\<rparr>"
    and "create_app env http fs now files st = Inr a" and "connect (to_asyncpg_dsn url) = Inr db"
    and "get_tenant_context (an_auth_tokens (ap_settings a)) header = Inr cx"
    and "generation_request_of_json num body = Inr q" and "gr_tenant_id q = cx_tenant_id cx"
    and "strip (gr_prompt q) \<noteq> []" and "wants_intent q" and "extract_metadata q = Inr m"
    and "ps_provider_id (gr_provider q) = ''stub''" and "contract_str1 (ru_request_id ids)"
    and b: "b = lifespan_startup connect a"
  shows "\<exists>gn s. create_generation X fs' (ap_orchestrator b) ids v cx q (gen_app_of remote world b) = (Inr gn, s) \<and>
    gn_status gn = G_COMPLETED \<and> gn_request_id gn = ru_request_id ids \<and>
    gn_test_case_pack gn = Some (stub_pack\<lparr>tp_generated_at := ru_now ids, tp_source_jira_key := given (gr_jira_key q)\<rparr>) \<and>
    (\<exists>e. ga_audit s = Some (dt_audit db @ [e]) \<and> event_view e =
       (cx_tenant_id cx, cx_actor_id cx, ''generation.completed'', Some (gr_application_id q))) \<and>
    (\<exists>m. ga_metrics s = Some m \<and> gm_generations_total m = 1 \<and> gm_generations_completed m = 1)"
proof -
  from default_app_starts [OF assms(1,2), of env http now url tm] assms(4) st
  have a: "plain_testgen (ap_orchestrator a)" "ap_gateway a = build_gateway (ap_credentials a)" "rl_buckets (ap_limits a) = []"
    "\<And>tenant. policy_for (ap_limits a) tenant = default_policy" "ap_metrics a = new_generation_metrics" by auto
  have "ap_settings a = st" using create_app_wrapper [OF assms(4)] by blast
  then have "an_enable_database (ap_settings a)" "an_database_url (ap_settings a) = url" by (simp_all add: st default_settings_def)
  with assms(5) have b': "ap_gateway b = ap_gateway a" "ap_limits b = ap_limits a" "ap_metrics b = ap_metrics a"
    "ap_database b = Some db" "plain_testgen (ap_orchestrator b) = plain_testgen (ap_orchestrator a)"
    by (simp_all add: b lifespan_startup_def create_pool_def set_registry_def plain_testgen_def)
  let ?s = "gen_app_of remote world b"
  have s: "ga_limits ?s = Some (ap_limits a)" "ga_audit ?s = Some (dt_audit db)" "ga_metrics ?s = Some new_generation_metrics"
    "dict_get (os_gateway (ga_orch ?s)) ''stub'' = Some (StubProvider None)"
    by (simp_all add: gen_app_of_def b' a build_gateway_def)
  from fresh_limits_allow [OF s(1) a(3,4)] obtain p1 where
    lim: "check_rate_limit (ge_monotonic v) cx ?s = (Inr (), ?s\<lparr>ga_limits := Some p1\<rparr>)" by blast
  have q: "contract_str1 (gr_prompt q)" "contract_str1 (ps_model (gr_provider q))" "contract_opt (gr_jira_key q)"
    using request_of_json_texts [OF assms(7)] by (simp_all add: wf_selection_def)
  then have key: "\<forall>k. gr_jira_key q = Some k \<longrightarrow> contract_str k" by (auto simp: contract_opt_def)
  have pt: "plain_testgen (ap_orchestrator b)" using a(1) b'(5) by simp
  from stub_testgen_run [OF q(1) assms(9,10,11) key assms(12) q(2) assms(13) pt s(4), of X fs'] obtain gn s' where
    gn: "generate X fs' (ap_orchestrator b) ids q (ga_orch ?s) = (Inr gn, s')" "gn_status gn = G_COMPLETED"
      "gn_test_case_pack gn = Some (stub_pack\<lparr>tp_generated_at := ru_now ids, tp_source_jira_key := given (gr_jira_key q)\<rparr>)"
    by blast
  obtain s1 where run: "create_generation X fs' (ap_orchestrator b) ids v cx q ?s = (Inr gn, s1)"
    using gn(1) assms(8) by (simp add: create_generation_def lim)
  note books = create_generation_books [OF run]
  have "ga_audit s1 = Some (audit_generation v cx q gn (dt_audit db))" using books(2) s(2) by simp
  moreover have "ga_metrics s1 = Some (count_generation gn new_generation_metrics)" using books(1) s(3) by simp
  ultimately show ?thesis
    using run gn(2,3) generate_request_id [OF gn(1)]
    by (auto simp: audit_generation_def audit_record_def event_view_def generation_event_type_def count_generation_counts
        new_generation_metrics_def)
qed

definition demo_tokens :: token_map where
  "demo_tokens = [(''tok'', \<lparr>at_tenant_id = ''t'', at_actor_id = ''ann'', at_roles = [''viewer'']\<rparr>)]"

definition demo_body :: json where
  "demo_body = JDict [(''tenant_id'', JStr ''t''), (''application_id'', JStr ''a''), (''prompt'', JStr ''buy milk''),
     (''target'', JDict [(''language'', JStr ''python''), (''framework'', JStr ''playwright'')]),
     (''scope'', JDict [(''domain'', JStr ''d'')]), (''jira_key'', JStr ''AB-1'')]"

definition demo_settings_with_tokens :: app_settings where
  "demo_settings_with_tokens = (default_settings ''/s'')\<lparr>an_auth_tokens := demo_tokens, an_database_url := ''postgresql://db''\<rparr>"

definition demo_started :: application where
  "demo_started = projr (create_app (\<lambda>_. None) (\<lambda>_ _. None) [] 0 None demo_settings_with_tokens)"

lemma demo_started_created: "create_app (\<lambda>_. None) (\<lambda>_ _. None) [] 0 None demo_settings_with_tokens = Inr demo_started"
proof -
  have "ok (create_app (\<lambda>_. None) (\<lambda>_ _. None) [] 0 None demo_settings_with_tokens)" by code_simp
  then show ?thesis by (auto simp: demo_started_def ok_iff)
qed

lemma first_request_answered_witness:
  "\<exists>q gn s. generation_request_of_json (\<lambda>_. None) demo_body = Inr q \<and>
     create_generation demo_orch [] (ap_orchestrator (lifespan_startup (\<lambda>_. Inr demo_database) demo_started)) demo_ids (demo_gen_env 0)
       \<lparr>cx_tenant_id = ''t'', cx_actor_id = ''ann'', cx_roles = [''viewer''], cx_permissions = permissions_for_roles [''viewer'']\<rparr> q
       (gen_app_of () () (lifespan_startup (\<lambda>_. Inr demo_database) demo_started)) = (Inr gn, s) \<and> gn_status gn = G_COMPLETED"
proof -
  have "case generation_request_of_json (\<lambda>_. None) demo_body of Inl _ \<Rightarrow> False
    | Inr q \<Rightarrow> gr_tenant_id q = ''t'' \<and> strip (gr_prompt q) \<noteq> [] \<and> wants_intent q \<and> ok (extract_metadata q) \<and>
        ps_provider_id (gr_provider q) = ''stub''"
    by code_simp
  then obtain q m where q: "generation_request_of_json (\<lambda>_. None) demo_body = Inr q" "gr_tenant_id q = ''t''"
    "strip (gr_prompt q) \<noteq> []" "wants_intent q" "extract_metadata q = Inr m" "ps_provider_id (gr_provider q) = ''stub''"
    by (auto simp: ok_iff split: sum.splits)
  have fs: "dict_get ([] :: fs) (flags_file ''/s'') = None" "load_registry None = Inr new_registry"
    by (simp_all add: load_registry_def)
  have st: "ap_settings demo_started = demo_settings_with_tokens" using create_app_wrapper [OF demo_started_created] by blast
  have cx: "get_tenant_context demo_tokens (Some ''Bearer tok'') =
      Inr \<lparr>cx_tenant_id = ''t'', cx_actor_id = ''ann'', cx_roles = [''viewer''], cx_permissions = permissions_for_roles [''viewer'']\<rparr>"
    by code_simp
  have id: "contract_str1 (ru_request_id demo_ids)" by code_simp
  from first_request_answered [OF fs demo_settings_with_tokens_def demo_started_created _ _ q(1) _ q(3-6) id refl,
      of "\<lambda>_. Inr demo_database" demo_database "Some ''Bearer tok''"] q(1,2) cx
  show ?thesis by (fastforce simp: st demo_settings_with_tokens_def)
qed

end
